(* ===== verification/GoErrors.thy ===== *)
theory GoErrors
  imports Prelude
begin

text \<open>
  Go errors as values.  The package-level sentinels of the repository and of the
  libraries whose sentinels its code compares with are one constructor each; an
  error made by \<^verbatim>\<open>fmt.Errorf\<close> keeps its format text and the operands of its
  \<^verbatim>\<open>%w\<close> verbs, which is what \<^verbatim>\<open>errors.Is\<close> and \<^verbatim>\<open>errors.As\<close> walk through; an
  error made by code outside the repository is opaque.
\<close>

datatype sentinel =
    ErrDocumentNotFound | ErrNotAuthorized
  | ErrLockRepo | ErrFileWrite
  | ErrDocumentLookup | ErrTokenPersist
  | ErrNoDiscoveryData | ErrDiscoveryFetch | ErrUnsupportedExtension
  | ErrUnsupportedMIME | ErrUnsupportedPreviewSource
  | ErrRenderAdmissionFull | ErrRenderFailed | ErrStaleSharedRender
  | ErrStaleLock | ErrInvalidThumbnail
  | PgxErrNoRows | FsErrNotExist
  | ContextCanceled | ContextDeadlineExceeded
  | GobreakerErrOpenState | GobreakerErrTooManyRequests
  | MigrateErrNoChange | HttpErrServerClosed

datatype error =
    Sentinel sentinel
  | Errorf string "error list"
  | LockConflictError string
  | OpaqueError string

text \<open>
  \<^verbatim>\<open>errors.Is\<close> compares the error itself and then every error it wraps, depth
  first; a sentinel is a pointer, so it equals only itself.
\<close>

fun errors_Is :: "error \<Rightarrow> sentinel \<Rightarrow> bool" where
  "errors_Is (Sentinel s) t = (s = t)"
| "errors_Is (Errorf fmt ws) t = list_ex (\<lambda>w. errors_Is w t) ws"
| "errors_Is (LockConflictError l) t = False"
| "errors_Is (OpaqueError m) t = False"

text \<open>\<^verbatim>\<open>errors.As\<close> at the type \<^verbatim>\<open>*service.LockConflictError\<close>: the first one in the tree.\<close>

fun errors_As_LockConflict :: "error \<Rightarrow> string option" where
  "errors_As_LockConflict (LockConflictError l) = Some l"
| "errors_As_LockConflict (Errorf fmt ws) =
     (case List.find (\<lambda>r. r \<noteq> None) (map errors_As_LockConflict ws) of
        Some r \<Rightarrow> r | None \<Rightarrow> None)"
| "errors_As_LockConflict (Sentinel s) = None"
| "errors_As_LockConflict (OpaqueError m) = None"

text \<open>The message of a \<^verbatim>\<open>LockConflictError\<close>.\<close>

definition LockConflictError_Error :: "string \<Rightarrow> string" where
  "LockConflictError_Error existing =
     (if existing = '''' then ''lock conflict: file is not locked''
      else ''lock conflict: existing lock '' @ existing)"

text \<open>
  An error that comes from outside the domain package: no domain sentinel and no
  lock conflict anywhere in its tree.  Errors of the database driver, of the HTTP
  clients and of the operating system are of this kind.
\<close>

definition foreign_sentinel :: "sentinel \<Rightarrow> bool" where
  "foreign_sentinel s = (s \<in> {PgxErrNoRows, FsErrNotExist, ContextCanceled,
     ContextDeadlineExceeded, GobreakerErrOpenState, GobreakerErrTooManyRequests,
     MigrateErrNoChange, HttpErrServerClosed})"

fun foreign_error :: "error \<Rightarrow> bool" where
  "foreign_error (Sentinel s) = foreign_sentinel s"
| "foreign_error (Errorf fmt ws) = list_all foreign_error ws"
| "foreign_error (LockConflictError l) = False"
| "foreign_error (OpaqueError m) = True"

lemma foreign_error_not_Is:
  "foreign_error e \<Longrightarrow> \<not> foreign_sentinel s \<Longrightarrow> \<not> errors_Is e s"
  by (induction e s rule: errors_Is.induct) (auto simp: list_ex_iff list_all_iff)

lemma foreign_error_no_conflict: "foreign_error e \<Longrightarrow> errors_As_LockConflict e = None"
proof (induction e rule: errors_As_LockConflict.induct)
  case (2 fmt ws)
  then have "List.find (\<lambda>r. r \<noteq> None) (map errors_As_LockConflict ws) = None"
    by (auto simp: find_None_iff list_all_iff)
  then show ?case by simp
qed auto

lemmas foreign_sentinel_simps [simp] = foreign_sentinel_def

end
