(* ===== verification/Model.thy ===== *)
theory Model
  imports Prelude GoErrors "HOL-Library.Word"
begin

text \<open>
  The domain model (\<^verbatim>\<open>internal/domain/model\<close>): documents, locks, access tokens,
  the CheckFileInfo answer, the MIME tables and the preview cache entry.  A struct
  is a record with the struct's fields, a method that reads the clock takes the
  instant it read as an argument.
\<close>

type_synonym uuid = "128 word"
type_synonym bytes = "8 word list"

text \<open>An \<^verbatim>\<open>io.Reader\<close> that is read to its end: the bytes that arrive, and the error if it fails.\<close>

type_synonym stream = "bytes \<times> error option"

record document =
  doc_ID :: string
  doc_ExternalID :: string
  doc_DisplayName :: string
  doc_MimeType :: string
  doc_Size :: int
  doc_AuthorizationPolicyID :: string
  doc_StorageBucketID :: string
  doc_CreatedBy :: string
  doc_UpdatedAt :: time

record file_info =
  BaseFileName :: string
  OwnerID :: string
  fi_Size :: int
  UserID :: string
  fi_Version :: string
  UserFriendlyName :: string
  UserCanWrite :: bool
  SupportsLocks :: bool
  SupportsUpdate :: bool
  SupportsRename :: bool
  UserCanRename :: bool
  UserCanNotWriteRelative :: bool
  fi_LastModifiedTime :: string
  PostMessageOrigin :: string
  ReadOnly :: bool

definition DefaultLockDuration :: duration where
  "DefaultLockDuration = 30 * minute"

record lock =
  lock_ID :: uuid
  lock_FileID :: string
  LockID :: string
  lock_ExpiresAt :: time
  lock_CreatedAt :: time

definition Lock_IsExpired :: "time \<Rightarrow> lock \<Rightarrow> bool" where
  "Lock_IsExpired now l = (now > lock_ExpiresAt l)"

record access_token =
  tok_ID :: uuid
  tok_Token :: string
  tok_FileID :: string
  tok_ActorID :: string
  tok_ActorName :: string
  tok_Permissions :: string
  tok_ExpiresAt :: time
  tok_CreatedAt :: time

definition Token_IsExpired :: "time \<Rightarrow> access_token \<Rightarrow> bool" where
  "Token_IsExpired now t = (now > tok_ExpiresAt t)"

text \<open>
  \<^verbatim>\<open>AccessToken.HasPermission\<close> scans the comma-separated list in place: the inner
  loop moves \<^verbatim>\<open>j\<close> to the next comma, the outer one compares \<^verbatim>\<open>Permissions[i:j]\<close>.
\<close>

function scan_comma :: "string \<Rightarrow> nat \<Rightarrow> nat" where
  "scan_comma s j = (if j < length s \<and> s ! j \<noteq> CHR '','' then scan_comma s (Suc j) else j)"
  by pat_completeness auto
termination
  by (relation "measure (\<lambda>(s, j). length s - j)") auto

declare scan_comma.simps [simp del]

lemma scan_comma_ge: "i \<le> scan_comma s i"
proof (induction s i rule: scan_comma.induct)
  case (1 s j)
  then show ?case by (subst scan_comma.simps) force
qed

function HasPermission_loop :: "string \<Rightarrow> string \<Rightarrow> nat \<Rightarrow> bool" where
  "HasPermission_loop s perm i =
     (if i < length s
      then (let j = scan_comma s i
            in if take (j - i) (drop i s) = perm then True
               else HasPermission_loop s perm (j + 1))
      else False)"
  by pat_completeness auto
termination
proof (relation "measure (\<lambda>(s, perm, i). length s - i)")
  fix s perm :: string and i j :: nat
  assume "i < length s" and "j = scan_comma s i"
  then show "((s, perm, j + 1), s, perm, i) \<in> measure (\<lambda>(s, perm, i). length s - i)"
    using scan_comma_ge [of i s] by simp
qed auto

declare HasPermission_loop.simps [simp del]

definition HasPermission :: "access_token \<Rightarrow> string \<Rightarrow> bool" where
  "HasPermission t perm = HasPermission_loop (tok_Permissions t) perm 0"

definition MimeTypePDF :: string where
  "MimeTypePDF = ''application/pdf''"

definition mimeToExtension :: "(string \<times> string) list" where
  "mimeToExtension =
    [(''application/vnd.openxmlformats-officedocument.wordprocessingml.document'', ''docx''),
     (''application/msword'', ''doc''),
     (''application/vnd.oasis.opendocument.text'', ''odt''),
     (''application/vnd.openxmlformats-officedocument.spreadsheetml.sheet'', ''xlsx''),
     (''application/vnd.ms-excel'', ''xls''),
     (''application/vnd.oasis.opendocument.spreadsheet'', ''ods''),
     (''application/vnd.openxmlformats-officedocument.presentationml.presentation'', ''pptx''),
     (''application/vnd.ms-powerpoint'', ''ppt''),
     (''application/vnd.oasis.opendocument.presentation'', ''odp''),
     (MimeTypePDF, ''pdf''),
     (''text/plain'', ''txt''),
     (''text/csv'', ''csv'')]"

definition ExtensionForMIME :: "string \<Rightarrow> error + string" where
  "ExtensionForMIME mimeType =
     (case map_of mimeToExtension mimeType of
        None \<Rightarrow> Inl (Sentinel ErrUnsupportedMIME)
      | Some ext \<Rightarrow> Inr ext)"

record preview_entry =
  SourceFileID :: string
  PreviewFileID :: string
  SourceUpdatedDate :: time

definition previewExtensionByMIME :: "(string \<times> string) list" where
  "previewExtensionByMIME =
    [(''application/vnd.openxmlformats-officedocument.wordprocessingml.document'', ''docx''),
     (''application/msword'', ''doc''),
     (''application/vnd.oasis.opendocument.text'', ''odt''),
     (''application/rtf'', ''rtf''),
     (''application/vnd.openxmlformats-officedocument.spreadsheetml.sheet'', ''xlsx''),
     (''application/vnd.ms-excel'', ''xls''),
     (''application/vnd.oasis.opendocument.spreadsheet'', ''ods''),
     (''text/csv'', ''csv''),
     (''application/vnd.openxmlformats-officedocument.presentationml.presentation'', ''pptx''),
     (''application/vnd.ms-powerpoint'', ''ppt''),
     (''application/vnd.oasis.opendocument.presentation'', ''odp''),
     (''application/vnd.oasis.opendocument.graphics'', ''odg''),
     (MimeTypePDF, ''pdf'')]"

definition PreviewExtension :: "string \<Rightarrow> error + string" where
  "PreviewExtension mimeType =
     (case map_of previewExtensionByMIME mimeType of
        None \<Rightarrow> Inl (Sentinel ErrUnsupportedPreviewSource)
      | Some ext \<Rightarrow> Inr ext)"

text \<open>The reference reading of a permission list: \<^verbatim>\<open>strings.Split(s, ",")\<close>.\<close>

function split_comma :: "string \<Rightarrow> string list" where
  "split_comma s =
     (case dropWhile (\<lambda>c. c \<noteq> CHR '','') s of
        [] \<Rightarrow> [s]
      | _ # rest \<Rightarrow> takeWhile (\<lambda>c. c \<noteq> CHR '','') s # split_comma rest)"
  by pat_completeness auto
termination
proof (relation "measure length")
  fix s :: string and c :: char and rest :: string
  assume "dropWhile (\<lambda>c. c \<noteq> CHR '','') s = c # rest"
  then have "length (c # rest) \<le> length s"
    by (metis length_dropWhile_le)
  then show "(rest, s) \<in> measure length" by simp
qed auto

declare split_comma.simps [simp del]

lemma scan_comma_takeWhile:
  "i \<le> length s \<Longrightarrow> scan_comma s i = i + length (takeWhile (\<lambda>c. c \<noteq> CHR '','') (drop i s))"
proof (induction s i rule: scan_comma.induct)
  case (1 s i)
  show ?case
  proof (cases "i < length s")
    case True
    then have "drop i s = s ! i # drop (Suc i) s" by (simp add: Cons_nth_drop_Suc)
    with True "1.IH" show ?thesis by (subst scan_comma.simps) auto
  next
    case False
    with "1.prems" show ?thesis by (subst scan_comma.simps) simp
  qed
qed

lemma HasPermission_loop_beyond: "length s \<le> i \<Longrightarrow> HasPermission_loop s perm i = False"
  by (subst HasPermission_loop.simps) simp

lemma split_comma_last: "dropWhile (\<lambda>c. c \<noteq> CHR '','') s = [] \<Longrightarrow> split_comma s = [s]"
  by (subst split_comma.simps) (simp only: list.case)

lemma split_comma_more:
  "dropWhile (\<lambda>c. c \<noteq> CHR '','') s = c # rest \<Longrightarrow>
   split_comma s = takeWhile (\<lambda>c. c \<noteq> CHR '','') s # split_comma rest"
  by (subst split_comma.simps) simp

lemma HasPermission_loop_split:
  "perm \<noteq> '''' \<Longrightarrow> i \<le> length s \<Longrightarrow>
   HasPermission_loop s perm i = (perm \<in> set (split_comma (drop i s)))"
proof (induction s perm i rule: HasPermission_loop.induct)
  case (1 s perm i)
  let ?r = "drop i s"
  let ?seg = "takeWhile (\<lambda>c. c \<noteq> CHR '','') ?r"
  let ?j = "scan_comma s i"
  have j: "?j = i + length ?seg" using "1.prems"(2) by (rule scan_comma_takeWhile)
  have seg: "take (?j - i) ?r = ?seg" by (simp add: j takeWhile_eq_take [symmetric])
  show ?case
  proof (cases "i < length s")
    case False
    with "1.prems" show ?thesis
      by (simp add: HasPermission_loop_beyond split_comma_last)
  next
    case True
    note unfold = HasPermission_loop.simps [of s perm i]
    show ?thesis
    proof (cases "dropWhile (\<lambda>c. c \<noteq> CHR '','') ?r")
      case Nil
      then have "?seg = ?r" using takeWhile_dropWhile_id [of "\<lambda>c. c \<noteq> CHR '',''" ?r] by simp
      with True Nil j seg unfold show ?thesis
        by (auto simp: split_comma_last HasPermission_loop_beyond Let_def)
    next
      case (Cons c rest)
      have d: "drop ?j s = c # rest"
        using Cons by (simp add: j dropWhile_eq_drop add.commute)
      then have rest: "drop (?j + 1) s = rest" by (metis Suc_eq_plus1 drop_Suc list.sel(3) tl_drop)
      have le: "?j + 1 \<le> length s"
        using d by (metis drop_eq_Nil2 list.discI not_less_eq_eq Suc_eq_plus1)
      have "HasPermission_loop s perm (?j + 1) = (perm \<in> set (split_comma rest))" if "perm \<noteq> ?seg"
        using "1.IH" [OF True refl] that le "1.prems" rest seg by auto
      with True seg unfold Cons show ?thesis
        by (auto simp: split_comma_more Let_def)
    qed
  qed
qed

text \<open>The in-place scan decides membership in the comma-separated list.\<close>

lemma HasPermission_split:
  "perm \<noteq> '''' \<Longrightarrow> HasPermission t perm = (perm \<in> set (split_comma (tok_Permissions t)))"
  by (simp add: HasPermission_def HasPermission_loop_split)

text \<open>The two lists that tokens are issued with.\<close>

lemma issued_permissions:
  "tok_Permissions t = ''read,write'' \<Longrightarrow> HasPermission t ''write''"
  "tok_Permissions t = ''read'' \<Longrightarrow> \<not> HasPermission t ''write''"
  by (simp_all add: HasPermission_split split_comma_more split_comma_last)

end
