(* ===== verification/Prog.thy ===== *)
theory Prog
  imports Prelude
begin

text \<open>
  Programs as resumptions.  A request handler, a service method or a background
  job is a sequence of atomic actions on the shared world: one SQL statement, one
  call of another service, one critical section of a mutex, one reading of the
  clock.  Between two actions any other goroutine may run.  A program is either
  finished or one atomic action, which yields the rest of the program and the
  changed world.  The same definition of a method therefore has two meanings:
  \<open>run\<close> executes it alone, and \<open>pool_step\<close> interleaves it, action by action, with
  the other programs of a pool.
\<close>

datatype ('w, 'a) prog =
    Done 'a
  | Act "'w \<Rightarrow> ('w, 'a) prog \<times> 'w"

primrec bind_prog :: "('w, 'a) prog \<Rightarrow> ('a \<Rightarrow> ('w, 'b) prog) \<Rightarrow> ('w, 'b) prog" where
  "bind_prog (Done a) g = g a"
| "bind_prog (Act f) g = Act (\<lambda>w. map_prod (\<lambda>p. bind_prog p g) id (f w))"

definition call :: "('w \<Rightarrow> 'r \<times> 'w) \<Rightarrow> ('r \<Rightarrow> ('w, 'a) prog) \<Rightarrow> ('w, 'a) prog" where
  "call op k = Act (\<lambda>w. let (r, w') = op w in (k r, w'))"

text \<open>An action without a result, such as writing a log record.\<close>

definition effect :: "('w \<Rightarrow> 'w) \<Rightarrow> ('w, 'a) prog \<Rightarrow> ('w, 'a) prog" where
  "effect f p = Act (\<lambda>w. (p, f w))"

primrec run :: "('w, 'a) prog \<Rightarrow> 'w \<Rightarrow> 'a \<times> 'w" where
  "run (Done a) = (\<lambda>w. (a, w))"
| "run (Act f) = (\<lambda>w. case map_prod run id (f w) of (r, w') \<Rightarrow> r w')"

text \<open>
  \<open>prog_inv I p\<close>: every action of \<open>p\<close> keeps \<open>I\<close>, from every world in which \<open>I\<close>
  holds, whatever happened since the action before.
\<close>

primrec prog_inv :: "('w \<Rightarrow> bool) \<Rightarrow> ('w, 'a) prog \<Rightarrow> bool" where
  "prog_inv I (Done a) = True"
| "prog_inv I (Act f) =
     (\<forall>w. I w \<longrightarrow> I (snd (f w)) \<and> fst (map_prod (prog_inv I) id (f w)))"

text \<open>Interleaving: one program of the pool makes its next action.\<close>

inductive pool_step :: "('w, 'a) prog list \<times> 'w \<Rightarrow> ('w, 'a) prog list \<times> 'w \<Rightarrow> bool" where
  act: "i < length ps \<Longrightarrow> ps ! i = Act f \<Longrightarrow> f w = (p', w') \<Longrightarrow>
        pool_step (ps, w) (ps[i := p'], w')"

inductive pool_reach :: "('w, 'a) prog list \<times> 'w \<Rightarrow> ('w, 'a) prog list \<times> 'w \<Rightarrow> bool" where
  start: "pool_reach c c"
| step: "pool_reach c d \<Longrightarrow> pool_step d e \<Longrightarrow> pool_reach c e"

text \<open>A schedule runs the pool: the list says whose action comes next.\<close>

fun sched :: "nat list \<Rightarrow> ('w, 'a) prog list \<times> 'w \<Rightarrow> ('w, 'a) prog list \<times> 'w" where
  "sched [] c = c"
| "sched (i # is) (ps, w) =
     (if i < length ps
      then (case ps ! i of
              Done a \<Rightarrow> sched is (ps, w)
            | Act f \<Rightarrow> sched is (ps[i := fst (f w)], snd (f w)))
      else sched is (ps, w))"

lemma prog_induct [case_names Done Act]:
  assumes "\<And>a. P (Done a)" and "\<And>f. (\<And>w. P (fst (f w))) \<Longrightarrow> P (Act f)"
  shows "P p"
proof (induction p)
  case (Done a)
  show ?case by (rule assms(1))
next
  case (Act f)
  have "P (fst (f w))" for w
    using Act [of "f w" "fst (f w)"] by (simp add: fsts.simps)
  then show ?case by (rule assms(2))
qed

lemma run_Act [prog_simps]: "run (Act f) w = run (fst (f w)) (snd (f w))"
  by (cases "f w") simp

lemma run_Done [prog_simps]: "run (Done a) w = (a, w)"
  by simp

declare run.simps [simp del]

lemma run_call [prog_simps]: "run (call op k) w = run (k (fst (op w))) (snd (op w))"
  by (simp add: call_def run_Act split_beta)

lemma run_effect [prog_simps]: "run (effect f p) w = run p (f w)"
  by (simp add: effect_def run_Act)

lemma run_bind [prog_simps]:
  "run (bind_prog m g) w = run (g (fst (run m w))) (snd (run m w))"
proof (induction m arbitrary: w rule: prog_induct)
  case (Done a)
  then show ?case by (simp add: prog_simps)
next
  case (Act f)
  then show ?case by (simp add: run_Act)
qed

lemma bind_call [simp]: "bind_prog (call op k) g = call op (\<lambda>r. bind_prog (k r) g)"
  by (simp add: call_def split_beta)

lemma bind_effect [simp]: "bind_prog (effect f p) g = effect f (bind_prog p g)"
  by (simp add: effect_def)

lemma prog_inv_Act:
  "prog_inv I (Act f) = (\<forall>w. I w \<longrightarrow> I (snd (f w)) \<and> prog_inv I (fst (f w)))"
  by simp

declare prog_inv.simps(2) [simp del]

lemma prog_inv_call:
  "(\<And>w. I w \<Longrightarrow> I (snd (op w))) \<Longrightarrow> (\<And>w. I w \<Longrightarrow> prog_inv I (k (fst (op w)))) \<Longrightarrow>
   prog_inv I (call op k)"
  by (simp add: call_def prog_inv_Act split_beta)

lemma prog_inv_effect:
  "(\<And>w. I w \<Longrightarrow> I (f w)) \<Longrightarrow> prog_inv I p \<Longrightarrow> prog_inv I (effect f p)"
  by (simp add: effect_def prog_inv_Act)

lemma prog_inv_bind:
  "prog_inv I m \<Longrightarrow> (\<And>a. prog_inv I (g a)) \<Longrightarrow> prog_inv I (bind_prog m g)"
proof (induction m rule: prog_induct)
  case (Done a)
  then show ?case by simp
next
  case (Act f)
  then show ?case by (simp add: prog_inv_Act)
qed

lemma prog_inv_run: "prog_inv I p \<Longrightarrow> I w \<Longrightarrow> I (snd (run p w))"
proof (induction p arbitrary: w rule: prog_induct)
  case (Done a)
  then show ?case by (simp add: prog_simps)
next
  case (Act f)
  then show ?case by (simp add: run_Act prog_inv_Act)
qed

text \<open>
  The invariance principle for a pool: when every program of the pool keeps \<open>I\<close>,
  every state any interleaving can reach satisfies it.
\<close>

lemma pool_step_inv:
  assumes "pool_step c d" and "I (snd c)" and "\<forall>p\<in>set (fst c). prog_inv I p"
  shows "I (snd d) \<and> (\<forall>p\<in>set (fst d). prog_inv I p)"
  using assms
proof (cases rule: pool_step.cases)
  case (act i ps f w p' w')
  then have "prog_inv I (Act f)" using assms(3) by (metis fst_conv nth_mem)
  with act assms(2) have "I w'" "prog_inv I p'" by (auto simp: prog_inv_Act)
  with act assms(3) show ?thesis
    by (auto dest!: set_update_subset_insert [THEN subsetD])
qed

lemma pool_reach_inv:
  assumes "pool_reach c d" and "I (snd c)" and "\<forall>p\<in>set (fst c). prog_inv I p"
  shows "I (snd d) \<and> (\<forall>p\<in>set (fst d). prog_inv I p)"
  using assms
proof (induction rule: pool_reach.induct)
  case (start c)
  then show ?case by simp
next
  case (step c d e)
  then show ?case using pool_step_inv [of d e I] by blast
qed

lemma pool_reach_trans: "pool_reach d e \<Longrightarrow> pool_reach c d \<Longrightarrow> pool_reach c e"
  by (induction rule: pool_reach.induct) (auto intro: pool_reach.step)

lemma pool_reach_sched: "pool_reach (ps, w) (sched is (ps, w))"
proof (induction "is" "(ps, w)" arbitrary: ps w rule: sched.induct)
  case 1
  then show ?case by (simp add: pool_reach.start)
next
  case (2 i js ps w)
  show ?case
  proof (cases "i < length ps")
    case False
    with 2 show ?thesis by simp
  next
    case True
    show ?thesis
    proof (cases "ps ! i")
      case (Done a)
      with True 2 show ?thesis by simp
    next
      case (Act f)
      have "pool_step (ps, w) (ps[i := fst (f w)], snd (f w))"
        using True Act by (intro pool_step.act) auto
      then have "pool_reach (ps, w) (ps[i := fst (f w)], snd (f w))"
        by (rule pool_reach.step [OF pool_reach.start])
      moreover have "pool_reach (ps[i := fst (f w)], snd (f w))
          (sched js (ps[i := fst (f w)], snd (f w)))"
        using 2 True Act by simp
      ultimately show ?thesis using True Act by (simp add: pool_reach_trans)
    qed
  qed
qed

text \<open>
  \<open>prog_spec I R p\<close>: every action of \<open>p\<close> keeps \<open>I\<close>, and every answer \<open>p\<close> can give, while
  others keep \<open>I\<close> between its actions, satisfies \<open>R\<close>.
\<close>

primrec prog_spec :: "('w \<Rightarrow> bool) \<Rightarrow> ('a \<Rightarrow> bool) \<Rightarrow> ('w, 'a) prog \<Rightarrow> bool" where
  "prog_spec I R (Done a) = R a"
| "prog_spec I R (Act f) =
     (\<forall>w. I w \<longrightarrow> I (snd (f w)) \<and> fst (map_prod (prog_spec I R) id (f w)))"

lemma prog_spec_Act:
  "prog_spec I R (Act f) = (\<forall>w. I w \<longrightarrow> I (snd (f w)) \<and> prog_spec I R (fst (f w)))"
  by simp

declare prog_spec.simps(2) [simp del]

lemma prog_spec_call:
  "(\<And>w. I w \<Longrightarrow> I (snd (op w))) \<Longrightarrow> (\<And>w. I w \<Longrightarrow> prog_spec I R (k (fst (op w)))) \<Longrightarrow>
   prog_spec I R (call op k)"
  by (simp add: call_def prog_spec_Act split_beta)

lemma prog_spec_effect:
  "(\<And>w. I w \<Longrightarrow> I (f w)) \<Longrightarrow> prog_spec I R p \<Longrightarrow> prog_spec I R (effect f p)"
  by (simp add: effect_def prog_spec_Act)

lemma prog_spec_bind:
  "prog_spec I R m \<Longrightarrow> (\<And>a. R a \<Longrightarrow> prog_spec I S (g a)) \<Longrightarrow> prog_spec I S (bind_prog m g)"
proof (induction m rule: prog_induct)
  case (Done a)
  then show ?case by simp
next
  case (Act f)
  then show ?case by (simp add: prog_spec_Act)
qed

lemma prog_spec_inv: "prog_spec I R p \<Longrightarrow> prog_inv I p"
proof (induction p rule: prog_induct)
  case (Done a)
  then show ?case by simp
next
  case (Act f)
  then show ?case by (simp add: prog_spec_Act prog_inv_Act)
qed

lemma prog_spec_run: "prog_spec I R p \<Longrightarrow> I w \<Longrightarrow> I (snd (run p w)) \<and> R (fst (run p w))"
proof (induction p arbitrary: w rule: prog_induct)
  case (Done a)
  then show ?case by (simp add: prog_simps)
next
  case (Act f)
  then show ?case by (simp add: run_Act prog_spec_Act)
qed

lemma prog_inv_bind_spec:
  "prog_spec I R m \<Longrightarrow> (\<And>a. R a \<Longrightarrow> prog_inv I (g a)) \<Longrightarrow> prog_inv I (bind_prog m g)"
proof (induction m rule: prog_induct)
  case (Done a)
  then show ?case by simp
next
  case (Act f)
  then show ?case by (simp add: prog_spec_Act prog_inv_Act)
qed

end
