(* ===== verification/Ports.thy ===== *)
theory Ports
  imports Model Prog
begin

text \<open>
  The ports (\<^verbatim>\<open>internal/domain/port\<close>) and the other things a service is built
  from.  A Go interface is a record of operations; each operation is one atomic
  action on the world \<open>'w\<close>.  The services of the following theories take such
  records as their fields, as the Go structs take interface values, and never look
  inside \<open>'w\<close>.
\<close>

record auth_result =
  Allowed :: bool
  Reason :: string

record discovery_action =
  act_App :: string
  act_Name :: string
  act_Ext :: string
  act_URLSrc :: string

record proof_key =
  Modulus :: string
  Exponent :: string
  OldModulus :: string
  OldExponent :: string

record discovery_data =
  Actions :: "discovery_action list"
  ProofKey :: proof_key

record file_write_result =
  fw_ExternalID :: string
  fw_MimeType :: string
  fw_Size :: int

record contribution_event =
  DocumentID :: string
  WriteActors :: "string list"
  ReadonlyActors :: "string list"

record rename_file_event =
  rn_DocumentID :: string
  rn_DisplayName :: string

datatype payload = ContributionPayload contribution_event | RenamePayload rename_file_event

text \<open>Structured log records: the level, the message and the named fields.\<close>

datatype log_level = Debug | Info | Warn | Error

datatype field = FString string | FInt int | FError error

record log_entry =
  log_level :: log_level
  log_msg :: string
  log_fields :: "(string \<times> field) list"

abbreviation log_record :: "log_level \<Rightarrow> string \<Rightarrow> (string \<times> field) list \<Rightarrow> log_entry" where
  "log_record l m fs \<equiv> \<lparr>log_level = l, log_msg = m, log_fields = fs\<rparr>"

type_synonym 'w logger = "log_entry \<Rightarrow> 'w \<Rightarrow> 'w"

record 'w lock_repo =
  lr_Create :: "lock option \<Rightarrow> 'w \<Rightarrow> error option \<times> 'w"
  lr_FindByFileID :: "string \<Rightarrow> 'w \<Rightarrow> (error + lock option) \<times> 'w"
  lr_UpdateLockID :: "string \<Rightarrow> string \<Rightarrow> string \<Rightarrow> lock \<Rightarrow> 'w \<Rightarrow> error option \<times> 'w"
  lr_RefreshExpiry :: "string \<Rightarrow> string \<Rightarrow> lock option \<Rightarrow> 'w \<Rightarrow> error option \<times> 'w"
  lr_DeleteByFileID :: "string \<Rightarrow> string \<Rightarrow> 'w \<Rightarrow> error option \<times> 'w"
  lr_DeleteExpired :: "'w \<Rightarrow> (error + nat) \<times> 'w"
  lr_Takeover :: "string \<Rightarrow> string \<Rightarrow> string \<Rightarrow> time \<Rightarrow> time \<Rightarrow> 'w \<Rightarrow> error option \<times> 'w"

record 'w token_repo =
  tr_Create :: "access_token \<Rightarrow> 'w \<Rightarrow> error option \<times> 'w"
  tr_FindByToken :: "string \<Rightarrow> 'w \<Rightarrow> (error + access_token option) \<times> 'w"
  tr_DeleteByID :: "string \<Rightarrow> 'w \<Rightarrow> error option \<times> 'w"
  tr_DeleteExpired :: "'w \<Rightarrow> (error + nat) \<times> 'w"

record 'w preview_cache_repo =
  pc_FindBySourceID :: "string \<Rightarrow> 'w \<Rightarrow> (error + preview_entry option) \<times> 'w"
  pc_Upsert :: "preview_entry \<Rightarrow> 'w \<Rightarrow> error option \<times> 'w"

record 'w file_service =
  fs_FindByID :: "string \<Rightarrow> 'w \<Rightarrow> (error + document option) \<times> 'w"
  fs_ReadFile :: "string \<Rightarrow> 'w \<Rightarrow> (error + stream) \<times> 'w"
  fs_WriteFile :: "string \<Rightarrow> stream \<Rightarrow> 'w \<Rightarrow> (error + file_write_result) \<times> 'w"
  fs_CreatePreviewFile :: "string \<Rightarrow> stream \<Rightarrow> 'w \<Rightarrow> (error + string) \<times> 'w"
  fs_DeletePreviewFile :: "string \<Rightarrow> 'w \<Rightarrow> error option \<times> 'w"

record 'w auth_service =
  au_CheckPrivilege ::
    "string \<Rightarrow> string \<Rightarrow> string \<Rightarrow> 'w \<Rightarrow> (error + auth_result) \<times> 'w"

record 'w discovery_client =
  dc_FetchDiscovery :: "'w \<Rightarrow> (error + discovery_data) \<times> 'w"

record 'w thumbnail_renderer =
  th_Render :: "string \<Rightarrow> stream \<Rightarrow> 'w \<Rightarrow> (error + stream) \<times> 'w"

record 'w queue_publisher =
  qp_Publish :: "string \<Rightarrow> payload \<Rightarrow> 'w \<Rightarrow> error option \<times> 'w"

text \<open>
  The functions of the standard library and of \<^verbatim>\<open>google/uuid\<close> that read the
  outside world: \<^verbatim>\<open>time.Now\<close>, \<^verbatim>\<open>uuid.New\<close> and \<^verbatim>\<open>crypto/rand.Read\<close> of \<open>n\<close> bytes.
\<close>

record 'w go_runtime =
  rt_Now :: "'w \<Rightarrow> time \<times> 'w"
  rt_NewUUID :: "'w \<Rightarrow> uuid \<times> 'w"
  rt_RandRead :: "nat \<Rightarrow> 'w \<Rightarrow> (error + bytes) \<times> 'w"

text \<open>
  A mutable struct field that a mutex guards is a cell of the world; a critical
  section is one atomic action on it.
\<close>

record ('w, 's) cell =
  cell_get :: "'w \<Rightarrow> 's"
  cell_put :: "'s \<Rightarrow> 'w \<Rightarrow> 'w"

definition locked :: "('w, 's) cell \<Rightarrow> ('s \<Rightarrow> 'r \<times> 's) \<Rightarrow> 'w \<Rightarrow> 'r \<times> 'w" where
  "locked c f w = (let (r, s) = f (cell_get c w) in (r, cell_put c s w))"

locale cell_laws =
  fixes c :: "('w, 's) cell"
  assumes get_put: "cell_get c (cell_put c s w) = s"
    and put_get: "cell_put c (cell_get c w) w = w"
    and put_put: "cell_put c s (cell_put c s' w) = cell_put c s w"
begin

lemma locked_state: "cell_get c (snd (locked c f w)) = snd (f (cell_get c w))"
  by (simp add: locked_def split_beta get_put)

lemma locked_result: "fst (locked c f w) = fst (f (cell_get c w))"
  by (simp add: locked_def split_beta)

lemma locked_read_only: "snd (f (cell_get c w)) = cell_get c w \<Longrightarrow> snd (locked c f w) = w"
  by (simp add: locked_def split_beta put_get)

end

text \<open>
  A property of the world that every operation of every port keeps.  A service
  that touches the world through its ports only keeps it too, action by action,
  which each service theory proves in this locale.
\<close>

locale ports_keep =
  fixes I :: "'w \<Rightarrow> bool"
    and rt :: "'w go_runtime" and logger :: "'w logger"
    and lockRepo :: "'w lock_repo" and tokenRepo :: "'w token_repo"
    and cacheRepo :: "'w preview_cache_repo" and fileSvc :: "'w file_service"
    and authSvc :: "'w auth_service" and discClient :: "'w discovery_client"
    and renderer :: "'w thumbnail_renderer" and publisher :: "'w queue_publisher"
  assumes keep_rt: "I w \<Longrightarrow> I (snd (rt_Now rt w))" "I w \<Longrightarrow> I (snd (rt_NewUUID rt w))"
        "I w \<Longrightarrow> I (snd (rt_RandRead rt n w))"
    and keep_log: "I w \<Longrightarrow> I (logger e w)"
    and keep_lock: "I w \<Longrightarrow> I (snd (lr_Create lockRepo lk w))"
        "I w \<Longrightarrow> I (snd (lr_FindByFileID lockRepo f w))"
        "I w \<Longrightarrow> I (snd (lr_UpdateLockID lockRepo f old new ne w))"
        "I w \<Longrightarrow> I (snd (lr_RefreshExpiry lockRepo f lid lk w))"
        "I w \<Longrightarrow> I (snd (lr_DeleteByFileID lockRepo f lid w))"
        "I w \<Longrightarrow> I (snd (lr_DeleteExpired lockRepo w))"
        "I w \<Longrightarrow> I (snd (lr_Takeover lockRepo f old new cr ex w))"
    and keep_token: "I w \<Longrightarrow> I (snd (tr_Create tokenRepo t w))"
        "I w \<Longrightarrow> I (snd (tr_FindByToken tokenRepo v w))"
        "I w \<Longrightarrow> I (snd (tr_DeleteByID tokenRepo i w))"
        "I w \<Longrightarrow> I (snd (tr_DeleteExpired tokenRepo w))"
    and keep_cache: "I w \<Longrightarrow> I (snd (pc_FindBySourceID cacheRepo i w))"
        "I w \<Longrightarrow> I (snd (pc_Upsert cacheRepo en w))"
    and keep_file: "I w \<Longrightarrow> I (snd (fs_FindByID fileSvc i w))"
        "I w \<Longrightarrow> I (snd (fs_ReadFile fileSvc i w))"
        "I w \<Longrightarrow> I (snd (fs_WriteFile fileSvc i c w))"
        "I w \<Longrightarrow> I (snd (fs_CreatePreviewFile fileSvc i c w))"
        "I w \<Longrightarrow> I (snd (fs_DeletePreviewFile fileSvc i w))"
    and keep_auth: "I w \<Longrightarrow> I (snd (au_CheckPrivilege authSvc ag pr po w))"
    and keep_disc: "I w \<Longrightarrow> I (snd (dc_FetchDiscovery discClient w))"
    and keep_render: "I w \<Longrightarrow> I (snd (th_Render renderer x c w))"
    and keep_publish: "I w \<Longrightarrow> I (snd (qp_Publish publisher ty pl w))"
begin

lemmas keep_ops = keep_rt keep_log keep_lock keep_token keep_cache keep_file keep_auth keep_disc
  keep_render keep_publish

end

end
