(* ===== verification/Postgres.thy ===== *)
theory Postgres
  imports Ports
begin

text \<open>
  The PostgreSQL adapter (\<^verbatim>\<open>internal/adapter/outbound/postgres\<close>): the tables of
  the migrations, the statements of the generated query package and the three
  repositories.

  A table is the list of its rows.  A statement is a function of the server's
  clock reading \<^verbatim>\<open>now()\<close> and the table; it runs atomically.  What the driver and
  the server do beside that is a parameter, one value per statement executed:
  the clock reading, the identifier parser, whether the call fails (before or
  after the statement took effect; a value that does not fit its column is a
  failure too), and the rounding of an instant to the resolution of a
  \<^verbatim>\<open>timestamptz\<close> column.
\<close>

datatype pg_fault = NoFault | FailBefore error | FailAfter error

record pg_env =
  pg_now :: "nat \<Rightarrow> time"
  pg_fault :: "nat \<Rightarrow> pg_fault"
  pg_tstz :: "time \<Rightarrow> time"
  pg_uuid_Parse :: "string \<Rightarrow> error + uuid"

record lock_row =
  row_id :: uuid
  row_file_id :: string
  row_lock_id :: string
  row_expires_at :: time
  row_created_at :: time

record token_row =
  trow_id :: uuid
  trow_token :: string
  trow_file_id :: string
  trow_actor_id :: string
  trow_permissions :: string
  trow_expires_at :: time
  trow_created_at :: time
  trow_actor_name :: string

record preview_row =
  prow_source_file_id :: string
  prow_preview_file_id :: string
  prow_source_updated_date :: time

text \<open>The database, and the number of outside actions (statements, calls, clock readings) so far.\<close>

record pgdb =
  tick :: nat
  locks :: "lock_row list"
  access_tokens :: "token_row list"
  document_preview_cache :: "preview_row list"

definition locks_table :: "('z pgdb_scheme, lock_row list) cell" where
  "locks_table = \<lparr>cell_get = locks, cell_put = (\<lambda>t w. w\<lparr>locks := t\<rparr>)\<rparr>"

definition access_tokens_table :: "('z pgdb_scheme, token_row list) cell" where
  "access_tokens_table = \<lparr>cell_get = access_tokens, cell_put = (\<lambda>t w. w\<lparr>access_tokens := t\<rparr>)\<rparr>"

definition preview_table :: "('z pgdb_scheme, preview_row list) cell" where
  "preview_table =
     \<lparr>cell_get = document_preview_cache, cell_put = (\<lambda>t w. w\<lparr>document_preview_cache := t\<rparr>)\<rparr>"

definition unique_violation :: error where
  "unique_violation = OpaqueError ''duplicate key value violates unique constraint''"

text \<open>One round trip of the driver: \<^verbatim>\<open>Exec\<close> or \<^verbatim>\<open>QueryRow\<close> of one statement.\<close>

definition db_stmt ::
  "'e pg_env_scheme \<Rightarrow> ('z pgdb_scheme, 't) cell \<Rightarrow> (time \<Rightarrow> 't \<Rightarrow> (error + 'r) \<times> 't) \<Rightarrow>
   'z pgdb_scheme \<Rightarrow> (error + 'r) \<times> 'z pgdb_scheme" where
  "db_stmt env c stmt w =
     (let n = tick w;
          w1 = w\<lparr>tick := Suc n\<rparr>;
          (r, t) = stmt (pg_now env n) (cell_get c w)
      in case pg_fault env n of
           NoFault \<Rightarrow> (r, cell_put c t w1)
         | FailBefore e \<Rightarrow> (Inl e, w1)
         | FailAfter e \<Rightarrow> (Inl e, cell_put c t w1))"

definition sql_update :: "('r \<Rightarrow> bool) \<Rightarrow> ('r \<Rightarrow> 'r) \<Rightarrow> 'r list \<Rightarrow> (error + nat) \<times> 'r list" where
  "sql_update P f rows = (Inr (length (filter P rows)), map (\<lambda>r. if P r then f r else r) rows)"

definition sql_delete :: "('r \<Rightarrow> bool) \<Rightarrow> 'r list \<Rightarrow> (error + nat) \<times> 'r list" where
  "sql_delete P rows = (Inr (length (filter P rows)), filter (\<lambda>r. \<not> P r) rows)"

definition sql_select_one :: "('r \<Rightarrow> bool) \<Rightarrow> 'r list \<Rightarrow> (error + 'r) \<times> 'r list" where
  "sql_select_one P rows =
     ((case filter P rows of [] \<Rightarrow> Inl (Sentinel PgxErrNoRows) | r # _ \<Rightarrow> Inr r), rows)"

text \<open>The statements on \<^verbatim>\<open>locks\<close> (\<^verbatim>\<open>generated/locks.sql.go\<close>).\<close>

definition sql_deleteExpiredLocks :: "time \<Rightarrow> lock_row list \<Rightarrow> (error + nat) \<times> lock_row list" where
  "sql_deleteExpiredLocks now = sql_delete (\<lambda>r. row_expires_at r < now)"

definition sql_deleteLockByFileID ::
  "string \<Rightarrow> string \<Rightarrow> time \<Rightarrow> lock_row list \<Rightarrow> (error + nat) \<times> lock_row list" where
  "sql_deleteLockByFileID fid lid now =
     sql_delete (\<lambda>r. row_file_id r = fid \<and> row_lock_id r = lid)"

definition sql_findLockByFileID ::
  "string \<Rightarrow> time \<Rightarrow> lock_row list \<Rightarrow> (error + lock_row) \<times> lock_row list" where
  "sql_findLockByFileID fid now =
     sql_select_one (\<lambda>r. row_file_id r = fid \<and> row_expires_at r > now)"

definition sql_takeoverLock ::
  "'e pg_env_scheme \<Rightarrow> string \<Rightarrow> string \<Rightarrow> string \<Rightarrow> time \<Rightarrow> time \<Rightarrow>
   time \<Rightarrow> lock_row list \<Rightarrow> (error + nat) \<times> lock_row list" where
  "sql_takeoverLock env fid lid lid2 created expires now =
     sql_update (\<lambda>r. row_file_id r = fid \<and> row_lock_id r = lid)
       (\<lambda>r. r\<lparr>row_lock_id := lid2, row_created_at := pg_tstz env created,
              row_expires_at := pg_tstz env expires\<rparr>)"

definition sql_updateLockExpiry ::
  "'e pg_env_scheme \<Rightarrow> string \<Rightarrow> string \<Rightarrow> time \<Rightarrow>
   time \<Rightarrow> lock_row list \<Rightarrow> (error + nat) \<times> lock_row list" where
  "sql_updateLockExpiry env fid lid expires now =
     sql_update (\<lambda>r. row_file_id r = fid \<and> row_lock_id r = lid \<and> row_expires_at r > now)
       (\<lambda>r. r\<lparr>row_expires_at := pg_tstz env expires\<rparr>)"

definition sql_updateLockIDAndExpiry ::
  "'e pg_env_scheme \<Rightarrow> string \<Rightarrow> string \<Rightarrow> string \<Rightarrow> time \<Rightarrow>
   time \<Rightarrow> lock_row list \<Rightarrow> (error + nat) \<times> lock_row list" where
  "sql_updateLockIDAndExpiry env fid lid lid2 expires now =
     sql_update (\<lambda>r. row_file_id r = fid \<and> row_lock_id r = lid \<and> row_expires_at r > now)
       (\<lambda>r. r\<lparr>row_lock_id := lid2, row_expires_at := pg_tstz env expires\<rparr>)"

text \<open>
  \<^verbatim>\<open>INSERT ... ON CONFLICT (file_id) DO UPDATE SET lock_id, expires_at\<close>: an
  existing row of the file keeps its \<^verbatim>\<open>id\<close> and its \<^verbatim>\<open>created_at\<close>.
\<close>

definition sql_upsertLock ::
  "'e pg_env_scheme \<Rightarrow> uuid \<Rightarrow> string \<Rightarrow> string \<Rightarrow> time \<Rightarrow> time \<Rightarrow>
   time \<Rightarrow> lock_row list \<Rightarrow> (error + nat) \<times> lock_row list" where
  "sql_upsertLock env uid fid lid expires created now rows =
     (if list_ex (\<lambda>r. row_file_id r = fid) rows
      then sql_update (\<lambda>r. row_file_id r = fid)
             (\<lambda>r. r\<lparr>row_lock_id := lid, row_expires_at := pg_tstz env expires\<rparr>) rows
      else if list_ex (\<lambda>r. row_id r = uid) rows then (Inl unique_violation, rows)
      else (Inr 1, rows @ [\<lparr>row_id = uid, row_file_id = fid, row_lock_id = lid,
                            row_expires_at = pg_tstz env expires,
                            row_created_at = pg_tstz env created\<rparr>]))"

text \<open>The statements on \<^verbatim>\<open>access_tokens\<close> (\<^verbatim>\<open>generated/tokens.sql.go\<close>).\<close>

definition sql_deleteExpiredTokens :: "time \<Rightarrow> token_row list \<Rightarrow> (error + nat) \<times> token_row list" where
  "sql_deleteExpiredTokens now = sql_delete (\<lambda>r. trow_expires_at r < now)"

definition sql_deleteTokenByID :: "uuid \<Rightarrow> time \<Rightarrow> token_row list \<Rightarrow> (error + nat) \<times> token_row list" where
  "sql_deleteTokenByID uid now = sql_delete (\<lambda>r. trow_id r = uid)"

definition sql_findByToken ::
  "string \<Rightarrow> time \<Rightarrow> token_row list \<Rightarrow> (error + token_row) \<times> token_row list" where
  "sql_findByToken tok now = sql_select_one (\<lambda>r. trow_token r = tok)"

definition sql_insertToken ::
  "'e pg_env_scheme \<Rightarrow> uuid \<Rightarrow> string \<Rightarrow> string \<Rightarrow> string \<Rightarrow> string \<Rightarrow> string \<Rightarrow> time \<Rightarrow> time \<Rightarrow>
   time \<Rightarrow> token_row list \<Rightarrow> (error + nat) \<times> token_row list" where
  "sql_insertToken env uid tok fid actor name perms expires created now rows =
     (if list_ex (\<lambda>r. trow_id r = uid \<or> trow_token r = tok) rows
      then (Inl unique_violation, rows)
      else (Inr 1, rows @ [\<lparr>trow_id = uid, trow_token = tok, trow_file_id = fid,
                            trow_actor_id = actor, trow_permissions = perms,
                            trow_expires_at = pg_tstz env expires,
                            trow_created_at = pg_tstz env created,
                            trow_actor_name = name\<rparr>]))"

text \<open>The statements on \<^verbatim>\<open>document_preview_cache\<close> (\<^verbatim>\<open>generated/preview_cache.sql.go\<close>).\<close>

definition sql_findPreviewCacheBySourceID ::
  "string \<Rightarrow> time \<Rightarrow> preview_row list \<Rightarrow> (error + preview_row) \<times> preview_row list" where
  "sql_findPreviewCacheBySourceID src now = sql_select_one (\<lambda>r. prow_source_file_id r = src)"

definition sql_upsertPreviewCache ::
  "'e pg_env_scheme \<Rightarrow> string \<Rightarrow> string \<Rightarrow> time \<Rightarrow>
   time \<Rightarrow> preview_row list \<Rightarrow> (error + nat) \<times> preview_row list" where
  "sql_upsertPreviewCache env src pre upd now rows =
     (if list_ex (\<lambda>r. prow_source_file_id r = src) rows
      then sql_update (\<lambda>r. prow_source_file_id r = src)
             (\<lambda>r. r\<lparr>prow_preview_file_id := pre, prow_source_updated_date := pg_tstz env upd\<rparr>) rows
      else (Inr 1, rows @ [\<lparr>prow_source_file_id = src, prow_preview_file_id = pre,
                            prow_source_updated_date = pg_tstz env upd\<rparr>]))"

text \<open>
  \<^verbatim>\<open>helpers.go\<close>: the nullable values of \<^verbatim>\<open>pgtype\<close> that parameters and columns have in Go.  Of
  a valid one the driver sends the value, and a column that is not null is read as a valid
  one; the repositories never make another.
\<close>

record pgtype_Timestamptz =
  pgt_Time :: time
  pgt_Valid :: bool

record pgtype_UUID =
  pgu_Bytes :: uuid
  pgu_Valid :: bool

definition timestamptzFromTime :: "time \<Rightarrow> pgtype_Timestamptz" where
  "timestamptzFromTime t = \<lparr>pgt_Time = t, pgt_Valid = True\<rparr>"

definition pgTypeToUUID :: "pgtype_UUID \<Rightarrow> uuid" where
  "pgTypeToUUID i = pgu_Bytes i"

definition uuidToPgtype :: "uuid \<Rightarrow> pgtype_UUID" where
  "uuidToPgtype i = \<lparr>pgu_Bytes = i, pgu_Valid = True\<rparr>"

text \<open>Parsing is \<^verbatim>\<open>google/uuid\<close>'s.\<close>

definition parseUUID :: "'e pg_env_scheme \<Rightarrow> string \<Rightarrow> error + pgtype_UUID" where
  "parseUUID env s =
     (case pg_uuid_Parse env s of
        Inl err \<Rightarrow> Inl (Errorf ''invalid UUID %q: %w'' [err])
      | Inr u \<Rightarrow> Inr \<lparr>pgu_Bytes = u, pgu_Valid = True\<rparr>)"

lemma pgtype_sel [simp]:
  "pgt_Time (timestamptzFromTime t) = t" "pgt_Valid (timestamptzFromTime t)" "pgu_Bytes (uuidToPgtype i) = i"
  "pgu_Valid (uuidToPgtype i)" "pgTypeToUUID (uuidToPgtype i) = i"
  by (simp_all add: timestamptzFromTime_def uuidToPgtype_def pgTypeToUUID_def)

text \<open>\<^verbatim>\<open>:exec\<close> queries drop the row count, CAS writes turn zero rows into \<^verbatim>\<open>ErrStaleLock\<close>.\<close>

definition exec_err :: "(error + nat) \<times> 'w \<Rightarrow> error option \<times> 'w" where
  "exec_err rw = (case rw of (Inl e, w) \<Rightarrow> (Some e, w) | (Inr n, w) \<Rightarrow> (None, w))"

definition cas_err :: "(error + nat) \<times> 'w \<Rightarrow> error option \<times> 'w" where
  "cas_err rw =
     (case rw of
        (Inl e, w) \<Rightarrow> (Some e, w)
      | (Inr n, w) \<Rightarrow> (if n = 0 then Some (Sentinel ErrStaleLock) else None, w))"

text \<open>\<^verbatim>\<open>pgx.ErrNoRows\<close> becomes a nil result, any other error is passed on.\<close>

definition optional_row :: "('r \<Rightarrow> 'm) \<Rightarrow> (error + 'r) \<times> 'w \<Rightarrow> (error + 'm option) \<times> 'w" where
  "optional_row f rw =
     (case rw of
        (Inl e, w) \<Rightarrow> (if errors_Is e PgxErrNoRows then Inr None else Inl e, w)
      | (Inr r, w) \<Rightarrow> (Inr (Some (f r)), w))"

definition lock_of_row :: "lock_row \<Rightarrow> lock" where
  "lock_of_row r = \<lparr>lock_ID = pgTypeToUUID (uuidToPgtype (row_id r)), lock_FileID = row_file_id r, LockID = row_lock_id r,
     lock_ExpiresAt = row_expires_at r, lock_CreatedAt = row_created_at r\<rparr>"

definition token_of_row :: "token_row \<Rightarrow> access_token" where
  "token_of_row r = \<lparr>tok_ID = pgTypeToUUID (uuidToPgtype (trow_id r)), tok_Token = trow_token r, tok_FileID = trow_file_id r,
     tok_ActorID = trow_actor_id r, tok_ActorName = trow_actor_name r,
     tok_Permissions = trow_permissions r, tok_ExpiresAt = trow_expires_at r,
     tok_CreatedAt = trow_created_at r\<rparr>"

definition entry_of_row :: "preview_row \<Rightarrow> preview_entry" where
  "entry_of_row r = \<lparr>SourceFileID = prow_source_file_id r, PreviewFileID = prow_preview_file_id r,
     SourceUpdatedDate = prow_source_updated_date r\<rparr>"

text \<open>\<^verbatim>\<open>LockRepository\<close>.\<close>

definition LockRepository_Create ::
  "'e pg_env_scheme \<Rightarrow> lock option \<Rightarrow> 'z pgdb_scheme \<Rightarrow> error option \<times> 'z pgdb_scheme" where
  "LockRepository_Create env lk w =
     (case lk of
        None \<Rightarrow> (Some (Errorf ''lock is nil'' []), w)
      | Some l \<Rightarrow> exec_err (db_stmt env locks_table
          (sql_upsertLock env (pgu_Bytes (uuidToPgtype (lock_ID l))) (lock_FileID l) (LockID l)
             (pgt_Time (timestamptzFromTime (lock_ExpiresAt l)))
             (pgt_Time (timestamptzFromTime (lock_CreatedAt l)))) w))"

definition LockRepository_FindByFileID ::
  "'e pg_env_scheme \<Rightarrow> string \<Rightarrow> 'z pgdb_scheme \<Rightarrow> (error + lock option) \<times> 'z pgdb_scheme" where
  "LockRepository_FindByFileID env fileID w =
     optional_row lock_of_row (db_stmt env locks_table (sql_findLockByFileID fileID) w)"

definition LockRepository_UpdateLockID ::
  "'e pg_env_scheme \<Rightarrow> string \<Rightarrow> string \<Rightarrow> string \<Rightarrow> lock \<Rightarrow>
   'z pgdb_scheme \<Rightarrow> error option \<times> 'z pgdb_scheme" where
  "LockRepository_UpdateLockID env fileID currentLockID newLockID newExpiry w =
     cas_err (db_stmt env locks_table
       (sql_updateLockIDAndExpiry env fileID currentLockID newLockID
          (pgt_Time (timestamptzFromTime (lock_ExpiresAt newExpiry)))) w)"

definition LockRepository_RefreshExpiry ::
  "'e pg_env_scheme \<Rightarrow> string \<Rightarrow> string \<Rightarrow> lock option \<Rightarrow>
   'z pgdb_scheme \<Rightarrow> error option \<times> 'z pgdb_scheme" where
  "LockRepository_RefreshExpiry env fileID lockID lk w =
     (case lk of
        None \<Rightarrow> (Some (Errorf ''lock is nil'' []), w)
      | Some l \<Rightarrow> cas_err (db_stmt env locks_table
          (sql_updateLockExpiry env fileID lockID (pgt_Time (timestamptzFromTime (lock_ExpiresAt l)))) w))"

definition LockRepository_DeleteByFileID ::
  "'e pg_env_scheme \<Rightarrow> string \<Rightarrow> string \<Rightarrow> 'z pgdb_scheme \<Rightarrow> error option \<times> 'z pgdb_scheme" where
  "LockRepository_DeleteByFileID env fileID lockID w =
     cas_err (db_stmt env locks_table (sql_deleteLockByFileID fileID lockID) w)"

definition LockRepository_DeleteExpired ::
  "'e pg_env_scheme \<Rightarrow> 'z pgdb_scheme \<Rightarrow> (error + nat) \<times> 'z pgdb_scheme" where
  "LockRepository_DeleteExpired env w = db_stmt env locks_table sql_deleteExpiredLocks w"

definition LockRepository_Takeover ::
  "'e pg_env_scheme \<Rightarrow> string \<Rightarrow> string \<Rightarrow> string \<Rightarrow> time \<Rightarrow> time \<Rightarrow>
   'z pgdb_scheme \<Rightarrow> error option \<times> 'z pgdb_scheme" where
  "LockRepository_Takeover env fileID oldLockID newLockID newCreatedAt newExpiresAt w =
     cas_err (db_stmt env locks_table
       (sql_takeoverLock env fileID oldLockID newLockID (pgt_Time (timestamptzFromTime newCreatedAt))
          (pgt_Time (timestamptzFromTime newExpiresAt))) w)"

definition LockRepository :: "'e pg_env_scheme \<Rightarrow> 'z pgdb_scheme lock_repo" where
  "LockRepository env =
     \<lparr>lr_Create = LockRepository_Create env,
      lr_FindByFileID = LockRepository_FindByFileID env,
      lr_UpdateLockID = LockRepository_UpdateLockID env,
      lr_RefreshExpiry = LockRepository_RefreshExpiry env,
      lr_DeleteByFileID = LockRepository_DeleteByFileID env,
      lr_DeleteExpired = LockRepository_DeleteExpired env,
      lr_Takeover = LockRepository_Takeover env\<rparr>"

text \<open>\<^verbatim>\<open>TokenRepository\<close>.\<close>

definition TokenRepository_Create ::
  "'e pg_env_scheme \<Rightarrow> access_token \<Rightarrow> 'z pgdb_scheme \<Rightarrow> error option \<times> 'z pgdb_scheme" where
  "TokenRepository_Create env t w =
     exec_err (db_stmt env access_tokens_table
       (sql_insertToken env (pgu_Bytes (uuidToPgtype (tok_ID t))) (tok_Token t) (tok_FileID t) (tok_ActorID t)
          (tok_ActorName t) (tok_Permissions t) (pgt_Time (timestamptzFromTime (tok_ExpiresAt t)))
          (pgt_Time (timestamptzFromTime (tok_CreatedAt t)))) w)"

definition TokenRepository_FindByToken ::
  "'e pg_env_scheme \<Rightarrow> string \<Rightarrow> 'z pgdb_scheme \<Rightarrow> (error + access_token option) \<times> 'z pgdb_scheme" where
  "TokenRepository_FindByToken env tokenValue w =
     optional_row token_of_row (db_stmt env access_tokens_table (sql_findByToken tokenValue) w)"

definition TokenRepository_DeleteByID ::
  "'e pg_env_scheme \<Rightarrow> string \<Rightarrow> 'z pgdb_scheme \<Rightarrow> error option \<times> 'z pgdb_scheme" where
  "TokenRepository_DeleteByID env i w =
     (case parseUUID env i of
        Inl err \<Rightarrow> (Some err, w)
      | Inr uid \<Rightarrow> exec_err (db_stmt env access_tokens_table (sql_deleteTokenByID (pgu_Bytes uid)) w))"

definition TokenRepository_DeleteExpired ::
  "'e pg_env_scheme \<Rightarrow> 'z pgdb_scheme \<Rightarrow> (error + nat) \<times> 'z pgdb_scheme" where
  "TokenRepository_DeleteExpired env w = db_stmt env access_tokens_table sql_deleteExpiredTokens w"

definition TokenRepository :: "'e pg_env_scheme \<Rightarrow> 'z pgdb_scheme token_repo" where
  "TokenRepository env =
     \<lparr>tr_Create = TokenRepository_Create env,
      tr_FindByToken = TokenRepository_FindByToken env,
      tr_DeleteByID = TokenRepository_DeleteByID env,
      tr_DeleteExpired = TokenRepository_DeleteExpired env\<rparr>"

text \<open>\<^verbatim>\<open>PreviewCacheRepository\<close>.\<close>

definition PreviewCacheRepository_FindBySourceID ::
  "'e pg_env_scheme \<Rightarrow> string \<Rightarrow> 'z pgdb_scheme \<Rightarrow> (error + preview_entry option) \<times> 'z pgdb_scheme" where
  "PreviewCacheRepository_FindBySourceID env sourceFileID w =
     optional_row entry_of_row
       (db_stmt env preview_table (sql_findPreviewCacheBySourceID sourceFileID) w)"

definition PreviewCacheRepository_Upsert ::
  "'e pg_env_scheme \<Rightarrow> preview_entry \<Rightarrow> 'z pgdb_scheme \<Rightarrow> error option \<times> 'z pgdb_scheme" where
  "PreviewCacheRepository_Upsert env entry w =
     exec_err (db_stmt env preview_table
       (sql_upsertPreviewCache env (SourceFileID entry) (PreviewFileID entry)
          (pgt_Time (timestamptzFromTime (SourceUpdatedDate entry)))) w)"

definition PreviewCacheRepository :: "'e pg_env_scheme \<Rightarrow> 'z pgdb_scheme preview_cache_repo" where
  "PreviewCacheRepository env =
     \<lparr>pc_FindBySourceID = PreviewCacheRepository_FindBySourceID env,
      pc_Upsert = PreviewCacheRepository_Upsert env\<rparr>"

lemmas [sql_defs] =
  sql_update_def sql_delete_def sql_select_one_def
  sql_deleteExpiredLocks_def sql_deleteLockByFileID_def sql_findLockByFileID_def
  sql_takeoverLock_def sql_updateLockExpiry_def sql_updateLockIDAndExpiry_def
  sql_upsertLock_def sql_deleteExpiredTokens_def sql_deleteTokenByID_def
  sql_findByToken_def sql_insertToken_def sql_findPreviewCacheBySourceID_def
  sql_upsertPreviewCache_def

lemmas [repo_defs] =
  LockRepository_Create_def LockRepository_FindByFileID_def LockRepository_UpdateLockID_def
  LockRepository_RefreshExpiry_def LockRepository_DeleteByFileID_def
  LockRepository_DeleteExpired_def LockRepository_Takeover_def
  TokenRepository_Create_def TokenRepository_FindByToken_def TokenRepository_DeleteByID_def
  TokenRepository_DeleteExpired_def
  PreviewCacheRepository_FindBySourceID_def PreviewCacheRepository_Upsert_def

lemma LockRepository_sel [simp]:
  "lr_Create (LockRepository env) = LockRepository_Create env"
  "lr_FindByFileID (LockRepository env) = LockRepository_FindByFileID env"
  "lr_UpdateLockID (LockRepository env) = LockRepository_UpdateLockID env"
  "lr_RefreshExpiry (LockRepository env) = LockRepository_RefreshExpiry env"
  "lr_DeleteByFileID (LockRepository env) = LockRepository_DeleteByFileID env"
  "lr_DeleteExpired (LockRepository env) = LockRepository_DeleteExpired env"
  "lr_Takeover (LockRepository env) = LockRepository_Takeover env"
  by (simp_all add: LockRepository_def)

lemma TokenRepository_sel [simp]:
  "tr_Create (TokenRepository env) = TokenRepository_Create env"
  "tr_FindByToken (TokenRepository env) = TokenRepository_FindByToken env"
  "tr_DeleteByID (TokenRepository env) = TokenRepository_DeleteByID env"
  "tr_DeleteExpired (TokenRepository env) = TokenRepository_DeleteExpired env"
  by (simp_all add: TokenRepository_def)

lemma PreviewCacheRepository_sel [simp]:
  "pc_FindBySourceID (PreviewCacheRepository env) = PreviewCacheRepository_FindBySourceID env"
  "pc_Upsert (PreviewCacheRepository env) = PreviewCacheRepository_Upsert env"
  by (simp_all add: PreviewCacheRepository_def)

text \<open>The tables are cells of the world.\<close>

interpretation locks_cell: cell_laws locks_table
  by unfold_locales (auto simp: locks_table_def)

interpretation access_tokens_cell: cell_laws access_tokens_table
  by unfold_locales (auto simp: access_tokens_table_def)

interpretation preview_cell: cell_laws preview_table
  by unfold_locales (auto simp: preview_table_def)

end
