(* ===== verification/System.thy ===== *)
theory System
  imports Postgres
begin

text \<open>
  The world the service runs in.  Everything outside the repository's code
  (\<^verbatim>\<open>file-service\<close>, the authorization service, Collabora, the broker, the clock,
  the random source) is an environment \<open>sys_env\<close>: for every outside action,
  numbered by \<open>tick\<close>, it says what is answered.  The theorems quantify over it, so
  they hold whatever those systems do.  The world records every outside call and
  every log record in \<open>trace\<close>, newest first.
\<close>

datatype event =
    EvLog log_entry
  | EvFindByID string
  | EvReadFile string
  | EvWriteFile string stream
  | EvCreatePreviewFile string stream
  | EvDeletePreviewFile string
  | EvCheckPrivilege string string string
  | EvFetchDiscovery
  | EvRender string stream
  | EvPublish string payload

record sys_env = pg_env +
  go_now :: "nat \<Rightarrow> time"
  go_uuid :: "nat \<Rightarrow> uuid"
  go_rand :: "nat \<Rightarrow> nat \<Rightarrow> error + bytes"
  ext_FindByID :: "nat \<Rightarrow> string \<Rightarrow> error + document option"
  ext_ReadFile :: "nat \<Rightarrow> string \<Rightarrow> error + stream"
  ext_WriteFile :: "nat \<Rightarrow> string \<Rightarrow> stream \<Rightarrow> error + file_write_result"
  ext_CreatePreviewFile :: "nat \<Rightarrow> string \<Rightarrow> stream \<Rightarrow> error + string"
  ext_DeletePreviewFile :: "nat \<Rightarrow> string \<Rightarrow> error option"
  ext_CheckPrivilege :: "nat \<Rightarrow> string \<Rightarrow> string \<Rightarrow> string \<Rightarrow> error + auth_result"
  ext_FetchDiscovery :: "nat \<Rightarrow> error + discovery_data"
  ext_Render :: "nat \<Rightarrow> string \<Rightarrow> stream \<Rightarrow> error + stream"
  ext_Publish :: "nat \<Rightarrow> string \<Rightarrow> payload \<Rightarrow> error option"

record sysworld = pgdb +
  trace :: "event list"

definition advance :: "'z pgdb_scheme \<Rightarrow> 'z pgdb_scheme" where
  "advance w = w\<lparr>tick := Suc (tick w)\<rparr>"

definition outside ::
  "(nat \<Rightarrow> 'r) \<Rightarrow> event \<Rightarrow> 'z sysworld_scheme \<Rightarrow> 'r \<times> 'z sysworld_scheme" where
  "outside reply ev w = (reply (tick w), (advance w)\<lparr>trace := ev # trace w\<rparr>)"

definition GoRuntime :: "'e sys_env_scheme \<Rightarrow> 'z pgdb_scheme go_runtime" where
  "GoRuntime env =
     \<lparr>rt_Now = (\<lambda>w. (go_now env (tick w), advance w)),
      rt_NewUUID = (\<lambda>w. (go_uuid env (tick w), advance w)),
      rt_RandRead = (\<lambda>n w. (go_rand env (tick w) n, advance w))\<rparr>"

definition Logger :: "'z sysworld_scheme logger" where
  "Logger e w = w\<lparr>trace := EvLog e # trace w\<rparr>"

definition FileServiceOutside :: "'e sys_env_scheme \<Rightarrow> 'z sysworld_scheme file_service" where
  "FileServiceOutside env =
     \<lparr>fs_FindByID = (\<lambda>i. outside (\<lambda>n. ext_FindByID env n i) (EvFindByID i)),
      fs_ReadFile = (\<lambda>i. outside (\<lambda>n. ext_ReadFile env n i) (EvReadFile i)),
      fs_WriteFile = (\<lambda>i c. outside (\<lambda>n. ext_WriteFile env n i c) (EvWriteFile i c)),
      fs_CreatePreviewFile =
        (\<lambda>b c. outside (\<lambda>n. ext_CreatePreviewFile env n b c) (EvCreatePreviewFile b c)),
      fs_DeletePreviewFile =
        (\<lambda>i. outside (\<lambda>n. ext_DeletePreviewFile env n i) (EvDeletePreviewFile i))\<rparr>"

definition AuthServiceOutside :: "'e sys_env_scheme \<Rightarrow> 'z sysworld_scheme auth_service" where
  "AuthServiceOutside env =
     \<lparr>au_CheckPrivilege = (\<lambda>a p i.
        outside (\<lambda>n. ext_CheckPrivilege env n a p i) (EvCheckPrivilege a p i))\<rparr>"

definition DiscoveryClientOutside :: "'e sys_env_scheme \<Rightarrow> 'z sysworld_scheme discovery_client" where
  "DiscoveryClientOutside env =
     \<lparr>dc_FetchDiscovery = outside (\<lambda>n. ext_FetchDiscovery env n) EvFetchDiscovery\<rparr>"

definition RendererOutside :: "'e sys_env_scheme \<Rightarrow> 'z sysworld_scheme thumbnail_renderer" where
  "RendererOutside env =
     \<lparr>th_Render = (\<lambda>x c. outside (\<lambda>n. ext_Render env n x c) (EvRender x c))\<rparr>"

definition PublisherOutside :: "'e sys_env_scheme \<Rightarrow> 'z sysworld_scheme queue_publisher" where
  "PublisherOutside env =
     \<lparr>qp_Publish = (\<lambda>t p. outside (\<lambda>n. ext_Publish env n t p) (EvPublish t p))\<rparr>"

lemma advance_simps [simp]:
  "tick (advance w) = Suc (tick w)"
  "locks (advance w) = locks w"
  "access_tokens (advance w) = access_tokens w"
  "document_preview_cache (advance w) = document_preview_cache w"
  by (simp_all add: advance_def)

lemma advance_trace [simp]: "trace (advance (w :: 'z sysworld_scheme)) = trace w"
  by (simp add: advance_def)

lemma outside_simps [simp]:
  "fst (outside reply ev w) = reply (tick w)"
  "tick (snd (outside reply ev w)) = Suc (tick w)"
  "locks (snd (outside reply ev w)) = locks w"
  "access_tokens (snd (outside reply ev w)) = access_tokens w"
  "document_preview_cache (snd (outside reply ev w)) = document_preview_cache w"
  "trace (snd (outside reply ev w)) = ev # trace w"
  by (simp_all add: outside_def)

lemma Logger_simps [simp]:
  "tick (Logger e w) = tick w"
  "locks (Logger e w) = locks w"
  "access_tokens (Logger e w) = access_tokens w"
  "document_preview_cache (Logger e w) = document_preview_cache w"
  "trace (Logger e w) = EvLog e # trace w"
  by (simp_all add: Logger_def)

lemma GoRuntime_sel [simp]:
  "rt_Now (GoRuntime env) w = (go_now env (tick w), advance w)"
  "rt_NewUUID (GoRuntime env) w = (go_uuid env (tick w), advance w)"
  "rt_RandRead (GoRuntime env) n w = (go_rand env (tick w) n, advance w)"
  by (simp_all add: GoRuntime_def)

lemma Outside_sel [simp]:
  "fs_FindByID (FileServiceOutside env) i = outside (\<lambda>n. ext_FindByID env n i) (EvFindByID i)"
  "fs_ReadFile (FileServiceOutside env) i = outside (\<lambda>n. ext_ReadFile env n i) (EvReadFile i)"
  "fs_WriteFile (FileServiceOutside env) i c =
     outside (\<lambda>n. ext_WriteFile env n i c) (EvWriteFile i c)"
  "fs_CreatePreviewFile (FileServiceOutside env) i c =
     outside (\<lambda>n. ext_CreatePreviewFile env n i c) (EvCreatePreviewFile i c)"
  "fs_DeletePreviewFile (FileServiceOutside env) i =
     outside (\<lambda>n. ext_DeletePreviewFile env n i) (EvDeletePreviewFile i)"
  "au_CheckPrivilege (AuthServiceOutside env) a p i =
     outside (\<lambda>n. ext_CheckPrivilege env n a p i) (EvCheckPrivilege a p i)"
  "dc_FetchDiscovery (DiscoveryClientOutside env) =
     outside (\<lambda>n. ext_FetchDiscovery env n) EvFetchDiscovery"
  "th_Render (RendererOutside env) x c = outside (\<lambda>n. ext_Render env n x c) (EvRender x c)"
  "qp_Publish (PublisherOutside env) t pl = outside (\<lambda>n. ext_Publish env n t pl) (EvPublish t pl)"
  by (simp_all add: FileServiceOutside_def AuthServiceOutside_def DiscoveryClientOutside_def
      RendererOutside_def PublisherOutside_def)

end
