(* ===== verification/GoTime.thy ===== *)
theory GoTime
  imports Prelude
begin

text \<open>
  The layouts \<^verbatim>\<open>time.RFC3339\<close> and \<^verbatim>\<open>time.RFC3339Nano\<close> of package \<^verbatim>\<open>time\<close> for an
  instant in UTC: the proleptic Gregorian calendar, zero-padded fields, and for
  the nano layout the fraction of the second without trailing zeros.
\<close>

definition ascii_digit :: "int \<Rightarrow> char" where
  "ascii_digit d = char_of (48 + nat d :: nat)"

function decimal_nat :: "nat \<Rightarrow> string" where
  "decimal_nat n =
     (if n < 10 then [ascii_digit (int n)]
      else decimal_nat (n div 10) @ [ascii_digit (int (n mod 10))])"
  by pat_completeness auto
termination
  by (relation "measure id") auto

declare decimal_nat.simps [simp del]

definition decimal :: "int \<Rightarrow> string" where
  "decimal i = (if i < 0 then ''-'' @ decimal_nat (nat (- i)) else decimal_nat (nat i))"

definition pad :: "nat \<Rightarrow> int \<Rightarrow> string" where
  "pad k i =
     (let s = decimal_nat (nat \<bar>i\<bar>); z = replicate (k - length s) (CHR ''0'') @ s
      in if i < 0 then ''-'' @ z else z)"

text \<open>Days since 1 January 1970 to year, month and day.\<close>

definition civil :: "int \<Rightarrow> int \<times> int \<times> int" where
  "civil days =
     (let z = days + 719468;
          era = z div 146097;
          doe = z mod 146097;
          yoe = (doe - doe div 1460 + doe div 36524 - doe div 146096) div 365;
          doy = doe - (365 * yoe + yoe div 4 - yoe div 100);
          mp = (5 * doy + 2) div 153;
          d = doy - (153 * mp + 2) div 5 + 1;
          m = (if mp < 10 then mp + 3 else mp - 9);
          y = yoe + era * 400 + (if m \<le> 2 then 1 else 0)
      in (y, m, d))"

definition fraction :: "int \<Rightarrow> string" where
  "fraction ns =
     (if ns = 0 then ''''
      else ''.'' @ rev (dropWhile (\<lambda>c. c = CHR ''0'') (rev (pad 9 ns))))"

definition format_seconds :: "time \<Rightarrow> string" where
  "format_seconds t =
     (let secs = t div second;
          (y, m, d) = civil (secs div 86400);
          sod = secs mod 86400
      in pad 4 y @ ''-'' @ pad 2 m @ ''-'' @ pad 2 d @ ''T'' @ pad 2 (sod div 3600) @ '':''
         @ pad 2 (sod mod 3600 div 60) @ '':'' @ pad 2 (sod mod 60))"

definition format_RFC3339 :: "time \<Rightarrow> string" where
  "format_RFC3339 t = format_seconds t @ ''Z''"

definition format_RFC3339Nano :: "time \<Rightarrow> string" where
  "format_RFC3339Nano t = format_seconds t @ fraction (t mod second) @ ''Z''"

lemma decimal_nat_nonempty [simp]: "decimal_nat n \<noteq> []"
  by (subst decimal_nat.simps) simp

lemma pad_nonempty [simp]: "pad k i \<noteq> []"
  by (simp add: pad_def Let_def)

lemma format_RFC3339Nano_nonempty [simp]: "format_RFC3339Nano t \<noteq> []"
  by (simp add: format_RFC3339Nano_def)

lemma format_RFC3339_nonempty [simp]: "format_RFC3339 t \<noteq> []"
  by (simp add: format_RFC3339_def)

lemma decimal_nat_digits: "c \<in> set (decimal_nat n) \<Longrightarrow> \<exists>d. 0 \<le> d \<and> d < 10 \<and> c = ascii_digit d"
proof (induction n rule: decimal_nat.induct)
  case (1 n)
  show ?case
  proof (cases "n < 10")
    case True
    with "1.prems" have "c = ascii_digit (int n)" by (subst (asm) decimal_nat.simps) simp
    with True show ?thesis by (intro exI [of _ "int n"]) simp
  next
    case False
    with "1.prems" have "c \<in> set (decimal_nat (n div 10)) \<or> c = ascii_digit (int (n mod 10))"
      by (subst (asm) decimal_nat.simps) auto
    then show ?thesis
    proof
      assume "c = ascii_digit (int (n mod 10))"
      then show ?thesis by (intro exI [of _ "int (n mod 10)"]) simp
    qed (rule "1.IH" [OF False])
  qed
qed

end
