(* ===== verification/WopiService.thy ===== *)
theory WopiService
  imports Ports GoTime
begin

text \<open>
  \<^verbatim>\<open>internal/domain/service/wopi_service.go\<close>: the core WOPI use cases.  The struct
  is a record of its fields; each method is a program over the world \<open>'w\<close> of the
  ports, with one atomic action per port call and per reading of the clock.
\<close>

record 'w wopi_service =
  ws_fileSvc :: "'w file_service"
  ws_lockRepo :: "'w lock_repo"
  ws_baseURL :: string
  ws_postMessageOrigin :: string
  ws_maxLockLifetime :: duration
  ws_renameEnabled :: bool
  ws_logger :: "'w logger"

definition WithRenameEnabled :: "bool \<Rightarrow> 'w wopi_service \<Rightarrow> 'w wopi_service" where
  "WithRenameEnabled enabled s = s\<lparr>ws_renameEnabled := enabled\<rparr>"

definition NewWOPIService ::
  "'w file_service \<Rightarrow> 'w lock_repo \<Rightarrow> string \<Rightarrow> string \<Rightarrow> duration \<Rightarrow> 'w logger \<Rightarrow>
   ('w wopi_service \<Rightarrow> 'w wopi_service) list \<Rightarrow> 'w wopi_service" where
  "NewWOPIService fileSvc lockRepo baseURL postMessageOrigin maxLockLifetime logger opts =
     fold (\<lambda>opt s. opt s) opts
       \<lparr>ws_fileSvc = fileSvc, ws_lockRepo = lockRepo, ws_baseURL = baseURL,
        ws_postMessageOrigin = postMessageOrigin, ws_maxLockLifetime = maxLockLifetime,
        ws_renameEnabled = True, ws_logger = logger\<rparr>"

definition wrapStaleLock :: "error option \<Rightarrow> error option" where
  "wrapStaleLock err =
     (case err of
        Some e \<Rightarrow> if errors_Is e ErrStaleLock then Some (LockConflictError '''') else Some e
      | None \<Rightarrow> None)"

definition CheckFileInfo ::
  "'w wopi_service \<Rightarrow> access_token \<Rightarrow> ('w, error + file_info) prog" where
  "CheckFileInfo s token =
     call (fs_FindByID (ws_fileSvc s) (tok_FileID token)) (\<lambda>r.
       case r of
         Inl err \<Rightarrow> Done (Inl (Errorf ''lookup document: %w'' [err]))
       | Inr None \<Rightarrow> Done (Inl (Sentinel ErrDocumentNotFound))
       | Inr (Some doc) \<Rightarrow>
           (let canWrite = HasPermission token ''write'';
                ownerID = (if doc_CreatedBy doc = '''' then doc_ID doc else doc_CreatedBy doc);
                lastModified = (if IsZero (doc_UpdatedAt doc) then ''''
                                else format_RFC3339Nano (doc_UpdatedAt doc))
            in Done (Inr
                 \<lparr>BaseFileName = doc_DisplayName doc,
                  OwnerID = ownerID,
                  fi_Size = doc_Size doc,
                  UserID = tok_ActorID token,
                  fi_Version = doc_ExternalID doc,
                  UserFriendlyName = tok_ActorName token,
                  UserCanWrite = canWrite,
                  SupportsLocks = True,
                  SupportsUpdate = canWrite,
                  SupportsRename = ws_renameEnabled s,
                  UserCanRename = (canWrite \<and> ws_renameEnabled s),
                  UserCanNotWriteRelative = True,
                  fi_LastModifiedTime = lastModified,
                  PostMessageOrigin = ws_postMessageOrigin s,
                  ReadOnly = (\<not> canWrite)\<rparr>)))"

definition GetFile :: "'w wopi_service \<Rightarrow> access_token \<Rightarrow> ('w, error + stream) prog" where
  "GetFile s token =
     call (fs_ReadFile (ws_fileSvc s) (tok_FileID token)) (\<lambda>r.
       case r of
         Inl err \<Rightarrow> Done (Inl (Errorf ''read file: %w'' [err]))
       | Inr content \<Rightarrow> Done (Inr content))"

record put_file_result =
  pf_Version :: string
  pf_LastModifiedTime :: time

definition PutFile ::
  "'w go_runtime \<Rightarrow> 'w wopi_service \<Rightarrow> access_token \<Rightarrow> string \<Rightarrow> stream \<Rightarrow>
   ('w, error + put_file_result) prog" where
  "PutFile rt s token lockID content =
     (let write =
        call (fs_WriteFile (ws_fileSvc s) (tok_FileID token) content) (\<lambda>r.
          case r of
            Inl err \<Rightarrow> Done (Inl (Errorf ''write file: %w: %w'' [Sentinel ErrFileWrite, err]))
          | Inr result \<Rightarrow>
              call (rt_Now rt) (\<lambda>now.
                Done (Inr \<lparr>pf_Version = fw_ExternalID result, pf_LastModifiedTime = now\<rparr>)))
      in if \<not> HasPermission token ''write'' then Done (Inl (Sentinel ErrNotAuthorized))
         else call (lr_FindByFileID (ws_lockRepo s) (tok_FileID token)) (\<lambda>r.
           case r of
             Inl err \<Rightarrow> Done (Inl (Errorf ''check lock: %w: %w'' [Sentinel ErrLockRepo, err]))
           | Inr None \<Rightarrow> write
           | Inr (Some existing) \<Rightarrow>
               if lockID = '''' \<or> LockID existing \<noteq> lockID
               then Done (Inl (LockConflictError (LockID existing)))
               else write))"

text \<open>
  \<^verbatim>\<open>Lock\<close>: refresh, conflict, zombie takeover or acquisition.  The conflict that a
  lost takeover race answers names the lock found by a second read.
\<close>

definition Lock_refetch :: "'w wopi_service \<Rightarrow> string \<Rightarrow> ('w, error option) prog" where
  "Lock_refetch s fileID =
     call (lr_FindByFileID (ws_lockRepo s) fileID) (\<lambda>r.
       case r of
         Inl findErr \<Rightarrow> Done (Some (Errorf ''refetch lock after takeover race: %w'' [findErr]))
       | Inr None \<Rightarrow> Done (Some (LockConflictError ''''))
       | Inr (Some latest) \<Rightarrow> Done (Some (LockConflictError (LockID latest))))"

definition Lock_takeover ::
  "'w wopi_service \<Rightarrow> string \<Rightarrow> lock \<Rightarrow> string \<Rightarrow> time \<Rightarrow> ('w, error option) prog" where
  "Lock_takeover s fileID existing lockID now =
     effect (ws_logger s (log_record Info ''zombie-lock takeover''
       [(''fileId'', FString fileID), (''oldLockId'', FString (LockID existing)),
        (''newLockId'', FString lockID), (''age'', FInt (time_Sub now (lock_CreatedAt existing)))]))
     (call (lr_Takeover (ws_lockRepo s) fileID (LockID existing) lockID now
              (now + DefaultLockDuration)) (\<lambda>err.
        if (case err of None \<Rightarrow> False | Some e \<Rightarrow> errors_Is e ErrStaleLock)
        then Lock_refetch s fileID
        else Done err))"

definition Lock ::
  "'w go_runtime \<Rightarrow> 'w wopi_service \<Rightarrow> string \<Rightarrow> string \<Rightarrow> ('w, error option) prog" where
  "Lock rt s fileID lockID =
     (if lockID = '''' then Done (Some (Errorf ''lock ID must not be empty'' []))
      else call (lr_FindByFileID (ws_lockRepo s) fileID) (\<lambda>r.
        case r of
          Inl err \<Rightarrow> Done (Some (Errorf ''check existing lock: %w'' [err]))
        | Inr existing \<Rightarrow> call (rt_Now rt) (\<lambda>now.
            case existing of
              Some ex \<Rightarrow>
                if LockID ex = lockID
                then call (lr_RefreshExpiry (ws_lockRepo s) fileID lockID
                       (Some (ex\<lparr>lock_ExpiresAt := now + DefaultLockDuration\<rparr>)))
                       (\<lambda>err. Done (wrapStaleLock err))
                else if ws_maxLockLifetime s > 0
                        \<and> time_Sub now (lock_CreatedAt ex) > ws_maxLockLifetime s
                then Lock_takeover s fileID ex lockID now
                else Done (Some (LockConflictError (LockID ex)))
            | None \<Rightarrow>
                call (rt_NewUUID rt) (\<lambda>uid.
                call (lr_Create (ws_lockRepo s)
                        (Some \<lparr>lock_ID = uid, lock_FileID = fileID, LockID = lockID,
                               lock_ExpiresAt = now + DefaultLockDuration,
                               lock_CreatedAt = now\<rparr>))
                     Done))))"

definition Unlock :: "'w wopi_service \<Rightarrow> string \<Rightarrow> string \<Rightarrow> ('w, error option) prog" where
  "Unlock s fileID lockID =
     call (lr_FindByFileID (ws_lockRepo s) fileID) (\<lambda>r.
       case r of
         Inl err \<Rightarrow> Done (Some (Errorf ''check existing lock: %w'' [err]))
       | Inr None \<Rightarrow> Done (Some (LockConflictError ''''))
       | Inr (Some existing) \<Rightarrow>
           if LockID existing \<noteq> lockID
           then Done (Some (LockConflictError (LockID existing)))
           else call (lr_DeleteByFileID (ws_lockRepo s) fileID lockID)
                  (\<lambda>err. Done (wrapStaleLock err)))"

definition RefreshLock ::
  "'w go_runtime \<Rightarrow> 'w wopi_service \<Rightarrow> string \<Rightarrow> string \<Rightarrow> ('w, error option) prog" where
  "RefreshLock rt s fileID lockID =
     call (lr_FindByFileID (ws_lockRepo s) fileID) (\<lambda>r.
       case r of
         Inl err \<Rightarrow> Done (Some (Errorf ''check existing lock: %w'' [err]))
       | Inr None \<Rightarrow> Done (Some (LockConflictError ''''))
       | Inr (Some existing) \<Rightarrow>
           if LockID existing \<noteq> lockID
           then Done (Some (LockConflictError (LockID existing)))
           else call (rt_Now rt) (\<lambda>now.
                call (lr_RefreshExpiry (ws_lockRepo s) fileID lockID
                        (Some (existing\<lparr>lock_ExpiresAt := now + DefaultLockDuration\<rparr>)))
                  (\<lambda>err. Done (wrapStaleLock err))))"

definition HasActiveLock ::
  "'w wopi_service \<Rightarrow> string \<Rightarrow> ('w, error + bool \<times> lock option) prog" where
  "HasActiveLock s fileID =
     call (lr_FindByFileID (ws_lockRepo s) fileID) (\<lambda>r.
       case r of
         Inl err \<Rightarrow> Done (Inl (Errorf ''check existing lock: %w'' [err]))
       | Inr existing \<Rightarrow> Done (Inr (existing \<noteq> None, existing)))"

definition UnlockAndRelock ::
  "'w go_runtime \<Rightarrow> 'w wopi_service \<Rightarrow> string \<Rightarrow> string \<Rightarrow> string \<Rightarrow> ('w, error option) prog" where
  "UnlockAndRelock rt s fileID newLockID oldLockID =
     (if newLockID = '''' then Done (Some (Errorf ''new lock ID must not be empty'' []))
      else if oldLockID = '''' then Done (Some (Errorf ''old lock ID must not be empty'' []))
      else call (lr_FindByFileID (ws_lockRepo s) fileID) (\<lambda>r.
        case r of
          Inl err \<Rightarrow> Done (Some (Errorf ''check existing lock: %w'' [err]))
        | Inr None \<Rightarrow> Done (Some (LockConflictError ''''))
        | Inr (Some existing) \<Rightarrow>
            if LockID existing \<noteq> oldLockID
            then Done (Some (LockConflictError (LockID existing)))
            else call (rt_Now rt) (\<lambda>now.
                 call (lr_UpdateLockID (ws_lockRepo s) fileID oldLockID newLockID
                         \<lparr>lock_ID = 0, lock_FileID = '''', LockID = '''',
                          lock_ExpiresAt = now + DefaultLockDuration,
                          lock_CreatedAt = zero_time\<rparr>)
                   (\<lambda>err. Done (wrapStaleLock err)))))"

lemmas [svc_defs] =
  CheckFileInfo_def GetFile_def PutFile_def Lock_refetch_def Lock_takeover_def Lock_def
  Unlock_def RefreshLock_def HasActiveLock_def UnlockAndRelock_def

lemma wrapStaleLock_simps [simp]:
  "wrapStaleLock None = None"
  "wrapStaleLock (Some (Sentinel ErrStaleLock)) = Some (LockConflictError '''')"
  by (simp_all add: wrapStaleLock_def)

text \<open>The service touches the world through its ports only.\<close>

definition wopi_uses :: "'w file_service \<Rightarrow> 'w lock_repo \<Rightarrow> 'w logger \<Rightarrow> 'w wopi_service \<Rightarrow> bool" where
  "wopi_uses fileSvc lockRepo logger s =
     (ws_fileSvc s = fileSvc \<and> ws_lockRepo s = lockRepo \<and> ws_logger s = logger)"

lemma wopi_usesD:
  assumes "wopi_uses fileSvc lockRepo logger s"
  shows "ws_fileSvc s = fileSvc" "ws_lockRepo s = lockRepo" "ws_logger s = logger"
  using assms by (simp_all add: wopi_uses_def)

context ports_keep
begin

lemma keep_wopi:
  assumes "wopi_uses fileSvc lockRepo logger s"
  shows "prog_inv I (CheckFileInfo s t)" "prog_inv I (GetFile s t)"
    "prog_inv I (PutFile rt s t lid c)" "prog_inv I (HasActiveLock s f)"
    "prog_inv I (Unlock s f lid)" "prog_inv I (RefreshLock rt s f lid)"
    "prog_inv I (UnlockAndRelock rt s f new old)"
  by (auto simp: svc_defs wopi_usesD [OF assms] Let_def intro!: prog_inv_call keep_ops
      split: sum.splits option.splits)

lemma keep_Lock:
  assumes "wopi_uses fileSvc lockRepo logger s"
  shows "prog_inv I (Lock rt s f lid)"
proof -
  have "prog_inv I (Lock_takeover s f ex lid now)" for ex now
    by (auto simp: Lock_takeover_def Lock_refetch_def wopi_usesD [OF assms]
        intro!: prog_inv_call prog_inv_effect keep_ops split: sum.splits option.splits)
  then show ?thesis
    by (auto simp: Lock_def wopi_usesD [OF assms] intro!: prog_inv_call keep_ops
        split: sum.splits option.splits)
qed

end

end
