(* ===== verification/LockTable.thy ===== *)
theory LockTable
  imports System WopiService
begin

text \<open>
  The contract of the lock repository.  The tables' well-formedness (the primary
  keys and the \<^verbatim>\<open>UNIQUE\<close> constraints of the migrations) is an invariant that every
  statement keeps; under it the \<^verbatim>\<open>locks\<close> table is a partial map from file
  identifiers to locks, and each repository operation is an operation on that map.
  The laws are a locale, which the PostgreSQL repository interprets; the service
  proofs use the laws only.
\<close>

definition wf_locks :: "lock_row list \<Rightarrow> bool" where
  "wf_locks rows = (distinct (map row_file_id rows) \<and> distinct (map row_id rows))"

definition wf_tokens :: "token_row list \<Rightarrow> bool" where
  "wf_tokens rows = (distinct (map trow_token rows) \<and> distinct (map trow_id rows))"

definition wf_previews :: "preview_row list \<Rightarrow> bool" where
  "wf_previews rows = distinct (map prow_source_file_id rows)"

definition wf_db :: "'z pgdb_scheme \<Rightarrow> bool" where
  "wf_db w = (wf_locks (locks w) \<and> wf_tokens (access_tokens w)
              \<and> wf_previews (document_preview_cache w))"

definition row_at :: "lock_row list \<Rightarrow> string \<Rightarrow> lock_row option" where
  "row_at rows f = List.find (\<lambda>r. row_file_id r = f) rows"

definition lock_view :: "'z pgdb_scheme \<Rightarrow> string \<Rightarrow> lock option" where
  "lock_view w f = map_option lock_of_row (row_at (locks w) f)"

text \<open>The lock that the expiry filter of the read path lets through.\<close>

definition active :: "time \<Rightarrow> lock option \<Rightarrow> lock option" where
  "active now l =
     (case l of None \<Rightarrow> None | Some l \<Rightarrow> if lock_ExpiresAt l > now then Some l else None)"

text \<open>An environment whose database calls succeed.\<close>

definition fault_free :: "'e pg_env_scheme \<Rightarrow> 'e pg_env_scheme" where
  "fault_free env = env\<lparr>pg_fault := (\<lambda>_. NoFault)\<rparr>"

definition reliable :: "'e pg_env_scheme \<Rightarrow> bool" where
  "reliable env = (\<forall>n. pg_fault env n = NoFault)"

lemma fault_free_reliable: "reliable env \<Longrightarrow> fault_free env = env"
  by (cases env) (simp add: reliable_def fault_free_def fun_eq_iff)

text \<open>\<^verbatim>\<open>pgx\<close> reports \<^verbatim>\<open>ErrNoRows\<close> for an empty result only, never for a failure.\<close>

definition honest_faults :: "'e pg_env_scheme \<Rightarrow> bool" where
  "honest_faults env =
     (\<forall>n. case pg_fault env n of
            NoFault \<Rightarrow> True
          | FailBefore e \<Rightarrow> \<not> errors_Is e PgxErrNoRows
          | FailAfter e \<Rightarrow> \<not> errors_Is e PgxErrNoRows)"

text \<open>Compare-and-swap on a map of locks: zero rows matched is a stale lock.\<close>

definition cas_map ::
  "(lock \<Rightarrow> bool) \<Rightarrow> (lock \<Rightarrow> lock option) \<Rightarrow> (string \<Rightarrow> lock option) \<Rightarrow> string \<Rightarrow>
   error option \<times> (string \<Rightarrow> lock option)" where
  "cas_map P g m f =
     (case m f of
        None \<Rightarrow> (Some (Sentinel ErrStaleLock), m)
      | Some l \<Rightarrow> if P l then (None, m(f := g l)) else (Some (Sentinel ErrStaleLock), m))"

text \<open>
  Insert-or-replace, as the statement does it: a row that exists, expired or not,
  keeps its identity and its creation instant.
\<close>

definition upsert_map ::
  "(time \<Rightarrow> time) \<Rightarrow> lock \<Rightarrow> (string \<Rightarrow> lock option) \<Rightarrow> (string \<Rightarrow> lock option)" where
  "upsert_map tz l m =
     m(lock_FileID l \<mapsto>
        (case m (lock_FileID l) of
           None \<Rightarrow> l\<lparr>lock_ExpiresAt := tz (lock_ExpiresAt l), lock_CreatedAt := tz (lock_CreatedAt l)\<rparr>
         | Some l0 \<Rightarrow> l0\<lparr>LockID := LockID l, lock_ExpiresAt := tz (lock_ExpiresAt l)\<rparr>))"

definition fresh_id :: "(string \<Rightarrow> lock option) \<Rightarrow> uuid \<Rightarrow> bool" where
  "fresh_id m uid = (\<forall>f l. m f = Some l \<longrightarrow> lock_ID l \<noteq> uid)"

lemma row_at_Nil [simp]: "row_at [] f = None"
  by (simp add: row_at_def)

lemma row_at_Cons [simp]: "row_at (r # rows) f = (if row_file_id r = f then Some r else row_at rows f)"
  by (simp add: row_at_def)

lemma row_at_append: "row_at (xs @ ys) f = (case row_at xs f of None \<Rightarrow> row_at ys f | Some r \<Rightarrow> Some r)"
  by (induction xs) auto

lemma row_at_file: "row_at rows f = Some r \<Longrightarrow> row_file_id r = f \<and> r \<in> set rows"
  by (induction rows) (auto split: if_splits)

lemma row_at_None: "row_at rows f = None \<longleftrightarrow> f \<notin> row_file_id ` set rows"
  by (induction rows) auto

lemma row_at_map:
  "(\<And>r. row_file_id (g r) = row_file_id r) \<Longrightarrow> row_at (map g rows) f = map_option g (row_at rows f)"
  by (induction rows) auto

lemma wf_filter_file:
  "wf_locks rows \<Longrightarrow> filter (\<lambda>r. row_file_id r = f \<and> Q r) rows =
     (case row_at rows f of None \<Rightarrow> [] | Some r \<Rightarrow> if Q r then [r] else [])"
proof (induction rows)
  case Nil
  then show ?case by simp
next
  case (Cons a rows)
  then have wf: "wf_locks rows" and new: "row_file_id a \<notin> row_file_id ` set rows"
    by (auto simp: wf_locks_def)
  show ?case
  proof (cases "row_file_id a = f")
    case True
    with new have "row_at rows f = None" by (simp add: row_at_None)
    with Cons.IH [OF wf] True show ?thesis by simp
  next
    case False
    with Cons.IH [OF wf] show ?thesis by simp
  qed
qed

lemma row_at_delete:
  "wf_locks rows \<Longrightarrow> row_at (filter (\<lambda>r. \<not> (row_file_id r = f \<and> Q r)) rows) g =
     (if g = f then (case row_at rows f of None \<Rightarrow> None | Some r \<Rightarrow> if Q r then None else Some r)
      else row_at rows g)"
proof (induction rows)
  case Nil
  then show ?case by simp
next
  case (Cons a rows)
  then have wf: "wf_locks rows" and new: "row_file_id a \<notin> row_file_id ` set rows"
    by (auto simp: wf_locks_def)
  have "row_at rows (row_file_id a) = None" using new by (simp add: row_at_None)
  with Cons.IH [OF wf] show ?case by auto
qed

lemma row_at_filter_None: "row_at rows f = None \<Longrightarrow> row_at (filter P rows) f = None"
  by (auto simp: row_at_None)

text \<open>Every statement keeps the keys distinct.\<close>

lemma wf_locks_map:
  "(\<And>r. row_file_id (g r) = row_file_id r) \<Longrightarrow> (\<And>r. row_id (g r) = row_id r) \<Longrightarrow>
   wf_locks (map g rows) = wf_locks rows"
  by (simp add: wf_locks_def comp_def)

lemma wf_locks_filter: "wf_locks rows \<Longrightarrow> wf_locks (filter P rows)"
  by (simp add: wf_locks_def distinct_map_filter)

lemma wf_locks_append:
  "wf_locks rows \<Longrightarrow> row_file_id r \<notin> row_file_id ` set rows \<Longrightarrow> row_id r \<notin> row_id ` set rows \<Longrightarrow>
   wf_locks (rows @ [r])"
  by (auto simp: wf_locks_def)

lemma wf_sql_locks:
  assumes "wf_locks rows"
  shows "wf_locks (snd (sql_deleteExpiredLocks now rows))"
    "wf_locks (snd (sql_deleteLockByFileID fid lid now rows))"
    "wf_locks (snd (sql_takeoverLock env fid lid lid2 cr ex now rows))"
    "wf_locks (snd (sql_updateLockExpiry env fid lid ex now rows))"
    "wf_locks (snd (sql_updateLockIDAndExpiry env fid lid lid2 ex now rows))"
    "wf_locks (snd (sql_upsertLock env uid fid lid ex cr now rows))"
  using assms
  by (auto simp: sql_defs wf_locks_map wf_locks_filter list_ex_iff intro!: wf_locks_append)

lemma wf_sql_tokens:
  assumes "wf_tokens rows"
  shows "wf_tokens (snd (sql_deleteExpiredTokens now rows))"
    "wf_tokens (snd (sql_deleteTokenByID uid now rows))"
    "wf_tokens (snd (sql_insertToken env uid tok fid actor name perms ex cr now rows))"
  using assms
  by (auto simp: sql_defs wf_tokens_def distinct_map_filter list_ex_iff)

lemma wf_sql_previews:
  assumes "wf_previews rows"
  shows "wf_previews (snd (sql_upsertPreviewCache env src pre upd now rows))"
proof -
  let ?g = "\<lambda>r. if prow_source_file_id r = src
    then r\<lparr>prow_preview_file_id := pre, prow_source_updated_date := pg_tstz env upd\<rparr> else r"
  have "map prow_source_file_id (map ?g rows) = map prow_source_file_id rows"
    by (rule map_map_key) simp
  with assms show ?thesis
    by (auto simp: sql_defs wf_previews_def list_ex_iff simp del: map_map)
qed


lemma row_at_update:
  assumes "\<And>r. row_file_id (g r) = row_file_id r"
  shows "row_at (map (\<lambda>r. if row_file_id r = f \<and> Q r then g r else r) rows) =
     (case row_at rows f of
        None \<Rightarrow> row_at rows
      | Some r \<Rightarrow> if Q r then (row_at rows)(f \<mapsto> g r) else row_at rows)"
proof
  fix k
  have "row_at (map (\<lambda>r. if row_file_id r = f \<and> Q r then g r else r) rows) k =
      map_option (\<lambda>r. if row_file_id r = f \<and> Q r then g r else r) (row_at rows k)"
    by (rule row_at_map) (simp add: assms)
  then show "row_at (map (\<lambda>r. if row_file_id r = f \<and> Q r then g r else r) rows) k =
     (case row_at rows f of
        None \<Rightarrow> row_at rows
      | Some r \<Rightarrow> if Q r then (row_at rows)(f \<mapsto> g r) else row_at rows) k"
    by (cases "k = f"; cases "row_at rows k") (auto dest: row_at_file split: option.splits)
qed

lemma db_stmt_fault_free:
  "db_stmt (fault_free env) c stmt w =
     (fst (stmt (pg_now env (tick w)) (cell_get c w)),
      cell_put c (snd (stmt (pg_now env (tick w)) (cell_get c w))) (w\<lparr>tick := Suc (tick w)\<rparr>))"
  by (simp add: db_stmt_def fault_free_def Let_def split_beta)

lemma fault_free_sel [simp]:
  "pg_now (fault_free env) = pg_now env"
  "pg_tstz (fault_free env) = pg_tstz env"
  by (simp_all add: fault_free_def)

text \<open>
  The laws of \<^verbatim>\<open>port.LockRepository\<close>: \<open>view\<close> is the stored lock of each file,
  expired ones included, \<open>dbnow\<close> the database's clock, \<open>tz\<close> what a stored instant
  reads back as.
\<close>

locale lock_repository =
  fixes repo :: "'w lock_repo"
    and view :: "'w \<Rightarrow> string \<Rightarrow> lock option"
    and inv :: "'w \<Rightarrow> bool"
    and dbnow :: "'w \<Rightarrow> time"
    and tz :: "time \<Rightarrow> time"
  assumes find_result: "inv w \<Longrightarrow>
        fst (lr_FindByFileID repo f w) = Inr (active (dbnow w) (view w f))"
    and find_view: "inv w \<Longrightarrow> view (snd (lr_FindByFileID repo f w)) = view w"
    and find_inv: "inv w \<Longrightarrow> inv (snd (lr_FindByFileID repo f w))"
    and create_result: "inv w \<Longrightarrow> fresh_id (view w) (lock_ID l) \<Longrightarrow>
        fst (lr_Create repo (Some l) w) = None"
    and create_view: "inv w \<Longrightarrow> fresh_id (view w) (lock_ID l) \<Longrightarrow>
        view (snd (lr_Create repo (Some l) w)) = upsert_map tz l (view w)"
    and create_inv: "inv w \<Longrightarrow> inv (snd (lr_Create repo (Some l) w))"
    and refresh: "inv w \<Longrightarrow>
        (fst (lr_RefreshExpiry repo f lid (Some l) w), view (snd (lr_RefreshExpiry repo f lid (Some l) w))) =
        cas_map (\<lambda>x. LockID x = lid \<and> lock_ExpiresAt x > dbnow w)
          (\<lambda>x. Some (x\<lparr>lock_ExpiresAt := tz (lock_ExpiresAt l)\<rparr>)) (view w) f"
    and refresh_inv: "inv w \<Longrightarrow> inv (snd (lr_RefreshExpiry repo f lid (Some l) w))"
    and update: "inv w \<Longrightarrow>
        (fst (lr_UpdateLockID repo f lid lid' l w), view (snd (lr_UpdateLockID repo f lid lid' l w))) =
        cas_map (\<lambda>x. LockID x = lid \<and> lock_ExpiresAt x > dbnow w)
          (\<lambda>x. Some (x\<lparr>LockID := lid', lock_ExpiresAt := tz (lock_ExpiresAt l)\<rparr>)) (view w) f"
    and update_inv: "inv w \<Longrightarrow> inv (snd (lr_UpdateLockID repo f lid lid' l w))"
    and delete: "inv w \<Longrightarrow>
        (fst (lr_DeleteByFileID repo f lid w), view (snd (lr_DeleteByFileID repo f lid w))) =
        cas_map (\<lambda>x. LockID x = lid) (\<lambda>x. None) (view w) f"
    and delete_inv: "inv w \<Longrightarrow> inv (snd (lr_DeleteByFileID repo f lid w))"
    and takeover: "inv w \<Longrightarrow>
        (fst (lr_Takeover repo f lid lid' cr ex w), view (snd (lr_Takeover repo f lid lid' cr ex w))) =
        cas_map (\<lambda>x. LockID x = lid)
          (\<lambda>x. Some (x\<lparr>LockID := lid', lock_CreatedAt := tz cr, lock_ExpiresAt := tz ex\<rparr>)) (view w) f"
    and takeover_inv: "inv w \<Longrightarrow> inv (snd (lr_Takeover repo f lid lid' cr ex w))"
begin

text \<open>Of two compare-and-swaps on the same lock identifier the second is stale.\<close>

lemma second_takeover_stale:
  assumes "inv w" and "view w f = Some l" and "LockID l = lid" and "a \<noteq> lid"
  shows "fst (lr_Takeover repo f lid a cr ex w) = None"
    and "fst (lr_Takeover repo f lid b cr' ex' (snd (lr_Takeover repo f lid a cr ex w))) =
         Some (Sentinel ErrStaleLock)"
proof -
  let ?w1 = "snd (lr_Takeover repo f lid a cr ex w)"
  have v: "view ?w1 f = Some (l\<lparr>LockID := a, lock_CreatedAt := tz cr, lock_ExpiresAt := tz ex\<rparr>)"
    and "fst (lr_Takeover repo f lid a cr ex w) = None"
    using takeover [OF assms(1), of f lid a cr ex] assms(2,3) by (auto simp: cas_map_def)
  then show "fst (lr_Takeover repo f lid a cr ex w) = None" by simp
  have "inv ?w1" using assms(1) by (rule takeover_inv)
  from takeover [OF this, of f lid b cr' ex'] v assms(4)
  show "fst (lr_Takeover repo f lid b cr' ex' ?w1) = Some (Sentinel ErrStaleLock)"
    by (auto simp: cas_map_def)
qed

end

lemma snd_err [simp]:
  "snd (exec_err rw) = snd rw" "snd (cas_err rw) = snd rw" "snd (optional_row h rw') = snd rw'"
  by (auto simp: exec_err_def cas_err_def optional_row_def split: prod.splits sum.splits)

lemma snd_db_stmt_fault_free:
  "snd (db_stmt (fault_free env) locks_table stmt w) =
     w\<lparr>tick := Suc (tick w), locks := snd (stmt (pg_now env (tick w)) (locks w))\<rparr>"
  by (simp add: db_stmt_fault_free locks_table_def)

lemmas lock_repo_unfold =
  repo_defs db_stmt_fault_free sql_defs locks_table_def exec_err_def cas_err_def optional_row_def

lemma lock_view_rows: "lock_view w = map_option lock_of_row \<circ> row_at (locks w)"
  by (simp add: fun_eq_iff lock_view_def)

lemma lock_of_row_sel [simp]:
  "lock_ID (lock_of_row r) = row_id r"
  "lock_FileID (lock_of_row r) = row_file_id r"
  "LockID (lock_of_row r) = row_lock_id r"
  "lock_ExpiresAt (lock_of_row r) = row_expires_at r"
  "lock_CreatedAt (lock_of_row r) = row_created_at r"
  by (simp_all add: lock_of_row_def)

text \<open>A compare-and-swap statement is a compare-and-swap on the map.\<close>

lemma cas_update_view:
  assumes "wf_locks (locks w)"
    and "\<And>r. row_file_id (g r) = row_file_id r"
    and "\<And>r. G (lock_of_row r) = Some (lock_of_row (g r))"
    and "\<And>r. P (lock_of_row r) = Q r"
    and "locks w' = map (\<lambda>r. if row_file_id r = f \<and> Q r then g r else r) (locks w)"
    and "res = (if length (filter (\<lambda>r. row_file_id r = f \<and> Q r) (locks w)) = 0
                then Some (Sentinel ErrStaleLock) else None)"
  shows "(res, lock_view w') = cas_map P G (lock_view w) f"
  using assms(3,4,6)
  by (cases "row_at (locks w) f")
     (auto simp: lock_view_rows cas_map_def assms(5) row_at_update [OF assms(2)]
        wf_filter_file [OF assms(1)] fun_eq_iff)

lemma cas_delete_view:
  assumes "wf_locks (locks w)"
    and "\<And>r. P (lock_of_row r) = Q r"
    and "locks w' = filter (\<lambda>r. \<not> (row_file_id r = f \<and> Q r)) (locks w)"
    and "res = (if length (filter (\<lambda>r. row_file_id r = f \<and> Q r) (locks w)) = 0
                then Some (Sentinel ErrStaleLock) else None)"
  shows "(res, lock_view w') = cas_map P (\<lambda>_. None) (lock_view w) f"
  using assms(2,4)
  by (cases "row_at (locks w) f")
     (auto simp: lock_view_rows cas_map_def assms(3) row_at_delete [OF assms(1), simplified]
        wf_filter_file [OF assms(1)] fun_eq_iff)

lemma list_ex_file: "list_ex (\<lambda>r. row_file_id r = f) rows = (row_at rows f \<noteq> None)"
  by (auto simp: list_ex_iff row_at_None image_iff)

lemma fresh_id_row: "fresh_id (lock_view w) uid \<Longrightarrow> wf_locks (locks w) \<Longrightarrow> \<not> list_ex (\<lambda>r. row_id r = uid) (locks w)"
proof
  assume fresh: "fresh_id (lock_view w) uid" and wf: "wf_locks (locks w)"
    and "list_ex (\<lambda>r. row_id r = uid) (locks w)"
  then obtain r where r: "r \<in> set (locks w)" "row_id r = uid" by (auto simp: list_ex_iff)
  have "filter (\<lambda>x. row_file_id x = row_file_id r) (locks w) = [r]"
    using wf r(1) by (intro distinct_map_filter_unique) (auto simp: wf_locks_def)
  then have "row_at (locks w) (row_file_id r) = Some r"
    using wf_filter_file [OF wf, of "row_file_id r" "\<lambda>_. True"] by (auto split: option.splits)
  then have "lock_view w (row_file_id r) = Some (lock_of_row r)" by (simp add: lock_view_def)
  with fresh have "lock_ID (lock_of_row r) \<noteq> uid" unfolding fresh_id_def by blast
  with r(2) show False by simp
qed

lemma upsert_view:
  assumes wf: "wf_locks (locks w)" and fresh: "fresh_id (lock_view w) (lock_ID l)"
  shows "lock_view (snd (LockRepository_Create (fault_free env) (Some l) w)) =
           upsert_map (pg_tstz env) l (lock_view w)"
    and "fst (LockRepository_Create (fault_free env) (Some l) w) = None"
proof -
  let ?f = "lock_FileID l"
  let ?g = "\<lambda>r. r\<lparr>row_lock_id := LockID l, row_expires_at := pg_tstz env (lock_ExpiresAt l)\<rparr>"
  note new = fresh_id_row [OF fresh wf]
  note upd = row_at_update [where g = ?g and f = ?f and Q = "\<lambda>_. True" and rows = "locks w", simplified]
  show "lock_view (snd (LockRepository_Create (fault_free env) (Some l) w)) =
           upsert_map (pg_tstz env) l (lock_view w)"
    by (cases "row_at (locks w) ?f")
       (auto simp: lock_repo_unfold list_ex_file new upd lock_view_rows upsert_map_def fun_eq_iff
          row_at_append lock_of_row_def split: option.splits)
  show "fst (LockRepository_Create (fault_free env) (Some l) w) = None"
    by (auto simp: lock_repo_unfold list_ex_file new)
qed

interpretation pg_locks: lock_repository "LockRepository (fault_free env)" lock_view
    "\<lambda>w. wf_locks (locks w)" "\<lambda>w. pg_now env (tick w)" "pg_tstz env"
  for env :: "'e pg_env_scheme"
proof (unfold_locales, goal_cases)
  case (1 w f)
  then show ?case
    by (auto simp: lock_repo_unfold wf_filter_file lock_view_def active_def split: option.splits)
next
  case (2 w f)
  then show ?case by (simp add: lock_repo_unfold lock_view_rows split: list.splits)
next
  case (3 w f)
  then show ?case by (simp add: lock_repo_unfold split: list.splits)
next
  case (4 w l)
  then show ?case by (simp add: upsert_view)
next
  case (5 w l)
  then show ?case by (simp add: upsert_view)
next
  case (6 w l)
  then show ?case by (simp add: repo_defs snd_db_stmt_fault_free wf_sql_locks)
next
  case (7 w f lid l)
  then show ?case
    by (intro cas_update_view [where Q = "\<lambda>r. row_lock_id r = lid \<and> row_expires_at r > pg_now env (tick w)"
          and g = "\<lambda>r. r\<lparr>row_expires_at := pg_tstz env (lock_ExpiresAt l)\<rparr>"])
       (auto simp: lock_repo_unfold lock_of_row_def)
next
  case (8 w f lid l)
  then show ?case by (simp add: repo_defs snd_db_stmt_fault_free wf_sql_locks)
next
  case (9 w f lid lid' l)
  then show ?case
    by (intro cas_update_view [where Q = "\<lambda>r. row_lock_id r = lid \<and> row_expires_at r > pg_now env (tick w)"
          and g = "\<lambda>r. r\<lparr>row_lock_id := lid', row_expires_at := pg_tstz env (lock_ExpiresAt l)\<rparr>"])
       (auto simp: lock_repo_unfold lock_of_row_def)
next
  case (10 w f lid lid' l)
  then show ?case by (simp add: repo_defs snd_db_stmt_fault_free wf_sql_locks)
next
  case (11 w f lid)
  then show ?case
    by (intro cas_delete_view [where Q = "\<lambda>r. row_lock_id r = lid"])
       (auto simp: lock_repo_unfold)
next
  case (12 w f lid)
  then show ?case by (simp add: repo_defs snd_db_stmt_fault_free wf_sql_locks)
next
  case (13 w f lid lid' cr ex)
  then show ?case
    by (intro cas_update_view [where Q = "\<lambda>r. row_lock_id r = lid"
          and g = "\<lambda>r. r\<lparr>row_lock_id := lid', row_created_at := pg_tstz env cr,
                       row_expires_at := pg_tstz env ex\<rparr>"])
       (auto simp: lock_repo_unfold lock_of_row_def)
next
  case (14 w f lid lid' cr ex)
  then show ?case by (simp add: repo_defs snd_db_stmt_fault_free wf_sql_locks)
qed

lemma row_at_map_if:
  assumes "\<And>r. row_file_id (g r) = row_file_id r"
  shows "row_at (map (\<lambda>r. if P r then g r else r) rows) f =
    map_option (\<lambda>r. if P r then g r else r) (row_at rows f)"
  by (rule row_at_map) (simp add: assms)

text \<open>A statement, failing or not, leaves the table as it was or as the statement leaves it.\<close>

lemma db_stmt_locks_cases:
  "locks (snd (db_stmt env locks_table st w)) = locks w
   \<or> locks (snd (db_stmt env locks_table st w)) = snd (st (pg_now env (tick w)) (locks w))"
  by (auto simp: db_stmt_def locks_table_def Let_def split: prod.splits pg_fault.splits)

text \<open>A statement about one file leaves the rows of the others alone.\<close>

lemma row_at_filter_other:
  "(\<And>r. row_file_id r = g \<Longrightarrow> P r) \<Longrightarrow> row_at (filter P rows) g = row_at rows g"
  by (induction rows) auto

lemma sql_other_file:
  assumes "g \<noteq> f"
  shows "row_at (snd (sql_upsertLock env uid f lid ex cr now rows)) g = row_at rows g"
    "row_at (snd (sql_updateLockExpiry env f lid ex now rows)) g = row_at rows g"
    "row_at (snd (sql_updateLockIDAndExpiry env f lid lid2 ex now rows)) g = row_at rows g"
    "row_at (snd (sql_takeoverLock env f lid lid2 cr ex now rows)) g = row_at rows g"
    "row_at (snd (sql_deleteLockByFileID f lid now rows)) g = row_at rows g"
    "row_at (snd (sql_findLockByFileID f now rows)) g = row_at rows g"
  using assms
  by (cases "row_at rows g";
      auto simp: sql_defs row_at_append row_at_map_if row_at_filter_other split: option.splits dest: row_at_file)+

text \<open>
  Every port of the system keeps the tables well-formed: the repositories because
  their statements do, whether or not the call fails, the others because they do
  not touch the tables.
\<close>

lemma wf_db_stmt:
  "wf_db w \<Longrightarrow> (\<And>t. wf_locks (snd (st t (locks w)))) \<Longrightarrow> wf_db (snd (db_stmt env locks_table st w))"
  "wf_db w \<Longrightarrow> (\<And>t. wf_tokens (snd (st' t (access_tokens w)))) \<Longrightarrow>
     wf_db (snd (db_stmt env access_tokens_table st' w))"
  "wf_db w \<Longrightarrow> (\<And>t. wf_previews (snd (st'' t (document_preview_cache w)))) \<Longrightarrow>
     wf_db (snd (db_stmt env preview_table st'' w))"
  by (auto simp: db_stmt_def wf_db_def locks_table_def access_tokens_table_def preview_table_def
      split_beta Let_def split: pg_fault.splits)

lemma wf_sql_select:
  "wf_locks rows \<Longrightarrow> wf_locks (snd (sql_findLockByFileID f t rows))"
  "wf_tokens trows \<Longrightarrow> wf_tokens (snd (sql_findByToken tok t trows))"
  "wf_previews prows \<Longrightarrow> wf_previews (snd (sql_findPreviewCacheBySourceID src t prows))"
  by (simp_all add: sql_defs)

lemma wf_db_outside [simp]:
  "wf_db (advance w) = wf_db w"
  "wf_db (snd (outside reply ev w')) = wf_db w'"
  "wf_db (Logger e w') = wf_db w'"
  by (simp_all add: wf_db_def)

lemma wf_db_parts: "wf_db w \<Longrightarrow> wf_locks (locks w)" "wf_db w \<Longrightarrow> wf_tokens (access_tokens w)"
  "wf_db w \<Longrightarrow> wf_previews (document_preview_cache w)"
  by (simp_all add: wf_db_def)

interpretation wf_ports: ports_keep wf_db "GoRuntime env" Logger "LockRepository env"
    "TokenRepository env" "PreviewCacheRepository env" "FileServiceOutside env"
    "AuthServiceOutside env" "DiscoveryClientOutside env" "RendererOutside env" "PublisherOutside env"
  for env :: "'e sys_env_scheme"
  by unfold_locales
     (auto simp: repo_defs intro!: wf_db_stmt wf_sql_locks wf_sql_tokens wf_sql_previews wf_sql_select
        wf_db_parts split: option.splits sum.splits)

end
