(* ===== verification/GoURL.thy ===== *)
theory GoURL
  imports GoTime GoErrors "HOL-Library.Word"
begin

text \<open>
  The parts of \<^verbatim>\<open>net/url\<close>, \<^verbatim>\<open>encoding/base64\<close> and \<^verbatim>\<open>strings\<close> that the service uses to
  take a URL apart and to put one together: percent-encoding and its inverse with
  the modes of the library, \<^verbatim>\<open>url.Parse\<close> as far as the path and the raw query are
  concerned (with every way it can fail), and the unpadded URL alphabet of base64.
\<close>

abbreviation byte_of :: "char \<Rightarrow> nat" where "byte_of c \<equiv> of_char c"

definition is_digit :: "char \<Rightarrow> bool" where
  "is_digit c = (48 \<le> byte_of c \<and> byte_of c \<le> 57)"

definition is_alpha :: "char \<Rightarrow> bool" where
  "is_alpha c = ((65 \<le> byte_of c \<and> byte_of c \<le> 90) \<or> (97 \<le> byte_of c \<and> byte_of c \<le> 122))"

definition is_alnum :: "char \<Rightarrow> bool" where
  "is_alnum c = (is_alpha c \<or> is_digit c)"

definition ishex :: "char \<Rightarrow> bool" where
  "ishex c = (is_digit c \<or> (97 \<le> byte_of c \<and> byte_of c \<le> 102) \<or> (65 \<le> byte_of c \<and> byte_of c \<le> 70))"

definition unhex :: "char \<Rightarrow> nat" where
  "unhex c =
     (if is_digit c then byte_of c - 48
      else if 97 \<le> byte_of c \<and> byte_of c \<le> 102 then byte_of c - 97 + 10
      else byte_of c - 65 + 10)"

definition upperhex :: "nat \<Rightarrow> char" where
  "upperhex n = char_of (if n < 10 then 48 + n else 55 + n :: nat)"

datatype url_encoding = encodePath | encodeUserPassword | encodeHost | encodeZone
  | encodeQueryComponent | encodeFragment

definition shouldEscape :: "url_encoding \<Rightarrow> char \<Rightarrow> bool" where
  "shouldEscape mode c =
     (if is_alnum c then False
      else if mode \<in> {encodeHost, encodeZone} \<and>
              c \<in> set ''!$&'' \<union> {CHR 0x27} \<union> set ''()*+,;=:[]<>'' \<union> {CHR 0x22} then False
      else if c \<in> set ''-_.~'' then False
      else if c \<in> set ''$&+,/:;=?@'' then
        (case mode of
           encodePath \<Rightarrow> c = CHR ''?''
         | encodeUserPassword \<Rightarrow> c \<in> set ''@/?:''
         | encodeQueryComponent \<Rightarrow> True
         | encodeFragment \<Rightarrow> False
         | _ \<Rightarrow> True)
      else if mode = encodeFragment \<and> c \<in> set ''!()*'' then False
      else True)"

definition percent :: "char \<Rightarrow> string" where
  "percent c = [CHR ''%'', upperhex (byte_of c div 16), upperhex (byte_of c mod 16)]"

definition QueryEscape :: "string \<Rightarrow> string" where
  "QueryEscape s =
     concat (map (\<lambda>c. if c = CHR '' '' then ''+''
                      else if shouldEscape encodeQueryComponent c then percent c else [c]) s)"

definition escape_error :: error where "escape_error = OpaqueError ''invalid URL escape''"
definition host_error :: error where "host_error = OpaqueError ''invalid character in host name''"

fun unescape :: "url_encoding \<Rightarrow> string \<Rightarrow> error + string" where
  "unescape mode [] = Inr []"
| "unescape mode (c # s) =
     (if c = CHR ''%'' then
        (case s of
           h # l # rest \<Rightarrow>
             if \<not> ishex h \<or> \<not> ishex l then Inl escape_error
             else if mode = encodeHost \<and> unhex h < 8 \<and> [h, l] \<noteq> ''25'' then Inl escape_error
             else if mode = encodeZone \<and> [h, l] \<noteq> ''25'' \<and> unhex h * 16 + unhex l \<noteq> 32
                     \<and> shouldEscape encodeHost (char_of (unhex h * 16 + unhex l)) then Inl escape_error
             else map_sum id (\<lambda>r. char_of (unhex h * 16 + unhex l) # r) (unescape mode rest)
         | _ \<Rightarrow> Inl escape_error)
      else if c = CHR ''+'' \<and> mode = encodeQueryComponent
        then map_sum id (\<lambda>r. CHR '' '' # r) (unescape mode s)
      else if mode \<in> {encodeHost, encodeZone} \<and> byte_of c < 128 \<and> shouldEscape mode c
        then Inl host_error
      else map_sum id (\<lambda>r. c # r) (unescape mode s))"

definition QueryUnescape :: "string \<Rightarrow> error + string" where
  "QueryUnescape = unescape encodeQueryComponent"

text \<open>\<^verbatim>\<open>strings.Cut\<close> at a byte: what is before and after its first occurrence.\<close>

definition Cut :: "char \<Rightarrow> string \<Rightarrow> string \<times> string \<times> bool" where
  "Cut c s =
     (case dropWhile (\<lambda>x. x \<noteq> c) s of
        [] \<Rightarrow> (s, [], False)
      | _ # rest \<Rightarrow> (takeWhile (\<lambda>x. x \<noteq> c) s, rest, True))"

text \<open>\<^verbatim>\<open>strings.LastIndexByte\<close> with the parts around it.\<close>

definition Cut_last :: "char \<Rightarrow> string \<Rightarrow> (string \<times> string) option" where
  "Cut_last c s =
     (case dropWhile (\<lambda>x. x \<noteq> c) (rev s) of
        [] \<Rightarrow> None
      | _ # before \<Rightarrow> Some (rev before, rev (takeWhile (\<lambda>x. x \<noteq> c) (rev s))))"

fun IndexByte :: "string \<Rightarrow> char \<Rightarrow> nat option" where
  "IndexByte [] c = None"
| "IndexByte (x # xs) c = (if x = c then Some 0 else map_option Suc (IndexByte xs c))"

fun index_substring :: "string \<Rightarrow> string \<Rightarrow> nat option" where
  "index_substring [] p = (if p = [] then Some 0 else None)"
| "index_substring (x # xs) p =
     (if HasPrefix (x # xs) p then Some 0 else map_option Suc (index_substring xs p))"

definition containsCTL :: "string \<Rightarrow> bool" where
  "containsCTL s = list_ex (\<lambda>c. byte_of c < 32 \<or> byte_of c = 127) s"

text \<open>\<^verbatim>\<open>getScheme\<close>: the scheme and what follows it; \<open>i0\<close> says that no byte was read yet.\<close>

fun getScheme :: "string \<Rightarrow> bool \<Rightarrow> string \<Rightarrow> string \<Rightarrow> error + string \<times> string" where
  "getScheme raw i0 acc [] = Inr ([], raw)"
| "getScheme raw i0 acc (c # cs) =
     (if is_alpha c then getScheme raw False (acc @ [c]) cs
      else if is_digit c \<or> c \<in> set ''+-.''
        then (if i0 then Inr ([], raw) else getScheme raw False (acc @ [c]) cs)
      else if c = CHR '':''
        then (if i0 then Inl (OpaqueError ''missing protocol scheme'') else Inr (acc, cs))
      else Inr ([], raw))"

definition validOptionalPort :: "string \<Rightarrow> bool" where
  "validOptionalPort p = (case p of [] \<Rightarrow> True | c # ds \<Rightarrow> c = CHR '':'' \<and> list_all is_digit ds)"

definition validUserinfo :: "string \<Rightarrow> bool" where
  "validUserinfo s = list_all (\<lambda>c. is_alnum c \<or> c \<in> set ''-._:~!$&'' \<union> {CHR 0x27} \<union> set ''()*+,;=%@'') s"

definition to_lower :: "char \<Rightarrow> char" where
  "to_lower c = (if 65 \<le> byte_of c \<and> byte_of c \<le> 90 then char_of (byte_of c + 32 :: nat) else c)"

text \<open>
  \<^verbatim>\<open>parseHost\<close> of Go 1.26: a second colon outside brackets is refused unless the scheme is
  PostgreSQL's.  That the bracketed text is an IPv6 address is not checked here.
\<close>

definition parseHost :: "string \<Rightarrow> string \<Rightarrow> error + string" where
  "parseHost scheme host =
     (if HasPrefix host ''[''
      then (case Cut_last (CHR '']'') host of
              None \<Rightarrow> Inl (OpaqueError ''missing closing bracket in host'')
            | Some (before, colonPort) \<Rightarrow>
                if \<not> validOptionalPort colonPort then Inl (OpaqueError ''invalid port after host'')
                else (case index_substring before ''%25'' of
                        Some z \<Rightarrow>
                          bind_result (unescape encodeHost (take z before)) (\<lambda>host1.
                          bind_result (unescape encodeZone (drop z before)) (\<lambda>host2.
                          bind_result (unescape encodeHost ('']'' @ colonPort)) (\<lambda>host3.
                            Inr (host1 @ host2 @ host3))))
                      | None \<Rightarrow> unescape encodeHost host))
      else (let (first, _, found) = Cut (CHR '':'') host;
                port = (if scheme \<in> {''postgresql'', ''postgres''}
                        then (case Cut_last (CHR '':'') host of Some (_, p) \<Rightarrow> CHR '':'' # p | None \<Rightarrow> [])
                        else drop (length first) host)
            in if found \<and> \<not> validOptionalPort port then Inl (OpaqueError ''invalid port after host'')
               else unescape encodeHost host))"

definition parseAuthority :: "string \<Rightarrow> string \<Rightarrow> error + string" where
  "parseAuthority scheme authority =
     (case Cut_last (CHR ''@'') authority of
        None \<Rightarrow> parseHost scheme authority
      | Some (userinfo, host) \<Rightarrow>
          bind_result (parseHost scheme host) (\<lambda>h.
            if \<not> validUserinfo userinfo then Inl (OpaqueError ''net/url: invalid userinfo'')
            else (let (user, pass, found) = Cut (CHR '':'') userinfo
                  in if found
                     then bind_result (unescape encodeUserPassword user) (\<lambda>_.
                          bind_result (unescape encodeUserPassword pass) (\<lambda>_. Inr h))
                     else bind_result (unescape encodeUserPassword userinfo) (\<lambda>_. Inr h))))"

text \<open>The parts of a parsed URL that the repository reads.\<close>

record url =
  url_Scheme :: string
  url_Host :: string
  url_Path :: string
  url_RawQuery :: string

definition parse_rest :: "string \<Rightarrow> string \<Rightarrow> string \<Rightarrow> error + url" where
  "parse_rest scheme rest rawQuery =
     (let authority_present = (if scheme \<noteq> [] then True else \<not> HasPrefix rest ''///'')
                              \<and> HasPrefix rest ''//'';
          after = drop 2 rest;
          authority = takeWhile (\<lambda>c. c \<noteq> CHR ''/'') after;
          path = (if authority_present then dropWhile (\<lambda>c. c \<noteq> CHR ''/'') after else rest)
      in bind_result (if authority_present then parseAuthority scheme authority else Inr '''') (\<lambda>host.
         bind_result (unescape encodePath path) (\<lambda>p.
           Inr \<lparr>url_Scheme = scheme, url_Host = host, url_Path = p, url_RawQuery = rawQuery\<rparr>)))"

definition parse_no_fragment :: "string \<Rightarrow> error + url" where
  "parse_no_fragment raw =
     (if containsCTL raw then Inl (OpaqueError ''invalid control character in URL'')
      else if raw = ''*'' then Inr \<lparr>url_Scheme = '''', url_Host = '''', url_Path = ''*'', url_RawQuery = ''''\<rparr>
      else bind_result (getScheme raw True [] raw) (\<lambda>(scheme0, rest0).
               (let scheme = map to_lower scheme0;
                    (rest, rawQuery) =
                      (if HasSuffix rest0 ''?'' \<and> length (filter (\<lambda>c. c = CHR ''?'') rest0) = 1
                       then (TrimSuffix rest0 ''?'', '''')
                       else let (a, b, _) = Cut (CHR ''?'') rest0 in (a, b))
                in if \<not> HasPrefix rest ''/'' \<and> scheme \<noteq> []
                   then Inr \<lparr>url_Scheme = scheme, url_Host = '''', url_Path = '''', url_RawQuery = rawQuery\<rparr>
                   else if \<not> HasPrefix rest ''/''
                           \<and> CHR '':'' \<in> set (takeWhile (\<lambda>c. c \<noteq> CHR ''/'') rest)
                   then Inl (OpaqueError ''first path segment in URL cannot contain colon'')
                   else parse_rest scheme rest rawQuery)))"

definition url_Parse :: "string \<Rightarrow> error + url" where
  "url_Parse raw =
     (let (u, frag, _) = Cut (CHR ''#'') raw
      in case parse_no_fragment u of
           Inl e \<Rightarrow> Inl (Errorf ''parse'' [e])
         | Inr r \<Rightarrow> (case unescape encodeFragment frag of
                       Inl e \<Rightarrow> Inl (Errorf ''parse'' [e])
                     | Inr _ \<Rightarrow> Inr r))"

text \<open>\<^verbatim>\<open>base64.RawURLEncoding.EncodeToString\<close>.\<close>

definition base64_alphabet :: string where
  "base64_alphabet =
     ''ABCDEFGHIJKLMNOPQRSTUVWXYZabcdefghijklmnopqrstuvwxyz0123456789-_''"

definition b64 :: "nat \<Rightarrow> char" where
  "b64 n = base64_alphabet ! (n mod 64)"

fun RawURLEncode :: "8 word list \<Rightarrow> string" where
  "RawURLEncode [] = []"
| "RawURLEncode [a] = [b64 (unat a div 4), b64 (unat a * 16)]"
| "RawURLEncode [a, b] =
     [b64 (unat a div 4), b64 (unat a * 16 + unat b div 16), b64 (unat b * 4)]"
| "RawURLEncode (a # b # c # rest) =
     b64 (unat a div 4) # b64 (unat a * 16 + unat b div 16) # b64 (unat b * 4 + unat c div 64)
     # b64 (unat c) # RawURLEncode rest"

text \<open>What \<^verbatim>\<open>QueryEscape\<close> writes for one byte.\<close>

definition escape_byte :: "char \<Rightarrow> string" where
  "escape_byte c = (if c = CHR '' '' then ''+''
                    else if shouldEscape encodeQueryComponent c then percent c else [c])"

lemma QueryEscape_simps [simp]:
  "QueryEscape [] = []"
  "QueryEscape (c # s) = escape_byte c @ QueryEscape s"
  by (simp_all add: QueryEscape_def escape_byte_def)

lemma byte_upperhex: "n < 16 \<Longrightarrow> byte_of (upperhex n) = (if n < 10 then 48 + n else 55 + n)"
  by (simp add: upperhex_def)

lemma upperhex_inverse: "n < 16 \<Longrightarrow> ishex (upperhex n) \<and> unhex (upperhex n) = n"
  by (auto simp: byte_upperhex ishex_def unhex_def is_digit_def)

lemma byte_less: "byte_of c < 256"
  using nat_of_char_less_256 by simp

lemma nibble_less: "byte_of c div 16 < 16" "byte_of c mod 16 < 16"
  using byte_less [of c] by linarith+

lemma unescape_percent:
  "unescape encodeQueryComponent (percent c @ s) = map_sum id ((#) c) (unescape encodeQueryComponent s)"
proof -
  have "char_of (byte_of c div 16 * 16 + byte_of c mod 16) = c"
    by simp
  with upperhex_inverse [OF nibble_less(1) [of c]] upperhex_inverse [OF nibble_less(2) [of c]] show ?thesis
    by (simp add: percent_def)
qed

lemma unescape_byte:
  "unescape encodeQueryComponent (escape_byte c @ s) =
     map_sum id ((#) c) (unescape encodeQueryComponent s)"
proof (cases "shouldEscape encodeQueryComponent c")
  case True
  then show ?thesis by (simp add: escape_byte_def unescape_percent)
next
  case False
  then have "c \<noteq> CHR ''%''" and "c \<noteq> CHR ''+''"
    by (auto simp: shouldEscape_def is_alnum_def is_alpha_def is_digit_def)
  with False show ?thesis by (simp add: escape_byte_def)
qed

lemma QueryUnescape_QueryEscape: "QueryUnescape (QueryEscape s) = Inr s"
  by (induction s) (simp_all add: QueryUnescape_def unescape_byte)

text \<open>The bytes an escaped value is made of: none of them separates or ends a parameter.\<close>

definition query_safe :: "char \<Rightarrow> bool" where
  "query_safe c = (is_alnum c \<or> c \<in> set ''-_.~%+'')"

lemma upperhex_safe: "n < 16 \<Longrightarrow> query_safe (upperhex n)"
  by (auto simp: byte_upperhex query_safe_def is_alnum_def is_alpha_def is_digit_def)

lemma escape_byte_safe: "x \<in> set (escape_byte c) \<Longrightarrow> query_safe x"
proof -
  assume x: "x \<in> set (escape_byte c)"
  have "x \<in> set (percent c) \<Longrightarrow> query_safe x"
    by (auto simp: percent_def upperhex_safe nibble_less) (simp add: query_safe_def)
  moreover have "\<not> shouldEscape encodeQueryComponent c \<Longrightarrow> query_safe c"
    by (auto simp: shouldEscape_def query_safe_def split: if_splits)
  ultimately show ?thesis using x by (auto simp: escape_byte_def query_safe_def split: if_splits)
qed

lemma QueryEscape_safe: "x \<in> set (QueryEscape s) \<Longrightarrow> query_safe x"
  by (induction s) (auto dest: escape_byte_safe)

lemma query_safe_separators:
  "\<not> query_safe (CHR ''&'')" "\<not> query_safe (CHR ''='')" "\<not> query_safe (CHR ''#'')"
  "\<not> query_safe (CHR ''?'')" "\<not> query_safe (CHR ''<'')" "\<not> query_safe (CHR '' '')"
  "\<not> query_safe (CHR '';'')"
  by (simp_all add: query_safe_def is_alnum_def is_alpha_def is_digit_def)

definition url_alphabet :: "char \<Rightarrow> bool" where
  "url_alphabet c = (is_alnum c \<or> c \<in> set ''-_'')"

lemma b64_alphabet [simp]: "url_alphabet (b64 n)"
proof -
  have "\<forall>c\<in>set base64_alphabet. url_alphabet c"
    by (simp add: base64_alphabet_def url_alphabet_def is_alnum_def is_alpha_def is_digit_def)
  moreover have "b64 n \<in> set base64_alphabet"
    unfolding b64_def by (rule nth_mem) (simp add: base64_alphabet_def)
  ultimately show ?thesis by blast
qed

lemma RawURLEncode_chars: "x \<in> set (RawURLEncode bs) \<Longrightarrow> url_alphabet x"
  by (induction bs rule: RawURLEncode.induct) auto

lemma QueryEscape_id: "(\<And>x. x \<in> set s \<Longrightarrow> is_alnum x \<or> x \<in> set ''-_.~'') \<Longrightarrow> QueryEscape s = s"
proof (induction s)
  case (Cons c s)
  then have "is_alnum c \<or> c \<in> set ''-_.~''" by simp
  then have "\<not> shouldEscape encodeQueryComponent c" and "c \<noteq> CHR '' ''"
    by (auto simp: shouldEscape_def) (simp add: is_alnum_def is_alpha_def is_digit_def)
  then have "escape_byte c = [c]" by (simp add: escape_byte_def)
  with Cons show ?case by simp
qed simp

lemma QueryEscape_RawURLEncode: "QueryEscape (RawURLEncode bs) = RawURLEncode bs"
  by (rule QueryEscape_id) (auto dest!: RawURLEncode_chars simp: url_alphabet_def)

lemma b64_inject: "b64 m = b64 n \<longleftrightarrow> m mod 64 = n mod 64"
proof -
  have "distinct base64_alphabet" by code_simp
  moreover have "length base64_alphabet = 64" by (simp add: base64_alphabet_def)
  ultimately show ?thesis unfolding b64_def by (simp add: nth_eq_iff_index_eq)
qed

text \<open>The encoding loses nothing: the sextets determine the bytes.\<close>

lemma byte_word_less: "unat (a :: 8 word) < 256"
  using unsigned_less [where 'a = nat, of a] by simp

lemma shifted_mod:
  assumes "(y::nat) < k" and "0 < m"
  shows "(x * k + y) mod (m * k) = x mod m * k + y"
proof -
  have "x * k + y = (x div m) * (m * k) + (x mod m * k + y)"
    using div_mult_mod_eq [of x m] by (metis add.assoc add_mult_distrib mult.assoc)
  moreover have "x mod m * k + y < m * k"
  proof -
    have "Suc (x mod m) * k \<le> m * k" using assms(2) by (intro mult_le_mono1) (simp add: Suc_leI)
    with assms(1) show ?thesis by simp
  qed
  ultimately show ?thesis by (metis mod_mult_self3 mod_less)
qed

lemma mixed_radix_inject:
  assumes "(y::nat) < k" "y' < k" and "z * k + y = z' * k + y'"
  shows "z = z' \<and> y = y'"
proof -
  have "(z * k + y) div k = z" "(z' * k + y') div k = z'" using assms(1,2) by auto
  with assms(3) have "z = z'" by simp
  with assms(3) show ?thesis by simp
qed

lemma sextets_inject:
  assumes "(x::nat) div m = x' div m" and "y < k" "y' < k" "0 < m"
    and "(x * k + y) mod (m * k) = (x' * k + y') mod (m * k)"
  shows "x = x' \<and> y = y'"
proof -
  from assms have "x mod m = x' mod m \<and> y = y'"
    by (intro mixed_radix_inject [where k = k]) (simp_all add: shifted_mod)
  with assms(1) show ?thesis by (metis div_mult_mod_eq)
qed

lemma sextet_first:
  assumes "(x::nat) < 256" "x' < 256" "y < 16" "y' < 16"
    and "x div 4 mod 64 = x' div 4 mod 64" and "(x * 16 + y) mod 64 = (x' * 16 + y') mod 64"
  shows "x = x' \<and> y = y'"
  using sextets_inject [of x 4 x' y 16 y'] assms by simp

lemma sextet_second:
  assumes "(y::nat) < 4" "y' < 4" "x div 16 = x' div 16" and "(x * 4 + y) mod 64 = (x' * 4 + y') mod 64"
  shows "x = x' \<and> y = y'"
  using sextets_inject [of x 16 x' y 4 y'] assms by simp

lemma sextet_third: "(x::nat) div 64 = x' div 64 \<Longrightarrow> x mod 64 = x' mod 64 \<Longrightarrow> x = x'"
  by (metis div_mult_mod_eq)

lemma div_16_less: "unat (b :: 8 word) div 16 < 16" and div_64_less: "unat (b :: 8 word) div 64 < 4"
  using byte_word_less [of b] by linarith+

lemma word_eq_unat: "unat a = unat b \<Longrightarrow> a = b"
  by (rule unsigned_word_eqI)

lemma RawURLEncode_inject:
  "length bs = length cs \<Longrightarrow> RawURLEncode bs = RawURLEncode cs \<Longrightarrow> bs = cs"
proof (induction bs arbitrary: cs rule: RawURLEncode.induct)
  case 1
  then show ?case by simp
next
  case (2 a)
  then obtain a' where cs: "cs = [a']" by (auto simp: Suc_length_conv)
  from 2 have "unat a = unat a'"
    using sextet_first [of "unat a" "unat a'" 0 0] byte_word_less by (simp add: cs b64_inject)
  with cs show ?case by (simp add: word_eq_unat)
next
  case (3 a b)
  then obtain a' b' where cs: "cs = [a', b']" by (cases cs rule: RawURLEncode.cases) auto
  from 3 have "unat a = unat a' \<and> unat b div 16 = unat b' div 16"
    by (intro sextet_first) (simp_all add: cs b64_inject byte_word_less div_16_less)
  moreover from this 3 have "unat b = unat b'"
    using sextet_second [of 0 0 "unat b" "unat b'"] by (simp add: cs b64_inject)
  ultimately show ?case using cs by (simp add: word_eq_unat)
next
  case (4 a b c rest)
  then obtain a' b' c' rest' where cs: "cs = a' # b' # c' # rest'"
    by (cases cs rule: RawURLEncode.cases) auto
  from 4 have "unat a = unat a' \<and> unat b div 16 = unat b' div 16"
    by (intro sextet_first) (simp_all add: cs b64_inject byte_word_less div_16_less)
  moreover from this 4 have "unat b = unat b' \<and> unat c div 64 = unat c' div 64"
    by (intro sextet_second) (simp_all add: cs b64_inject byte_word_less div_64_less)
  moreover from this 4 have "unat c = unat c'"
    using sextet_third [of "unat c" "unat c'"] by (simp add: cs b64_inject)
  moreover from 4 have "rest = rest'" by (simp add: cs)
  ultimately show ?case using cs by (simp add: word_eq_unat)
qed

lemma RawURLEncode_length: "length (RawURLEncode bs) = (length bs * 4 + 2) div 3"
  by (induction bs rule: RawURLEncode.induct) auto

end
