(* ===== verification/GoStrconv.thy ===== *)
theory GoStrconv
  imports GoURL
begin

text \<open>
  Numbers and durations read from strings: \<^verbatim>\<open>strconv.ParseInt\<close>, \<^verbatim>\<open>strconv.ParseUint\<close>,
  \<^verbatim>\<open>strconv.Atoi\<close> and \<^verbatim>\<open>time.ParseDuration\<close>, and the wrap-around of signed 64-bit
  arithmetic.
\<close>

definition wrap64 :: "int \<Rightarrow> int" where
  "wrap64 x = (x + 2 ^ 63) mod 2 ^ 64 - 2 ^ 63"

text \<open>\<^verbatim>\<open>strconv.ParseInt(s, 10, 64)\<close>.\<close>

definition digits_value :: "string \<Rightarrow> int" where
  "digits_value ds = foldl (\<lambda>n c. n * 10 + (int (byte_of c) - 48)) 0 ds"

definition ParseInt64 :: "string \<Rightarrow> int option" where
  "ParseInt64 s =
     (let neg = HasPrefix s ''-'';
          ds = (if HasPrefix s ''-'' \<or> HasPrefix s ''+'' then tl s else s);
          v = (if neg then - digits_value ds else digits_value ds)
      in if ds = '''' \<or> \<not> list_all is_digit ds then None
         else if - (2 ^ 63) \<le> v \<and> v < 2 ^ 63 then Some v else None)"

text \<open>\<^verbatim>\<open>strconv.Atoi\<close> on a 64-bit platform and \<^verbatim>\<open>strconv.ParseUint(s, 10, 32)\<close>.\<close>

definition Atoi :: "string \<Rightarrow> error + int" where
  "Atoi s = (case ParseInt64 s of Some v \<Rightarrow> Inr v | None \<Rightarrow> Inl (OpaqueError ''strconv.Atoi''))"

definition ParseUint32 :: "string \<Rightarrow> error + nat" where
  "ParseUint32 s =
     (if s = '''' \<or> \<not> list_all is_digit s \<or> \<not> digits_value s < 2 ^ 32
      then Inl (OpaqueError ''strconv.ParseUint'') else Inr (nat (digits_value s)))"

text \<open>
  \<^verbatim>\<open>time.ParseDuration\<close>.  The floating-point product that turns a fraction into whole
  nanoseconds is the argument \<open>frac\<close>; the rest is 64-bit unsigned arithmetic with its
  overflow checks.
\<close>

fun leadingInt :: "int \<Rightarrow> string \<Rightarrow> (int \<times> string) option" where
  "leadingInt x [] = Some (x, [])"
| "leadingInt x (c # s) =
     (if \<not> is_digit c then Some (x, c # s)
      else if x > 2 ^ 63 div 10 then None
      else let x' = x * 10 + (int (byte_of c) - 48)
           in if x' > 2 ^ 63 then None else leadingInt x' s)"

fun leadingFraction :: "int \<Rightarrow> int \<Rightarrow> bool \<Rightarrow> string \<Rightarrow> int \<times> int \<times> string" where
  "leadingFraction x scale overflow [] = (x, scale, [])"
| "leadingFraction x scale overflow (c # s) =
     (if \<not> is_digit c then (x, scale, c # s)
      else if overflow \<or> x > (2 ^ 63 - 1) div 10 then leadingFraction x scale True s
      else let y = x * 10 + (int (byte_of c) - 48)
           in if y > 2 ^ 63 then leadingFraction x scale True s
              else leadingFraction y (scale * 10) False s)"

definition unitMap :: "string \<Rightarrow> int option" where
  "unitMap = [''ns'' \<mapsto> nanosecond, ''us'' \<mapsto> 1000, [CHR 0xC2, CHR 0xB5, CHR ''s''] \<mapsto> 1000,
     [CHR 0xCE, CHR 0xBC, CHR ''s''] \<mapsto> 1000, ''ms'' \<mapsto> 1000000, ''s'' \<mapsto> second, ''m'' \<mapsto> minute, ''h'' \<mapsto> hour]"

definition unit_stop :: "char \<Rightarrow> bool" where
  "unit_stop c = (c = CHR ''.'' \<or> is_digit c)"

text \<open>One component: number, optional fraction, unit.\<close>

definition duration_part :: "(int \<Rightarrow> int \<Rightarrow> int \<Rightarrow> int) \<Rightarrow> string \<Rightarrow> (int \<times> string) option" where
  "duration_part frac s =
     (if s = '''' \<or> \<not> unit_stop (hd s) then None
      else case leadingInt 0 s of
        None \<Rightarrow> None
      | Some (v, s1) \<Rightarrow>
          (let pre = (length s1 \<noteq> length s);
               dot = (HasPrefix s1 ''.'');
               (f, scale, s2) = (if dot then leadingFraction 0 1 False (tl s1) else (0, 1, s1));
               post = (dot \<and> length s2 \<noteq> length (tl s1));
               u = takeWhile (\<lambda>c. \<not> unit_stop c) s2;
               s3 = dropWhile (\<lambda>c. \<not> unit_stop c) s2
           in if \<not> pre \<and> \<not> post \<or> u = '''' then None
              else case unitMap u of
                None \<Rightarrow> None
              | Some unit \<Rightarrow>
                  if v > 2 ^ 63 div unit then None
                  else let v' = (if f > 0 then v * unit + frac f unit scale else v * unit)
                       in if v' > 2 ^ 63 then None else Some (v', s3)))"

lemma leadingInt_length: "leadingInt x s = Some (v, s') \<Longrightarrow> length s' \<le> length s"
  by (induction x s rule: leadingInt.induct) (auto simp: Let_def split: if_splits)

lemma leadingFraction_length: "leadingFraction x sc b s = (f, sc', s') \<Longrightarrow> length s' \<le> length s"
proof (induction x sc b s rule: leadingFraction.induct)
  case (2 x scale overflow c s)
  show ?case
    using "2.prems" "2.IH"(1) "2.IH"(2) [OF _ _ refl] "2.IH"(3) [OF _ _ refl]
    by (auto simp: Let_def split: if_splits)
qed simp

lemma dropWhile_shorter: "takeWhile P xs \<noteq> [] \<Longrightarrow> length (dropWhile P xs) < length xs"
  by (cases xs) (auto simp: le_imp_less_Suc length_dropWhile_le split: if_splits)

lemma duration_part_length:
  assumes "duration_part frac s = Some (v, s')"
  shows "length s' < length s"
proof -
  obtain n s1 where s1: "leadingInt 0 s = Some (n, s1)"
    using assms by (auto simp: duration_part_def split: if_splits option.splits)
  let ?s2 = "snd (snd (if HasPrefix s1 ''.'' then leadingFraction 0 1 False (tl s1) else (0, 1, s1)))"
  have "takeWhile (\<lambda>c. \<not> unit_stop c) ?s2 \<noteq> []" and "s' = dropWhile (\<lambda>c. \<not> unit_stop c) ?s2"
    using assms s1 by (auto simp: duration_part_def Let_def split_beta split: if_splits option.splits)
  then have "length s' < length ?s2" by (simp add: dropWhile_shorter)
  also have "length ?s2 \<le> length s1"
    using leadingFraction_length [of 0 1 False "tl s1"] by (cases "leadingFraction 0 1 False (tl s1)") auto
  finally show ?thesis using leadingInt_length [OF s1] by simp
qed

function parse_parts :: "(int \<Rightarrow> int \<Rightarrow> int \<Rightarrow> int) \<Rightarrow> int \<Rightarrow> string \<Rightarrow> int option" where
  "parse_parts frac d s =
     (if s = '''' then Some d
      else case duration_part frac s of
        None \<Rightarrow> None
      | Some (v, rest) \<Rightarrow> if d + v > 2 ^ 63 then None else parse_parts frac (d + v) rest)"
  by pat_completeness auto
termination
  by (relation "measure (\<lambda>(_, _, s). length s)") (auto dest: duration_part_length)

declare parse_parts.simps [simp del]

definition ParseDuration :: "(int \<Rightarrow> int \<Rightarrow> int \<Rightarrow> int) \<Rightarrow> string \<Rightarrow> error + duration" where
  "ParseDuration frac s =
     (let neg = HasPrefix s ''-'';
          s' = (if HasPrefix s ''-'' \<or> HasPrefix s ''+'' then tl s else s);
          invalid = Inl (OpaqueError ''time: invalid duration'')
      in if s' = ''0'' then Inr 0
         else if s' = '''' then invalid
         else case parse_parts frac 0 s' of
           None \<Rightarrow> invalid
         | Some d \<Rightarrow> if neg then Inr (- d) else if d > 2 ^ 63 - 1 then invalid else Inr d)"

text \<open>Wrap-around arithmetic.\<close>

lemma wrap64_id: "- (2 ^ 63) \<le> x \<Longrightarrow> x < 2 ^ 63 \<Longrightarrow> wrap64 x = x"
  by (simp add: wrap64_def mod_pos_pos_trivial)

lemma wrap64_bounds: "- (2 ^ 63) \<le> wrap64 x" "wrap64 x < 2 ^ 63"
  using pos_mod_bound [of "2 ^ 64" "x + 2 ^ 63"] pos_mod_sign [of "2 ^ 64" "x + 2 ^ 63"]
  by (simp_all add: wrap64_def)

lemma wrap64_mult: "wrap64 (wrap64 x * k) = wrap64 (x * k)"
proof -
  have "\<exists>q. wrap64 x = x + q * 2 ^ 64"
    unfolding wrap64_def
    by (rule exI [of _ "- ((x + 2 ^ 63) div 2 ^ 64)"]) (simp add: minus_div_mult_eq_mod [symmetric])
  then obtain q where "wrap64 x = x + q * 2 ^ 64" by blast
  then have "wrap64 x * k + 2 ^ 63 = (x * k + 2 ^ 63) + (q * k) * 2 ^ 64"
    by (simp add: algebra_simps)
  then show ?thesis unfolding wrap64_def [of "wrap64 x * k"] wrap64_def [of "x * k"]
    by (simp only: mod_mult_self1)
qed

lemma wrap64_add_period: "wrap64 (x + q * 2 ^ 64) = wrap64 x"
proof -
  have "x + q * 2 ^ 64 + 2 ^ 63 = (x + 2 ^ 63) + q * 2 ^ 64" by simp
  then show ?thesis unfolding wrap64_def by (simp only: mod_mult_self1)
qed

text \<open>Printing a number and reading it back.\<close>

lemma digit_value: "0 \<le> d \<Longrightarrow> d < 10 \<Longrightarrow> is_digit (ascii_digit d) \<and> int (byte_of (ascii_digit d)) - 48 = d"
  by (auto simp: ascii_digit_def is_digit_def nat_less_iff)

lemma digits_value_snoc: "digits_value (ds @ [c]) = digits_value ds * 10 + (int (byte_of c) - 48)"
  by (simp add: digits_value_def)

lemma digits_decimal_nat: "list_all is_digit (decimal_nat n) \<and> digits_value (decimal_nat n) = int n"
proof (induction n rule: decimal_nat.induct)
  case (1 n)
  show ?case
  proof (cases "n < 10")
    case True
    then show ?thesis
      using digit_value [of "int n"] by (subst (1 2) decimal_nat.simps) (simp add: digits_value_def)
  next
    case False
    have "int (n div 10) * 10 + int (n mod 10) = int n" by presburger
    with False 1 digit_value [of "int (n mod 10)"] show ?thesis
      by (subst (1 2) decimal_nat.simps) (simp add: digits_value_snoc)
  qed
qed

lemma ParseInt64_decimal:
  assumes "- (2 ^ 63) \<le> i" and "i < 2 ^ 63"
  shows "ParseInt64 (decimal i) = Some i"
proof -
  have first: "\<not> HasPrefix (decimal_nat n) ''-'' \<and> \<not> HasPrefix (decimal_nat n) ''+''" for n
  proof -
    have "list_all is_digit (decimal_nat n)" "decimal_nat n \<noteq> []" using digits_decimal_nat by auto
    then obtain c s where "decimal_nat n = c # s" "is_digit c" by (cases "decimal_nat n") auto
    then show ?thesis by (auto simp: HasPrefix_def is_digit_def)
  qed
  show ?thesis
  proof (cases "i < 0")
    case True
    with assms digits_decimal_nat [of "nat (- i)"] show ?thesis
      by (simp add: ParseInt64_def decimal_def HasPrefix_def)
  next
    case False
    with assms digits_decimal_nat [of "nat i"] first [of "nat i"] show ?thesis
      by (simp add: ParseInt64_def decimal_def)
  qed
qed

end
