(* ===== verification/Config.thy ===== *)
theory Config
  imports GoStrconv
begin

text \<open>
  \<^verbatim>\<open>internal/config/config.go\<close>: the configuration and how it is read.  The process
  environment is a function from names to values (the empty string for a variable that
  is not set); the two places where the code computes with floating-point numbers are
  arguments.
\<close>

record database_config =
  db_Host :: string
  db_Port :: string
  db_Username :: string
  db_Password :: string
  db_Name :: string
  db_Timeout :: duration

record nats_config =
  nats_URL :: string

record auth_svc_config =
  as_URL :: string
  BreakerFailures :: nat
  BreakerTimeoutSecs :: int
  BreakerHalfOpenMax :: nat

record file_service_config =
  fsc_URL :: string

record rabbitmq_config =
  rmq_URL :: string

record config =
  cfg_Database :: database_config
  cfg_NATS :: nats_config
  cfg_AuthSvc :: auth_svc_config
  cfg_FileService :: file_service_config
  cfg_RabbitMQ :: rabbitmq_config
  cfg_ContributionWindow :: duration
  cfg_CollaboraURL :: string
  cfg_PreviewQueueCapacity :: int
  cfg_BaseURL :: string
  cfg_CallbackURL :: string
  cfg_FrontendOrigin :: string
  cfg_TokenSecret :: string
  cfg_ServerPort :: string
  cfg_ProofValidation :: bool
  cfg_MaxLockLifetime :: duration

text \<open>Floating-point evaluation: the fraction of a duration, and whole seconds.\<close>

record go_float =
  fl_fraction :: "int \<Rightarrow> int \<Rightarrow> int \<Rightarrow> int"
  fl_seconds :: "duration \<Rightarrow> int"

definition DSN :: "go_float \<Rightarrow> database_config \<Rightarrow> string" where
  "DSN fl c =
     ''postgres://'' @ QueryEscape (db_Username c) @ '':'' @ QueryEscape (db_Password c) @ ''@''
       @ db_Host c @ '':'' @ db_Port c @ ''/'' @ db_Name c @ ''?sslmode=disable&connect_timeout=''
       @ decimal (fl_seconds fl (db_Timeout c))"

definition RabbitMQ_IsConfigured :: "rabbitmq_config \<Rightarrow> bool" where
  "RabbitMQ_IsConfigured c = (rmq_URL c \<noteq> '''')"

type_synonym environ = "string \<Rightarrow> string"

definition getEnv :: "environ \<Rightarrow> string \<Rightarrow> string \<Rightarrow> string" where
  "getEnv os key fallback = (if os key \<noteq> '''' then os key else fallback)"

definition parseUint32Strict :: "string \<Rightarrow> error + nat" where
  "parseUint32Strict s =
     (case ParseUint32 s of
        Inl err \<Rightarrow> Inl (Errorf ''cannot parse %q as uint32: %w'' [err])
      | Inr v \<Rightarrow> Inr v)"

definition parseIntStrict :: "string \<Rightarrow> error + int" where
  "parseIntStrict s =
     (case Atoi s of
        Inl err \<Rightarrow> Inl (Errorf ''cannot parse %q as int: %w'' [err])
      | Inr v \<Rightarrow> Inr v)"

definition originOf :: "string \<Rightarrow> error + string" where
  "originOf raw =
     (if raw = '''' then Inl (Errorf ''empty URL'' [])
      else case url_Parse raw of
        Inl err \<Rightarrow> Inl err
      | Inr u \<Rightarrow>
          if url_Scheme u = '''' \<or> url_Host u = '''' then Inl (Errorf ''URL %q lacks scheme or host'' [])
          else Inr (url_Scheme u @ ''://'' @ url_Host u))"

definition parseDuration :: "go_float \<Rightarrow> string \<Rightarrow> error + duration" where
  "parseDuration fl s =
     (case ParseDuration (fl_fraction fl) s of
        Inl err \<Rightarrow>
          (case Atoi s of
             Inl numErr \<Rightarrow> Inl (Errorf ''cannot parse %q as duration: %w'' [err])
           | Inr secs \<Rightarrow> Inr (wrap64 (secs * second)))
      | Inr d \<Rightarrow> Inr d)"

text \<open>A value that must parse and satisfy a condition, with the two messages.\<close>

definition required :: "error + 'a \<Rightarrow> string \<Rightarrow> ('a \<Rightarrow> bool) \<Rightarrow> string \<Rightarrow> error + 'a" where
  "required r invalid ok violated =
     (case r of
        Inl err \<Rightarrow> Inl (Errorf invalid [err])
      | Inr v \<Rightarrow> if ok v then Inr v else Inl (Errorf violated []))"

definition loadLockAndQueueSettings :: "go_float \<Rightarrow> environ \<Rightarrow> error + duration \<times> int" where
  "loadLockAndQueueSettings fl os =
     bind_result (required (parseDuration fl (getEnv os ''WOPI_MAX_LOCK_LIFETIME'' ''4h''))
       ''invalid WOPI_MAX_LOCK_LIFETIME: %w'' (\<lambda>d. \<not> d < 0)
       ''WOPI_MAX_LOCK_LIFETIME must be non-negative (use 0 to disable)'') (\<lambda>maxLockLifetime.
     bind_result (required (parseIntStrict (getEnv os ''WOPI_PREVIEW_RENDER_QUEUE_CAPACITY'' ''8''))
       ''invalid WOPI_PREVIEW_RENDER_QUEUE_CAPACITY: %w'' (\<lambda>n. \<not> n < 0)
       ''WOPI_PREVIEW_RENDER_QUEUE_CAPACITY must be non-negative'') (\<lambda>previewQueueCapacity.
     Inr (maxLockLifetime, previewQueueCapacity)))"

definition loadBreakerConfig :: "environ \<Rightarrow> error + nat \<times> int \<times> nat" where
  "loadBreakerConfig os =
     bind_result (required (parseUint32Strict (getEnv os ''AUTH_BREAKER_FAILURE_THRESHOLD'' ''3''))
       ''invalid AUTH_BREAKER_FAILURE_THRESHOLD: %w'' (\<lambda>n. n \<noteq> 0)
       ''AUTH_BREAKER_FAILURE_THRESHOLD must be positive'') (\<lambda>failures.
     bind_result (required (parseIntStrict (getEnv os ''AUTH_BREAKER_TIMEOUT_SECONDS'' ''15''))
       ''invalid AUTH_BREAKER_TIMEOUT_SECONDS: %w'' (\<lambda>n. \<not> n \<le> 0)
       ''AUTH_BREAKER_TIMEOUT_SECONDS must be positive'') (\<lambda>timeoutSecs.
     bind_result (required (parseUint32Strict (getEnv os ''AUTH_BREAKER_HALF_OPEN_MAX_REQUESTS'' ''2''))
       ''invalid AUTH_BREAKER_HALF_OPEN_MAX_REQUESTS: %w'' (\<lambda>n. n \<noteq> 0)
       ''AUTH_BREAKER_HALF_OPEN_MAX_REQUESTS must be positive'') (\<lambda>halfOpenMax.
     Inr (failures, timeoutSecs, halfOpenMax))))"

definition loadRabbitMQURL :: "environ \<Rightarrow> string" where
  "loadRabbitMQURL os =
     (if os ''RABBITMQ_URL'' \<noteq> '''' then os ''RABBITMQ_URL''
      else let host = os ''RABBITMQ_HOST'';
               port = (if os ''RABBITMQ_PORT'' = '''' then ''5672'' else os ''RABBITMQ_PORT'');
               user = os ''RABBITMQ_USER'';
               pass = os ''RABBITMQ_PASSWORD''
           in if host = '''' then ''''
              else if user \<noteq> '''' \<and> pass \<noteq> ''''
              then ''amqp://'' @ QueryEscape user @ '':'' @ QueryEscape pass @ ''@'' @ host @ '':'' @ port @ ''/''
              else ''amqp://'' @ host @ '':'' @ port @ ''/'')"

text \<open>The part of \<^verbatim>\<open>Load\<close> from the derivation of the origin on.\<close>

definition load_origin :: "string \<Rightarrow> string \<Rightarrow> error + string" where
  "load_origin frontendOrigin baseURL =
     (case originOf (if frontendOrigin = '''' then baseURL else frontendOrigin) of
        Inl err \<Rightarrow>
          if frontendOrigin \<noteq> '''' then Inl (Errorf ''invalid WOPI_FRONTEND_ORIGIN: %w'' [err])
          else Inl (Errorf ''derive WOPI_FRONTEND_ORIGIN from WOPI_BASE_URL: %w'' [err])
      | Inr origin \<Rightarrow> Inr origin)"

definition load_proof_validation :: "string \<Rightarrow> error + bool" where
  "load_proof_validation proofVal =
     (if proofVal = ''true'' then Inr True
      else if proofVal = ''false'' then Inr False
      else Inl (Errorf ''WOPI_PROOF_VALIDATION must be \"true\" or \"false\", got %q'' []))"

definition Load :: "go_float \<Rightarrow> environ \<Rightarrow> error + config" where
  "Load fl os =
     bind_result (required (parseDuration fl (getEnv os ''WOPI_DATABASE_TIMEOUT'' ''5s''))
       ''invalid WOPI_DATABASE_TIMEOUT: %w'' (\<lambda>d. \<not> d \<le> 0) ''WOPI_DATABASE_TIMEOUT must be positive'')
       (\<lambda>dbTimeout.
     bind_result (loadBreakerConfig os) (\<lambda>(breakerFailures, breakerTimeout, breakerHalfOpen).
     bind_result (loadLockAndQueueSettings fl os) (\<lambda>(maxLockLifetime, previewQueueCapacity).
     bind_result (required (parseDuration fl (getEnv os ''CONTRIBUTION_WINDOW'' ''600s''))
       ''invalid CONTRIBUTION_WINDOW: %w'' (\<lambda>d. \<not> d \<le> 0) ''CONTRIBUTION_WINDOW must be positive'')
       (\<lambda>contributionWindow.
     let baseURL = getEnv os ''WOPI_BASE_URL'' ''http://localhost:8080'';
         callbackURL = getEnv os ''WOPI_CALLBACK_URL'' '''';
         tokenSecret = getEnv os ''WOPI_TOKEN_SECRET'' ''''
     in bind_result (load_origin (getEnv os ''WOPI_FRONTEND_ORIGIN'' '''') baseURL) (\<lambda>origin.
        if tokenSecret = ''''
        then Inl (Errorf ''required environment variable WOPI_TOKEN_SECRET is not set'' [])
        else bind_result (load_proof_validation (getEnv os ''WOPI_PROOF_VALIDATION'' ''true'')) (\<lambda>proofValidation.
        Inr \<lparr>cfg_Database = \<lparr>db_Host = getEnv os ''WOPI_DATABASE_HOST'' ''localhost'',
               db_Port = getEnv os ''WOPI_DATABASE_PORT'' ''5432'',
               db_Username = getEnv os ''WOPI_DATABASE_USERNAME'' ''postgres'',
               db_Password = getEnv os ''WOPI_DATABASE_PASSWORD'' ''postgres'',
               db_Name = getEnv os ''WOPI_DATABASE_NAME'' ''wopi'', db_Timeout = dbTimeout\<rparr>,
             cfg_NATS = \<lparr>nats_URL = getEnv os ''NATS_URL'' ''''\<rparr>,
             cfg_AuthSvc = \<lparr>as_URL = getEnv os ''AUTH_SERVICE_URL'' '''', BreakerFailures = breakerFailures,
               BreakerTimeoutSecs = breakerTimeout, BreakerHalfOpenMax = breakerHalfOpen\<rparr>,
             cfg_FileService = \<lparr>fsc_URL = getEnv os ''FILE_SERVICE_URL'' ''http://localhost:4003''\<rparr>,
             cfg_RabbitMQ = \<lparr>rmq_URL = loadRabbitMQURL os\<rparr>,
             cfg_ContributionWindow = contributionWindow,
             cfg_CollaboraURL = getEnv os ''WOPI_COLLABORA_URL'' ''http://localhost:9980'',
             cfg_PreviewQueueCapacity = previewQueueCapacity,
             cfg_BaseURL = baseURL,
             cfg_CallbackURL = (if callbackURL = '''' then baseURL else callbackURL),
             cfg_FrontendOrigin = origin,
             cfg_TokenSecret = tokenSecret,
             cfg_ServerPort = getEnv os ''WOPI_SERVER_PORT'' ''8080'',
             cfg_ProofValidation = proofValidation,
             cfg_MaxLockLifetime = maxLockLifetime\<rparr>))))))"

end
