(* ===== verification/Discovery.thy ===== *)
theory Discovery
  imports Ports
begin

text \<open>
  \<^verbatim>\<open>internal/domain/service/discovery_service.go\<close>: the cache of Collabora's WOPI
  discovery document and the reachability probe.  The two mutexes of the struct
  guard two cells of the world; a critical section, with the clock readings and the
  log record written inside it, is one atomic action.
\<close>

text \<open>Field names and event values of the health signals (\<^verbatim>\<open>internal/obs\<close>).\<close>

definition FieldEvent :: string where "FieldEvent = ''event''"
definition FieldOutcome :: string where "FieldOutcome = ''outcome''"
definition FieldDocumentID :: string where "FieldDocumentID = ''documentId''"
definition FieldActorID :: string where "FieldActorID = ''actorId''"
definition EventTokenIssuance :: string where "EventTokenIssuance = ''token_issuance''"
definition EventPutFile :: string where "EventPutFile = ''putfile''"
definition EventCollaboraReachability :: string where
  "EventCollaboraReachability = ''collabora_reachability''"

definition defaultDiscoveryCacheTTL :: duration where
  "defaultDiscoveryCacheTTL = 12 * hour"

datatype reachability = reachUnknown | reachUp | reachDown

record discovery_cache =
  cached :: "discovery_data option"
  cachedAt :: time

record reach_state =
  reachState :: reachability
  lastSuccess :: time

record 'w discovery_service =
  ds_client :: "'w discovery_client"
  ds_logger :: "'w logger"
  ds_cacheTTL :: duration
  ds_cache :: "('w, discovery_cache) cell"
  ds_reach :: "('w, reach_state) cell"

definition NewDiscoveryService ::
  "'w discovery_client \<Rightarrow> 'w logger \<Rightarrow> ('w, discovery_cache) cell \<Rightarrow> ('w, reach_state) cell \<Rightarrow>
   'w discovery_service" where
  "NewDiscoveryService client logger cacheCell reachCell =
     \<lparr>ds_client = client, ds_logger = logger, ds_cacheTTL = defaultDiscoveryCacheTTL,
      ds_cache = cacheCell, ds_reach = reachCell\<rparr>"

text \<open>The zero value of the struct's fields.\<close>

definition empty_cache :: discovery_cache where
  "empty_cache = \<lparr>cached = None, cachedAt = zero_time\<rparr>"

definition initial_reach :: reach_state where
  "initial_reach = \<lparr>reachState = reachUnknown, lastSuccess = zero_time\<rparr>"

definition refresh ::
  "'w go_runtime \<Rightarrow> 'w discovery_service \<Rightarrow> ('w, error + discovery_data) prog" where
  "refresh rt s =
     call (dc_FetchDiscovery (ds_client s)) (\<lambda>r.
       case r of
         Inl err \<Rightarrow>
           call (locked (ds_cache s) (\<lambda>c. (cached c, c))) (\<lambda>stale.
             case stale of
               Some d \<Rightarrow>
                 effect (ds_logger s (log_record Warn ''using stale discovery cache''
                   [(''error'', FError err)]))
                 (Done (Inr d))
             | None \<Rightarrow>
                 Done (Inl (Errorf ''fetch discovery: %w: %w'' [Sentinel ErrDiscoveryFetch, err])))
       | Inr data \<Rightarrow>
           call (\<lambda>w. let (now, w1) = rt_Now rt w
                     in locked (ds_cache s) (\<lambda>c. ((), c\<lparr>cached := Some data, cachedAt := now\<rparr>)) w1)
             (\<lambda>_. Done (Inr data)))"

text \<open>The read-locked section of \<^verbatim>\<open>GetDiscovery\<close>: the fresh snapshot, if there is one.\<close>

definition fresh_snapshot ::
  "'w go_runtime \<Rightarrow> 'w discovery_service \<Rightarrow> 'w \<Rightarrow> discovery_data option \<times> 'w" where
  "fresh_snapshot rt s w =
     (let c = cell_get (ds_cache s) w
      in case cached c of
           None \<Rightarrow> (None, w)
         | Some d \<Rightarrow>
             let (now, w1) = rt_Now rt w
             in (if time_Sub now (cachedAt c) < ds_cacheTTL s then Some d else None, w1))"

definition GetDiscovery ::
  "'w go_runtime \<Rightarrow> 'w discovery_service \<Rightarrow> ('w, error + discovery_data) prog" where
  "GetDiscovery rt s =
     call (fresh_snapshot rt s) (\<lambda>r.
       case r of
         Some d \<Rightarrow> Done (Inr d)
       | None \<Rightarrow> refresh rt s)"

definition InvalidateAndRefresh ::
  "'w go_runtime \<Rightarrow> 'w discovery_service \<Rightarrow> ('w, error + discovery_data) prog" where
  "InvalidateAndRefresh rt s =
     call (locked (ds_cache s) (\<lambda>c. ((), c\<lparr>cachedAt := zero_time\<rparr>))) (\<lambda>_. refresh rt s)"

text \<open>The section of \<^verbatim>\<open>Probe\<close> under \<^verbatim>\<open>reachMu\<close>.\<close>

definition probe_section ::
  "'w go_runtime \<Rightarrow> 'w discovery_service \<Rightarrow> error option \<Rightarrow> 'w \<Rightarrow> (bool \<times> time) \<times> 'w" where
  "probe_section rt s failure w =
     (let st = cell_get (ds_reach s) w
      in case failure of
           None \<Rightarrow>
             let (now, w1) = rt_Now rt w;
                 w2 = cell_put (ds_reach s) (st\<lparr>lastSuccess := now, reachState := reachUp\<rparr>) w1
             in ((True, now),
                 if reachState st = reachDown
                 then ds_logger s (log_record Info ''collabora reachability regained''
                        [(FieldEvent, FString EventCollaboraReachability)]) w2
                 else w2)
         | Some err \<Rightarrow>
             let w2 = cell_put (ds_reach s) (st\<lparr>reachState := reachDown\<rparr>) w
             in ((False, lastSuccess st),
                 if reachState st = reachUp
                 then ds_logger s (log_record Warn ''collabora reachability lost''
                        [(FieldEvent, FString EventCollaboraReachability), (''error'', FError err)]) w2
                 else w2))"

definition Probe :: "'w go_runtime \<Rightarrow> 'w discovery_service \<Rightarrow> ('w, bool \<times> time) prog" where
  "Probe rt s =
     call (dc_FetchDiscovery (ds_client s)) (\<lambda>r.
       call (probe_section rt s (case r of Inl err \<Rightarrow> Some err | Inr _ \<Rightarrow> None)) Done)"

text \<open>The loop of \<^verbatim>\<open>FindActionByExtension\<close> with its two candidate variables.\<close>

fun find_action_loop ::
  "string \<Rightarrow> string \<Rightarrow> string \<Rightarrow> discovery_action option \<Rightarrow> discovery_action option \<Rightarrow>
   discovery_action list \<Rightarrow> error + discovery_action" where
  "find_action_loop ext preferred fallback fallbackAction viewCommentAction [] =
     (case fallbackAction of
        Some a \<Rightarrow> Inr a
      | None \<Rightarrow> (case viewCommentAction of
          Some a \<Rightarrow> Inr a
        | None \<Rightarrow> Inl (Sentinel ErrUnsupportedExtension)))"
| "find_action_loop ext preferred fallback fallbackAction viewCommentAction (a # as) =
     (if act_Ext a \<noteq> ext
      then find_action_loop ext preferred fallback fallbackAction viewCommentAction as
      else if act_Name a = preferred then Inr a
      else find_action_loop ext preferred fallback
             (if act_Name a = fallback then Some a else fallbackAction)
             (if act_Name a = ''view_comment'' then Some a else viewCommentAction) as)"

definition find_action :: "string \<Rightarrow> bool \<Rightarrow> discovery_cache \<Rightarrow> error + discovery_action" where
  "find_action ext preferEdit c =
     (case cached c of
        None \<Rightarrow> Inl (Sentinel ErrNoDiscoveryData)
      | Some d \<Rightarrow>
          (let preferred = (if preferEdit then ''edit'' else ''view'');
               fallback = (if preferEdit then ''view'' else ''edit'')
           in find_action_loop ext preferred fallback None None (Actions d)))"

definition FindActionByExtension ::
  "'w discovery_service \<Rightarrow> string \<Rightarrow> bool \<Rightarrow> 'w \<Rightarrow> (error + discovery_action) \<times> 'w" where
  "FindActionByExtension s ext preferEdit =
     locked (ds_cache s) (\<lambda>c. (find_action ext preferEdit c, c))"

definition GetProofKeys :: "'w discovery_service \<Rightarrow> 'w \<Rightarrow> proof_key option \<times> 'w" where
  "GetProofKeys s = locked (ds_cache s) (\<lambda>c. (map_option ProofKey (cached c), c))"

lemmas [svc_defs] = refresh_def GetDiscovery_def InvalidateAndRefresh_def Probe_def
  FindActionByExtension_def GetProofKeys_def

text \<open>
  What the loop computes: among the actions of the extension the first preferred
  one, else the last of the other kind, else the last \<^verbatim>\<open>view_comment\<close> one.
\<close>

definition last_named :: "string \<Rightarrow> string \<Rightarrow> discovery_action list \<Rightarrow> discovery_action option" where
  "last_named ext name as = List.find (\<lambda>a. act_Ext a = ext \<and> act_Name a = name) (rev as)"

definition find_action_spec ::
  "string \<Rightarrow> string \<Rightarrow> string \<Rightarrow> discovery_action list \<Rightarrow> error + discovery_action" where
  "find_action_spec ext preferred fallback as =
     (case List.find (\<lambda>a. act_Ext a = ext \<and> act_Name a = preferred) as of
        Some a \<Rightarrow> Inr a
      | None \<Rightarrow> (case last_named ext fallback as of
          Some a \<Rightarrow> Inr a
        | None \<Rightarrow> (case last_named ext ''view_comment'' as of
            Some a \<Rightarrow> Inr a
          | None \<Rightarrow> Inl (Sentinel ErrUnsupportedExtension))))"

lemma find_append: "List.find P (xs @ ys) = (case List.find P xs of None \<Rightarrow> List.find P ys | Some x \<Rightarrow> Some x)"
  by (induction xs) auto

lemma last_named_Cons:
  "last_named ext name (a # as) =
     (case last_named ext name as of
        Some b \<Rightarrow> Some b
      | None \<Rightarrow> if act_Ext a = ext \<and> act_Name a = name then Some a else None)"
  by (simp add: last_named_def find_append split: option.split)

lemma last_named_Nil [simp]: "last_named ext name [] = None"
  by (simp add: last_named_def)

lemma find_action_loop_spec:
  "find_action_loop ext preferred fallback fa va as =
     (case List.find (\<lambda>a. act_Ext a = ext \<and> act_Name a = preferred) as of
        Some a \<Rightarrow> Inr a
      | None \<Rightarrow> (case (case last_named ext fallback as of Some a \<Rightarrow> Some a | None \<Rightarrow> fa) of
          Some a \<Rightarrow> Inr a
        | None \<Rightarrow> (case (case last_named ext ''view_comment'' as of Some a \<Rightarrow> Some a | None \<Rightarrow> va) of
            Some a \<Rightarrow> Inr a
          | None \<Rightarrow> Inl (Sentinel ErrUnsupportedExtension))))"
proof (induction ext preferred fallback fa va as rule: find_action_loop.induct)
  case (1 ext preferred fallback fa va)
  then show ?case by (simp split: option.split)
next
  case (2 ext preferred fallback fa va a as)
  then show ?case by (auto simp: last_named_Cons split: option.splits)
qed

lemma find_action_loop_eq:
  "find_action_loop ext preferred fallback None None as = find_action_spec ext preferred fallback as"
  by (simp add: find_action_loop_spec find_action_spec_def split: option.splits)

text \<open>An action that is found has the extension asked for and is one of the document's.\<close>

lemma find_action_sound:
  "find_action ext preferEdit c = Inr a \<Longrightarrow>
     \<exists>d. cached c = Some d \<and> a \<in> set (Actions d) \<and> act_Ext a = ext
         \<and> act_Name a \<in> {''edit'', ''view'', ''view_comment''}"
  by (auto simp: find_action_def find_action_loop_eq find_action_spec_def last_named_def
      find_Some_iff Let_def split: option.splits if_splits)
     (metis nth_mem set_rev length_rev)+

end
