(* ===== verification/TokenService.thy ===== *)
theory TokenService
  imports Discovery GoURL
begin

text \<open>
  \<^verbatim>\<open>internal/domain/service/token_service.go\<close>: issuing and validating access tokens,
  and the editor URL that a token is issued with.
\<close>

definition defaultTokenTTL :: duration where
  "defaultTokenTTL = 8 * hour"

record 'w token_service =
  ts_tokenRepo :: "'w token_repo"
  ts_fileSvc :: "'w file_service"
  ts_authSvc :: "'w auth_service"
  ts_discoverySvc :: "'w discovery_service option"
  ts_secret :: string
  ts_baseURL :: string
  ts_callbackURL :: string
  ts_logger :: "'w logger"

definition NewTokenService ::
  "'w token_repo \<Rightarrow> 'w file_service \<Rightarrow> 'w auth_service \<Rightarrow> 'w discovery_service option \<Rightarrow>
   string \<Rightarrow> string \<Rightarrow> string \<Rightarrow> 'w logger \<Rightarrow> 'w token_service" where
  "NewTokenService tokenRepo fileSvc authSvc discoverySvc secret baseURL callbackURL logger =
     \<lparr>ts_tokenRepo = tokenRepo, ts_fileSvc = fileSvc, ts_authSvc = authSvc,
      ts_discoverySvc = discoverySvc, ts_secret = secret,
      ts_baseURL = TrimSuffix baseURL ''/'', ts_callbackURL = TrimSuffix callbackURL ''/'',
      ts_logger = logger\<rparr>"

record token_issuance_result =
  ti_AccessToken :: string
  ti_TTL :: int
  ti_WOPISrc :: string
  ti_EditorURL :: string

definition generateURLSafeToken :: "'w go_runtime \<Rightarrow> ('w, error + string) prog" where
  "generateURLSafeToken rt =
     call (rt_RandRead rt 32) (\<lambda>r. Done (map_sum id RawURLEncode r))"

text \<open>The scan of \<^verbatim>\<open>stripWOPIPlaceholders\<close> on the bytes that are left.\<close>

function stripWOPIPlaceholders :: "string \<Rightarrow> string" where
  "stripWOPIPlaceholders [] = []"
| "stripWOPIPlaceholders (c # s) =
     (if c = CHR ''<''
      then (case IndexByte (c # s) (CHR ''>'') of
              Some j \<Rightarrow> stripWOPIPlaceholders (drop (j + 1) (c # s))
            | None \<Rightarrow> c # stripWOPIPlaceholders s)
      else c # stripWOPIPlaceholders s)"
  by pat_completeness auto
termination
  by (relation "measure length") (auto simp: less_Suc_eq_le)

definition buildEditorURL ::
  "string \<Rightarrow> string \<Rightarrow> string \<Rightarrow> string \<Rightarrow> string \<Rightarrow> int \<Rightarrow> error + string" where
  "buildEditorURL urlSrc baseURL wopiSrc accessToken lang ttlMs =
     (case url_Parse urlSrc of
        Inl err \<Rightarrow> Inl (Errorf ''malformed discovery urlsrc %q: %w'' [err])
      | Inr parsed \<Rightarrow>
          (let editorPath = stripWOPIPlaceholders
                 (url_Path parsed @ (if url_RawQuery parsed \<noteq> '''' then ''?'' @ url_RawQuery parsed else ''''));
               sep = (if CHR ''?'' \<in> set editorPath then ''&'' else ''?'');
               editorURL = baseURL @ editorPath @ sep @ ''WOPISrc='' @ QueryEscape wopiSrc
                 @ ''&access_token='' @ QueryEscape accessToken
                 @ ''&access_token_ttl='' @ decimal ttlMs
           in Inr (if lang \<noteq> '''' then editorURL @ ''&lang='' @ QueryEscape lang else editorURL)))"

definition resolveEditorURL ::
  "'w go_runtime \<Rightarrow> 'w token_service \<Rightarrow> string \<Rightarrow> string \<Rightarrow> string \<Rightarrow> int \<Rightarrow> bool \<Rightarrow> string \<Rightarrow>
   ('w, error + string) prog" where
  "resolveEditorURL rt s mimeType wopiSrc accessToken ttlMs canWrite lang =
     (case ts_discoverySvc s of
        None \<Rightarrow> Done (Inl (Sentinel ErrNoDiscoveryData))
      | Some disc \<Rightarrow>
          bind_prog (GetDiscovery rt disc) (\<lambda>r.
            case r of
              Inl err \<Rightarrow> Done (Inl err)
            | Inr _ \<Rightarrow>
                (case ExtensionForMIME mimeType of
                   Inl err \<Rightarrow> Done (Inl err)
                 | Inr ext \<Rightarrow>
                     call (FindActionByExtension disc ext canWrite) (\<lambda>r.
                       case r of
                         Inl err \<Rightarrow> Done (Inl err)
                       | Inr action \<Rightarrow>
                           Done (buildEditorURL (act_URLSrc action) (ts_baseURL s) wopiSrc
                                   accessToken lang ttlMs)))))"

text \<open>
  The steps of \<^verbatim>\<open>IssueToken\<close> from the token's generation on: the editor URL is
  resolved before the token is stored.
\<close>

definition issue_granted ::
  "'w go_runtime \<Rightarrow> 'w token_service \<Rightarrow> string \<Rightarrow> string \<Rightarrow> string \<Rightarrow> string \<Rightarrow> string \<Rightarrow> string \<Rightarrow>
   ('w, error + token_issuance_result) prog" where
  "issue_granted rt s actorID actorName documentID lang mimeType permissions =
     bind_prog (generateURLSafeToken rt) (\<lambda>r.
       case r of
         Inl err \<Rightarrow> Done (Inl (Errorf ''generate token: %w'' [err]))
       | Inr token \<Rightarrow>
           call (rt_Now rt) (\<lambda>now.
             let expiresAt = now + defaultTokenTTL;
                 wopiSrc = ts_callbackURL s @ ''/wopi/files/'' @ documentID;
                 ttlMs = UnixMilli expiresAt;
                 canWrite = (permissions = ''read,write'')
             in bind_prog (resolveEditorURL rt s mimeType wopiSrc token ttlMs canWrite lang) (\<lambda>r.
                  case r of
                    Inl err \<Rightarrow> Done (Inl (Errorf ''resolve editor URL: %w'' [err]))
                  | Inr editorURL \<Rightarrow>
                      call (rt_NewUUID rt) (\<lambda>uid.
                      call (tr_Create (ts_tokenRepo s)
                             \<lparr>tok_ID = uid, tok_Token = token, tok_FileID = documentID,
                              tok_ActorID = actorID, tok_ActorName = actorName,
                              tok_Permissions = permissions, tok_ExpiresAt = expiresAt,
                              tok_CreatedAt = now\<rparr>) (\<lambda>r.
                        case r of
                          Some err \<Rightarrow>
                            Done (Inl (Errorf ''store token: %w: %w'' [Sentinel ErrTokenPersist, err]))
                        | None \<Rightarrow>
                            Done (Inr \<lparr>ti_AccessToken = token, ti_TTL = ttlMs,
                                       ti_WOPISrc = wopiSrc, ti_EditorURL = editorURL\<rparr>))))))"

definition IssueToken ::
  "'w go_runtime \<Rightarrow> 'w token_service \<Rightarrow> string \<Rightarrow> string \<Rightarrow> string \<Rightarrow> string \<Rightarrow>
   ('w, error + token_issuance_result) prog" where
  "IssueToken rt s actorID actorName documentID lang =
     call (fs_FindByID (ts_fileSvc s) documentID) (\<lambda>r.
       case r of
         Inl err \<Rightarrow> Done (Inl (Errorf ''lookup document: %w: %w'' [Sentinel ErrDocumentLookup, err]))
       | Inr None \<Rightarrow> Done (Inl (Sentinel ErrDocumentNotFound))
       | Inr (Some doc) \<Rightarrow>
           call (au_CheckPrivilege (ts_authSvc s) actorID ''read'' (doc_AuthorizationPolicyID doc)) (\<lambda>r.
             case r of
               Inl err \<Rightarrow> Done (Inl (Errorf ''check read privilege: %w'' [err]))
             | Inr readResult \<Rightarrow>
                 if \<not> Allowed readResult then Done (Inl (Sentinel ErrNotAuthorized))
                 else if doc_MimeType doc = MimeTypePDF
                 then effect (ts_logger s (log_record Debug
                        ''PDF token forced read-only pending upstream Collabora fix''
                        [(''documentId'', FString documentID)]))
                      (issue_granted rt s actorID actorName documentID lang (doc_MimeType doc) ''read'')
                 else call (au_CheckPrivilege (ts_authSvc s) actorID ''update-content''
                              (doc_AuthorizationPolicyID doc)) (\<lambda>r.
                   case r of
                     Inl err \<Rightarrow>
                       effect (ts_logger s (log_record Warn
                         ''failed to check write privilege, defaulting to read-only''
                         [(''error'', FError err), (''actorId'', FString actorID)]))
                       (issue_granted rt s actorID actorName documentID lang (doc_MimeType doc) ''read'')
                   | Inr writeResult \<Rightarrow>
                       issue_granted rt s actorID actorName documentID lang (doc_MimeType doc)
                         (if Allowed writeResult then ''read,write'' else ''read''))))"

definition ValidateToken ::
  "'w go_runtime \<Rightarrow> 'w token_service \<Rightarrow> string \<Rightarrow> ('w, error + access_token option) prog" where
  "ValidateToken rt s tokenValue =
     call (tr_FindByToken (ts_tokenRepo s) tokenValue) (\<lambda>r.
       case r of
         Inl err \<Rightarrow> Done (Inl (Errorf ''find token: %w'' [err]))
       | Inr None \<Rightarrow> Done (Inr None)
       | Inr (Some token) \<Rightarrow>
           call (rt_Now rt) (\<lambda>now.
             Done (Inr (if Token_IsExpired now token then None else Some token))))"

lemmas [svc_defs] = generateURLSafeToken_def resolveEditorURL_def issue_granted_def IssueToken_def
  ValidateToken_def

text \<open>A placeholder is what stands from an opening bracket to the closing one after it.\<close>

definition has_placeholder :: "string \<Rightarrow> bool" where
  "has_placeholder s = (\<exists>p q r. s = p @ ''<'' @ q @ ''>'' @ r)"

lemma has_placeholder_Cons:
  "has_placeholder (c # s) \<longleftrightarrow> (c = CHR ''<'' \<and> CHR ''>'' \<in> set s) \<or> has_placeholder s"
proof
  assume "has_placeholder (c # s)"
  then obtain p q r where eq: "c # s = p @ ''<'' @ q @ ''>'' @ r" unfolding has_placeholder_def by blast
  show "(c = CHR ''<'' \<and> CHR ''>'' \<in> set s) \<or> has_placeholder s"
  proof (cases p)
    case Nil
    with eq show ?thesis by auto
  next
    case (Cons x p')
    with eq have "s = p' @ ''<'' @ q @ ''>'' @ r" by simp
    then show ?thesis unfolding has_placeholder_def by blast
  qed
next
  assume "(c = CHR ''<'' \<and> CHR ''>'' \<in> set s) \<or> has_placeholder s"
  then show "has_placeholder (c # s)"
  proof
    assume "c = CHR ''<'' \<and> CHR ''>'' \<in> set s"
    then obtain q r where "c # s = [] @ ''<'' @ q @ ''>'' @ r"
      using split_list [of "CHR ''>''" s] by auto
    then show ?thesis unfolding has_placeholder_def by blast
  next
    assume "has_placeholder s"
    then obtain p q r where "c # s = (c # p) @ ''<'' @ q @ ''>'' @ r"
      unfolding has_placeholder_def by auto
    then show ?thesis unfolding has_placeholder_def by blast
  qed
qed

lemma has_placeholder_Nil [simp]: "\<not> has_placeholder []"
  by (simp add: has_placeholder_def)

lemma IndexByte_None: "IndexByte s c = None \<longleftrightarrow> c \<notin> set s"
  by (induction s) auto

lemma strip_subset: "set (stripWOPIPlaceholders s) \<subseteq> set s"
proof (induction s rule: stripWOPIPlaceholders.induct)
  case (2 c s)
  show ?case
  proof (cases "c = CHR ''<'' \<and> CHR ''>'' \<in> set s")
    case True
    then obtain j where j: "IndexByte (c # s) (CHR ''>'') = Some j"
      by (metis IndexByte_None list.set_intros(2) not_None_eq)
    with True have "stripWOPIPlaceholders (c # s) = stripWOPIPlaceholders (drop (j + 1) (c # s))"
      by auto
    moreover have "set (stripWOPIPlaceholders (drop (j + 1) (c # s))) \<subseteq> set (drop (j + 1) (c # s))"
      using 2(2) [OF _ j] True by blast
    ultimately show ?thesis by (metis set_drop_subset subset_trans)
  next
    case False
    then have "c = CHR ''<'' \<Longrightarrow> IndexByte (c # s) (CHR ''>'') = None"
      by (simp add: IndexByte_None)
    with 2(1,3) show ?thesis by auto
  qed
qed simp

lemma strip_no_placeholder: "\<not> has_placeholder (stripWOPIPlaceholders s)"
proof (induction s rule: stripWOPIPlaceholders.induct)
  case (2 c s)
  show ?case
  proof (cases "c = CHR ''<''")
    case False
    with 2(3) show ?thesis by (simp add: has_placeholder_Cons)
  next
    case True
    show ?thesis
    proof (cases "IndexByte (c # s) (CHR ''>'')")
      case (Some j)
      with True have "stripWOPIPlaceholders (c # s) = stripWOPIPlaceholders (drop (j + 1) (c # s))"
        by auto
      with 2(2) [OF True Some] show ?thesis by (simp only: simp_thms)
    next
      case None
      then have "CHR ''>'' \<notin> set (c # s)" by (simp only: IndexByte_None not_False_eq_True)
      then have "CHR ''>'' \<notin> set (stripWOPIPlaceholders s)" using strip_subset [of s] by auto
      moreover have "stripWOPIPlaceholders (c # s) = c # stripWOPIPlaceholders s"
        using True None by auto
      ultimately show ?thesis
        using 2(1) [OF True None] has_placeholder_Cons [of c "stripWOPIPlaceholders s"] by argo
    qed
  qed
qed simp

lemma strip_id: "\<not> has_placeholder s \<Longrightarrow> stripWOPIPlaceholders s = s"
proof (induction s rule: stripWOPIPlaceholders.induct)
  case (2 c s)
  then have "c = CHR ''<'' \<Longrightarrow> IndexByte (c # s) (CHR ''>'') = None" and "\<not> has_placeholder s"
    by (auto simp: has_placeholder_Cons IndexByte_None)
  with 2 show ?case by auto
qed simp

text \<open>A placeholder that contains no bracket itself is cut out, the text around it is kept.\<close>

lemma IndexByte_append: "c \<notin> set p \<Longrightarrow> IndexByte (p @ c # r) c = Some (length p)"
  by (induction p) auto

lemma strip_keep: "CHR ''<'' \<notin> set p \<Longrightarrow> stripWOPIPlaceholders (p @ s) = p @ stripWOPIPlaceholders s"
  by (induction p) auto

lemma strip_cut:
  assumes "CHR ''>'' \<notin> set q"
  shows "stripWOPIPlaceholders (''<'' @ q @ ''>'' @ r) = stripWOPIPlaceholders r"
  using IndexByte_append [of "CHR ''>''" "CHR ''<'' # q" r] assms by simp

text \<open>
  Reading an editor URL back as a browser or Collabora does: the query starts after
  the first question mark, parameters are separated by ampersands, names and values
  by the first equals sign, and values are percent-decoded.
\<close>

definition query_of :: "string \<Rightarrow> string" where
  "query_of u = fst (snd (Cut (CHR ''?'') u))"

definition query_param :: "string \<Rightarrow> string \<times> (error + string)" where
  "query_param p = (let (k, v, _) = Cut (CHR ''='') p in (k, QueryUnescape v))"

definition query_params :: "string \<Rightarrow> (string \<times> (error + string)) list" where
  "query_params u = map query_param (split_on (CHR ''&'') (query_of u))"

lemma Cut_append: "c \<notin> set p \<Longrightarrow> Cut c (p @ c # q) = (p, q, True)"
  by (induction p) (auto simp: Cut_def split: list.splits)

lemma query_param_append:
  "CHR ''='' \<notin> set k \<Longrightarrow> query_param (k @ CHR ''='' # QueryEscape v) = (k, Inr v)"
  by (simp add: query_param_def Cut_append QueryUnescape_QueryEscape)

lemma QueryEscape_no_amp [simp]: "CHR ''&'' \<notin> set (QueryEscape v)"
  using QueryEscape_safe query_safe_separators(1) by blast

lemma decimal_unreserved: "c \<in> set (decimal i) \<Longrightarrow> is_alnum c \<or> c \<in> set ''-_.~''"
proof -
  have "is_alnum (ascii_digit d)" if "0 \<le> d" "d < 10" for d
    using that by (auto simp: is_alnum_def is_digit_def ascii_digit_def)
  then show "c \<in> set (decimal i) \<Longrightarrow> is_alnum c \<or> c \<in> set ''-_.~''"
    by (auto simp: decimal_def dest!: decimal_nat_digits split: if_splits)
qed

lemma QueryEscape_decimal: "QueryEscape (decimal i) = decimal i"
  by (rule QueryEscape_id) (rule decimal_unreserved)

text \<open>The parameters that \<^verbatim>\<open>buildEditorURL\<close> appends.\<close>

definition wopi_params :: "string \<Rightarrow> string \<Rightarrow> string \<Rightarrow> int \<Rightarrow> (string \<times> (error + string)) list" where
  "wopi_params wopiSrc token lang ttl =
     [(''WOPISrc'', Inr wopiSrc), (''access_token'', Inr token), (''access_token_ttl'', Inr (decimal ttl))]
     @ (if lang = '''' then [] else [(''lang'', Inr lang)])"

definition wopi_query :: "string \<Rightarrow> string \<Rightarrow> string \<Rightarrow> int \<Rightarrow> string" where
  "wopi_query wopiSrc token lang ttl =
     ''WOPISrc='' @ QueryEscape wopiSrc @ ''&access_token='' @ QueryEscape token
       @ ''&access_token_ttl='' @ QueryEscape (decimal ttl)
       @ (if lang = '''' then '''' else ''&lang='' @ QueryEscape lang)"

lemma split_amp_step:
  "CHR ''&'' \<notin> set p \<Longrightarrow> split_on (CHR ''&'') (p @ CHR ''&'' # q) = p # split_on (CHR ''&'') q"
  by (simp add: split_on_absent)

lemma wopi_query_params:
  "map query_param (split_on (CHR ''&'') (wopi_query wopiSrc token lang ttl)) =
     wopi_params wopiSrc token lang ttl"
proof -
  let ?a = "''WOPISrc'' @ CHR ''='' # QueryEscape wopiSrc"
  let ?b = "''access_token'' @ CHR ''='' # QueryEscape token"
  let ?c = "''access_token_ttl'' @ CHR ''='' # QueryEscape (decimal ttl)"
  let ?d = "''lang'' @ CHR ''='' # QueryEscape lang"
  have eq: "wopi_query wopiSrc token lang ttl =
      (if lang = '''' then ?a @ CHR ''&'' # (?b @ CHR ''&'' # ?c)
       else ?a @ CHR ''&'' # (?b @ CHR ''&'' # (?c @ CHR ''&'' # ?d)))"
    by (simp add: wopi_query_def)
  have free: "CHR ''&'' \<notin> set ?a" "CHR ''&'' \<notin> set ?b" "CHR ''&'' \<notin> set ?c" "CHR ''&'' \<notin> set ?d"
    by simp_all
  note steps = split_amp_step [OF free(1)] split_amp_step [OF free(2)] split_amp_step [OF free(3)]
    split_on_absent [OF free(3)] split_on_absent [OF free(4)]
  have ps: "query_param ?a = (''WOPISrc'', Inr wopiSrc)" "query_param ?b = (''access_token'', Inr token)"
    "query_param ?c = (''access_token_ttl'', Inr (decimal ttl))" "query_param ?d = (''lang'', Inr lang)"
    by (subst query_param_append; simp)+
  have "split_on (CHR ''&'') (wopi_query wopiSrc token lang ttl) =
      (if lang = '''' then [?a, ?b, ?c] else [?a, ?b, ?c, ?d])"
    unfolding eq by (simp only: steps split: if_split) simp
  with ps show ?thesis
    by (cases "lang = ''''") (simp_all add: wopi_params_def)
qed

lemma buildEditorURL_shape:
  assumes "buildEditorURL urlSrc base wopiSrc token lang ttl = Inr u"
  obtains path where "\<not> has_placeholder path"
    and "u = base @ path @ (if CHR ''?'' \<in> set path then ''&'' else ''?'')
             @ wopi_query wopiSrc token lang ttl"
  using assms strip_no_placeholder
  by (fastforce simp: buildEditorURL_def wopi_query_def QueryEscape_decimal Let_def
      split: sum.splits prod.splits if_splits)

text \<open>
  C27: the editor URL carries exactly the parameters it was built with.  Whatever the
  document identifier, the token and the language are, reading the URL back ends
  with the WOPI source, the token, its expiry and (when given) the language, each
  decoded to the value that was put in, after the parameters of the discovery URL;
  no value can add, split or overwrite a parameter.
\<close>

theorem editor_url_parameters:
  assumes "buildEditorURL urlSrc base wopiSrc token lang ttl = Inr u"
    and "CHR ''?'' \<notin> set base"
  shows "\<exists>front. query_params u = front @ wopi_params wopiSrc token lang ttl"
proof -
  obtain path where u: "u = base @ path @ (if CHR ''?'' \<in> set path then ''&'' else ''?'')
      @ wopi_query wopiSrc token lang ttl"
    using assms(1) by (rule buildEditorURL_shape) blast
  let ?q = "wopi_query wopiSrc token lang ttl"
  show ?thesis
  proof (cases "CHR ''?'' \<in> set path")
    case False
    with u assms(2) have "query_of u = ?q"
      using Cut_append [of "CHR ''?''" "base @ path" ?q] by (simp add: query_of_def)
    then show ?thesis by (simp add: query_params_def wopi_query_params)
  next
    case True
    then obtain a b where p: "path = a @ CHR ''?'' # b" and a: "CHR ''?'' \<notin> set a"
      by (metis split_list_first)
    with True u assms(2) have "query_of u = b @ CHR ''&'' # ?q"
      using Cut_append [of "CHR ''?''" "base @ a" "b @ CHR ''&'' # ?q"] by (simp add: query_of_def)
    then show ?thesis by (simp add: query_params_def wopi_query_params)
  qed
qed

lemmas url_eval = url_Parse_def parse_no_fragment_def parse_rest_def Cut_def HasPrefix_def HasSuffix_def
  TrimSuffix_def is_alpha_def is_digit_def containsCTL_def parseAuthority_def Cut_last_def parseHost_def
  shouldEscape_def is_alnum_def validOptionalPort_def to_lower_def

lemma ex_parse: "url_Parse ''https://office/cool.html?<ui=UI_LLCC&>'' =
    Inr \<lparr>url_Scheme = ''https'', url_Host = ''office'', url_Path = ''/cool.html'', url_RawQuery = ''<ui=UI_LLCC&>''\<rparr>"
  by (simp add: url_eval)

theorem editor_url_parameters_witness:
  "\<exists>u front. buildEditorURL ''https://office/cool.html?<ui=UI_LLCC&>'' ''https://o'' ''http://w/wopi/files/1''
       ''t&x=y'' ''en&access_token=z'' 5 = Inr u
     \<and> query_params u = front @ wopi_params ''http://w/wopi/files/1'' ''t&x=y'' ''en&access_token=z'' 5"
proof -
  have "\<exists>u. buildEditorURL ''https://office/cool.html?<ui=UI_LLCC&>'' ''https://o'' ''http://w/wopi/files/1''
      ''t&x=y'' ''en&access_token=z'' 5 = Inr u"
    by (simp add: buildEditorURL_def ex_parse Let_def del: QueryEscape_simps)
  then obtain u where u: "buildEditorURL ''https://office/cool.html?<ui=UI_LLCC&>'' ''https://o''
      ''http://w/wopi/files/1'' ''t&x=y'' ''en&access_token=z'' 5 = Inr u" by blast
  have "\<exists>front. query_params u = front @ wopi_params ''http://w/wopi/files/1'' ''t&x=y'' ''en&access_token=z'' 5"
    by (rule editor_url_parameters [OF u]) simp
  with u show ?thesis by blast
qed

text \<open>
  The placeholders of a discovery URL are removed, completely and without touching
  anything else.  The result holds no bracketed placeholder, a string that holds none
  is unchanged, and cutting a placeholder out leaves what stands around it.
\<close>

theorem placeholders_are_stripped:
  "\<not> has_placeholder (stripWOPIPlaceholders s)
   \<and> (\<not> has_placeholder s \<longrightarrow> stripWOPIPlaceholders s = s)
   \<and> (CHR ''<'' \<notin> set p \<and> CHR ''>'' \<notin> set q \<longrightarrow>
        stripWOPIPlaceholders (p @ ''<'' @ q @ ''>'' @ s) = p @ stripWOPIPlaceholders s)"
  using strip_no_placeholder strip_id strip_keep [of p "''<'' @ q @ ''>'' @ s"] strip_cut [of q s] by auto

theorem placeholders_are_stripped_witness:
  "stripWOPIPlaceholders ''/e'' = ''/e''
   \<and> stripWOPIPlaceholders ''/e?<ui=UI&>a'' = ''/e?'' @ stripWOPIPlaceholders ''a''"
  using placeholders_are_stripped [of "''/e''" "''/e?''" "''ui=UI&''"]
    placeholders_are_stripped [of "''a''" "''/e?''" "''ui=UI&''"]
  by (auto simp: has_placeholder_Cons)

end
