(* ===== verification/Contribution.thy ===== *)
theory Contribution
  imports Ports "HOL-Library.List_Lexorder" "HOL-Library.Char_ord" "HOL-Library.Multiset"
begin

text \<open>
  \<^verbatim>\<open>internal/domain/service/contribution_window.go\<close>: the per-document activity that is
  collected during a window and published at its end.  The map \<^verbatim>\<open>docs\<close> is an
  association list with distinct keys behind a mutex, a Go set of actor identifiers
  a list without repetition; \<^verbatim>\<open>range\<close> over a Go map visits the entries in an
  unspecified order, which is the argument \<open>order\<close> of \<open>flush\<close>.
\<close>

definition ContributionTopic :: string where
  "ContributionTopic = ''collaboration-office-document-contribution''"
definition ViewTopic :: string where
  "ViewTopic = ''collaboration-office-document-view''"
definition ContributionQueue :: string where
  "ContributionQueue = ''collaboration-document-service''"
definition RenameTopic :: string where
  "RenameTopic = ''collaboration-office-document-rename''"

record doc_window =
  modified :: bool
  writeIDs :: "string list"
  readIDs :: "string list"

definition newDocWindow :: doc_window where
  "newDocWindow = \<lparr>modified = False, writeIDs = [], readIDs = []\<rparr>"

type_synonym docs = "(string \<times> doc_window) list"

record counters =
  emitted :: int
  publishFail :: int

record 'w contribution_window =
  cw_publisher :: "'w queue_publisher"
  cw_window :: duration
  cw_logger :: "'w logger"
  cw_docs :: "('w, docs) cell"
  cw_counters :: "('w, counters) cell"

definition NewContributionWindow ::
  "'w queue_publisher \<Rightarrow> duration \<Rightarrow> 'w logger \<Rightarrow> ('w, docs) cell \<Rightarrow> ('w, counters) cell \<Rightarrow>
   'w contribution_window" where
  "NewContributionWindow publisher window logger docsCell countersCell =
     \<lparr>cw_publisher = publisher, cw_window = window, cw_logger = logger,
      cw_docs = docsCell, cw_counters = countersCell\<rparr>"

text \<open>\<^verbatim>\<open>entryLocked\<close> and a write through the pointer it returns: update the entry, made if absent.\<close>

fun entryLocked :: "string \<Rightarrow> (doc_window \<Rightarrow> doc_window) \<Rightarrow> docs \<Rightarrow> docs" where
  "entryLocked fileID upd [] = [(fileID, upd newDocWindow)]"
| "entryLocked fileID upd ((k, d) # ds) =
     (if k = fileID then (k, upd d) # ds else (k, d) # entryLocked fileID upd ds)"

definition mark_modified :: "string \<Rightarrow> docs \<Rightarrow> docs" where
  "mark_modified fileID ds =
     (if fileID = '''' then ds else entryLocked fileID (\<lambda>d. d\<lparr>modified := True\<rparr>) ds)"

definition add_actor :: "string \<Rightarrow> string \<Rightarrow> bool \<Rightarrow> docs \<Rightarrow> docs" where
  "add_actor fileID actorID isWrite ds =
     (if fileID = '''' \<or> actorID = '''' then ds
      else entryLocked fileID
        (\<lambda>d. if isWrite then d\<lparr>writeIDs := List.insert actorID (writeIDs d)\<rparr>
             else d\<lparr>readIDs := List.insert actorID (readIDs d)\<rparr>) ds)"

definition MarkModified :: "'w contribution_window \<Rightarrow> string \<Rightarrow> 'w \<Rightarrow> unit \<times> 'w" where
  "MarkModified c fileID = locked (cw_docs c) (\<lambda>ds. ((), mark_modified fileID ds))"

definition AddActor :: "'w contribution_window \<Rightarrow> string \<Rightarrow> string \<Rightarrow> bool \<Rightarrow> 'w \<Rightarrow> unit \<times> 'w" where
  "AddActor c fileID actorID isWrite =
     locked (cw_docs c) (\<lambda>ds. ((), add_actor fileID actorID isWrite ds))"

definition toActorIDs :: "string list \<Rightarrow> string list" where
  "toActorIDs ids = sort ids"

text \<open>What \<^verbatim>\<open>flush\<close> makes of one entry of the snapshot: nothing, or a topic and a message.\<close>

definition event_of :: "string \<times> doc_window \<Rightarrow> (string \<times> contribution_event) option" where
  "event_of kd =
     (let (fileID, d) = kd
      in if writeIDs d = [] \<and> readIDs d = [] then None
         else Some (if modified d then ContributionTopic else ViewTopic,
                    \<lparr>DocumentID = fileID, WriteActors = toActorIDs (writeIDs d),
                     ReadonlyActors = toActorIDs (readIDs d)\<rparr>))"

definition event_fields :: "string \<Rightarrow> contribution_event \<Rightarrow> (string \<times> field) list" where
  "event_fields topic ev =
     [(''eventType'', FString (if topic = ContributionTopic then ''contribution'' else ''view'')),
      (''topic'', FString topic), (''documentId'', FString (DocumentID ev)),
      (''writeActors'', FInt (int (length (WriteActors ev)))),
      (''readonlyActors'', FInt (int (length (ReadonlyActors ev))))]"

primrec flush_loop :: "'w contribution_window \<Rightarrow> docs \<Rightarrow> nat \<Rightarrow> ('w, unit) prog" where
  "flush_loop c [] n =
     (if n > 0
      then effect (cw_logger c (log_record Debug ''contribution window flushed''
             [(''recordsEmitted'', FInt (int n))])) (Done ())
      else Done ())"
| "flush_loop c (kd # ds) n =
     (case event_of kd of
        None \<Rightarrow> flush_loop c ds n
      | Some (topic, ev) \<Rightarrow>
          call (qp_Publish (cw_publisher c) topic (ContributionPayload ev)) (\<lambda>r.
            case r of
              Some err \<Rightarrow>
                call (locked (cw_counters c) (\<lambda>k. ((), k\<lparr>publishFail := publishFail k + 1\<rparr>))) (\<lambda>_.
                effect (cw_logger c (log_record Warn ''contribution publish failed (dropped, best-effort)''
                  (event_fields topic ev @ [(''error'', FError err)])))
                (flush_loop c ds n))
            | None \<Rightarrow>
                call (locked (cw_counters c) (\<lambda>k. ((), k\<lparr>emitted := emitted k + 1\<rparr>))) (\<lambda>_.
                effect (cw_logger c (log_record Info ''document activity event emitted''
                  (event_fields topic ev)))
                (flush_loop c ds (Suc n)))))"

definition flush :: "(docs \<Rightarrow> docs) \<Rightarrow> 'w contribution_window \<Rightarrow> ('w, unit) prog" where
  "flush order c =
     call (locked (cw_docs c) (\<lambda>ds. (ds, []))) (\<lambda>snapshot. flush_loop c (order snapshot) 0)"

definition Flush :: "(docs \<Rightarrow> docs) \<Rightarrow> 'w contribution_window \<Rightarrow> ('w, unit) prog" where
  "Flush order c = flush order c"

text \<open>\<^verbatim>\<open>Start\<close>: one flush per tick until the context is done, each in an order of its own.\<close>

primrec window_Start :: "'w contribution_window \<Rightarrow> (docs \<Rightarrow> docs) list \<Rightarrow> ('w, unit) prog" where
  "window_Start c [] = Done ()"
| "window_Start c (order # ticks) = bind_prog (flush order c) (\<lambda>_. window_Start c ticks)"

definition EmittedCount :: "'w contribution_window \<Rightarrow> 'w \<Rightarrow> int" where
  "EmittedCount c w = emitted (cell_get (cw_counters c) w)"

definition PublishFailureCount :: "'w contribution_window \<Rightarrow> 'w \<Rightarrow> int" where
  "PublishFailureCount c w = publishFail (cell_get (cw_counters c) w)"

lemmas [svc_defs] = MarkModified_def AddActor_def flush_def Flush_def

text \<open>The invariant of the window: distinct documents, no empty keys, distinct actors.\<close>

definition wf_docs :: "docs \<Rightarrow> bool" where
  "wf_docs ds =
     (distinct (map fst ds) \<and> (\<forall>(k, d) \<in> set ds. k \<noteq> '''' \<and> distinct (writeIDs d) \<and> distinct (readIDs d)
        \<and> '''' \<notin> set (writeIDs d) \<union> set (readIDs d)))"

text \<open>The window as a map.\<close>

definition doc_at :: "docs \<Rightarrow> string \<Rightarrow> doc_window" where
  "doc_at ds k = (case map_of ds k of Some d \<Rightarrow> d | None \<Rightarrow> newDocWindow)"

lemma entryLocked_keys:
  "map fst (entryLocked k upd ds) = (if k \<in> fst ` set ds then map fst ds else map fst ds @ [k])"
  by (induction k upd ds rule: entryLocked.induct) auto

lemma entryLocked_at: "doc_at (entryLocked k upd ds) = (doc_at ds)(k := upd (doc_at ds k))"
proof (induction k upd ds rule: entryLocked.induct)
  case (1 k upd)
  then show ?case by (auto simp: doc_at_def fun_eq_iff)
next
  case (2 k upd j d ds)
  show ?case
  proof (cases "j = k")
    case True
    then show ?thesis by (auto simp: doc_at_def fun_eq_iff)
  next
    case False
    with 2 have "doc_at (entryLocked k upd ds) i = ((doc_at ds)(k := upd (doc_at ds k))) i" for i
      by simp
    with False show ?thesis by (auto simp: doc_at_def fun_eq_iff)
  qed
qed

lemma entryLocked_set:
  "(i, e) \<in> set (entryLocked k upd ds) \<Longrightarrow>
     (i, e) \<in> set ds \<or> (i = k \<and> (\<exists>d. (k, d) \<in> set ds \<and> e = upd d)) \<or> (i = k \<and> e = upd newDocWindow)"
  by (induction k upd ds rule: entryLocked.induct) (auto split: if_splits)

lemma wf_entryLocked:
  assumes "wf_docs ds" and "k \<noteq> ''''"
    and "\<And>d. distinct (writeIDs d) \<and> distinct (readIDs d) \<and> '''' \<notin> set (writeIDs d) \<union> set (readIDs d) \<Longrightarrow>
      distinct (writeIDs (upd d)) \<and> distinct (readIDs (upd d))
      \<and> '''' \<notin> set (writeIDs (upd d)) \<union> set (readIDs (upd d))"
  shows "wf_docs (entryLocked k upd ds)"
proof -
  have "distinct (map fst (entryLocked k upd ds))"
    using assms(1) by (auto simp: entryLocked_keys wf_docs_def)
  moreover have "i \<noteq> '''' \<and> distinct (writeIDs e) \<and> distinct (readIDs e)
      \<and> '''' \<notin> set (writeIDs e) \<union> set (readIDs e)" if "(i, e) \<in> set (entryLocked k upd ds)" for i e
    using entryLocked_set [OF that] assms(1,2) assms(3) [of newDocWindow] assms(3)
    by (fastforce simp: wf_docs_def newDocWindow_def)
  ultimately show ?thesis unfolding wf_docs_def by blast
qed

lemma wf_mark_modified: "wf_docs ds \<Longrightarrow> wf_docs (mark_modified k ds)"
  by (auto simp: mark_modified_def intro!: wf_entryLocked)

lemma wf_add_actor: "wf_docs ds \<Longrightarrow> wf_docs (add_actor k a isWrite ds)"
  unfolding add_actor_def
  by (cases isWrite) (auto intro!: wf_entryLocked)

text \<open>
  A history of activity, and what it says about a document: whether it was modified,
  and which actors were seen with and without write permission.
\<close>

datatype activity = Modified string | Active string string bool

fun record_activity :: "activity \<Rightarrow> docs \<Rightarrow> docs" where
  "record_activity (Modified f) ds = mark_modified f ds"
| "record_activity (Active f a isWrite) ds = add_actor f a isWrite ds"

definition window_after :: "activity list \<Rightarrow> docs" where
  "window_after acts = fold record_activity acts []"

definition writers_of :: "activity list \<Rightarrow> string \<Rightarrow> string set" where
  "writers_of acts f = {a. Active f a True \<in> set acts \<and> a \<noteq> ''''}"

definition readers_of :: "activity list \<Rightarrow> string \<Rightarrow> string set" where
  "readers_of acts f = {a. Active f a False \<in> set acts \<and> a \<noteq> ''''}"

definition expected_event :: "activity list \<Rightarrow> string \<Rightarrow> (string \<times> contribution_event) option" where
  "expected_event acts f =
     (if f = '''' \<or> (writers_of acts f = {} \<and> readers_of acts f = {}) then None
      else Some (if Modified f \<in> set acts then ContributionTopic else ViewTopic,
                 \<lparr>DocumentID = f, WriteActors = sorted_list_of_set (writers_of acts f),
                  ReadonlyActors = sorted_list_of_set (readers_of acts f)\<rparr>))"

lemma wf_record: "wf_docs ds \<Longrightarrow> wf_docs (record_activity x ds)"
  by (cases x) (simp_all add: wf_mark_modified wf_add_actor)

lemma wf_window_after: "wf_docs (window_after acts)"
proof -
  have "wf_docs ds \<Longrightarrow> wf_docs (fold record_activity acts ds)" for ds
    by (induction acts arbitrary: ds) (simp_all add: wf_record)
  moreover have "wf_docs []" by (simp add: wf_docs_def)
  ultimately show ?thesis unfolding window_after_def by blast
qed

lemma window_after_snoc: "window_after (acts @ [x]) = record_activity x (window_after acts)"
  by (simp add: window_after_def)

lemma newDocWindow_sel [simp]:
  "modified newDocWindow = False" "writeIDs newDocWindow = []" "readIDs newDocWindow = []"
  by (simp_all add: newDocWindow_def)

lemma window_after_at:
  assumes "f \<noteq> ''''"
  shows "modified (doc_at (window_after acts) f) = (Modified f \<in> set acts)"
    and "set (writeIDs (doc_at (window_after acts) f)) = writers_of acts f"
    and "set (readIDs (doc_at (window_after acts) f)) = readers_of acts f"
proof (induction acts rule: rev_induct)
  case Nil
  case 1 show ?case by (simp add: window_after_def doc_at_def)
  case 2 show ?case by (simp add: window_after_def doc_at_def writers_of_def)
  case 3 show ?case by (simp add: window_after_def doc_at_def readers_of_def)
next
  case (snoc x acts)
  note at = window_after_snoc mark_modified_def add_actor_def entryLocked_at
  case 1 show ?case using snoc assms by (cases x) (auto simp: at)
  case 2 show ?case using snoc assms by (cases x) (auto simp: at writers_of_def)
  case 3 show ?case using snoc assms by (cases x) (auto simp: at readers_of_def)
qed

text \<open>The published actor list is the sorted list of the set.\<close>

lemma toActorIDs_set: "distinct xs \<Longrightarrow> toActorIDs xs = sorted_list_of_set (set xs)"
  by (simp add: toActorIDs_def sorted_list_of_set_sort_remdups distinct_remdups_id)

lemma wf_docs_at:
  assumes "wf_docs ds" and "(k, d) \<in> set ds"
  shows "doc_at ds k = d" and "k \<noteq> ''''" and "distinct (writeIDs d)" and "distinct (readIDs d)"
  using assms by (auto simp: wf_docs_def doc_at_def)

lemma event_of_window:
  assumes "(k, d) \<in> set (window_after acts)"
  shows "event_of (k, d) = expected_event acts k"
proof -
  note wf = wf_docs_at [OF wf_window_after assms]
  from wf(1) window_after_at [OF wf(2), of acts]
  have "modified d = (Modified k \<in> set acts)" "set (writeIDs d) = writers_of acts k"
    "set (readIDs d) = readers_of acts k" by simp_all
  with wf show ?thesis
    by (auto simp: event_of_def expected_event_def toActorIDs_set)
qed

text \<open>The messages of a window are those its history calls for.\<close>

lemma window_events:
  "x \<in> set (List.map_filter event_of (window_after acts)) \<longleftrightarrow> (\<exists>f. expected_event acts f = Some x)"
proof
  assume "x \<in> set (List.map_filter event_of (window_after acts))"
  then obtain k d where "(k, d) \<in> set (window_after acts)" "event_of (k, d) = Some x"
    by (auto simp: map_filter_def)
  then show "\<exists>f. expected_event acts f = Some x" using event_of_window by metis
next
  assume "\<exists>f. expected_event acts f = Some x"
  then obtain f where f: "expected_event acts f = Some x" by blast
  then have ne: "f \<noteq> ''''" and act: "writers_of acts f \<noteq> {} \<or> readers_of acts f \<noteq> {}"
    by (auto simp: expected_event_def split: if_splits)
  have "map_of (window_after acts) f \<noteq> None"
  proof
    assume "map_of (window_after acts) f = None"
    then have "doc_at (window_after acts) f = newDocWindow" by (simp add: doc_at_def)
    with window_after_at(2,3) [OF ne, of acts] act show False by simp
  qed
  then obtain d where "(f, d) \<in> set (window_after acts)" by (auto dest: map_of_SomeD)
  with event_of_window f show "x \<in> set (List.map_filter event_of (window_after acts))"
    by (force simp: map_filter_def)
qed

end
