(* ===== verification/PreviewService.thy ===== *)
theory PreviewService
  imports Ports GoTime
begin

text \<open>
  \<^verbatim>\<open>internal/domain/service/preview_service.go\<close>: cached previews of office documents.
  The two libraries it synchronizes with are parameters.  A weighted semaphore of
  \<^verbatim>\<open>golang.org/x/sync/semaphore\<close> is a record of its operations at weight one.  For
  \<^verbatim>\<open>singleflight.Group.DoChan\<close> followed by the \<^verbatim>\<open>select\<close>, the parameter says what
  becomes of a call: it leads and runs its function, or it joins a call in flight
  for the same key and receives that call's result; either way its context may be
  done first, in which case the leader's function still runs to its end.
\<close>

record 'w weighted =
  sem_TryAcquire :: "'w \<Rightarrow> bool \<times> 'w"
  sem_Acquire :: "'w \<Rightarrow> error option \<times> 'w"
  sem_Release :: "'w \<Rightarrow> 'w"

datatype flight =
    Lead
  | LeadAbandoned error
  | Joined "error + preview_entry"
  | JoinAbandoned error

record 'w flight_group =
  sf_DoChan :: "string \<Rightarrow> 'w \<Rightarrow> flight \<times> 'w"

definition maxActiveRenders :: int where "maxActiveRenders = 2"
definition RenderTimeout :: duration where "RenderTimeout = 60 * second"

record preview_result =
  pr_ETag :: string
  pr_Body :: "stream option"
  pr_NotModified :: bool

record 'w preview_service =
  ps_fileSvc :: "'w file_service"
  ps_authSvc :: "'w auth_service"
  ps_cache :: "'w preview_cache_repo"
  ps_renderer :: "'w thumbnail_renderer"
  ps_flight :: "'w flight_group"
  ps_slots :: "'w weighted"
  ps_active :: "'w weighted"
  ps_logger :: "'w logger"

text \<open>\<open>newWeighted\<close> stands for \<^verbatim>\<open>semaphore.NewWeighted\<close>: \<open>newWeighted name n\<close> is a semaphore of size \<open>n\<close>.\<close>

definition NewPreviewService ::
  "(string \<Rightarrow> int \<Rightarrow> 'w weighted) \<Rightarrow> 'w flight_group \<Rightarrow> 'w file_service \<Rightarrow> 'w auth_service \<Rightarrow>
   'w preview_cache_repo \<Rightarrow> 'w thumbnail_renderer \<Rightarrow> int \<Rightarrow> 'w logger \<Rightarrow> 'w preview_service" where
  "NewPreviewService newWeighted flight fileSvc authSvc cache renderer waitingCapacity logger =
     \<lparr>ps_fileSvc = fileSvc, ps_authSvc = authSvc, ps_cache = cache, ps_renderer = renderer,
      ps_flight = flight, ps_slots = newWeighted ''slots'' (maxActiveRenders + waitingCapacity),
      ps_active = newWeighted ''active'' maxActiveRenders, ps_logger = logger\<rparr>"

definition etagFor :: "time \<Rightarrow> string" where
  "etagFor t = [CHR 0x22] @ format_RFC3339Nano t @ [CHR 0x22]"

definition currentMapping ::
  "'w preview_service \<Rightarrow> string \<Rightarrow> time \<Rightarrow> ('w, error + preview_entry option) prog" where
  "currentMapping s sourceID currentDate =
     call (pc_FindBySourceID (ps_cache s) sourceID) (\<lambda>r.
       case r of
         Inl err \<Rightarrow> Done (Inl (Errorf ''lookup preview cache: %w'' [err]))
       | Inr (Some entry) \<Rightarrow>
           Done (Inr (if SourceUpdatedDate entry = currentDate then Some entry else None))
       | Inr None \<Rightarrow> Done (Inr None))"

text \<open>Reuse an entry, or the preview file to replace (empty: none exists yet).\<close>

definition writeTarget ::
  "'w preview_service \<Rightarrow> string \<Rightarrow> time \<Rightarrow> ('w, error + preview_entry option \<times> string) prog" where
  "writeTarget s sourceID srcUpdatedAt =
     call (pc_FindBySourceID (ps_cache s) sourceID) (\<lambda>r.
       case r of
         Inl err \<Rightarrow> Done (Inl (Errorf ''lookup preview cache: %w'' [err]))
       | Inr None \<Rightarrow> Done (Inr (None, ''''))
       | Inr (Some mapped) \<Rightarrow>
           (let lookup_row =
              call (fs_FindByID (ps_fileSvc s) (PreviewFileID mapped)) (\<lambda>m.
                case m of
                  Inl merr \<Rightarrow>
                    Done (Inl (Errorf ''%w: lookup preview metadata: %w'' [Sentinel ErrRenderFailed, merr]))
                | Inr None \<Rightarrow> Done (Inr (None, ''''))
                | Inr (Some meta) \<Rightarrow> Done (Inr (None, PreviewFileID mapped)))
            in if SourceUpdatedDate mapped = srcUpdatedAt
               then call (fs_ReadFile (ps_fileSvc s) (PreviewFileID mapped)) (\<lambda>b.
                      case b of
                        Inr body \<Rightarrow> Done (Inr (Some mapped, ''''))
                      | Inl rerr \<Rightarrow>
                          if \<not> errors_Is rerr FsErrNotExist
                          then Done (Inl (Errorf ''%w: recheck cached preview: %w''
                                            [Sentinel ErrRenderFailed, rerr]))
                          else lookup_row)
               else lookup_row))"

definition commitRefresh ::
  "'w preview_service \<Rightarrow> string \<Rightarrow> string \<Rightarrow> time \<Rightarrow> ('w, error + preview_entry) prog" where
  "commitRefresh s sourceID previewID renderedDate =
     (let entry = \<lparr>SourceFileID = sourceID, PreviewFileID = previewID, SourceUpdatedDate = renderedDate\<rparr>
      in call (pc_Upsert (ps_cache s) entry) (\<lambda>r.
           case r of
             Some err \<Rightarrow>
               Done (Inl (Errorf ''%w: advance mapping date: %w'' [Sentinel ErrRenderFailed, err]))
           | None \<Rightarrow> Done (Inr entry)))"

definition commitMapping ::
  "'w preview_service \<Rightarrow> string \<Rightarrow> string \<Rightarrow> time \<Rightarrow> ('w, error + preview_entry) prog" where
  "commitMapping s sourceID previewID renderedDate =
     (let entry = \<lparr>SourceFileID = sourceID, PreviewFileID = previewID, SourceUpdatedDate = renderedDate\<rparr>
      in call (pc_Upsert (ps_cache s) entry) (\<lambda>r.
           case r of
             None \<Rightarrow> Done (Inr entry)
           | Some err \<Rightarrow>
               (let fail = Inl (Errorf ''%w: commit mapping: %w'' [Sentinel ErrRenderFailed, err])
                in call (fs_DeletePreviewFile (ps_fileSvc s) previewID) (\<lambda>d.
                     case d of
                       None \<Rightarrow> Done fail
                     | Some derr \<Rightarrow>
                         effect (ps_logger s (log_record Warn ''uncommitted preview file left behind''
                           [(''fileID'', FString previewID), (''error'', FError derr)]))
                         (Done fail)))))"

text \<open>\<^verbatim>\<open>renderAndStore\<close> once both semaphores are held.\<close>

definition render_admitted ::
  "'w preview_service \<Rightarrow> string \<Rightarrow> string \<Rightarrow> ('w, error + preview_entry) prog" where
  "render_admitted s sourceID extension =
     call (fs_FindByID (ps_fileSvc s) sourceID) (\<lambda>r.
       case r of
         Inl err \<Rightarrow> Done (Inl (Errorf ''re-lookup source: %w'' [err]))
       | Inr None \<Rightarrow> Done (Inl (Sentinel ErrDocumentNotFound))
       | Inr (Some src) \<Rightarrow>
           bind_prog (writeTarget s sourceID (doc_UpdatedAt src)) (\<lambda>t.
             case t of
               Inl err \<Rightarrow> Done (Inl err)
             | Inr (Some reuse, refreshID) \<Rightarrow> Done (Inr reuse)
             | Inr (None, refreshID) \<Rightarrow>
                 call (fs_ReadFile (ps_fileSvc s) sourceID) (\<lambda>c.
                   case c of
                     Inl err \<Rightarrow> Done (Inl (Errorf ''%w: read source: %w'' [Sentinel ErrRenderFailed, err]))
                   | Inr content \<Rightarrow>
                       call (th_Render (ps_renderer s) extension content) (\<lambda>p.
                         case p of
                           Inl err \<Rightarrow> Done (Inl (Errorf ''%w: %w'' [Sentinel ErrRenderFailed, err]))
                         | Inr png \<Rightarrow>
                             if refreshID \<noteq> ''''
                             then call (fs_WriteFile (ps_fileSvc s) refreshID png) (\<lambda>r.
                                    case r of
                                      Inl werr \<Rightarrow>
                                        Done (Inl (Errorf ''%w: replace preview content: %w''
                                                     [Sentinel ErrRenderFailed, werr]))
                                    | Inr _ \<Rightarrow> commitRefresh s sourceID refreshID (doc_UpdatedAt src))
                             else call (fs_CreatePreviewFile (ps_fileSvc s) (doc_StorageBucketID src) png) (\<lambda>r.
                                    case r of
                                      Inl err \<Rightarrow>
                                        Done (Inl (Errorf ''%w: store preview: %w''
                                                     [Sentinel ErrRenderFailed, err]))
                                    | Inr previewID \<Rightarrow>
                                        commitMapping s sourceID previewID (doc_UpdatedAt src))))))"

definition renderAndStore ::
  "'w preview_service \<Rightarrow> string \<Rightarrow> string \<Rightarrow> ('w, error + preview_entry) prog" where
  "renderAndStore s sourceID extension =
     call (sem_TryAcquire (ps_slots s)) (\<lambda>ok.
       if \<not> ok then Done (Inl (Sentinel ErrRenderAdmissionFull))
       else call (sem_Acquire (ps_active s)) (\<lambda>r.
              case r of
                Some err \<Rightarrow>
                  effect (sem_Release (ps_slots s))
                  (Done (Inl (Errorf ''%w: %w'' [Sentinel ErrRenderAdmissionFull, err])))
              | None \<Rightarrow>
                  bind_prog (render_admitted s sourceID extension) (\<lambda>res.
                    effect (sem_Release (ps_active s))
                    (effect (sem_Release (ps_slots s)) (Done res)))))"

definition resolveMiss ::
  "'w preview_service \<Rightarrow> string \<Rightarrow> string \<Rightarrow> time \<Rightarrow> ('w, error + preview_entry) prog" where
  "resolveMiss s sourceID extension observedDate =
     (let deliver = (\<lambda>res.
        case res of
          Inl err \<Rightarrow> Done (Inl err)
        | Inr entry \<Rightarrow>
            if SourceUpdatedDate entry < observedDate then Done (Inl (Sentinel ErrStaleSharedRender))
            else Done (Inr entry))
      in call (sf_DoChan (ps_flight s) sourceID) (\<lambda>fl.
           case fl of
             Lead \<Rightarrow> bind_prog (renderAndStore s sourceID extension) deliver
           | LeadAbandoned e \<Rightarrow> bind_prog (renderAndStore s sourceID extension) (\<lambda>_. Done (Inl e))
           | Joined res \<Rightarrow> deliver res
           | JoinAbandoned e \<Rightarrow> Done (Inl e)))"

text \<open>\<^verbatim>\<open>Resolve\<close> after the cached mapping turned out to be missing, old or without content.\<close>

definition resolve_render ::
  "'w preview_service \<Rightarrow> document \<Rightarrow> string \<Rightarrow> ('w, error + preview_result) prog" where
  "resolve_render s src ext =
     bind_prog (resolveMiss s (doc_ID src) ext (doc_UpdatedAt src)) (\<lambda>r.
       case r of
         Inl err \<Rightarrow> Done (Inl err)
       | Inr entry \<Rightarrow>
           call (fs_ReadFile (ps_fileSvc s) (PreviewFileID entry)) (\<lambda>b.
             case b of
               Inl err \<Rightarrow> Done (Inl (Errorf ''read committed preview: %w'' [err]))
             | Inr body \<Rightarrow>
                 Done (Inr \<lparr>pr_ETag = etagFor (SourceUpdatedDate entry), pr_Body = Some body,
                            pr_NotModified = False\<rparr>)))"

definition Resolve ::
  "'w preview_service \<Rightarrow> string \<Rightarrow> string \<Rightarrow> string \<Rightarrow> ('w, error + preview_result) prog" where
  "Resolve s actorID sourceID ifNoneMatch =
     call (fs_FindByID (ps_fileSvc s) sourceID) (\<lambda>r.
       case r of
         Inl err \<Rightarrow> Done (Inl (Errorf ''lookup source: %w'' [err]))
       | Inr None \<Rightarrow> Done (Inl (Sentinel ErrDocumentNotFound))
       | Inr (Some src) \<Rightarrow>
           call (au_CheckPrivilege (ps_authSvc s) actorID ''read'' (doc_AuthorizationPolicyID src)) (\<lambda>a.
             case a of
               Inl err \<Rightarrow> Done (Inl (Errorf ''check read privilege: %w'' [err]))
             | Inr auth \<Rightarrow>
                 if \<not> Allowed auth then Done (Inl (Sentinel ErrNotAuthorized))
                 else if doc_Size src = 0 then Done (Inl (Sentinel ErrUnsupportedPreviewSource))
                 else (case PreviewExtension (doc_MimeType src) of
                   Inl err \<Rightarrow> Done (Inl err)
                 | Inr ext \<Rightarrow>
                     let etag = etagFor (doc_UpdatedAt src)
                     in if ifNoneMatch \<noteq> '''' \<and> ifNoneMatch = etag
                        then Done (Inr \<lparr>pr_ETag = etag, pr_Body = None, pr_NotModified = True\<rparr>)
                        else bind_prog (currentMapping s (doc_ID src) (doc_UpdatedAt src)) (\<lambda>m.
                          case m of
                            Inl err \<Rightarrow> Done (Inl err)
                          | Inr None \<Rightarrow> resolve_render s src ext
                          | Inr (Some entry) \<Rightarrow>
                              call (fs_ReadFile (ps_fileSvc s) (PreviewFileID entry)) (\<lambda>b.
                                case b of
                                  Inr body \<Rightarrow>
                                    Done (Inr \<lparr>pr_ETag = etag, pr_Body = Some body, pr_NotModified = False\<rparr>)
                                | Inl ferr \<Rightarrow>
                                    if \<not> errors_Is ferr FsErrNotExist
                                    then Done (Inl (Errorf ''read cached preview: %w'' [ferr]))
                                    else resolve_render s src ext)))))"

lemmas [svc_defs] = currentMapping_def writeTarget_def commitRefresh_def commitMapping_def
  render_admitted_def renderAndStore_def resolveMiss_def resolve_render_def Resolve_def

text \<open>The laws of a weighted semaphore at weight one, with \<open>n\<close> the weight held.\<close>

locale weighted_semaphore =
  fixes sem :: "'w weighted" and held :: "'w \<Rightarrow> int" and size :: int
  assumes try_acquire: "held (snd (sem_TryAcquire sem w)) =
        (if fst (sem_TryAcquire sem w) then held w + 1 else held w)"
    and try_acquire_full: "fst (sem_TryAcquire sem w) \<longleftrightarrow> held w + 1 \<le> size"
    and acquire: "held (snd (sem_Acquire sem w)) =
        (if fst (sem_Acquire sem w) = None then held w + 1 else held w)"
    and acquire_bound: "fst (sem_Acquire sem w) = None \<Longrightarrow> held w + 1 \<le> size"
    and release: "held (sem_Release sem w) = held w - 1"
begin

lemma bounded_try: "held w \<le> size \<Longrightarrow> held (snd (sem_TryAcquire sem w)) \<le> size"
  by (simp add: try_acquire try_acquire_full)

lemma bounded_acquire: "held w \<le> size \<Longrightarrow> held (snd (sem_Acquire sem w)) \<le> size"
  using acquire_bound by (simp add: acquire)

lemma bounded_release: "held w \<le> size \<Longrightarrow> held (sem_Release sem w) \<le> size"
  by (simp add: release)

end

end
