(* ===== verification/Cleanup.thy ===== *)
theory Cleanup
  imports Ports
begin

text \<open>
  \<^verbatim>\<open>internal/domain/service/cleanup_service.go\<close>: the background job that deletes
  expired tokens and locks.  \<^verbatim>\<open>Start\<close> alternates between waiting for its ticker and
  one \<open>run\<close>; the number of ticks before the context is done is its argument.
\<close>

record 'w cleanup_service =
  cl_tokenRepo :: "'w token_repo"
  cl_lockRepo :: "'w lock_repo"
  cl_interval :: duration
  cl_logger :: "'w logger"

definition NewCleanupService :: "'w token_repo \<Rightarrow> 'w lock_repo \<Rightarrow> 'w logger \<Rightarrow> 'w cleanup_service" where
  "NewCleanupService tokenRepo lockRepo logger =
     \<lparr>cl_tokenRepo = tokenRepo, cl_lockRepo = lockRepo, cl_interval = 15 * minute, cl_logger = logger\<rparr>"

definition cleanup_report ::
  "'w cleanup_service \<Rightarrow> string \<Rightarrow> string \<Rightarrow> error + nat \<Rightarrow> ('w, unit) prog \<Rightarrow> ('w, unit) prog" where
  "cleanup_report s failed cleaned r rest =
     (case r of
        Inl err \<Rightarrow> effect (cl_logger s (log_record Error failed [(''error'', FError err)])) rest
      | Inr n \<Rightarrow>
          if n > 0
          then effect (cl_logger s (log_record Info cleaned [(''count'', FInt (int n))])) rest
          else rest)"

definition cleanup_run :: "'w cleanup_service \<Rightarrow> ('w, unit) prog" where
  "cleanup_run s =
     call (tr_DeleteExpired (cl_tokenRepo s)) (\<lambda>t.
       cleanup_report s ''failed to clean expired tokens'' ''cleaned expired tokens'' t
         (call (lr_DeleteExpired (cl_lockRepo s)) (\<lambda>l.
            cleanup_report s ''failed to clean expired locks'' ''cleaned expired locks'' l (Done ()))))"

primrec cleanup_ticks :: "'w cleanup_service \<Rightarrow> nat \<Rightarrow> ('w, unit) prog" where
  "cleanup_ticks s 0 = effect (cl_logger s (log_record Info ''cleanup service stopped'' [])) (Done ())"
| "cleanup_ticks s (Suc n) = bind_prog (cleanup_run s) (\<lambda>_. cleanup_ticks s n)"

definition cleanup_Start :: "'w cleanup_service \<Rightarrow> nat \<Rightarrow> ('w, unit) prog" where
  "cleanup_Start s ticks =
     effect (cl_logger s (log_record Info ''cleanup service started''
       [(''interval'', FInt (cl_interval s))]))
     (cleanup_ticks s ticks)"

lemmas [svc_defs] = cleanup_report_def cleanup_run_def

context ports_keep
begin

lemma keep_cleanup_run:
  assumes "cl_tokenRepo s = tokenRepo" "cl_lockRepo s = lockRepo" "cl_logger s = logger"
  shows "prog_inv I (cleanup_run s)"
  by (auto simp: cleanup_run_def cleanup_report_def assms
      intro!: prog_inv_call prog_inv_effect keep_ops split: sum.splits)

lemma keep_cleanup_Start:
  assumes "cl_tokenRepo s = tokenRepo" "cl_lockRepo s = lockRepo" "cl_logger s = logger"
  shows "prog_inv I (cleanup_Start s n)"
proof -
  have "prog_inv I (cleanup_ticks s n)"
    by (induction n) (auto simp: assms intro!: prog_inv_bind prog_inv_effect keep_ops
        keep_cleanup_run)
  then show ?thesis
    by (auto simp: cleanup_Start_def assms intro!: prog_inv_effect keep_ops)
qed

end

end
