(* ===== verification/Server.thy ===== *)
theory Server
  imports Config LockTable TokenService Contribution PreviewService Cleanup
begin

text \<open>
  The whole process: the configuration, the in-memory state of the services as
  fields of the world, and the wiring of \<^verbatim>\<open>cmd/server/main.go\<close>.  The semaphores of
  the preview service are counters of the world; whether a blocking acquisition is
  given up, and what becomes of a single-flight call, is up to the environment.
\<close>

record server = sysworld +
  sv_cache :: discovery_cache
  sv_reach :: reach_state
  sv_docs :: docs
  sv_counters :: counters
  sv_slots :: int
  sv_active :: int

record server_env = sys_env +
  ext_Acquire :: "nat \<Rightarrow> error option"
  ext_DoChan :: "nat \<Rightarrow> string \<Rightarrow> flight"

definition cache_cell :: "('z server_scheme, discovery_cache) cell" where
  "cache_cell = \<lparr>cell_get = sv_cache, cell_put = (\<lambda>x w. w\<lparr>sv_cache := x\<rparr>)\<rparr>"

definition reach_cell :: "('z server_scheme, reach_state) cell" where
  "reach_cell = \<lparr>cell_get = sv_reach, cell_put = (\<lambda>x w. w\<lparr>sv_reach := x\<rparr>)\<rparr>"

definition docs_cell :: "('z server_scheme, docs) cell" where
  "docs_cell = \<lparr>cell_get = sv_docs, cell_put = (\<lambda>x w. w\<lparr>sv_docs := x\<rparr>)\<rparr>"

definition counters_cell :: "('z server_scheme, counters) cell" where
  "counters_cell = \<lparr>cell_get = sv_counters, cell_put = (\<lambda>x w. w\<lparr>sv_counters := x\<rparr>)\<rparr>"

definition slots_cell :: "('z server_scheme, int) cell" where
  "slots_cell = \<lparr>cell_get = sv_slots, cell_put = (\<lambda>x w. w\<lparr>sv_slots := x\<rparr>)\<rparr>"

definition active_cell :: "('z server_scheme, int) cell" where
  "active_cell = \<lparr>cell_get = sv_active, cell_put = (\<lambda>x w. w\<lparr>sv_active := x\<rparr>)\<rparr>"

interpretation cache_laws: cell_laws cache_cell
  by unfold_locales (simp_all add: cache_cell_def)

interpretation reach_laws: cell_laws reach_cell
  by unfold_locales (simp_all add: reach_cell_def)

interpretation docs_laws: cell_laws docs_cell
  by unfold_locales (simp_all add: docs_cell_def)

interpretation counters_laws: cell_laws counters_cell
  by unfold_locales (simp_all add: counters_cell_def)

interpretation slots_laws: cell_laws slots_cell
  by unfold_locales (simp_all add: slots_cell_def)

interpretation active_laws: cell_laws active_cell
  by unfold_locales (simp_all add: active_cell_def)

text \<open>
  A semaphore of size \<open>n\<close> on a counter.  A blocking acquisition that the environment
  does not give up succeeds when there is room; when there is none it ends with the
  context's error, which is what waiting until the deadline comes to.
\<close>

definition CounterSemaphore ::
  "'e server_env_scheme \<Rightarrow> ('z server_scheme, int) cell \<Rightarrow> int \<Rightarrow> 'z server_scheme weighted" where
  "CounterSemaphore env c n =
     \<lparr>sem_TryAcquire = (\<lambda>w.
        if cell_get c w + 1 \<le> n then (True, cell_put c (cell_get c w + 1) w) else (False, w)),
      sem_Acquire = (\<lambda>w.
        case ext_Acquire env (tick w) of
          Some e \<Rightarrow> (Some e, advance w)
        | None \<Rightarrow>
            if cell_get c w + 1 \<le> n then (None, advance (cell_put c (cell_get c w + 1) w))
            else (Some (Sentinel ContextDeadlineExceeded), advance w)),
      sem_Release = (\<lambda>w. cell_put c (cell_get c w - 1) w)\<rparr>"

definition FlightOutside :: "'e server_env_scheme \<Rightarrow> 'z server_scheme flight_group" where
  "FlightOutside env =
     \<lparr>sf_DoChan = (\<lambda>k w. (ext_DoChan env (tick w) k, advance w))\<rparr>"

lemma advance_server [simp]:
  "sv_cache (advance w) = sv_cache w" "sv_reach (advance w) = sv_reach w"
  "sv_docs (advance w) = sv_docs w" "sv_counters (advance w) = sv_counters w"
  "sv_slots (advance w) = sv_slots w" "sv_active (advance w) = sv_active w"
  by (simp_all add: advance_def)

interpretation slots_sem: weighted_semaphore "CounterSemaphore env slots_cell n" sv_slots n
  for env :: "'e server_env_scheme" and n :: int
  by unfold_locales (auto simp: CounterSemaphore_def slots_cell_def split: option.splits if_splits)

interpretation active_sem: weighted_semaphore "CounterSemaphore env active_cell n" sv_active n
  for env :: "'e server_env_scheme" and n :: int
  by unfold_locales (auto simp: CounterSemaphore_def active_cell_def split: option.splits if_splits)

text \<open>\<^verbatim>\<open>createServices\<close>.\<close>

record 'w services =
  sv_token :: "'w token_service"
  sv_wopi :: "'w wopi_service"
  sv_preview :: "'w preview_service"
  sv_discovery :: "'w discovery_service"
  sv_cleanup :: "'w cleanup_service"
  sv_contribution :: "'w contribution_window"
  sv_publisher :: "'w queue_publisher"

definition NoopPublisher :: "'w queue_publisher" where
  "NoopPublisher = \<lparr>qp_Publish = (\<lambda>t p w. (None, w))\<rparr>"

definition newPublisher :: "'e server_env_scheme \<Rightarrow> config \<Rightarrow> 'z server_scheme queue_publisher" where
  "newPublisher env cfg =
     (if \<not> RabbitMQ_IsConfigured (cfg_RabbitMQ cfg) then NoopPublisher else PublisherOutside env)"

record 'w adapters =
  ad_tokenRepo :: "'w token_repo"
  ad_lockRepo :: "'w lock_repo"
  ad_previewRepo :: "'w preview_cache_repo"
  ad_authSvc :: "'w auth_service"
  ad_fileSvc :: "'w file_service"
  ad_discoveryCli :: "'w discovery_client"
  ad_thumbnailCli :: "'w thumbnail_renderer"
  ad_publisher :: "'w queue_publisher"

definition createAdapters ::
  "'e server_env_scheme \<Rightarrow> 'z server_scheme auth_service \<Rightarrow> config \<Rightarrow> 'z server_scheme adapters" where
  "createAdapters env authSvc cfg =
     \<lparr>ad_tokenRepo = TokenRepository env, ad_lockRepo = LockRepository env,
      ad_previewRepo = PreviewCacheRepository env, ad_authSvc = authSvc, ad_fileSvc = FileServiceOutside env,
      ad_discoveryCli = DiscoveryClientOutside env, ad_thumbnailCli = RendererOutside env,
      ad_publisher = newPublisher env cfg\<rparr>"

text \<open>The semaphores and the single-flight group are made inside \<^verbatim>\<open>NewPreviewService\<close>.\<close>

definition createServices_from ::
  "'e server_env_scheme \<Rightarrow> 'z server_scheme adapters \<Rightarrow> config \<Rightarrow> 'z server_scheme services" where
  "createServices_from env a cfg =
     (let discoverySvc = NewDiscoveryService (ad_discoveryCli a) Logger cache_cell reach_cell;
          tokenSvc = NewTokenService (ad_tokenRepo a) (ad_fileSvc a)
            (ad_authSvc a) (Some discoverySvc) (cfg_TokenSecret cfg) (cfg_BaseURL cfg)
            (cfg_CallbackURL cfg) Logger
      in \<lparr>sv_token = tokenSvc,
          sv_wopi = NewWOPIService (ad_fileSvc a) (ad_lockRepo a) (cfg_BaseURL cfg)
            (cfg_FrontendOrigin cfg) (cfg_MaxLockLifetime cfg) Logger
            [WithRenameEnabled (RabbitMQ_IsConfigured (cfg_RabbitMQ cfg))],
          sv_preview = NewPreviewService
            (\<lambda>name n. CounterSemaphore env (if name = ''slots'' then slots_cell else active_cell) n)
            (FlightOutside env) (ad_fileSvc a) (ad_authSvc a)
            (ad_previewRepo a) (ad_thumbnailCli a) (cfg_PreviewQueueCapacity cfg) Logger,
          sv_discovery = discoverySvc,
          sv_cleanup = NewCleanupService (ad_tokenRepo a) (ad_lockRepo a) Logger,
          sv_contribution = NewContributionWindow (ad_publisher a) (cfg_ContributionWindow cfg) Logger
            docs_cell counters_cell,
          sv_publisher = ad_publisher a\<rparr>)"

definition createServices :: "'e server_env_scheme \<Rightarrow> config \<Rightarrow> 'z server_scheme services" where
  "createServices env cfg =
     createServices_from env (createAdapters env (AuthServiceOutside env) cfg) cfg"

lemmas createServices_defs = createServices_def createServices_from_def createAdapters_def

text \<open>The state of a process that has just started, on a given database.\<close>

definition boot :: "sysworld \<Rightarrow> server" where
  "boot w = \<lparr>tick = tick w, locks = locks w, access_tokens = access_tokens w,
     document_preview_cache = document_preview_cache w, trace = trace w,
     sv_cache = empty_cache, sv_reach = initial_reach, sv_docs = [],
     sv_counters = \<lparr>emitted = 0, publishFail = 0\<rparr>, sv_slots = 0, sv_active = 0\<rparr>"

lemma cell_sel [simp]:
  "cell_get cache_cell w = sv_cache w" "cell_put cache_cell c w = w\<lparr>sv_cache := c\<rparr>"
  "cell_get reach_cell w = sv_reach w" "cell_put reach_cell r w = w\<lparr>sv_reach := r\<rparr>"
  "cell_get docs_cell w = sv_docs w" "cell_put docs_cell d w = w\<lparr>sv_docs := d\<rparr>"
  "cell_get counters_cell w = sv_counters w" "cell_put counters_cell k w = w\<lparr>sv_counters := k\<rparr>"
  by (simp_all add: cache_cell_def reach_cell_def docs_cell_def counters_cell_def)

lemma token_sel [simp]:
  "ts_tokenRepo (sv_token (createServices env cfg)) = TokenRepository env"
  "ts_fileSvc (sv_token (createServices env cfg)) = FileServiceOutside env"
  "ts_authSvc (sv_token (createServices env cfg)) = AuthServiceOutside env"
  "ts_discoverySvc (sv_token (createServices env cfg)) = Some (sv_discovery (createServices env cfg))"
  "ts_baseURL (sv_token (createServices env cfg)) = TrimSuffix (cfg_BaseURL cfg) ''/''"
  "ts_callbackURL (sv_token (createServices env cfg)) = TrimSuffix (cfg_CallbackURL cfg) ''/''"
  "ts_logger (sv_token (createServices env cfg)) = Logger"
  by (simp_all add: createServices_defs NewTokenService_def Let_def)

lemma discovery_sel [simp]:
  "ds_client (sv_discovery (createServices env cfg)) = DiscoveryClientOutside env"
  "ds_logger (sv_discovery (createServices env cfg)) = Logger"
  "ds_cacheTTL (sv_discovery (createServices env cfg)) = defaultDiscoveryCacheTTL"
  "ds_cache (sv_discovery (createServices env cfg)) = cache_cell"
  "ds_reach (sv_discovery (createServices env cfg)) = reach_cell"
  by (simp_all add: createServices_defs NewDiscoveryService_def Let_def)

lemma wopi_sel [simp]:
  "ws_lockRepo (sv_wopi (createServices env cfg)) = LockRepository env"
  "ws_fileSvc (sv_wopi (createServices env cfg)) = FileServiceOutside env"
  "ws_logger (sv_wopi (createServices env cfg)) = Logger"
  "ws_maxLockLifetime (sv_wopi (createServices env cfg)) = cfg_MaxLockLifetime cfg"
  "ws_renameEnabled (sv_wopi (createServices env cfg)) = RabbitMQ_IsConfigured (cfg_RabbitMQ cfg)"
  "ws_postMessageOrigin (sv_wopi (createServices env cfg)) = cfg_FrontendOrigin cfg"
  by (simp_all add: createServices_defs NewWOPIService_def WithRenameEnabled_def Let_def)

lemma window_sel [simp]:
  "cw_publisher (sv_contribution (createServices env cfg)) = newPublisher env cfg"
  "cw_logger (sv_contribution (createServices env cfg)) = Logger"
  "cw_docs (sv_contribution (createServices env cfg)) = docs_cell"
  "cw_counters (sv_contribution (createServices env cfg)) = counters_cell"
  "sv_publisher (createServices env cfg) = newPublisher env cfg"
  by (simp_all add: createServices_defs NewContributionWindow_def Let_def)

lemma preview_sel [simp]:
  "ps_fileSvc (sv_preview (createServices env cfg)) = FileServiceOutside env"
  "ps_authSvc (sv_preview (createServices env cfg)) = AuthServiceOutside env"
  "ps_cache (sv_preview (createServices env cfg)) = PreviewCacheRepository env"
  "ps_renderer (sv_preview (createServices env cfg)) = RendererOutside env"
  "ps_flight (sv_preview (createServices env cfg)) = FlightOutside env"
  "ps_slots (sv_preview (createServices env cfg)) =
     CounterSemaphore env slots_cell (maxActiveRenders + cfg_PreviewQueueCapacity cfg)"
  "ps_active (sv_preview (createServices env cfg)) = CounterSemaphore env active_cell maxActiveRenders"
  "ps_logger (sv_preview (createServices env cfg)) = Logger"
  by (simp_all add: createServices_defs NewPreviewService_def Let_def)

lemma cleanup_sel [simp]:
  "cl_tokenRepo (sv_cleanup (createServices env cfg)) = TokenRepository env"
  "cl_lockRepo (sv_cleanup (createServices env cfg)) = LockRepository env"
  "cl_logger (sv_cleanup (createServices env cfg)) = Logger"
  by (simp_all add: createServices_defs NewCleanupService_def Let_def)

lemma FlightOutside_sel [simp]:
  "sf_DoChan (FlightOutside env) k w = (ext_DoChan env (tick w) k, advance w)"
  by (simp add: FlightOutside_def)

lemma outside_server [simp]:
  "sv_cache (snd (outside reply ev w)) = sv_cache w" "sv_reach (snd (outside reply ev w)) = sv_reach w"
  "sv_docs (snd (outside reply ev w)) = sv_docs w" "sv_counters (snd (outside reply ev w)) = sv_counters w"
  "sv_slots (snd (outside reply ev w)) = sv_slots w" "sv_active (snd (outside reply ev w)) = sv_active w"
  by (simp_all add: outside_def)

lemma Logger_server [simp]:
  "sv_cache (Logger e w) = sv_cache w" "sv_reach (Logger e w) = sv_reach w"
  "sv_docs (Logger e w) = sv_docs w" "sv_counters (Logger e w) = sv_counters w"
  "sv_slots (Logger e w) = sv_slots w" "sv_active (Logger e w) = sv_active w"
  by (simp_all add: Logger_def)

end
