(* ===== verification/Examples.thy ===== *)
theory Examples
  imports Server
begin

text \<open>
  A concrete environment and concrete worlds, on which the theorems of the other
  theories are instantiated.  Both clocks read the same instants, one second apart;
  a \<^verbatim>\<open>timestamptz\<close> column keeps microseconds; the document is a word-processor file
  that its actor may read and write; Collabora offers one action per format.
\<close>

definition ex_start :: time where
  "ex_start = 1700000000 * second"

definition ex_clock :: "nat \<Rightarrow> time" where
  "ex_clock n = ex_start + int n * second"

definition ex_document :: document where
  "ex_document =
     \<lparr>doc_ID = ''doc'', doc_ExternalID = ''v1'', doc_DisplayName = ''Report.docx'',
      doc_MimeType = ''application/vnd.openxmlformats-officedocument.wordprocessingml.document'',
      doc_Size = 3, doc_AuthorizationPolicyID = ''policy'', doc_StorageBucketID = ''bucket'',
      doc_CreatedBy = ''owner'', doc_UpdatedAt = ex_start\<rparr>"

definition ex_discovery :: discovery_data where
  "ex_discovery =
     \<lparr>Actions =
        [\<lparr>act_App = ''writer'', act_Name = ''view'', act_Ext = ''docx'',
          act_URLSrc = ''https://office/view?<ui=UI_LLCC&>''\<rparr>,
         \<lparr>act_App = ''writer'', act_Name = ''edit'', act_Ext = ''docx'',
          act_URLSrc = ''https://office/cool.html?<ui=UI_LLCC&>''\<rparr>],
      ProofKey = \<lparr>Modulus = ''bQ=='', Exponent = ''AQAB'', OldModulus = '''', OldExponent = ''''\<rparr>\<rparr>"

definition ex_env :: sys_env where
  "ex_env =
     \<lparr>pg_now = ex_clock,
      pg_fault = (\<lambda>_. NoFault),
      pg_tstz = (\<lambda>t. t - t mod 1000),
      pg_uuid_Parse = (\<lambda>_. Inl (OpaqueError ''invalid UUID'')),
      go_now = ex_clock,
      go_uuid = of_nat,
      go_rand = (\<lambda>n k. Inr (replicate k (of_nat n))),
      ext_FindByID = (\<lambda>_ _. Inr (Some ex_document)),
      ext_ReadFile = (\<lambda>_ _. Inr ([1, 2, 3], None)),
      ext_WriteFile = (\<lambda>_ _ c.
        Inr \<lparr>fw_ExternalID = ''v2'', fw_MimeType = doc_MimeType ex_document, fw_Size = int (length (fst c))\<rparr>),
      ext_CreatePreviewFile = (\<lambda>_ _ _. Inr ''preview''),
      ext_DeletePreviewFile = (\<lambda>_ _. None),
      ext_CheckPrivilege = (\<lambda>_ _ _ _. Inr \<lparr>Allowed = True, Reason = ''''\<rparr>),
      ext_FetchDiscovery = (\<lambda>_. Inr ex_discovery),
      ext_Render = (\<lambda>_ _ c. Inr c),
      ext_Publish = (\<lambda>_ _ _. None)\<rparr>"

definition ex_world :: sysworld where
  "ex_world = \<lparr>tick = 0, locks = [], access_tokens = [], document_preview_cache = [], trace = []\<rparr>"

definition ex_row :: lock_row where
  "ex_row = \<lparr>row_id = 7, row_file_id = ''doc'', row_lock_id = ''A'',
     row_expires_at = ex_start + 20 * minute, row_created_at = ex_start - 10 * minute\<rparr>"

definition ex_locked :: sysworld where
  "ex_locked = ex_world\<lparr>locks := [ex_row]\<rparr>"

lemmas ex_defs = ex_start_def ex_clock_def ex_document_def ex_discovery_def ex_env_def ex_world_def
  ex_row_def ex_locked_def

lemma ex_env_sel [simp]:
  "pg_now ex_env = ex_clock" "pg_fault ex_env = (\<lambda>_. NoFault)" "pg_tstz ex_env = (\<lambda>t. t - t mod 1000)"
  "go_now ex_env = ex_clock" "go_uuid ex_env = of_nat"
  "go_rand ex_env = (\<lambda>n k. Inr (replicate k (of_nat n)))"
  "ext_FindByID ex_env = (\<lambda>_ _. Inr (Some ex_document))"
  "ext_ReadFile ex_env = (\<lambda>_ _. Inr ([1, 2, 3], None))"
  "ext_CheckPrivilege ex_env = (\<lambda>_ _ _ _. Inr \<lparr>Allowed = True, Reason = ''''\<rparr>)"
  "ext_FetchDiscovery ex_env = (\<lambda>_. Inr ex_discovery)"
  "ext_Render ex_env = (\<lambda>_ _ c. Inr c)"
  "ext_Publish ex_env = (\<lambda>_ _ _. None)"
  "ext_CreatePreviewFile ex_env = (\<lambda>_ _ _. Inr ''preview'')"
  "ext_DeletePreviewFile ex_env = (\<lambda>_ _. None)"
  by (simp_all add: ex_env_def)

lemma ex_world_sel [simp]:
  "tick ex_world = 0" "locks ex_world = []" "access_tokens ex_world = []"
  "document_preview_cache ex_world = []" "trace ex_world = []"
  "tick ex_locked = 0" "locks ex_locked = [ex_row]" "access_tokens ex_locked = []"
  "document_preview_cache ex_locked = []" "trace ex_locked = []"
  by (simp_all add: ex_world_def ex_locked_def)

lemma ex_row_sel [simp]:
  "row_id ex_row = 7" "row_file_id ex_row = ''doc''" "row_lock_id ex_row = ''A''"
  "row_expires_at ex_row = ex_start + 20 * minute" "row_created_at ex_row = ex_start - 10 * minute"
  by (simp_all add: ex_row_def)

text \<open>The instants as numerals.\<close>

lemmas ex_times = ex_clock_def ex_start_def time_units time_Sub_def min_duration_def max_duration_def
  DefaultLockDuration_def

text \<open>The same for the whole process: the environment, a configuration and the first state.\<close>

definition ex_senv :: server_env where
  "ex_senv = sys_env.extend ex_env (server_env.fields (\<lambda>_. None) (\<lambda>_ _. Lead))"

definition ex_cfg :: config where
  "ex_cfg =
     \<lparr>cfg_Database = \<lparr>db_Host = ''localhost'', db_Port = ''5432'', db_Username = ''postgres'',
        db_Password = ''postgres'', db_Name = ''wopi'', db_Timeout = 5 * second\<rparr>,
      cfg_NATS = \<lparr>nats_URL = ''''\<rparr>,
      cfg_AuthSvc = \<lparr>as_URL = ''http://auth'', BreakerFailures = 3, BreakerTimeoutSecs = 15,
        BreakerHalfOpenMax = 2\<rparr>,
      cfg_FileService = \<lparr>fsc_URL = ''http://files''\<rparr>, cfg_RabbitMQ = \<lparr>rmq_URL = ''amqp://broker/''\<rparr>, cfg_ContributionWindow = 600 * second,
      cfg_CollaboraURL = ''http://collabora'', cfg_PreviewQueueCapacity = 8,
      cfg_BaseURL = ''https://office.example/'', cfg_CallbackURL = ''http://wopi'',
      cfg_FrontendOrigin = ''https://office.example'', cfg_TokenSecret = ''s'', cfg_ServerPort = ''8080'',
      cfg_ProofValidation = True, cfg_MaxLockLifetime = 4 * hour\<rparr>"

definition ex_server :: server where
  "ex_server = boot ex_world"

lemma ex_senv_sel [simp]:
  "pg_now ex_senv = ex_clock" "pg_fault ex_senv = (\<lambda>_. NoFault)" "pg_tstz ex_senv = (\<lambda>t. t - t mod 1000)"
  "go_now ex_senv = ex_clock" "go_uuid ex_senv = of_nat"
  "go_rand ex_senv = (\<lambda>n k. Inr (replicate k (of_nat n)))"
  "ext_FindByID ex_senv = (\<lambda>_ _. Inr (Some ex_document))"
  "ext_ReadFile ex_senv = (\<lambda>_ _. Inr ([1, 2, 3], None))"
  "ext_CheckPrivilege ex_senv = (\<lambda>_ _ _ _. Inr \<lparr>Allowed = True, Reason = ''''\<rparr>)"
  "ext_FetchDiscovery ex_senv = (\<lambda>_. Inr ex_discovery)"
  "ext_Render ex_senv = (\<lambda>_ _ c. Inr c)"
  "ext_Publish ex_senv = (\<lambda>_ _ _. None)"
  "ext_CreatePreviewFile ex_senv = (\<lambda>_ _ _. Inr ''preview'')"
  "ext_DeletePreviewFile ex_senv = (\<lambda>_ _. None)"
  "ext_Acquire ex_senv = (\<lambda>_. None)" "ext_DoChan ex_senv = (\<lambda>_ _. Lead)"
  by (simp_all add: ex_senv_def ex_env_def sys_env.extend_def server_env.fields_def)

lemma ex_server_sel [simp]:
  "tick ex_server = 0" "locks ex_server = []" "access_tokens ex_server = []"
  "document_preview_cache ex_server = []" "trace ex_server = []"
  "sv_cache ex_server = empty_cache" "sv_reach ex_server = initial_reach" "sv_docs ex_server = []"
  "sv_counters ex_server = \<lparr>emitted = 0, publishFail = 0\<rparr>" "sv_slots ex_server = 0" "sv_active ex_server = 0"
  by (simp_all add: ex_server_def boot_def)

end
