(* ===== verification/Locking.thy ===== *)
theory Locking
  imports LockTable Examples
begin

text \<open>
  What the lock methods of \<^verbatim>\<open>WOPIService\<close> do, on an abstract map from files to
  locks: one specification per method, as a function of the instants at which the
  database and the process read their clocks.  The locale \<open>wopi_locking\<close> proves
  from the repository's laws that the methods implement the specifications; the
  PostgreSQL repository interprets it.  The second half is about interleavings:
  what concurrent requests can and cannot do to a lock that somebody holds.
\<close>

definition Lock_spec ::
  "(time \<Rightarrow> time) \<Rightarrow> duration \<Rightarrow> (string \<Rightarrow> lock option) \<Rightarrow> string \<Rightarrow> string \<Rightarrow> uuid \<Rightarrow>
   time \<Rightarrow> time \<Rightarrow> time \<Rightarrow> error option \<times> (string \<Rightarrow> lock option)" where
  "Lock_spec tz maxLife m f lid uid t1 now t2 =
     (if lid = '''' then (Some (Errorf ''lock ID must not be empty'' []), m)
      else case active t1 (m f) of
        None \<Rightarrow>
          (None, upsert_map tz \<lparr>lock_ID = uid, lock_FileID = f, LockID = lid,
                   lock_ExpiresAt = now + DefaultLockDuration, lock_CreatedAt = now\<rparr> m)
      | Some l \<Rightarrow>
          if LockID l = lid
          then if lock_ExpiresAt l > t2
               then (None, m(f \<mapsto> l\<lparr>lock_ExpiresAt := tz (now + DefaultLockDuration)\<rparr>))
               else (Some (LockConflictError ''''), m)
          else if 0 < maxLife \<and> time_Sub now (lock_CreatedAt l) > maxLife
          then (None, m(f \<mapsto> l\<lparr>LockID := lid, lock_CreatedAt := tz now,
                              lock_ExpiresAt := tz (now + DefaultLockDuration)\<rparr>))
          else (Some (LockConflictError (LockID l)), m))"

definition Unlock_spec ::
  "(string \<Rightarrow> lock option) \<Rightarrow> string \<Rightarrow> string \<Rightarrow> time \<Rightarrow>
   error option \<times> (string \<Rightarrow> lock option)" where
  "Unlock_spec m f lid t1 =
     (case active t1 (m f) of
        None \<Rightarrow> (Some (LockConflictError ''''), m)
      | Some l \<Rightarrow> if LockID l = lid then (None, m(f := None))
                  else (Some (LockConflictError (LockID l)), m))"

definition RefreshLock_spec ::
  "(time \<Rightarrow> time) \<Rightarrow> (string \<Rightarrow> lock option) \<Rightarrow> string \<Rightarrow> string \<Rightarrow> time \<Rightarrow> time \<Rightarrow> time \<Rightarrow>
   error option \<times> (string \<Rightarrow> lock option)" where
  "RefreshLock_spec tz m f lid t1 now t2 =
     (case active t1 (m f) of
        None \<Rightarrow> (Some (LockConflictError ''''), m)
      | Some l \<Rightarrow>
          if LockID l \<noteq> lid then (Some (LockConflictError (LockID l)), m)
          else if lock_ExpiresAt l > t2
          then (None, m(f \<mapsto> l\<lparr>lock_ExpiresAt := tz (now + DefaultLockDuration)\<rparr>))
          else (Some (LockConflictError ''''), m))"

definition UnlockAndRelock_spec ::
  "(time \<Rightarrow> time) \<Rightarrow> (string \<Rightarrow> lock option) \<Rightarrow> string \<Rightarrow> string \<Rightarrow> string \<Rightarrow> time \<Rightarrow> time \<Rightarrow> time \<Rightarrow>
   error option \<times> (string \<Rightarrow> lock option)" where
  "UnlockAndRelock_spec tz m f newLid oldLid t1 now t2 =
     (if newLid = '''' then (Some (Errorf ''new lock ID must not be empty'' []), m)
      else if oldLid = '''' then (Some (Errorf ''old lock ID must not be empty'' []), m)
      else case active t1 (m f) of
        None \<Rightarrow> (Some (LockConflictError ''''), m)
      | Some l \<Rightarrow>
          if LockID l \<noteq> oldLid then (Some (LockConflictError (LockID l)), m)
          else if lock_ExpiresAt l > t2
          then (None, m(f \<mapsto> l\<lparr>LockID := newLid,
                              lock_ExpiresAt := tz (now + DefaultLockDuration)\<rparr>))
          else (Some (LockConflictError ''''), m))"

text \<open>The service as \<^verbatim>\<open>createServices\<close> of \<^verbatim>\<open>cmd/server/main.go\<close> builds it.\<close>

definition wopi_of ::
  "'e sys_env_scheme \<Rightarrow> string \<Rightarrow> string \<Rightarrow> duration \<Rightarrow> bool \<Rightarrow>
   'z sysworld_scheme wopi_service" where
  "wopi_of env baseURL frontendOrigin maxLockLifetime brokerConfigured =
     NewWOPIService (FileServiceOutside env) (LockRepository env) baseURL frontendOrigin
       maxLockLifetime Logger [WithRenameEnabled brokerConfigured]"

lemma wopi_of_sel [simp]:
  "ws_lockRepo (wopi_of env base orig maxLife ren) = LockRepository env"
  "ws_fileSvc (wopi_of env base orig maxLife ren) = FileServiceOutside env"
  "ws_logger (wopi_of env base orig maxLife ren) = Logger"
  "ws_maxLockLifetime (wopi_of env base orig maxLife ren) = maxLife"
  "ws_renameEnabled (wopi_of env base orig maxLife ren) = ren"
  "ws_postMessageOrigin (wopi_of env base orig maxLife ren) = orig"
  by (simp_all add: wopi_of_def NewWOPIService_def WithRenameEnabled_def)

lemma active_simps [simp]:
  "active t None = None"
  "active t (Some l) = (if lock_ExpiresAt l > t then Some l else None)"
  by (simp_all add: active_def)

lemma active_Some: "active t x = Some l \<longleftrightarrow> x = Some l \<and> lock_ExpiresAt l > t"
  by (auto simp: active_def split: option.splits)

locale wopi_locking = lock_repository repo view inv dbnow tz
  for repo :: "'w lock_repo" and view inv dbnow tz +
  fixes rt :: "'w go_runtime" and logger :: "'w logger"
  assumes now_view: "view (snd (rt_Now rt w)) = view w"
    and now_inv: "inv w \<Longrightarrow> inv (snd (rt_Now rt w))"
    and uuid_view: "view (snd (rt_NewUUID rt w)) = view w"
    and uuid_inv: "inv w \<Longrightarrow> inv (snd (rt_NewUUID rt w))"
    and log_view: "view (logger e w) = view w"
    and log_inv: "inv w \<Longrightarrow> inv (logger e w)"
begin

lemmas pass = find_result find_view find_inv now_view now_inv uuid_view uuid_inv log_view log_inv

text \<open>The world after the read and after the clock reading, and what they returned.\<close>

lemma Lock_refines:
  assumes inv: "inv w" and s: "ws_lockRepo s = repo" "ws_logger s = logger"
    and w1: "w1 = snd (lr_FindByFileID repo f w)"
    and w2: "w2 = snd (rt_Now rt w1)"
    and fresh: "fresh_id (view w) (fst (rt_NewUUID rt w2))"
  shows "(fst (run (Lock rt s f lid) w), view (snd (run (Lock rt s f lid) w))) =
    Lock_spec tz (ws_maxLockLifetime s) (view w) f lid (fst (rt_NewUUID rt w2))
      (dbnow w) (fst (rt_Now rt w1)) (dbnow w2)"
proof (cases "lid = ''''")
  case True
  then show ?thesis by (simp add: Lock_def Lock_spec_def prog_simps)
next
  case False
  let ?now = "fst (rt_Now rt w1)"
  have i2: "inv w2" and v2: "view w2 = view w" by (simp_all add: w1 w2 inv pass)
  show ?thesis
  proof (cases "active (dbnow w) (view w f)")
    case None
    let ?w3 = "snd (rt_NewUUID rt w2)"
    have i3: "inv ?w3" and v3: "view ?w3 = view w" by (simp_all add: i2 v2 pass)
    with fresh False None show ?thesis
      by (simp add: Lock_def Lock_spec_def prog_simps s inv pass w1 [symmetric] w2 [symmetric]
          create_result create_view)
  next
    case (Some l)
    then have l: "view w f = Some l" "lock_ExpiresAt l > dbnow w" by (simp_all add: active_Some)
    let ?ref = "lr_RefreshExpiry repo f lid (Some (l\<lparr>lock_ExpiresAt := ?now + DefaultLockDuration\<rparr>)) w2"
    have ref: "(fst ?ref, view (snd ?ref)) =
        (if LockID l = lid \<and> lock_ExpiresAt l > dbnow w2
         then (None, (view w)(f \<mapsto> l\<lparr>lock_ExpiresAt := tz (?now + DefaultLockDuration)\<rparr>))
         else (Some (Sentinel ErrStaleLock), view w))"
      using refresh [OF i2, of f lid "l\<lparr>lock_ExpiresAt := ?now + DefaultLockDuration\<rparr>"]
      by (simp add: cas_map_def v2 l)
    let ?take = "\<lambda>e. lr_Takeover repo f (LockID l) lid ?now (?now + DefaultLockDuration) (logger e w2)"
    have tk: "(fst (?take e), view (snd (?take e))) =
        (None, (view w)(f \<mapsto> l\<lparr>LockID := lid, lock_CreatedAt := tz ?now,
                              lock_ExpiresAt := tz (?now + DefaultLockDuration)\<rparr>))" for e
      using takeover [OF log_inv [OF i2], of f "LockID l" lid ?now "?now + DefaultLockDuration" e]
      by (simp add: cas_map_def v2 l log_view)
    show ?thesis using ref tk False Some v2
      by (auto simp: Lock_def Lock_takeover_def Lock_spec_def prog_simps s inv pass
          w1 [symmetric] w2 [symmetric] split: if_splits)
  qed
qed

lemma Unlock_refines:
  assumes inv: "inv w" and s: "ws_lockRepo s = repo"
  shows "(fst (run (Unlock s f lid) w), view (snd (run (Unlock s f lid) w))) =
    Unlock_spec (view w) f lid (dbnow w)"
proof -
  let ?w1 = "snd (lr_FindByFileID repo f w)"
  have i1: "inv ?w1" and v1: "view ?w1 = view w" by (simp_all add: inv pass)
  show ?thesis
    using delete [OF i1, of f lid]
    by (cases "view w f")
       (auto simp: Unlock_def Unlock_spec_def prog_simps s inv pass v1 cas_map_def)
qed

lemma RefreshLock_refines:
  assumes inv: "inv w" and s: "ws_lockRepo s = repo"
    and w1: "w1 = snd (lr_FindByFileID repo f w)" and w2: "w2 = snd (rt_Now rt w1)"
  shows "(fst (run (RefreshLock rt s f lid) w), view (snd (run (RefreshLock rt s f lid) w))) =
    RefreshLock_spec tz (view w) f lid (dbnow w) (fst (rt_Now rt w1)) (dbnow w2)"
proof (cases "view w f")
  case None
  then show ?thesis
    by (simp add: RefreshLock_def RefreshLock_spec_def prog_simps s inv pass)
next
  case (Some l)
  have i2: "inv w2" and v2: "view w2 = view w" and v1: "view w1 = view w"
    by (simp_all add: w1 w2 inv pass)
  from refresh [OF i2, of f lid "l\<lparr>lock_ExpiresAt := fst (rt_Now rt w1) + DefaultLockDuration\<rparr>"] Some
  show ?thesis
    by (auto simp: RefreshLock_def RefreshLock_spec_def prog_simps s inv pass v1 v2
        w1 [symmetric] w2 [symmetric] cas_map_def split: if_splits)
qed

lemma UnlockAndRelock_refines:
  assumes inv: "inv w" and s: "ws_lockRepo s = repo"
    and w1: "w1 = snd (lr_FindByFileID repo f w)" and w2: "w2 = snd (rt_Now rt w1)"
  shows "(fst (run (UnlockAndRelock rt s f newLid oldLid) w),
          view (snd (run (UnlockAndRelock rt s f newLid oldLid) w))) =
    UnlockAndRelock_spec tz (view w) f newLid oldLid (dbnow w) (fst (rt_Now rt w1)) (dbnow w2)"
proof (cases "view w f")
  case None
  then show ?thesis
    by (simp add: UnlockAndRelock_def UnlockAndRelock_spec_def prog_simps s inv pass)
next
  case (Some l)
  have i2: "inv w2" and v2: "view w2 = view w" and v1: "view w1 = view w"
    by (simp_all add: w1 w2 inv pass)
  let ?nl = "\<lparr>lock_ID = 0, lock_FileID = '''', LockID = '''',
     lock_ExpiresAt = fst (rt_Now rt w1) + DefaultLockDuration, lock_CreatedAt = zero_time\<rparr>"
  from update [OF i2, of f oldLid newLid ?nl] Some
  show ?thesis
    by (auto simp: UnlockAndRelock_def UnlockAndRelock_spec_def prog_simps s inv pass v1 v2
        w1 [symmetric] w2 [symmetric] cas_map_def split: if_splits)
qed

lemma HasActiveLock_result:
  assumes "inv w" and "ws_lockRepo s = repo"
  shows "fst (run (HasActiveLock s f) w) =
    Inr (active (dbnow w) (view w f) \<noteq> None, active (dbnow w) (view w f))"
  using assms by (simp add: HasActiveLock_def prog_simps pass)

end

interpretation pg_locking: wopi_locking "LockRepository (fault_free env)"
    "lock_view :: 'z sysworld_scheme \<Rightarrow> _" "\<lambda>w. wf_locks (locks w)" "\<lambda>w. pg_now env (tick w)"
    "pg_tstz env" "GoRuntime env" Logger
  for env :: "'e sys_env_scheme"
  by unfold_locales (simp_all add: lock_view_rows)

lemma wopi_uses_wopi_of [simp]:
  "wopi_uses (FileServiceOutside env) (LockRepository env) Logger (wopi_of env base orig maxLife ren)"
  by (simp add: wopi_uses_def)

lemma run_Lock_wf: "wf_db w \<Longrightarrow> wf_db (snd (run (Lock (GoRuntime env) (wopi_of env b og m rn) f lid) w))"
  by (rule prog_inv_run [OF wf_ports.keep_Lock]) simp_all

lemma tick_create [simp]: "tick (snd (LockRepository_Create env (Some l) w)) = Suc (tick w)"
  by (simp add: repo_defs db_stmt_def locks_table_def Let_def split_beta split: pg_fault.splits)

lemma tick_find [simp]: "tick (snd (LockRepository_FindByFileID env f w)) = Suc (tick w)"
  by (simp add: repo_defs db_stmt_def locks_table_def Let_def split_beta split: pg_fault.splits)

lemma Lock_pg:
  assumes "reliable env" and "wf_db w" and "fresh_id (lock_view w) (go_uuid env (tick w + 2))"
  shows "(let out = run (Lock (GoRuntime env) (wopi_of env base orig maxLife ren) f lid) w
          in (fst out, lock_view (snd out))) =
    Lock_spec (pg_tstz env) maxLife (lock_view w) f lid (go_uuid env (tick w + 2))
      (pg_now env (tick w)) (go_now env (tick w + 1)) (pg_now env (tick w + 2))"
  using pg_locking.Lock_refines [of w "wopi_of env base orig maxLife ren" env _ f] assms(1-3)
  by (simp add: Let_def fault_free_reliable wf_db_def)

text \<open>
  C6: \<^verbatim>\<open>WOPIService.Lock\<close> on the PostgreSQL repository implements \<open>Lock_spec\<close>.  Run
  alone on a reliable database it answers and changes the map of locks exactly as
  the specification says at the three instants it reads: the database's clock at
  the look-up and at the write, the process's clock in between.
\<close>

theorem Lock_implements_spec:
  assumes "reliable env" and "wf_db w" and "fresh_id (lock_view w) (go_uuid env (tick w + 2))"
  shows "(let out = run (Lock (GoRuntime env) (wopi_of env base orig maxLife ren) f lid) w
          in (fst out, lock_view (snd out))) =
    Lock_spec (pg_tstz env) maxLife (lock_view w) f lid (go_uuid env (tick w + 2))
      (pg_now env (tick w)) (go_now env (tick w + 1)) (pg_now env (tick w + 2))"
  using assms by (rule Lock_pg)

lemma ex_reliable [simp]: "reliable ex_env"
  by (simp add: reliable_def ex_env_def)

lemma ex_wf [simp]: "wf_db ex_locked" "wf_db ex_world"
  by (simp_all add: wf_db_def wf_locks_def wf_tokens_def wf_previews_def)

lemma ex_view [simp]: "lock_view ex_locked f = (if f = ''doc'' then Some (lock_of_row ex_row) else None)"
  by (simp add: lock_view_def)

lemma ex_fresh [simp]: "fresh_id (lock_view ex_locked) uid = (uid \<noteq> 7)"
  by (auto simp: fresh_id_def)

theorem Lock_implements_spec_witness:
  "(let out = run (Lock (GoRuntime ex_env) (wopi_of ex_env '''' '''' hour True) ''doc'' ''B'') ex_locked
    in (fst out, lock_view (snd out))) = (Some (LockConflictError ''A''), lock_view ex_locked)"
  using Lock_implements_spec [of ex_env ex_locked "''''" "''''" hour True "''doc''" "''B''"]
  by (simp add: Lock_spec_def ex_times)

text \<open>
  \<^verbatim>\<open>Unlock\<close>, \<^verbatim>\<open>RefreshLock\<close> and \<^verbatim>\<open>UnlockAndRelock\<close> implement their
  specifications on the same map: only the holder's identifier changes anything, an
  answer other than success leaves the map alone, and a conflict names the lock that
  is in the way.
\<close>

theorem unlock_refresh_relock_implement_spec:
  assumes "reliable env" and "wf_db w" and "s = wopi_of env base orig maxLife ren"
  shows "(let out = run (Unlock s f lid) w in (fst out, lock_view (snd out))) =
      Unlock_spec (lock_view w) f lid (pg_now env (tick w))
    \<and> (let out = run (RefreshLock (GoRuntime env) s f lid) w in (fst out, lock_view (snd out))) =
      RefreshLock_spec (pg_tstz env) (lock_view w) f lid
        (pg_now env (tick w)) (go_now env (tick w + 1)) (pg_now env (tick w + 2))
    \<and> (let out = run (UnlockAndRelock (GoRuntime env) s f new old) w
       in (fst out, lock_view (snd out))) =
      UnlockAndRelock_spec (pg_tstz env) (lock_view w) f new old
        (pg_now env (tick w)) (go_now env (tick w + 1)) (pg_now env (tick w + 2))"
  using assms
    pg_locking.Unlock_refines [of w s env f lid]
    pg_locking.RefreshLock_refines [of w s env _ f _ lid]
    pg_locking.UnlockAndRelock_refines [of w s env _ f _ new old]
  by (simp add: fault_free_reliable wf_db_def Let_def)

theorem unlock_refresh_relock_implement_spec_witness:
  "fst (run (Unlock (wopi_of ex_env '''' '''' hour True) ''doc'' ''A'') ex_locked) = None
   \<and> fst (run (RefreshLock (GoRuntime ex_env) (wopi_of ex_env '''' '''' hour True) ''doc'' ''X'') ex_locked)
       = Some (LockConflictError ''A'')
   \<and> fst (run (UnlockAndRelock (GoRuntime ex_env) (wopi_of ex_env '''' '''' hour True) ''doc'' ''B'' ''A'')
       ex_locked) = None"
  using unlock_refresh_relock_implement_spec
    [of ex_env ex_locked "wopi_of ex_env '''' '''' hour True" "''''" "''''" hour True "''doc''" "''A''"
      "''B''" "''A''"]
    unlock_refresh_relock_implement_spec
    [of ex_env ex_locked "wopi_of ex_env '''' '''' hour True" "''''" "''''" hour True "''doc''" "''X''"]
  by (auto simp: Let_def Unlock_spec_def RefreshLock_spec_def UnlockAndRelock_spec_def ex_times
      split: if_splits)

text \<open>
  C21: a lock acquired over an expired row inherits the row's creation instant.  The
  upsert of \<^verbatim>\<open>Create\<close> does not write \<^verbatim>\<open>created_at\<close> when the file already has a row, so
  a client that has just been given the lock can lose it at once: when the expired
  row was created more than \<^verbatim>\<open>MAX_LOCK_LIFETIME\<close> ago, the next \<^verbatim>\<open>Lock\<close> request of any
  other client takes the fresh lock over.
\<close>

theorem reacquired_lock_is_taken_over:
  assumes env: "reliable env" and wf: "wf_db w"
    and row: "lock_view w f = Some l" and expired: "lock_ExpiresAt l \<le> pg_now env (tick w)"
    and ids: "a \<noteq> ''''" "b \<noteq> ''''" "a \<noteq> b"
    and fresh: "fresh_id (lock_view w) (go_uuid env (tick w + 2))"
    and s: "s = wopi_of env base orig maxLife ren"
    and w1: "w1 = snd (run (Lock (GoRuntime env) s f a) w)"
    and fresh': "fresh_id (lock_view w) (go_uuid env (tick w1 + 2))"
    and live: "pg_now env (tick w1) < pg_tstz env (go_now env (tick w + 1) + DefaultLockDuration)"
    and old: "0 < maxLife" "maxLife < time_Sub (go_now env (tick w1 + 1)) (lock_CreatedAt l)"
  shows "fst (run (Lock (GoRuntime env) s f a) w) = None
    \<and> lock_view w1 f = Some (l\<lparr>LockID := a,
         lock_ExpiresAt := pg_tstz env (go_now env (tick w + 1) + DefaultLockDuration)\<rparr>)
    \<and> fst (run (Lock (GoRuntime env) s f b) w1) = None
    \<and> map_option LockID (lock_view (snd (run (Lock (GoRuntime env) s f b) w1)) f) = Some b"
proof -
  let ?l1 = "l\<lparr>LockID := a,
    lock_ExpiresAt := pg_tstz env (go_now env (tick w + 1) + DefaultLockDuration)\<rparr>"
  have first: "fst (run (Lock (GoRuntime env) s f a) w) = None \<and> lock_view w1 = (lock_view w)(f \<mapsto> ?l1)"
    using Lock_pg [OF env wf fresh, of base orig maxLife ren f a] row expired ids
    by (simp add: s w1 Lock_spec_def upsert_map_def Let_def)
  have wf1: "wf_db w1" unfolding w1 s using wf by (rule run_Lock_wf)
  have "fresh_id (lock_view w1) (go_uuid env (tick w1 + 2))"
    using first fresh' row by (auto simp: fresh_id_def split: if_splits)
  from Lock_pg [OF env wf1 this, of base orig maxLife ren f b] first live old ids
  show ?thesis by (simp add: s Lock_spec_def Let_def)
qed

definition ex_expired :: sysworld where
  "ex_expired = ex_world\<lparr>locks := [ex_row\<lparr>row_expires_at := ex_start - minute,
     row_created_at := ex_start - 13 * hour\<rparr>]\<rparr>"

theorem reacquired_lock_is_taken_over_witness:
  "\<exists>w1. fst (run (Lock (GoRuntime ex_env) (wopi_of ex_env '''' '''' (12 * hour) True) ''doc'' ''B'') ex_expired)
      = None
    \<and> fst (run (Lock (GoRuntime ex_env) (wopi_of ex_env '''' '''' (12 * hour) True) ''doc'' ''C'') w1) = None
    \<and> w1 = snd (run (Lock (GoRuntime ex_env) (wopi_of ex_env '''' '''' (12 * hour) True) ''doc'' ''B'') ex_expired)"
proof -
  have wf: "wf_db ex_expired"
    by (simp add: wf_db_def wf_locks_def wf_tokens_def wf_previews_def ex_expired_def)
  have view: "lock_view ex_expired = [''doc'' \<mapsto> lock_of_row (ex_row\<lparr>row_expires_at := ex_start - minute,
     row_created_at := ex_start - 13 * hour\<rparr>)]"
    by (simp add: fun_eq_iff lock_view_def ex_expired_def)
  have find: "fst (LockRepository_FindByFileID ex_env ''doc'' ex_expired) = Inr None"
    by (simp add: repo_defs sql_defs db_stmt_def locks_table_def optional_row_def ex_expired_def ex_times)
  have t0: "tick ex_expired = 0" by (simp add: ex_expired_def)
  have t1: "tick (snd (run (Lock (GoRuntime ex_env) (wopi_of ex_env '''' '''' m True) ''doc'' ''B'') ex_expired)) = 4"
    for m by (simp add: Lock_def prog_simps find t0)
  show ?thesis
    using reacquired_lock_is_taken_over [OF ex_reliable wf _ _ _ _ _ _ refl refl, of "''doc''" _ "''B''" "''C''"
        "''''" "''''" "12 * hour" True]
    by (simp add: view t0 t1 fresh_id_def ex_times)
qed

end
