(* ===== verification/LockConcurrency.thy ===== *)
theory LockConcurrency
  imports Locking
begin

text \<open>
  Interleavings of lock requests.  Requests run concurrently on one database, in
  one process or in several; every statement may fail, before or after it took
  effect.  The first part shows what no interleaving can break: the keys of the
  tables, and a lock that is held.  The second part shows what an interleaving can
  do, because acquisition reads first and writes later.
\<close>

text \<open>A program whose answer is dropped, so that programs of different types share a pool.\<close>

definition forget :: "('w, 'a) prog \<Rightarrow> ('w, unit) prog" where
  "forget p = bind_prog p (\<lambda>_. Done ())"

lemma prog_inv_forget: "prog_inv I p \<Longrightarrow> prog_inv I (forget p)"
  unfolding forget_def by (rule prog_inv_bind) simp_all

text \<open>The row of \<open>f\<close> is \<open>r\<close>.\<close>

definition holds :: "string \<Rightarrow> lock_row \<Rightarrow> 'z pgdb_scheme \<Rightarrow> bool" where
  "holds f r w = (wf_locks (locks w) \<and> row_at (locks w) f = Some r)"

lemma holds_stmt:
  assumes "holds f r w"
    and "wf_locks (locks w) \<Longrightarrow> wf_locks (snd (st (pg_now env (tick w)) (locks w)))"
    and "row_at (snd (st (pg_now env (tick w)) (locks w))) f = row_at (locks w) f"
  shows "holds f r (snd (db_stmt env locks_table st w))"
  using db_stmt_locks_cases [of env st w] assms by (auto simp: holds_def)

lemma holds_cong: "locks w' = locks w \<Longrightarrow> holds f r w' = holds f r w"
  by (simp add: holds_def)

lemma holds_outside [simp]:
  "holds f r (advance w) = holds f r w"
  "holds f r (snd (outside reply ev w')) = holds f r w'"
  "holds f r (Logger e w') = holds f r w'"
  by (simp_all add: holds_def)

text \<open>Each repository operation, in the cases in which it cannot touch the row.\<close>

lemma row_at_filter_hit: "row_at rows f = Some r \<Longrightarrow> P r \<Longrightarrow> row_at (filter P rows) f = Some r"
  by (induction rows) (auto split: if_splits)

lemma holds_find: "holds f r w \<Longrightarrow> holds f r (snd (LockRepository_FindByFileID env g w))"
  by (auto simp: repo_defs sql_defs intro: holds_stmt)

lemma holds_create:
  assumes "holds f r w" and "lock_FileID l \<noteq> f"
  shows "holds f r (snd (LockRepository_Create env (Some l) w))"
proof -
  have "row_at (snd (sql_upsertLock env (lock_ID l) (lock_FileID l) (LockID l) (lock_ExpiresAt l)
           (lock_CreatedAt l) t rows)) f = row_at rows f" for t rows
    using assms(2)
    by (auto simp: sql_defs row_at_append row_at_map_if split: option.splits dest: row_at_file)
  then show ?thesis using assms(1) by (simp add: repo_defs holds_stmt wf_sql_locks)
qed

lemma holds_refresh:
  assumes "holds f r w" and "g \<noteq> f \<or> lid \<noteq> row_lock_id r"
  shows "holds f r (snd (LockRepository_RefreshExpiry env g lid (Some l) w))"
  using assms
  by (auto simp: repo_defs intro!: holds_stmt wf_sql_locks)
     (auto simp: sql_defs holds_def row_at_map_if dest: row_at_file)

lemma holds_update:
  assumes "holds f r w" and "g \<noteq> f \<or> lid \<noteq> row_lock_id r"
  shows "holds f r (snd (LockRepository_UpdateLockID env g lid lid2 l w))"
  using assms
  by (auto simp: repo_defs intro!: holds_stmt wf_sql_locks)
     (auto simp: sql_defs holds_def row_at_map_if dest: row_at_file)

lemma holds_takeover:
  assumes "holds f r w" and "g \<noteq> f \<or> lid \<noteq> row_lock_id r"
  shows "holds f r (snd (LockRepository_Takeover env g lid lid2 cr ex w))"
  using assms
  by (auto simp: repo_defs intro!: holds_stmt wf_sql_locks)
     (auto simp: sql_defs holds_def row_at_map_if dest: row_at_file)

lemma holds_delete:
  assumes "holds f r w" and "g \<noteq> f \<or> lid \<noteq> row_lock_id r"
  shows "holds f r (snd (LockRepository_DeleteByFileID env g lid w))"
  using assms
  by (auto simp: repo_defs intro!: holds_stmt wf_sql_locks)
     (auto simp: sql_defs holds_def intro!: row_at_filter_hit dest: row_at_file)

lemma holds_delete_expired:
  assumes "holds f r w" and "pg_now env (tick w) < row_expires_at r"
  shows "holds f r (snd (LockRepository_DeleteExpired env w))"
  using assms
  by (auto simp: repo_defs intro!: holds_stmt wf_sql_locks)
     (auto simp: sql_defs holds_def intro!: row_at_filter_hit)

text \<open>While the row is live, an honest read of its file finds it or fails.\<close>

lemma find_held:
  assumes "honest_faults env" and "holds f r w" and "pg_now env (tick w) < row_expires_at r"
  shows "fst (LockRepository_FindByFileID env f w) = Inr (Some (lock_of_row r))
         \<or> (\<exists>e. fst (LockRepository_FindByFileID env f w) = Inl e)"
proof -
  have "filter (\<lambda>x. row_file_id x = f \<and> row_expires_at x > pg_now env (tick w)) (locks w) = [r]"
    using assms(2,3) by (simp add: holds_def wf_filter_file)
  moreover have "case pg_fault env (tick w) of NoFault \<Rightarrow> True
      | FailBefore e \<Rightarrow> \<not> errors_Is e PgxErrNoRows | FailAfter e \<Rightarrow> \<not> errors_Is e PgxErrNoRows"
    using assms(1) by (simp add: honest_faults_def)
  ultimately show ?thesis
    by (auto simp: repo_defs sql_defs db_stmt_def locks_table_def optional_row_def
        split: pg_fault.splits)
qed

text \<open>
  What the environment has to leave alone for the row to stay: the database's
  clock has not passed the expiry, and no process sees the lock as older than
  \<^verbatim>\<open>MAX_LOCK_LIFETIME\<close>.  A finite interleaving reads the clocks finitely often, so
  the quantifier over all readings only speaks of those.
\<close>

definition undisturbed :: "'e sys_env_scheme \<Rightarrow> duration \<Rightarrow> lock_row \<Rightarrow> bool" where
  "undisturbed env maxLife r =
     (honest_faults env \<and> (\<forall>n. pg_now env n < row_expires_at r)
      \<and> (\<forall>n. maxLife \<le> 0 \<or> time_Sub (go_now env n) (row_created_at r) \<le> maxLife))"

text \<open>
  The requests that do not present the lock identifier \<open>L\<close> for the file \<open>f\<close>, and
  the clean-up statement of the background job.
\<close>

inductive other_client ::
  "'e sys_env_scheme \<Rightarrow> 'z sysworld_scheme wopi_service \<Rightarrow> string \<Rightarrow> string \<Rightarrow>
   ('z sysworld_scheme, unit) prog \<Rightarrow> bool"
  for env s f L where
  lock: "g \<noteq> f \<or> lid \<noteq> L \<Longrightarrow> other_client env s f L (forget (Lock (GoRuntime env) s g lid))"
| unlock: "g \<noteq> f \<or> lid \<noteq> L \<Longrightarrow> other_client env s f L (forget (Unlock s g lid))"
| refresh: "g \<noteq> f \<or> lid \<noteq> L \<Longrightarrow>
    other_client env s f L (forget (RefreshLock (GoRuntime env) s g lid))"
| relock: "g \<noteq> f \<or> old \<noteq> L \<Longrightarrow>
    other_client env s f L (forget (UnlockAndRelock (GoRuntime env) s g new old))"
| put_file: "other_client env s f L (forget (PutFile (GoRuntime env) s token lid content))"
| get_lock: "other_client env s f L (forget (HasActiveLock s g))"
| cleanup: "other_client env s f L (forget (call (lr_DeleteExpired (ws_lockRepo s)) Done))"

lemma held_read:
  assumes "undisturbed env m r" and "holds f r w"
    and "fst (LockRepository_FindByFileID env f w) = Inr x"
  shows "x = Some (lock_of_row r)"
  using find_held [of env f r w] assms by (auto simp: undisturbed_def)

lemma held_not_old:
  assumes "undisturbed env m r"
  shows "\<not> (0 < m \<and> m < time_Sub (go_now env n) (row_created_at r))"
  using assms unfolding undisturbed_def by (metis linorder_not_less)

lemmas holds_steps = holds_find holds_create holds_refresh holds_update holds_takeover holds_delete

lemma inv_PutFile:
  "prog_inv (holds f r) (PutFile (GoRuntime env) (wopi_of env b og m rn) token lid content)"
  by (auto simp: PutFile_def Let_def intro!: prog_inv_call holds_find
      split: sum.splits option.splits)

lemma inv_HasActiveLock: "prog_inv (holds f r) (HasActiveLock (wopi_of env b og m rn) g)"
  by (auto simp: HasActiveLock_def intro!: prog_inv_call holds_find split: sum.splits)

lemma inv_cleanup:
  assumes "undisturbed env m r"
  shows "prog_inv (holds f r) (call (lr_DeleteExpired (ws_lockRepo (wopi_of env b og m rn))) Done)"
  using assms by (auto simp: undisturbed_def intro!: prog_inv_call holds_delete_expired)

lemma inv_Unlock:
  assumes "g \<noteq> f \<or> lid \<noteq> row_lock_id r"
  shows "prog_inv (holds f r) (Unlock (wopi_of env b og m rn) g lid)"
  using assms
  by (auto simp: Unlock_def intro!: prog_inv_call holds_steps split: sum.splits option.splits)

lemma inv_RefreshLock:
  assumes "g \<noteq> f \<or> lid \<noteq> row_lock_id r"
  shows "prog_inv (holds f r) (RefreshLock (GoRuntime env) (wopi_of env b og m rn) g lid)"
  using assms
  by (auto simp: RefreshLock_def intro!: prog_inv_call holds_steps split: sum.splits option.splits)

lemma inv_UnlockAndRelock:
  assumes "g \<noteq> f \<or> old \<noteq> row_lock_id r"
  shows "prog_inv (holds f r) (UnlockAndRelock (GoRuntime env) (wopi_of env b og m rn) g new old)"
  using assms
  by (auto simp: UnlockAndRelock_def intro!: prog_inv_call holds_steps
      split: sum.splits option.splits)

lemma inv_Lock_refetch: "prog_inv (holds f r) (Lock_refetch (wopi_of env b og m rn) g)"
  by (auto simp: Lock_refetch_def intro!: prog_inv_call holds_find split: sum.splits option.splits)

lemma inv_Lock_takeover:
  assumes "g \<noteq> f \<or> LockID ex \<noteq> row_lock_id r"
  shows "prog_inv (holds f r) (Lock_takeover (wopi_of env b og m rn) g ex lid now)"
  using assms
  by (auto simp: Lock_takeover_def intro!: prog_inv_call prog_inv_effect holds_steps inv_Lock_refetch)

lemma inv_Lock:
  assumes calm: "undisturbed env m r" and other: "g \<noteq> f \<or> lid \<noteq> row_lock_id r"
  shows "prog_inv (holds f r) (Lock (GoRuntime env) (wopi_of env b og m rn) g lid)"
proof (cases "g = f")
  case False
  then show ?thesis
    by (auto simp: Lock_def intro!: prog_inv_call holds_steps inv_Lock_takeover
        split: sum.splits option.splits)
next
  case True
  with other have ne: "row_lock_id r \<noteq> lid" by simp
  have found: "fst (LockRepository_FindByFileID env f w) = Inr (Some (lock_of_row r))
      \<or> (\<exists>e. fst (LockRepository_FindByFileID env f w) = Inl e)"
    if "holds f r w" for w :: "'z sysworld_scheme"
    using find_held [of env f r w] calm that by (simp add: undisturbed_def)
  show ?thesis
    unfolding Lock_def True wopi_of_sel LockRepository_sel
    using ne held_not_old [OF calm]
    by (auto intro!: prog_inv_call holds_find simp del: disj_not1)
       (drule found, elim disjE exE, auto intro!: prog_inv_call)
qed

lemma other_client_keeps:
  assumes "other_client env (wopi_of env b og m rn) f (row_lock_id r) p" and "undisturbed env m r"
  shows "prog_inv (holds f r) p"
  using assms
  by (cases rule: other_client.cases)
     (auto intro!: prog_inv_forget inv_Lock inv_Unlock inv_RefreshLock inv_UnlockAndRelock
        inv_PutFile inv_HasActiveLock inv_cleanup simp del: wopi_of_sel)


definition ex_rivals :: "(sysworld, unit) prog list" where
  "ex_rivals =
     [forget (Lock (GoRuntime (ex_env\<lparr>pg_now := \<lambda>_. ex_start, go_now := \<lambda>_. ex_start\<rparr>))
        (wopi_of (ex_env\<lparr>pg_now := \<lambda>_. ex_start, go_now := \<lambda>_. ex_start\<rparr>) '''' '''' hour True)
        ''doc'' ''B''),
      forget (Unlock
        (wopi_of (ex_env\<lparr>pg_now := \<lambda>_. ex_start, go_now := \<lambda>_. ex_start\<rparr>) '''' '''' hour True)
        ''doc'' ''C'')]"


text \<open>
  Acquisition is a read, then an upsert that does not compare: two clients that
  both read before either writes are both told that they hold the lock.
\<close>

lemma sched_call:
  "i < length ps \<Longrightarrow> ps ! i = call op k \<Longrightarrow>
   sched (i # js) (ps, w) = sched js (ps[i := k (fst (op w))], snd (op w))"
  by (simp add: call_def split_beta)

lemma find_unlocked:
  assumes "row_at (locks w) f = None" and "wf_locks (locks w)"
  shows "LockRepository_FindByFileID (fault_free env) f w = (Inr None, advance w)"
  using wf_filter_file [OF assms(2), of f "\<lambda>r. row_expires_at r > pg_now env (tick w)"] assms(1)
  by (simp add: lock_repo_unfold advance_def)

lemma create_again:
  assumes wf: "wf_locks (locks w)" and row: "row_at (locks w) (lock_FileID l) = Some r"
  shows "fst (LockRepository_Create (fault_free env) (Some l) w) = None"
    and "row_at (locks (snd (LockRepository_Create (fault_free env) (Some l) w))) (lock_FileID l) =
      Some (r\<lparr>row_lock_id := LockID l, row_expires_at := pg_tstz env (lock_ExpiresAt l)\<rparr>)"
  using row by (simp_all add: lock_repo_unfold list_ex_file row_at_map_if)
     (metis row_at_file)

lemma create_first:
  assumes wf: "wf_locks (locks w)" and row: "row_at (locks w) (lock_FileID l) = None"
    and fresh: "\<forall>r\<in>set (locks w). row_id r \<noteq> lock_ID l"
    and out_def: "out = LockRepository_Create (fault_free env) (Some l) w"
  shows "fst out = None" and "wf_locks (locks (snd out))"
    and "row_at (locks (snd out)) (lock_FileID l) =
      Some \<lparr>row_id = lock_ID l, row_file_id = lock_FileID l, row_lock_id = LockID l,
            row_expires_at = pg_tstz env (lock_ExpiresAt l), row_created_at = pg_tstz env (lock_CreatedAt l)\<rparr>"
    and "tick (snd out) = Suc (tick w)"
proof -
  have "\<not> list_ex (\<lambda>r. row_id r = lock_ID l) (locks w)" using fresh by (auto simp: list_ex_iff)
  with row show "fst out = None" "row_at (locks (snd out)) (lock_FileID l) =
      Some \<lparr>row_id = lock_ID l, row_file_id = lock_FileID l, row_lock_id = LockID l,
            row_expires_at = pg_tstz env (lock_ExpiresAt l), row_created_at = pg_tstz env (lock_CreatedAt l)\<rparr>"
    by (simp_all add: out_def lock_repo_unfold list_ex_file row_at_append)
  show "wf_locks (locks (snd out))" "tick (snd out) = Suc (tick w)"
    using wf by (simp_all add: out_def repo_defs snd_db_stmt_fault_free wf_sql_locks)
qed

text \<open>
  C20: two concurrent \<^verbatim>\<open>Lock\<close> requests for an unlocked file can both succeed.  From
  every world in which the file has no row there is an interleaving after which
  both requests have answered success and the table holds the second identifier
  only, so the first client's belief that it holds the lock is wrong.
\<close>

theorem concurrent_acquire_both_succeed:
  assumes wf: "wf_locks (locks w)" and row: "row_at (locks w) f = None"
    and ids: "a \<noteq> ''''" "b \<noteq> ''''"
    and fresh: "\<forall>r\<in>set (locks w). row_id r \<noteq> go_uuid env (tick w + 3)"
    and env: "reliable env" and s: "s = wopi_of env base orig maxLife ren"
  shows "\<exists>w'. pool_reach ([Lock (GoRuntime env) s f a, Lock (GoRuntime env) s f b], w)
                         ([Done None, Done None], w')
              \<and> map_option LockID (lock_view w' f) = Some b"
proof -
  note ff = fault_free_reliable [OF env]
  let ?w4 = "advance (advance (advance (advance w)))"
  let ?l = "\<lambda>uid lid now. \<lparr>lock_ID = uid, lock_FileID = f, LockID = lid,
      lock_ExpiresAt = now + DefaultLockDuration, lock_CreatedAt = now\<rparr>"
  let ?la = "?l (go_uuid env (tick w + 3)) a (go_now env (tick w + 2))"
  let ?w5 = "snd (LockRepository_Create (fault_free env) (Some ?la) ?w4)"
  let ?lb = "?l (go_uuid env (tick w + 6)) b (go_now env (tick w + 5))"
  let ?w7 = "advance (advance ?w5)"
  let ?w8 = "snd (LockRepository_Create (fault_free env) (Some ?lb) ?w7)"
  have wf4: "wf_locks (locks ?w4)" "row_at (locks ?w4) (lock_FileID ?la) = None"
    "\<forall>r\<in>set (locks ?w4). row_id r \<noteq> lock_ID ?la"
    using wf row fresh by simp_all
  note first = create_first [OF wf4 refl, of env]
  have wf7: "wf_locks (locks ?w7)" using first(2) by simp
  note again = create_again [OF wf7, of ?lb, simplified, OF first(3) [simplified], of env]
  let ?ps = "[Lock (GoRuntime env) s f a, Lock (GoRuntime env) s f b]"
  have finds: "LockRepository_FindByFileID (fault_free env) f w = (Inr None, advance w)"
    "LockRepository_FindByFileID (fault_free env) f (advance w) = (Inr None, advance (advance w))"
    using wf row by (simp_all add: find_unlocked)
  have "sched [0, 1, 0, 0, 0, 1, 1, 1] (?ps, w) = ([Done None, Done None], ?w8)"
    using ids first(1,4) again(1)
    by (simp add: s Lock_def sched_call finds [unfolded ff] ff numeral_eq_Suc del: sched.simps(2))
  then have "pool_reach (?ps, w) ([Done None, Done None], ?w8)"
    using pool_reach_sched [of ?ps w "[0, 1, 0, 0, 0, 1, 1, 1]"] by simp
  moreover have "map_option LockID (lock_view ?w8 f) = Some b"
    using again(2) by (simp add: lock_view_def)
  ultimately show ?thesis by blast
qed

theorem concurrent_acquire_both_succeed_witness:
  "\<exists>w'. pool_reach
      ([Lock (GoRuntime ex_env) (wopi_of ex_env '''' '''' hour True) ''doc'' ''A'',
        Lock (GoRuntime ex_env) (wopi_of ex_env '''' '''' hour True) ''doc'' ''B''], ex_world)
      ([Done None, Done None], w') \<and> map_option LockID (lock_view w' ''doc'') = Some ''B''"
  by (rule concurrent_acquire_both_succeed [OF _ _ _ _ _ _ refl])
     (simp_all add: wf_locks_def)

end
