(* ===== verification/GoUTF8.thy ===== *)
theory GoUTF8
  imports GoURL
begin

text \<open>
  UTF-8 as package \<^verbatim>\<open>unicode/utf8\<close> reads and writes it.  A Go string is a sequence of
  bytes that need not be valid; \<open>DecodeRune\<close> answers the code point and the number of
  bytes it took, with \<open>RuneError\<close> and one byte where the bytes are no encoding.
\<close>

definition RuneError :: nat where
  "RuneError = 0xFFFD"

text \<open>How many bytes an encoding with this first byte has; 0 when none starts so.\<close>

definition rune_size :: "char \<Rightarrow> nat" where
  "rune_size c =
     (if byte_of c < 0x80 then 1
      else if byte_of c < 0xC2 then 0
      else if byte_of c < 0xE0 then 2
      else if byte_of c < 0xF0 then 3
      else if byte_of c < 0xF5 then 4
      else 0)"

text \<open>The range of the second byte: no overlong forms, no surrogates, nothing past U+10FFFF.\<close>

definition second_ok :: "char \<Rightarrow> char \<Rightarrow> bool" where
  "second_ok c d =
     ((if byte_of c = 0xE0 then 0xA0 else if byte_of c = 0xF0 then 0x90 else 0x80) \<le> byte_of d
      \<and> byte_of d \<le> (if byte_of c = 0xED then 0x9F else if byte_of c = 0xF4 then 0x8F else 0xBF))"

definition continuation :: "char \<Rightarrow> bool" where
  "continuation c = (0x80 \<le> byte_of c \<and> byte_of c \<le> 0xBF)"

fun DecodeRune :: "string \<Rightarrow> nat \<times> nat" where
  "DecodeRune [] = (RuneError, 0)"
| "DecodeRune (c # s) =
     (if rune_size c = 1 then (byte_of c, 1)
      else if rune_size c = 2
      then (case s of
              d # _ \<Rightarrow> if second_ok c d then (byte_of c mod 32 * 64 + byte_of d mod 64, 2) else (RuneError, 1)
            | _ \<Rightarrow> (RuneError, 1))
      else if rune_size c = 3
      then (case s of
              d # e # _ \<Rightarrow>
                if second_ok c d \<and> continuation e
                then (byte_of c mod 16 * 4096 + byte_of d mod 64 * 64 + byte_of e mod 64, 3) else (RuneError, 1)
            | _ \<Rightarrow> (RuneError, 1))
      else if rune_size c = 4
      then (case s of
              d # e # f # _ \<Rightarrow>
                if second_ok c d \<and> continuation e \<and> continuation f
                then (byte_of c mod 8 * 262144 + byte_of d mod 64 * 4096 + byte_of e mod 64 * 64 + byte_of f mod 64, 4)
                else (RuneError, 1)
            | _ \<Rightarrow> (RuneError, 1))
      else (RuneError, 1))"

definition IsSurrogate :: "nat \<Rightarrow> bool" where
  "IsSurrogate r = (0xD800 \<le> r \<and> r < 0xE000)"

definition encode3 :: "nat \<Rightarrow> string" where
  "encode3 r = [char_of (0xE0 + r div 4096), char_of (0x80 + r div 64 mod 64), char_of (0x80 + r mod 64)]"

definition EncodeRune :: "nat \<Rightarrow> string" where
  "EncodeRune r =
     (if r < 0x80 then [char_of r]
      else if r < 0x800 then [char_of (0xC0 + r div 64), char_of (0x80 + r mod 64)]
      else if r > 0x10FFFF \<or> IsSurrogate r then encode3 RuneError
      else if r < 0x10000 then encode3 r
      else [char_of (0xF0 + r div 262144), char_of (0x80 + r div 4096 mod 64),
            char_of (0x80 + r div 64 mod 64), char_of (0x80 + r mod 64)])"

lemma DecodeRune_size: "s \<noteq> [] \<Longrightarrow> 1 \<le> snd (DecodeRune s) \<and> snd (DecodeRune s) \<le> length s"
  by (cases s) (auto split: list.splits)

lemma DecodeRune_ascii: "byte_of c < 0x80 \<Longrightarrow> DecodeRune (c # s) = (byte_of c, 1)"
  by (simp add: rune_size_def)

text \<open>Only the bytes of the encoding are looked at.\<close>

lemma DecodeRune_append:
  assumes "DecodeRune s = (r, n)" and "\<not> (r = RuneError \<and> n = 1)" and "s \<noteq> []"
  shows "DecodeRune (take n s @ t) = (r, n)"
proof (cases s)
  case (Cons c cs)
  consider "rune_size c = 1" | "rune_size c = 2" | "rune_size c = 3" | "rune_size c = 4" | "rune_size c \<notin> {1, 2, 3, 4}"
    by blast
  then show ?thesis
  proof cases
    case 1
    then have "(r, n) = (byte_of c, 1)" using assms(1) Cons by simp
    with 1 Cons show ?thesis by simp
  qed (use assms Cons in \<open>auto split: if_splits list.splits\<close>)
qed (use assms in simp)

text \<open>Every string as the library repairs it: what is no encoding becomes U+FFFD.\<close>

function to_valid :: "string \<Rightarrow> string" where
  "to_valid s =
     (if s = [] then [] else EncodeRune (fst (DecodeRune s)) @ to_valid (drop (snd (DecodeRune s)) s))"
  by pat_completeness auto
termination
  by (relation "measure length") (use DecodeRune_size in \<open>auto simp: Suc_le_eq\<close>)

declare to_valid.simps [simp del]

lemma to_valid_Nil [simp]: "to_valid [] = []"
  by (simp add: to_valid.simps)

text \<open>\<^verbatim>\<open>utf8.ValidString\<close>.\<close>

function ValidString :: "string \<Rightarrow> bool" where
  "ValidString s =
     (if s = [] then True
      else if DecodeRune s = (RuneError, 1) then False
      else ValidString (drop (snd (DecodeRune s)) s))"
  by pat_completeness auto
termination
  by (relation "measure length") (use DecodeRune_size in \<open>auto simp: Suc_le_eq\<close>)

declare ValidString.simps [simp del]

lemma ValidString_Nil [simp]: "ValidString []"
  by (simp add: ValidString.simps)

text \<open>Decoding and encoding are inverse on the bytes of an encoding.\<close>

lemma char_of_byte: "byte_of c = n \<Longrightarrow> char_of n = c"
  by auto

lemma byte_mod:
  "x < 32 \<Longrightarrow> (192 + x) mod 32 = x" "x < 16 \<Longrightarrow> (224 + x) mod 16 = x" "x < 8 \<Longrightarrow> (240 + x) mod 8 = x"
  "x < 64 \<Longrightarrow> (128 + x) mod 64 = x" for x :: nat
  using mod_mult_self3 [of 6 32 x] mod_mult_self3 [of 14 16 x] mod_mult_self3 [of 30 8 x] mod_mult_self3 [of 2 64 x]
  by simp_all

lemma base64_digits:
  fixes x y z u :: nat
  assumes "z < 64" "u < 64" "y < 64"
  shows "(x * 4096 + y * 64 + z) div 4096 = x" "(x * 4096 + y * 64 + z) div 64 mod 64 = y"
    "(x * 4096 + y * 64 + z) mod 64 = z"
    "(x * 262144 + y * 4096 + z * 64 + u) div 262144 = x" "(x * 262144 + y * 4096 + z * 64 + u) div 4096 mod 64 = y"
    "(x * 262144 + y * 4096 + z * 64 + u) div 64 mod 64 = z" "(x * 262144 + y * 4096 + z * 64 + u) mod 64 = u"
proof -
  have step: "(a * 64 + b) div 64 = a" "(a * 64 + b) mod 64 = b" if "b < 64" for a b :: nat using that by simp_all
  have four: "n div 4096 = n div 64 div 64" "n div 262144 = n div 64 div 64 div 64" for n :: nat
    by (simp_all add: div_mult2_eq [symmetric])
  have 3: "x * 4096 + y * 64 + z = (x * 64 + y) * 64 + z" by simp
  have 4: "x * 262144 + y * 4096 + z * 64 + u = ((x * 64 + y) * 64 + z) * 64 + u" by simp
  show "(x * 4096 + y * 64 + z) div 4096 = x" "(x * 4096 + y * 64 + z) div 64 mod 64 = y"
    "(x * 4096 + y * 64 + z) mod 64 = z"
    "(x * 262144 + y * 4096 + z * 64 + u) div 262144 = x" "(x * 262144 + y * 4096 + z * 64 + u) div 4096 mod 64 = y"
    "(x * 262144 + y * 4096 + z * 64 + u) div 64 mod 64 = z" "(x * 262144 + y * 4096 + z * 64 + u) mod 64 = u"
    unfolding 3 4 four using assms by (simp_all only: step)
qed

lemma continuationE:
  assumes "continuation c"
  obtains x where "byte_of c = 128 + x" "x < 64"
  using assms by (intro that [of "byte_of c - 128"]) (auto simp: continuation_def)

lemma second_continuation: "second_ok c d \<Longrightarrow> continuation d"
  by (auto simp: second_ok_def continuation_def split: if_splits)

lemma encode_2:
  assumes "rune_size c = 2" and "second_ok c d"
  shows "EncodeRune (byte_of c mod 32 * 64 + byte_of d mod 64) = [c, d]"
proof -
  define x where "x = byte_of c - 192"
  have c: "byte_of c = 192 + x" "2 \<le> x" "x < 32" using assms(1) by (auto simp: x_def rune_size_def split: if_splits)
  obtain y where d: "byte_of d = 128 + y" "y < 64"
    using continuationE [OF second_continuation [OF assms(2)]] by blast
  have "byte_of c mod 32 * 64 + byte_of d mod 64 = x * 64 + y" using c d by (simp add: byte_mod)
  moreover have "(x * 64 + y) div 64 = x" "(x * 64 + y) mod 64 = y" using d by simp_all
  ultimately show ?thesis
    using c d char_of_byte [OF c(1)] char_of_byte [OF d(1)] by (simp add: EncodeRune_def)
qed

lemma encode_3:
  assumes "rune_size c = 3" and "second_ok c d" and "continuation e"
  shows "EncodeRune (byte_of c mod 16 * 4096 + byte_of d mod 64 * 64 + byte_of e mod 64) = [c, d, e]"
proof -
  define x where "x = byte_of c - 224"
  have c: "byte_of c = 224 + x" "x < 16" using assms(1) by (auto simp: x_def rune_size_def split: if_splits)
  obtain y where d: "byte_of d = 128 + y" "y < 64"
    using continuationE [OF second_continuation [OF assms(2)]] by blast
  obtain z where e: "byte_of e = 128 + z" "z < 64" using continuationE [OF assms(3)] by blast
  define r where "r = x * 4096 + y * 64 + z"
  have eq: "byte_of c mod 16 * 4096 + byte_of d mod 64 * 64 + byte_of e mod 64 = r"
    using c d e by (simp add: byte_mod r_def)
  have "r div 4096 = x" "r div 64 mod 64 = y" "r mod 64 = z"
    unfolding r_def using d e base64_digits(1-3) by blast+
  moreover have "0x800 \<le> r" "r < 0x10000" "\<not> IsSurrogate r"
    using assms(2) c d e by (auto simp: r_def second_ok_def IsSurrogate_def split: if_splits)
  ultimately show ?thesis
    using char_of_byte [OF c(1)] char_of_byte [OF d(1)] char_of_byte [OF e(1)]
    by (simp add: eq EncodeRune_def encode3_def)
qed

lemma encode_4:
  assumes "rune_size c = 4" and "second_ok c d" and "continuation e" and "continuation f"
  shows "EncodeRune (byte_of c mod 8 * 262144 + byte_of d mod 64 * 4096 + byte_of e mod 64 * 64 + byte_of f mod 64) =
    [c, d, e, f]"
proof -
  define x where "x = byte_of c - 240"
  have c: "byte_of c = 240 + x" "x < 8" "x \<le> 4" using assms(1) by (auto simp: x_def rune_size_def split: if_splits)
  obtain y where d: "byte_of d = 128 + y" "y < 64"
    using continuationE [OF second_continuation [OF assms(2)]] by blast
  obtain z where e: "byte_of e = 128 + z" "z < 64" using continuationE [OF assms(3)] by blast
  obtain u where f: "byte_of f = 128 + u" "u < 64" using continuationE [OF assms(4)] by blast
  define r where "r = x * 262144 + y * 4096 + z * 64 + u"
  have eq: "byte_of c mod 8 * 262144 + byte_of d mod 64 * 4096 + byte_of e mod 64 * 64 + byte_of f mod 64 = r"
    using c d e f by (simp add: byte_mod r_def)
  have "r div 262144 = x" "r div 4096 mod 64 = y" "r div 64 mod 64 = z" "r mod 64 = u"
    unfolding r_def using d e f base64_digits(4-7) by blast+
  moreover have "0x10000 \<le> r" "r \<le> 0x10FFFF"
    using assms(2) c d e f by (auto simp: r_def second_ok_def split: if_splits)
  ultimately show ?thesis
    using char_of_byte [OF c(1)] char_of_byte [OF d(1)] char_of_byte [OF e(1)] char_of_byte [OF f(1)]
    by (simp add: eq EncodeRune_def IsSurrogate_def)
qed

lemma EncodeRune_DecodeRune:
  assumes "DecodeRune s = (r, n)" and "(r, n) \<noteq> (RuneError, 1)" and "s \<noteq> []"
  shows "EncodeRune r = take n s"
proof (cases s)
  case (Cons c cs)
  consider "rune_size c = 1" | "rune_size c = 2" | "rune_size c = 3" | "rune_size c = 4" | "rune_size c \<notin> {1, 2, 3, 4}"
    by blast
  then show ?thesis
  proof cases
    case 1
    then have "byte_of c < 128" by (auto simp: rune_size_def split: if_splits)
    moreover have "(r, n) = (byte_of c, 1)" using assms(1) Cons 1 by simp
    ultimately show ?thesis using Cons by (simp add: EncodeRune_def)
  qed (use assms Cons in \<open>auto simp: encode_2 encode_3 encode_4 split: if_splits list.splits\<close>)
qed (use assms in simp)

lemma to_valid_ValidString: "ValidString s \<Longrightarrow> to_valid s = s"
proof (induction s rule: ValidString.induct)
  case (1 s)
  show ?case
  proof (cases "s = []")
    case False
    obtain r n where d: "DecodeRune s = (r, n)" by fastforce
    from "1.prems" False have ok: "DecodeRune s \<noteq> (RuneError, 1)" "ValidString (drop n s)"
      by (auto simp: ValidString.simps [of s] d split: if_splits)
    have "EncodeRune r = take n s" using EncodeRune_DecodeRune [OF d _ False] ok d by auto
    with "1.IH" [OF False] ok d False show ?thesis by (simp add: to_valid.simps [of s])
  qed simp
qed

lemma ValidString_ascii: "list_all (\<lambda>c. byte_of c < 0x80) s \<Longrightarrow> ValidString s"
  by (induction s) (simp_all add: ValidString.simps [of "_ # _"] rune_size_def RuneError_def)

end
