(* ===== verification/GoStrings.thy ===== *)
theory GoStrings
  imports GoUTF8
begin

text \<open>
  \<^verbatim>\<open>strings.TrimSpace\<close>.  White space is what \<^verbatim>\<open>unicode.IsSpace\<close> accepts, in ASCII and
  beyond.  The first and the last character of a Go string are found by decoding UTF-8
  forwards and backwards; no encoding of a character begins or ends inside another one, so
  the last one is a space exactly when the string ends with the bytes of a space.
\<close>

definition space_runes :: "nat list" where
  "space_runes = [0x09, 0x0A, 0x0B, 0x0C, 0x0D, 0x20, 0x85, 0xA0, 0x1680, 0x2000, 0x2001, 0x2002, 0x2003, 0x2004, 0x2005,
     0x2006, 0x2007, 0x2008, 0x2009, 0x200A, 0x2028, 0x2029, 0x202F, 0x205F, 0x3000]"

definition spaces :: "string list" where
  "spaces = map EncodeRune space_runes"

lemma EncodeRune_nonempty [simp]: "EncodeRune r \<noteq> []"
  by (simp add: EncodeRune_def encode3_def)

lemma find_space: "find P spaces = Some p \<Longrightarrow> P p \<and> p \<in> set spaces \<and> p \<noteq> []"
  by (auto simp: find_Some_iff spaces_def)

definition starts_with_space :: "string \<Rightarrow> bool" where
  "starts_with_space s = list_ex (HasPrefix s) spaces"

definition ends_with_space :: "string \<Rightarrow> bool" where
  "ends_with_space s = list_ex (HasSuffix s) spaces"

function TrimLeftSpace :: "string \<Rightarrow> string" where
  "TrimLeftSpace s =
     (case find (HasPrefix s) spaces of None \<Rightarrow> s | Some p \<Rightarrow> TrimLeftSpace (drop (length p) s))"
  by pat_completeness auto
termination
proof (relation "measure length")
  fix s p assume "find (HasPrefix s) spaces = Some p"
  then have "p \<noteq> []" "take (length p) s = p" by (auto simp: HasPrefix_def dest!: find_space)
  then show "(drop (length p) s, s) \<in> measure length" by (cases s; cases p) auto
qed simp

function TrimRightSpace :: "string \<Rightarrow> string" where
  "TrimRightSpace s =
     (case find (HasSuffix s) spaces of
        None \<Rightarrow> s
      | Some p \<Rightarrow> TrimRightSpace (take (length s - length p) s))"
  by pat_completeness auto
termination
proof (relation "measure length")
  fix s p assume "find (HasSuffix s) spaces = Some p"
  then have "p \<noteq> []" "length p \<le> length s" by (auto simp: HasSuffix_def dest!: find_space)
  then show "(take (length s - length p) s, s) \<in> measure length" by (cases p) auto
qed simp

definition TrimSpace :: "string \<Rightarrow> string" where
  "TrimSpace s = TrimRightSpace (TrimLeftSpace s)"

declare TrimLeftSpace.simps [simp del] TrimRightSpace.simps [simp del]

text \<open>A string starts with a space exactly when the character decoded first is one.\<close>

lemma DecodeRune_space:
  assumes "r \<in> set space_runes"
  shows "DecodeRune (EncodeRune r @ s) = (r, length (EncodeRune r))"
proof -
  have "list_all (\<lambda>r. DecodeRune (EncodeRune r @ s) = (r, length (EncodeRune r))) space_runes"
    unfolding space_runes_def list.pred_inject
    by (intro conjI) (simp_all add: EncodeRune_def encode3_def IsSurrogate_def rune_size_def second_ok_def continuation_def)
  with assms show ?thesis by (simp add: list_all_iff)
qed

lemma starts_with_space_decoded: "starts_with_space s \<longleftrightarrow> fst (DecodeRune s) \<in> set space_runes"
proof
  assume "starts_with_space s"
  then obtain r where r: "r \<in> set space_runes" "HasPrefix s (EncodeRune r)"
    by (auto simp: starts_with_space_def spaces_def list_ex_iff)
  then have "s = EncodeRune r @ drop (length (EncodeRune r)) s" by (metis HasPrefix_def append_take_drop_id)
  with DecodeRune_space [OF r(1)] r(1) show "fst (DecodeRune s) \<in> set space_runes" by (metis fst_conv)
next
  assume sp: "fst (DecodeRune s) \<in> set space_runes"
  obtain r n where d: "DecodeRune s = (r, n)" by fastforce
  have "RuneError \<notin> set space_runes" by (simp add: RuneError_def space_runes_def)
  with sp d have "r \<noteq> RuneError" "s \<noteq> []" by auto
  with EncodeRune_DecodeRune [OF d] have e: "EncodeRune r = take n s" by auto
  then have "HasPrefix s (EncodeRune r)" unfolding HasPrefix_def e by (metis length_take min.cobounded1 take_take take_all_iff min.commute)
  with sp d show "starts_with_space s" by (auto simp: starts_with_space_def spaces_def list_ex_iff)
qed

text \<open>What is left has no space at its ends, and is part of what was there.\<close>

lemma find_none: "find P xs = None \<longleftrightarrow> \<not> list_ex P xs"
  by (auto simp: find_None_iff list_ex_iff)

lemma TrimLeftSpace_clean: "\<not> starts_with_space (TrimLeftSpace s)" "set (TrimLeftSpace s) \<subseteq> set s"
proof (induction s rule: TrimLeftSpace.induct)
  case (1 s)
  case 1
  show ?case using "1.IH"(1) by (subst TrimLeftSpace.simps) (auto simp: starts_with_space_def find_none split: option.split)
  case 2
  show ?case using "1.IH"(2) by (subst TrimLeftSpace.simps) (auto dest: in_set_dropD split: option.split)
qed

lemma TrimRightSpace_clean: "\<not> ends_with_space (TrimRightSpace s)" "\<exists>t. s = TrimRightSpace s @ t"
proof (induction s rule: TrimRightSpace.induct)
  case (1 s)
  case 1
  show ?case using "1.IH"(1) by (subst TrimRightSpace.simps) (auto simp: ends_with_space_def find_none split: option.split)
  case 2
  show ?case
  proof (cases "find (HasSuffix s) spaces")
    case None
    then show ?thesis by (simp add: TrimRightSpace.simps [of s])
  next
    case (Some p)
    from "1.IH"(2) [OF Some] obtain t where "take (length s - length p) s = TrimRightSpace (take (length s - length p) s) @ t" ..
    then have "s = TrimRightSpace (take (length s - length p) s) @ t @ drop (length s - length p) s"
      by (metis append_assoc append_take_drop_id)
    then show ?thesis using Some by (simp add: TrimRightSpace.simps [of s]) blast
  qed
qed

lemma TrimSpace_clean:
  "\<not> starts_with_space (TrimSpace s)" "\<not> ends_with_space (TrimSpace s)" "set (TrimSpace s) \<subseteq> set s"
proof -
  obtain t where t: "TrimLeftSpace s = TrimSpace s @ t" using TrimRightSpace_clean(2) by (metis TrimSpace_def)
  have "HasPrefix (TrimLeftSpace s) p" if "HasPrefix (TrimSpace s) p" for p
  proof -
    from that have "length p \<le> length (TrimSpace s)" by (metis HasPrefix_def length_take min.absorb_iff2 nat_le_linear min.absorb1)
    with that show ?thesis by (simp add: t HasPrefix_def)
  qed
  then show "\<not> starts_with_space (TrimSpace s)"
    using TrimLeftSpace_clean(1) [of s] by (auto simp: starts_with_space_def list_ex_iff)
  show "\<not> ends_with_space (TrimSpace s)" by (simp add: TrimSpace_def TrimRightSpace_clean)
  show "set (TrimSpace s) \<subseteq> set s" using TrimLeftSpace_clean(2) [of s] t by auto
qed

text \<open>Strings with ASCII letters at their ends stay as they are.\<close>

lemma starts_with_space_ascii:
  "byte_of c < 0x80 \<Longrightarrow> starts_with_space (c # s) \<longleftrightarrow> byte_of c \<in> {0x09, 0x0A, 0x0B, 0x0C, 0x0D, 0x20}"
  by (auto simp: starts_with_space_decoded rune_size_def space_runes_def)

lemma ends_with_space_ascii:
  assumes "byte_of c < 0x80" and "byte_of c \<notin> {0x09, 0x0A, 0x0B, 0x0C, 0x0D, 0x20}"
  shows "\<not> ends_with_space (s @ [c])"
proof -
  have "list_all (\<lambda>p. byte_of (last p) \<in> {0x09, 0x0A, 0x0B, 0x0C, 0x0D, 0x20} \<or> 0x80 \<le> byte_of (last p)) spaces"
    unfolding spaces_def space_runes_def list.map list.pred_inject
    by (intro conjI) (simp_all add: EncodeRune_def encode3_def IsSurrogate_def)
  moreover have "last p = c" if "p \<in> set spaces" "HasSuffix (s @ [c]) p" for p
  proof -
    from that(1) have "p \<noteq> []" by (auto simp: spaces_def)
    moreover from that(2) have "p = drop (Suc (length s) - length p) (s @ [c])" "length p \<le> Suc (length s)"
      by (simp_all add: HasSuffix_def)
    ultimately show ?thesis by (metis last_drop last_snoc length_append_singleton length_drop length_greater_0_conv zero_less_diff)
  qed
  ultimately show ?thesis using assms by (fastforce simp: ends_with_space_def list_ex_iff list_all_iff)
qed

lemma TrimSpace_none: "\<not> starts_with_space s \<Longrightarrow> \<not> ends_with_space s \<Longrightarrow> TrimSpace s = s"
  by (simp add: TrimSpace_def TrimLeftSpace.simps [of s] TrimRightSpace.simps [of s] starts_with_space_def
      ends_with_space_def find_none [symmetric])

end
