(* ===== verification/Http.thy ===== *)
theory Http
  imports WopiService TokenService Contribution PreviewService GoStrings
begin

text \<open>
  Requests, responses and the middleware of \<^verbatim>\<open>internal/adapter/inbound/http\<close>.  A request
  holds what the code reads of it: method, path, raw query, headers (\<^verbatim>\<open>Header.Get\<close> is a
  function with the empty string for an absent header), body, the router's URL
  parameter and the values middleware put into the context.  A response holds the
  status, the headers the code sets and the value that is encoded as the body.  A
  handler is a program for every request, middleware maps handlers to handlers.
\<close>

record request =
  rq_Method :: string
  rq_Path :: string
  rq_RawQuery :: string
  rq_Header :: "string \<Rightarrow> string"
  rq_Body :: stream
  rq_Host :: string
  rq_TLS :: bool
  rq_RequestURI :: string
  rq_fileID :: string
  rq_token :: "access_token option"
  rq_actorID :: string
  rq_actorName :: string

record put_file_response =
  pfr_LastModifiedTime :: string
  pfr_Version :: string

record lock_status_response =
  lsr_Locked :: bool
  lsr_ExpiresAt :: string

record health_response =
  hr_Status :: string
  hr_Collabora :: string
  hr_CollaboraLastSuccess :: string

datatype body =
    NoBody
  | ErrorText string
  | FileInfoBody file_info
  | ContentBody bytes
  | RenameBody string
  | PutFileBody put_file_response
  | TokenBody token_issuance_result
  | LockStatusBody lock_status_response
  | HealthBody health_response
  | DiscoveryBody discovery_data

record response =
  rs_Status :: nat
  rs_Headers :: "(string \<times> string) list"
  rs_Body :: body

type_synonym 'w handler = "request \<Rightarrow> ('w, response) prog"
type_synonym 'w middleware = "'w handler \<Rightarrow> 'w handler"

text \<open>
  \<^verbatim>\<open>http.Error\<close>, always called with a JSON object that has the message as its \<^verbatim>\<open>error\<close>, and
  \<^verbatim>\<open>WriteHeader\<close> without a body.
\<close>

definition error_json :: "string \<Rightarrow> string" where
  "error_json msg = ''{\"error\":\"'' @ msg @ ''\"}''"

definition http_Error :: "nat \<Rightarrow> string \<Rightarrow> response" where
  "http_Error status msg =
     \<lparr>rs_Status = status,
      rs_Headers = [(''Content-Type'', ''text/plain; charset=utf-8''), (''X-Content-Type-Options'', ''nosniff'')],
      rs_Body = ErrorText (error_json msg @ [CHR 0x0A])\<rparr>"

definition http_ErrorWith :: "(string \<times> string) list \<Rightarrow> nat \<Rightarrow> string \<Rightarrow> response" where
  "http_ErrorWith hs status msg = (http_Error status msg)\<lparr>rs_Headers := hs @ rs_Headers (http_Error status msg)\<rparr>"

definition WriteHeader :: "nat \<Rightarrow> response" where
  "WriteHeader status = \<lparr>rs_Status = status, rs_Headers = [], rs_Body = NoBody\<rparr>"

definition json_response :: "(string \<times> string) list \<Rightarrow> nat \<Rightarrow> body \<Rightarrow> response" where
  "json_response hs status b =
     \<lparr>rs_Status = status, rs_Headers = hs @ [(''Content-Type'', ''application/json'')], rs_Body = b\<rparr>"

text \<open>
  \<^verbatim>\<open>io.Copy\<close> from a stream to the response: what arrives is passed on, and an error of the
  source can only be logged, since the status has been sent.  Writing to the client does
  not fail here.
\<close>

definition copied :: "(error \<Rightarrow> 'w \<Rightarrow> 'w) \<Rightarrow> stream \<Rightarrow> ('w, 'r) prog \<Rightarrow> ('w, 'r) prog" where
  "copied report st p = (case snd st of Some err \<Rightarrow> effect (report err) p | None \<Rightarrow> p)"

lemma run_copied [prog_simps]:
  "run (copied report st p) w = run p (case snd st of Some err \<Rightarrow> report err w | None \<Rightarrow> w)"
  by (simp add: copied_def prog_simps split: option.split)

lemma prog_inv_copied:
  "(\<And>err w. I w \<Longrightarrow> I (report err w)) \<Longrightarrow> prog_inv I p \<Longrightarrow> prog_inv I (copied report st p)"
  by (auto simp: copied_def intro!: prog_inv_effect split: option.split)

text \<open>\<^verbatim>\<open>URL.Query().Get\<close>: malformed pairs are dropped, the first value of the key counts.\<close>

definition query_pair :: "string \<Rightarrow> (string \<times> string) option" where
  "query_pair part =
     (if CHR '';'' \<in> set part \<or> part = '''' then None
      else let (k, v, _) = Cut (CHR ''='') part
           in case (QueryUnescape k, QueryUnescape v) of
                (Inr k', Inr v') \<Rightarrow> Some (k', v')
              | _ \<Rightarrow> None)"

definition query_Get :: "string \<Rightarrow> string \<Rightarrow> string" where
  "query_Get raw key =
     (case map_of (List.map_filter query_pair (split_on (CHR ''&'') raw)) key of
        Some v \<Rightarrow> v | None \<Rightarrow> '''')"

text \<open>A query string of one escaped pair gives the value back.\<close>

lemma query_Get_escaped: "query_Get (''access_token='' @ QueryEscape v) ''access_token'' = v"
proof -
  have key: "QueryUnescape ''access_token'' = Inr ''access_token''"
    by (simp add: QueryUnescape_def)
  have "CHR '';'' \<notin> set (QueryEscape v)" "CHR ''&'' \<notin> set (QueryEscape v)"
    using QueryEscape_safe query_safe_separators(1,7) by blast+
  moreover have "Cut (CHR ''='') (''access_token='' @ QueryEscape v) = (''access_token'', QueryEscape v, True)"
    using Cut_append [of "CHR ''=''" "''access_token''" "QueryEscape v"] by simp
  ultimately show ?thesis
    by (simp add: query_Get_def query_pair_def split_on_absent map_filter_simps key QueryUnescape_QueryEscape
        del: append_Cons)
qed

text \<open>\<^verbatim>\<open>signals.go\<close>: the outcome categories.\<close>

definition outcomeWriteFailed :: string where "outcomeWriteFailed = ''write_failed''"
definition outcomeLockRepoError :: string where "outcomeLockRepoError = ''lock_repo_error''"
definition outcomeMetadataLookup :: string where "outcomeMetadataLookup = ''metadata_lookup_failed''"
definition outcomeDiscoveryUnavail :: string where "outcomeDiscoveryUnavail = ''discovery_unavailable''"
definition outcomeTokenPersist :: string where "outcomeTokenPersist = ''token_persist_failed''"
definition outcomeInternal :: string where "outcomeInternal = ''internal''"

definition putFileOutcome :: "error \<Rightarrow> string" where
  "putFileOutcome err =
     (if errors_Is err ErrFileWrite then outcomeWriteFailed
      else if errors_Is err ErrLockRepo then outcomeLockRepoError
      else outcomeInternal)"

definition tokenIssuanceOutcome :: "error \<Rightarrow> string" where
  "tokenIssuanceOutcome err =
     (if errors_Is err ErrNoDiscoveryData \<or> errors_Is err ErrDiscoveryFetch then outcomeDiscoveryUnavail
      else if errors_Is err ErrDocumentLookup then outcomeMetadataLookup
      else if errors_Is err ErrTokenPersist then outcomeTokenPersist
      else outcomeInternal)"

text \<open>\<^verbatim>\<open>middleware_auth.go\<close>.\<close>

definition TokenAuthMiddleware :: "'w go_runtime \<Rightarrow> 'w token_service \<Rightarrow> 'w middleware" where
  "TokenAuthMiddleware rt tokenSvc nxt r =
     (let tokenValue = query_Get (rq_RawQuery r) ''access_token''
      in if tokenValue = '''' then Done (http_Error 401 ''missing access_token'')
         else bind_prog (ValidateToken rt tokenSvc tokenValue) (\<lambda>v.
           case v of
             Inl err \<Rightarrow> Done (http_Error 500 ''token validation failed'')
           | Inr None \<Rightarrow> Done (http_Error 401 ''invalid or expired token'')
           | Inr (Some token) \<Rightarrow> nxt (r\<lparr>rq_token := Some token\<rparr>)))"

definition TokenFromContext :: "request \<Rightarrow> access_token option" where
  "TokenFromContext r = rq_token r"

text \<open>\<^verbatim>\<open>middleware_jwt.go\<close>.\<close>

definition HeaderActorID :: string where "HeaderActorID = ''X-Alkemio-Actor-Id''"

definition ActorHeaderMiddleware :: "'w middleware" where
  "ActorHeaderMiddleware nxt r =
     (let actorID = TrimSpace (rq_Header r HeaderActorID)
      in if actorID = '''' then Done (http_Error 401 ''missing actor identity'')
         else nxt (r\<lparr>rq_actorID := actorID\<rparr>))"

definition ActorIDFromContext :: "request \<Rightarrow> string" where
  "ActorIDFromContext r = rq_actorID r"

definition ActorNameFromContext :: "request \<Rightarrow> string" where
  "ActorNameFromContext r = rq_actorName r"

text \<open>\<^verbatim>\<open>middleware_contribution.go\<close>.\<close>

definition ContributionMiddleware :: "'w contribution_window option \<Rightarrow> 'w middleware" where
  "ContributionMiddleware window nxt r =
     (case (window, TokenFromContext r) of
        (Some win, Some token) \<Rightarrow>
          call (AddActor win (tok_FileID token) (tok_ActorID token) (HasPermission token ''write''))
            (\<lambda>_. nxt r)
      | _ \<Rightarrow> nxt r)"

text \<open>\<^verbatim>\<open>middleware_logger.go\<close>; the request identifier comes from the router library.\<close>

definition RequestLogger :: "'w go_runtime \<Rightarrow> 'w logger \<Rightarrow> string \<Rightarrow> string \<Rightarrow> 'w middleware" where
  "RequestLogger rt logger reqID remoteAddr nxt r =
     call (rt_Now rt) (\<lambda>start.
       bind_prog (nxt r) (\<lambda>resp.
         call (rt_Now rt) (\<lambda>finish.
           effect (logger (log_record Info ''http request''
             [(''method'', FString (rq_Method r)), (''path'', FString (rq_Path r)),
              (''status'', FInt (int (rs_Status resp))), (''duration'', FInt (time_Sub finish start)),
              (''requestId'', FString reqID), (''remoteAddr'', FString remoteAddr)]))
           (Done resp))))"

lemmas [handler_defs] = TokenAuthMiddleware_def ActorHeaderMiddleware_def ContributionMiddleware_def

lemma http_Error_sel [simp]:
  "rs_Status (http_Error n m) = n" "rs_Body (http_Error n m) = ErrorText (error_json m @ [CHR 0x0A])"
  "rs_Status (http_ErrorWith hs n m) = n" "rs_Status (WriteHeader n) = n"
  "rs_Status (json_response hs n b) = n"
  by (simp_all add: http_Error_def http_ErrorWith_def WriteHeader_def json_response_def)

end
