(* ===== verification/WopiHandler.thy ===== *)
theory WopiHandler
  imports Http
begin

text \<open>
  \<^verbatim>\<open>wopi_handler.go\<close>: the WOPI endpoints.  Every handler takes the file from the token
  that the authentication middleware validated, not from the URL.
\<close>

record 'w wopi_handler =
  wh_wopiSvc :: "'w wopi_service"
  wh_window :: "'w contribution_window option"
  wh_publisher :: "'w queue_publisher option"
  wh_logger :: "'w logger"

definition NewWOPIHandler ::
  "'w wopi_service \<Rightarrow> 'w contribution_window option \<Rightarrow> 'w queue_publisher option \<Rightarrow> 'w logger \<Rightarrow>
   'w wopi_handler" where
  "NewWOPIHandler wopiSvc window publisher logger =
     \<lparr>wh_wopiSvc = wopiSvc, wh_window = window, wh_publisher = publisher, wh_logger = logger\<rparr>"

definition unauthorized :: response where
  "unauthorized = http_Error 401 ''unauthorized''"

definition handle_CheckFileInfo :: "'w wopi_handler \<Rightarrow> 'w handler" where
  "handle_CheckFileInfo h r =
     (case TokenFromContext r of
        None \<Rightarrow> Done unauthorized
      | Some token \<Rightarrow>
          bind_prog (CheckFileInfo (wh_wopiSvc h) token) (\<lambda>i.
            case i of
              Inl err \<Rightarrow>
                if errors_Is err ErrDocumentNotFound then Done (http_Error 404 ''document not found'')
                else effect (wh_logger h (log_record Error ''CheckFileInfo failed'' [(''error'', FError err)]))
                     (Done (http_Error 500 ''internal error''))
            | Inr info \<Rightarrow> Done (json_response [] 200 (FileInfoBody info))))"

definition handle_GetFile :: "'w wopi_handler \<Rightarrow> 'w handler" where
  "handle_GetFile h r =
     (case TokenFromContext r of
        None \<Rightarrow> Done unauthorized
      | Some token \<Rightarrow>
          bind_prog (GetFile (wh_wopiSvc h) token) (\<lambda>c.
            case c of
              Inl err \<Rightarrow>
                if errors_Is err ErrDocumentNotFound then Done (http_Error 404 ''document not found'')
                else effect (wh_logger h (log_record Error ''GetFile failed'' [(''error'', FError err)]))
                     (Done (http_Error 500 ''internal error''))
            | Inr content \<Rightarrow>
                copied (\<lambda>err. wh_logger h (log_record Error ''GetFile stream error'' [(''error'', FError err)])) content
                  (Done \<lparr>rs_Status = 200, rs_Headers = [(''Content-Type'', ''application/octet-stream'')],
                         rs_Body = ContentBody (fst content)\<rparr>)))"

text \<open>\<^verbatim>\<open>strings.EqualFold(h, "true")\<close>: none of the letters folds outside ASCII.\<close>

definition isModifiedByUser :: "request \<Rightarrow> bool" where
  "isModifiedByUser r = (map to_lower (rq_Header r ''X-COOL-WOPI-IsModifiedByUser'') = ''true'')"

definition handleLockError :: "'w wopi_handler \<Rightarrow> error \<Rightarrow> ('w, response) prog" where
  "handleLockError h err =
     (case errors_As_LockConflict err of
        Some existing \<Rightarrow> Done (http_ErrorWith [(''X-WOPI-Lock'', existing)] 409 ''lock conflict'')
      | None \<Rightarrow>
          effect (wh_logger h (log_record Error ''lock operation failed'' [(''error'', FError err)]))
          (Done (http_Error 500 ''internal error'')))"

definition handle_putFile :: "'w go_runtime \<Rightarrow> 'w wopi_handler \<Rightarrow> 'w handler" where
  "handle_putFile rt h r =
     (case TokenFromContext r of
        None \<Rightarrow> Done unauthorized
      | Some token \<Rightarrow>
          bind_prog (PutFile rt (wh_wopiSvc h) token (rq_Header r ''X-WOPI-Lock'') (rq_Body r)) (\<lambda>p.
            case p of
              Inl err \<Rightarrow>
                if errors_Is err ErrNotAuthorized then Done (http_Error 403 ''not authorized'')
                else (case errors_As_LockConflict err of
                  Some existing \<Rightarrow> Done (http_ErrorWith [(''X-WOPI-Lock'', existing)] 409 ''lock conflict'')
                | None \<Rightarrow>
                    if errors_Is err ErrDocumentNotFound then Done (http_Error 404 ''document not found'')
                    else effect (wh_logger h (log_record Error ''save failed''
                           [(FieldEvent, FString EventPutFile), (FieldOutcome, FString (putFileOutcome err)),
                            (FieldDocumentID, FString (tok_FileID token)), (''error'', FError err)]))
                         (Done (http_Error 500 ''internal error'')))
            | Inr result \<Rightarrow>
                (let lastModified = format_RFC3339Nano (pf_LastModifiedTime result);
                     reply = Done (json_response [(''X-WOPI-ItemVersion'', pf_Version result),
                                                  (''X-COOL-WOPI-Timestamp'', lastModified)] 200
                               (PutFileBody \<lparr>pfr_LastModifiedTime = lastModified,
                                             pfr_Version = pf_Version result\<rparr>))
                 in case wh_window h of
                      Some win \<Rightarrow>
                        if isModifiedByUser r then call (MarkModified win (tok_FileID token)) (\<lambda>_. reply)
                        else reply
                    | None \<Rightarrow> reply)))"

definition PutFileContents :: "'w go_runtime \<Rightarrow> 'w wopi_handler \<Rightarrow> 'w handler" where
  "PutFileContents rt h r = handle_putFile rt h r"

definition lock_reply :: "'w wopi_handler \<Rightarrow> ('w, error option) prog \<Rightarrow> ('w, response) prog" where
  "lock_reply h p =
     bind_prog p (\<lambda>e. case e of Some err \<Rightarrow> handleLockError h err | None \<Rightarrow> Done (WriteHeader 200))"

definition handle_lock :: "'w go_runtime \<Rightarrow> 'w wopi_handler \<Rightarrow> 'w handler" where
  "handle_lock rt h r =
     (case TokenFromContext r of
        None \<Rightarrow> Done unauthorized
      | Some token \<Rightarrow>
          lock_reply h (Lock rt (wh_wopiSvc h) (tok_FileID token) (rq_Header r ''X-WOPI-Lock'')))"

definition handle_unlock :: "'w wopi_handler \<Rightarrow> 'w handler" where
  "handle_unlock h r =
     (case TokenFromContext r of
        None \<Rightarrow> Done unauthorized
      | Some token \<Rightarrow>
          lock_reply h (Unlock (wh_wopiSvc h) (tok_FileID token) (rq_Header r ''X-WOPI-Lock'')))"

definition handle_refreshLock :: "'w go_runtime \<Rightarrow> 'w wopi_handler \<Rightarrow> 'w handler" where
  "handle_refreshLock rt h r =
     (case TokenFromContext r of
        None \<Rightarrow> Done unauthorized
      | Some token \<Rightarrow>
          lock_reply h (RefreshLock rt (wh_wopiSvc h) (tok_FileID token) (rq_Header r ''X-WOPI-Lock'')))"

definition handle_unlockAndRelock :: "'w go_runtime \<Rightarrow> 'w wopi_handler \<Rightarrow> 'w handler" where
  "handle_unlockAndRelock rt h r =
     (case TokenFromContext r of
        None \<Rightarrow> Done unauthorized
      | Some token \<Rightarrow>
          lock_reply h (UnlockAndRelock rt (wh_wopiSvc h) (tok_FileID token)
            (rq_Header r ''X-WOPI-Lock'') (rq_Header r ''X-WOPI-OldLock'')))"

text \<open>\<^verbatim>\<open>strings.LastIndexAny(name, `/\`)\<close> and what follows it; \<^verbatim>\<open>filepath.Ext\<close>.\<close>

definition is_slash :: "char \<Rightarrow> bool" where
  "is_slash c = (c = CHR ''/'' \<or> c = CHR 0x5C)"

definition after_last_slash :: "string \<Rightarrow> string option" where
  "after_last_slash name =
     (if list_ex is_slash name then Some (rev (takeWhile (\<lambda>c. \<not> is_slash c) (rev name))) else None)"

definition filepath_Ext :: "string \<Rightarrow> string" where
  "filepath_Ext p =
     (let tail = takeWhile (\<lambda>c. c \<noteq> CHR ''.'' \<and> c \<noteq> CHR ''/'') (rev p);
          rest = dropWhile (\<lambda>c. c \<noteq> CHR ''.'' \<and> c \<noteq> CHR ''/'') (rev p)
      in case rest of
           [] \<Rightarrow> ''''
         | c # _ \<Rightarrow> if c = CHR ''.'' then CHR ''.'' # rev tail else '''')"

definition requested_name :: "string \<Rightarrow> string" where
  "requested_name header =
     (let name = TrimSpace header
      in case after_last_slash name of None \<Rightarrow> name | Some tail \<Rightarrow> TrimSpace tail)"

definition handle_renameFile :: "'w wopi_handler \<Rightarrow> 'w handler" where
  "handle_renameFile h r =
     (case TokenFromContext r of
        None \<Rightarrow> Done unauthorized
      | Some token \<Rightarrow>
          if \<not> HasPermission token ''write'' then Done (http_Error 403 ''not authorized'')
          else bind_prog (CheckFileInfo (wh_wopiSvc h) token) (\<lambda>i.
            case i of
              Inl err \<Rightarrow>
                if errors_Is err ErrDocumentNotFound then Done (http_Error 404 ''document not found'')
                else effect (wh_logger h (log_record Error ''RenameFile failed''
                       [(FieldDocumentID, FString (tok_FileID token)), (''error'', FError err)]))
                     (Done (http_Error 500 ''internal error''))
            | Inr info \<Rightarrow>
                (let name = requested_name (rq_Header r ''X-WOPI-RequestedName'');
                     reply = (\<lambda>n. Done (json_response [] 200 (RenameBody n)))
                 in if name = ''''
                    then reply (TrimSuffix (BaseFileName info) (filepath_Ext (BaseFileName info)))
                    else case wh_publisher h of
                           None \<Rightarrow> reply name
                         | Some publisher \<Rightarrow>
                             call (qp_Publish publisher RenameTopic
                                     (RenamePayload \<lparr>rn_DocumentID = tok_FileID token, rn_DisplayName = name\<rparr>))
                               (\<lambda>e. case e of
                                  Some err \<Rightarrow>
                                    effect (wh_logger h (log_record Error ''RenameFile publish failed''
                                      [(FieldDocumentID, FString (tok_FileID token)), (''error'', FError err)]))
                                    (reply name)
                                | None \<Rightarrow> reply name))))"

definition FileOperation :: "'w go_runtime \<Rightarrow> 'w wopi_handler \<Rightarrow> 'w handler" where
  "FileOperation rt h r =
     (let override = rq_Header r ''X-WOPI-Override''
      in if override = ''PUT'' then handle_putFile rt h r
         else if override = ''LOCK''
         then (if rq_Header r ''X-WOPI-OldLock'' \<noteq> '''' then handle_unlockAndRelock rt h r
               else handle_lock rt h r)
         else if override = ''UNLOCK'' then handle_unlock h r
         else if override = ''REFRESH_LOCK'' then handle_refreshLock rt h r
         else if override = ''RENAME_FILE'' then handle_renameFile h r
         else Done (http_Error 400 ''unknown X-WOPI-Override''))"

definition LockStatus :: "'w wopi_handler \<Rightarrow> 'w handler" where
  "LockStatus h r =
     (if ActorIDFromContext r = '''' then Done (http_Error 401 ''missing actor identity'')
      else if rq_fileID r = '''' then Done (http_Error 400 ''missing fileID'')
      else bind_prog (HasActiveLock (wh_wopiSvc h) (rq_fileID r)) (\<lambda>s.
        case s of
          Inl err \<Rightarrow>
            effect (wh_logger h (log_record Error ''lock status check failed''
              [(''fileID'', FString (rq_fileID r)), (''error'', FError err)]))
            (Done (http_Error 500 ''internal error''))
        | Inr (isLocked, lk) \<Rightarrow>
            Done (json_response [] 200 (LockStatusBody
              \<lparr>lsr_Locked = isLocked,
               lsr_ExpiresAt = (case lk of
                  Some l \<Rightarrow> if isLocked then format_RFC3339 (lock_ExpiresAt l) else ''''
                | None \<Rightarrow> '''')\<rparr>))))"

lemmas [handler_defs] = handle_CheckFileInfo_def handle_GetFile_def handleLockError_def handle_putFile_def
  PutFileContents_def lock_reply_def handle_lock_def handle_unlock_def handle_refreshLock_def
  handle_unlockAndRelock_def handle_renameFile_def FileOperation_def LockStatus_def

end
