(* ===== verification/GoJSON.thy ===== *)
theory GoJSON
  imports GoUTF8 GoStrconv
begin

text \<open>
  Package \<^verbatim>\<open>encoding/json\<close> as the service uses it.  A \<open>json\<close> value is the syntax the scanner
  accepts: strings and numbers keep their text, so that decoding them into a field is a
  separate step, as it is in the library.  The scanner is the pushdown machine of
  \<^verbatim>\<open>scanner.go\<close> with the partly read values on its stack; it answers the value and what is
  left of the input, or whether the input was malformed or too short.
\<close>

datatype json =
    JNull
  | JBool bool
  | JNum string
  | JStr string
  | JArr "json list"
  | JObj "(string \<times> json) list"

datatype scan_error = Short | Malformed

datatype frame = InArray "json list" | InObject "(string \<times> json) list" string

definition maxNestingDepth :: nat where
  "maxNestingDepth = 10000"

definition json_space :: "char \<Rightarrow> bool" where
  "json_space c = (c \<in> {CHR '' '', CHR 0x09, CHR 0x0D, CHR 0x0A})"

abbreviation skip_space :: "string \<Rightarrow> string" where
  "skip_space \<equiv> dropWhile json_space"

text \<open>The text of a string up to the closing quote.\<close>

definition escape_chars :: string where
  "escape_chars = ''bfnrt/'' @ [CHR 0x5C, CHR 0x22]"

fun scan_string :: "string \<Rightarrow> scan_error + string \<times> string" where
  "scan_string [] = Inl Short"
| "scan_string (c # s) =
     (if c = CHR 0x22 then Inr ([], s)
      else if c = CHR 0x5C
      then (case s of
              [] \<Rightarrow> Inl Short
            | d # t \<Rightarrow>
                if d \<in> set escape_chars then map_sum id (map_prod ((@) [c, d]) id) (scan_string t)
                else if d = CHR ''u''
                then (case t of
                        h # i # j # k # u \<Rightarrow>
                          if list_all ishex [h, i, j, k]
                          then map_sum id (map_prod ((@) [c, d, h, i, j, k]) id) (scan_string u)
                          else Inl Malformed
                      | _ \<Rightarrow> Inl (if list_all ishex t then Short else Malformed))
                else Inl Malformed)
      else if byte_of c < 0x20 then Inl Malformed
      else map_sum id (map_prod ((#) c) id) (scan_string s))"

text \<open>Numbers: at least one digit, and a fraction or an exponent only with one.\<close>

definition scan_digits :: "string \<Rightarrow> scan_error + string \<times> string" where
  "scan_digits s =
     (case s of
        [] \<Rightarrow> Inl Short
      | c # _ \<Rightarrow> if is_digit c then Inr (takeWhile is_digit s, dropWhile is_digit s) else Inl Malformed)"

definition scan_integer :: "string \<Rightarrow> scan_error + string \<times> string" where
  "scan_integer s = (if HasPrefix s ''0'' then Inr (''0'', tl s) else scan_digits s)"

definition scan_fraction :: "string \<Rightarrow> scan_error + string \<times> string" where
  "scan_fraction s =
     (if HasPrefix s ''.'' then map_sum id (map_prod ((@) ''.'') id) (scan_digits (tl s)) else Inr ([], s))"

definition scan_exponent :: "string \<Rightarrow> scan_error + string \<times> string" where
  "scan_exponent s =
     (if HasPrefix s ''e'' \<or> HasPrefix s ''E''
      then let sign = (if HasPrefix (tl s) ''+'' \<or> HasPrefix (tl s) ''-'' then take 1 (tl s) else [])
           in map_sum id (map_prod ((@) (hd s # sign)) id) (scan_digits (drop (length sign) (tl s)))
      else Inr ([], s))"

definition scan_number :: "string \<Rightarrow> scan_error + string \<times> string" where
  "scan_number s =
     (let sign = (if HasPrefix s ''-'' then ''-'' else [])
      in bind_result (scan_integer (drop (length sign) s)) (\<lambda>(i, s1).
         bind_result (scan_fraction s1) (\<lambda>(f, s2).
         bind_result (scan_exponent s2) (\<lambda>(e, s3).
           Inr (sign @ i @ f @ e, s3)))))"

definition scan_literal :: "string \<Rightarrow> json \<Rightarrow> string \<Rightarrow> scan_error + json \<times> string" where
  "scan_literal lit v s =
     (if HasPrefix s lit then Inr (v, drop (length lit) s)
      else if HasPrefix lit s then Inl Short else Inl Malformed)"

definition scan_scalar :: "string \<Rightarrow> scan_error + json \<times> string" where
  "scan_scalar s =
     (case s of
        [] \<Rightarrow> Inl Short
      | c # t \<Rightarrow>
          if c = CHR 0x22 then map_sum id (map_prod JStr id) (scan_string t)
          else if c = CHR ''t'' then scan_literal ''true'' (JBool True) s
          else if c = CHR ''f'' then scan_literal ''false'' (JBool False) s
          else if c = CHR ''n'' then scan_literal ''null'' JNull s
          else if c = CHR ''-'' \<or> is_digit c then map_sum id (map_prod JNum id) (scan_number s)
          else Inl Malformed)"

lemma skip_space_length: "skip_space s = c # t \<Longrightarrow> length t < length s"
  using length_dropWhile_le [of json_space s] by simp

lemma scan_string_length: "scan_string s = Inr (x, r) \<Longrightarrow> length r < length s"
  by (induction s arbitrary: x r rule: scan_string.induct)
     (fastforce split: if_splits list.splits)+

lemma scan_digits_length: "scan_digits s = Inr (x, r) \<Longrightarrow> length r < length s"
  by (auto simp: scan_digits_def le_imp_less_Suc length_dropWhile_le split: list.splits if_splits)

lemma scan_integer_length: "scan_integer s = Inr (x, r) \<Longrightarrow> length r < length s"
  by (cases s) (auto simp: scan_integer_def HasPrefix_def dest: scan_digits_length split: if_splits)

lemma scan_fraction_length: "scan_fraction s = Inr (x, r) \<Longrightarrow> length r \<le> length s"
  by (cases s) (auto simp: scan_fraction_def HasPrefix_def dest!: scan_digits_length split: if_splits)

lemma scan_exponent_length: "scan_exponent s = Inr (x, r) \<Longrightarrow> length r \<le> length s"
  by (cases s) (auto simp: scan_exponent_def HasPrefix_def Let_def dest!: scan_digits_length split: if_splits)

lemma scan_number_length: "scan_number s = Inr (x, r) \<Longrightarrow> length r < length s"
  by (fastforce simp: scan_number_def bind_result_Inr Let_def
      dest!: scan_integer_length scan_fraction_length scan_exponent_length split: if_splits)

lemma scan_scalar_length: "scan_scalar s = Inr (v, r) \<Longrightarrow> length r < length s"
  by (auto simp: scan_scalar_def scan_literal_def HasPrefix_def
      dest!: scan_string_length scan_number_length split: list.splits if_splits)

function scan_value :: "frame list \<Rightarrow> string \<Rightarrow> scan_error + json \<times> string"
  and scan_key :: "frame list \<Rightarrow> (string \<times> json) list \<Rightarrow> string \<Rightarrow> scan_error + json \<times> string"
  and scan_end :: "frame list \<Rightarrow> json \<Rightarrow> string \<Rightarrow> scan_error + json \<times> string" where
  "scan_value k s =
     (case skip_space s of
        [] \<Rightarrow> Inl Short
      | c # t \<Rightarrow>
          if c = CHR ''{''
          then (if length k \<ge> maxNestingDepth then Inl Malformed
                else (case skip_space t of
                        [] \<Rightarrow> Inl Short
                      | d # u \<Rightarrow> if d = CHR ''}'' then scan_end k (JObj []) u else scan_key k [] (d # u)))
          else if c = CHR ''[''
          then (if length k \<ge> maxNestingDepth then Inl Malformed
                else (case skip_space t of
                        [] \<Rightarrow> Inl Short
                      | d # u \<Rightarrow> if d = CHR '']'' then scan_end k (JArr []) u else scan_value (InArray [] # k) (d # u)))
          else (case scan_scalar (c # t) of
                  Inl e \<Rightarrow> Inl e
                | Inr (v, u) \<Rightarrow> scan_end k v u))"
| "scan_key k ms s =
     (case skip_space s of
        [] \<Rightarrow> Inl Short
      | c # t \<Rightarrow>
          if c \<noteq> CHR 0x22 then Inl Malformed
          else (case scan_string t of
                  Inl e \<Rightarrow> Inl e
                | Inr (key, u) \<Rightarrow>
                    (case skip_space u of
                       [] \<Rightarrow> Inl Short
                     | d # v \<Rightarrow> if d = CHR '':'' then scan_value (InObject ms key # k) v else Inl Malformed)))"
| "scan_end [] v s = Inr (v, s)"
| "scan_end (InArray vs # k) v s =
     (case skip_space s of
        [] \<Rightarrow> Inl Short
      | c # t \<Rightarrow>
          if c = CHR '','' then scan_value (InArray (v # vs) # k) t
          else if c = CHR '']'' then scan_end k (JArr (rev (v # vs))) t
          else Inl Malformed)"
| "scan_end (InObject ms key # k) v s =
     (case skip_space s of
        [] \<Rightarrow> Inl Short
      | c # t \<Rightarrow>
          if c = CHR '','' then scan_key k ((key, v) # ms) t
          else if c = CHR ''}'' then scan_end k (JObj (rev ((key, v) # ms))) t
          else Inl Malformed)"
  by pat_completeness auto
termination
  by (relation "measure (\<lambda>x. case x of Inl (_, s) \<Rightarrow> length s | Inr (Inl (_, _, s)) \<Rightarrow> length s
        | Inr (Inr (_, _, s)) \<Rightarrow> length s)")
     (auto dest!: skip_space_length scan_scalar_length scan_string_length)

declare scan_value.simps [simp del] scan_key.simps [simp del] scan_end.simps(2,3) [simp del]

text \<open>\<^verbatim>\<open>getu4\<close>, \<^verbatim>\<open>utf16.DecodeRune\<close> and \<^verbatim>\<open>unquote\<close>: what the text of a string stands for.\<close>

definition hex4 :: "string \<Rightarrow> nat" where
  "hex4 hs = foldl (\<lambda>n c. n * 16 + unhex c) 0 hs"

definition getu4 :: "string \<Rightarrow> nat option" where
  "getu4 s =
     (if 6 \<le> length s \<and> HasPrefix s [CHR 0x5C, CHR ''u''] \<and> list_all ishex (take 4 (drop 2 s))
      then Some (hex4 (take 4 (drop 2 s))) else None)"

definition utf16_DecodeRune :: "nat \<Rightarrow> nat \<Rightarrow> nat" where
  "utf16_DecodeRune r1 r2 =
     (if 0xD800 \<le> r1 \<and> r1 < 0xDC00 \<and> 0xDC00 \<le> r2 \<and> r2 < 0xE000
      then (r1 - 0xD800) * 1024 + (r2 - 0xDC00) + 0x10000 else RuneError)"

definition simple_escape :: "char \<Rightarrow> string option" where
  "simple_escape d =
     (if d \<in> {CHR 0x22, CHR 0x5C, CHR ''/'', CHR 0x27} then Some [d]
      else if d = CHR ''b'' then Some [CHR 0x08]
      else if d = CHR ''f'' then Some [CHR 0x0C]
      else if d = CHR ''n'' then Some [CHR 0x0A]
      else if d = CHR ''r'' then Some [CHR 0x0D]
      else if d = CHR ''t'' then Some [CHR 0x09]
      else None)"

definition take_u4 :: "string \<Rightarrow> (string \<times> nat) option" where
  "take_u4 s =
     (case getu4 s of
        None \<Rightarrow> None
      | Some rr \<Rightarrow>
          if IsSurrogate rr
          then (case getu4 (drop 6 s) of
                  Some rr1 \<Rightarrow>
                    if utf16_DecodeRune rr rr1 \<noteq> RuneError then Some (EncodeRune (utf16_DecodeRune rr rr1), 12)
                    else Some (EncodeRune RuneError, 6)
                | None \<Rightarrow> Some (EncodeRune RuneError, 6))
          else Some (EncodeRune rr, 6))"

function unquote :: "string \<Rightarrow> string option" where
  "unquote [] = Some []"
| "unquote (c # s) =
     (if c = CHR 0x5C
      then (case s of
              [] \<Rightarrow> None
            | d # t \<Rightarrow>
                if d = CHR ''u''
                then (case take_u4 (c # s) of
                        None \<Rightarrow> None
                      | Some (x, n) \<Rightarrow> map_option ((@) x) (unquote (drop n (c # s))))
                else (case simple_escape d of
                        None \<Rightarrow> None
                      | Some x \<Rightarrow> map_option ((@) x) (unquote t)))
      else if c = CHR 0x22 \<or> byte_of c < 0x20 then None
      else if byte_of c < 0x80 then map_option ((#) c) (unquote s)
      else map_option ((@) (EncodeRune (fst (DecodeRune (c # s))))) (unquote (drop (snd (DecodeRune (c # s))) (c # s))))"
  by pat_completeness auto
termination
proof (relation "measure length", goal_cases)
  case (5 c s)
  then show ?case using DecodeRune_size [of "c # s"] by (auto simp del: DecodeRune.simps)
qed (auto simp: take_u4_def getu4_def split: option.splits if_splits)

text \<open>
  \<^verbatim>\<open>appendString\<close> with HTML escaping, as \<^verbatim>\<open>Marshal\<close> and \<^verbatim>\<open>Encoder.Encode\<close> use it: the text
  between the quotes.
\<close>

definition lowerhex :: "nat \<Rightarrow> char" where
  "lowerhex n = char_of (if n < 10 then 48 + n else 87 + n :: nat)"

definition escape_byte :: "char \<Rightarrow> string" where
  "escape_byte c =
     (if c \<in> {CHR 0x5C, CHR 0x22} then [CHR 0x5C, c]
      else if c = CHR 0x08 then [CHR 0x5C, CHR ''b'']
      else if c = CHR 0x0C then [CHR 0x5C, CHR ''f'']
      else if c = CHR 0x0A then [CHR 0x5C, CHR ''n'']
      else if c = CHR 0x0D then [CHR 0x5C, CHR ''r'']
      else if c = CHR 0x09 then [CHR 0x5C, CHR ''t'']
      else if byte_of c < 0x20 \<or> c \<in> set ''<>&''
      then [CHR 0x5C, CHR ''u'', CHR ''0'', CHR ''0'', lowerhex (byte_of c div 16), lowerhex (byte_of c mod 16)]
      else [c])"

definition escape_rune :: "string \<Rightarrow> string" where
  "escape_rune s =
     (let (r, n) = DecodeRune s
      in if r = RuneError \<and> n = 1 then CHR 0x5C # ''ufffd''
         else if r = 0x2028 \<or> r = 0x2029 then CHR 0x5C # ''u202'' @ [lowerhex (r mod 16)]
         else take n s)"

function json_escape :: "string \<Rightarrow> string" where
  "json_escape [] = []"
| "json_escape (c # s) =
     (if byte_of c < 0x80 then escape_byte c @ json_escape s
      else escape_rune (c # s) @ json_escape (drop (snd (DecodeRune (c # s))) (c # s)))"
  by pat_completeness auto
termination
proof (relation "measure length", goal_cases)
  case (3 c s)
  then show ?case using DecodeRune_size [of "c # s"] by (auto simp del: DecodeRune.simps)
qed auto

text \<open>Printing a value, compact as \<^verbatim>\<open>Marshal\<close> does.\<close>

fun commas :: "string list \<Rightarrow> string" where
  "commas [] = []"
| "commas [x] = x"
| "commas (x # xs) = x @ '','' @ commas xs"

definition quoted :: "string \<Rightarrow> string" where
  "quoted raw = CHR 0x22 # raw @ [CHR 0x22]"

fun print_json :: "json \<Rightarrow> string" where
  "print_json JNull = ''null''"
| "print_json (JBool b) = (if b then ''true'' else ''false'')"
| "print_json (JNum n) = n"
| "print_json (JStr raw) = quoted raw"
| "print_json (JArr vs) = ''['' @ commas (map print_json vs) @ '']''"
| "print_json (JObj ms) = ''{'' @ commas (map (\<lambda>(key, v). quoted key @ '':'' @ print_json v) ms) @ ''}''"

definition json_string :: "string \<Rightarrow> json" where "json_string s = JStr (json_escape s)"
definition json_int :: "int \<Rightarrow> json" where "json_int i = JNum (decimal i)"

declare unquote.simps(2) [simp del] json_escape.simps(2) [simp del] DecodeRune.simps(2) [simp del]

subsection \<open>Strings\<close>

lemma append_singleton_fun [simp]: "(@) [c] = (#) c"
  by auto

lemma lowerhex_hex: "n < 16 \<Longrightarrow> ishex (lowerhex n) \<and> unhex (lowerhex n) = n"
  by (auto simp: lowerhex_def ishex_def unhex_def is_digit_def)

lemma map_sum_prod_comp [simp]:
  "map_sum id (map_prod f id) (map_sum id (map_prod g id) x) = map_sum id (map_prod (f \<circ> g) id) x"
  by (cases x) auto

lemma scan_string_plain:
  assumes "list_all (\<lambda>c. 0x20 \<le> byte_of c \<and> c \<noteq> CHR 0x22 \<and> c \<noteq> CHR 0x5C) p"
  shows "scan_string (p @ t) = map_sum id (map_prod ((@) p) id) (scan_string t)"
  using assms
proof (induction p)
  case Nil
  then show ?case by (cases "scan_string t") auto
next
  case (Cons c p)
  then show ?case by (cases "scan_string t") auto
qed

lemma scan_string_u4:
  "list_all ishex [h, i, j, k] \<Longrightarrow>
     scan_string ([CHR 0x5C, CHR ''u'', h, i, j, k] @ t) =
       map_sum id (map_prod ((@) [CHR 0x5C, CHR ''u'', h, i, j, k]) id) (scan_string t)"
  by (simp add: escape_chars_def)

lemma scan_string_escape_byte:
  assumes "byte_of c < 0x80"
  shows "scan_string (escape_byte c @ t) = map_sum id (map_prod ((@) (escape_byte c)) id) (scan_string t)"
proof -
  have short: "scan_string ([CHR 0x5C, d] @ t) = map_sum id (map_prod ((@) [CHR 0x5C, d]) id) (scan_string t)"
    if "d \<in> set escape_chars" for d
    using that by simp
  have zero: "ishex (CHR ''0'')" by (simp add: ishex_def is_digit_def)
  have u4: "scan_string ([CHR 0x5C, CHR ''u'', CHR ''0'', CHR ''0'', lowerhex (byte_of c div 16), lowerhex (byte_of c mod 16)] @ t) =
      map_sum id (map_prod ((@) [CHR 0x5C, CHR ''u'', CHR ''0'', CHR ''0'', lowerhex (byte_of c div 16), lowerhex (byte_of c mod 16)]) id)
        (scan_string t)"
    using assms by (intro scan_string_u4) (simp add: lowerhex_hex zero)
  have plain: "scan_string ([c] @ t) = map_sum id (map_prod ((@) [c]) id) (scan_string t)"
    if "0x20 \<le> byte_of c" "c \<noteq> CHR 0x22" "c \<noteq> CHR 0x5C"
    using that by (intro scan_string_plain) simp
  have "CHR 0x5C \<in> set escape_chars" "CHR 0x22 \<in> set escape_chars" "CHR ''b'' \<in> set escape_chars"
    "CHR ''f'' \<in> set escape_chars" "CHR ''n'' \<in> set escape_chars" "CHR ''r'' \<in> set escape_chars"
    "CHR ''t'' \<in> set escape_chars"
    by (simp_all add: escape_chars_def)
  then show ?thesis unfolding escape_byte_def using short u4 plain by (auto simp del: append_Cons append_Nil)
qed

text \<open>The bytes of a longer encoding are all past ASCII.\<close>

lemma DecodeRune_bytes:
  assumes "0x80 \<le> byte_of c" and "DecodeRune (c # s) = (r, n)"
  shows "list_all (\<lambda>b. 0x80 \<le> byte_of b) (take n (c # s))"
proof -
  have cont: "continuation d \<Longrightarrow> 0x80 \<le> byte_of d" for d by (simp add: continuation_def)
  consider "rune_size c = 2" | "rune_size c = 3" | "rune_size c = 4" | "rune_size c \<notin> {1, 2, 3, 4}"
    using assms(1) by (cases "rune_size c = 1") (auto simp: rune_size_def split: if_splits)
  then show ?thesis
    by cases (use assms cont second_continuation in \<open>auto simp: DecodeRune.simps(2) split: if_splits list.splits\<close>)
qed

lemma scan_string_escape_rune:
  assumes "0x80 \<le> byte_of c"
  shows "scan_string (escape_rune (c # s) @ t) = map_sum id (map_prod ((@) (escape_rune (c # s))) id) (scan_string t)"
proof -
  obtain r n where d: "DecodeRune (c # s) = (r, n)" by fastforce
  have hex: "ishex (CHR ''f'')" "ishex (CHR ''d'')" "ishex (CHR ''2'')" "ishex (CHR ''0'')" "ishex (lowerhex 8)"
    "ishex (lowerhex 9)"
    by (simp_all add: ishex_def is_digit_def lowerhex_def)
  have "list_all (\<lambda>c. 0x20 \<le> byte_of c \<and> c \<noteq> CHR 0x22 \<and> c \<noteq> CHR 0x5C) (take n (c # s))"
    using DecodeRune_bytes [OF assms d] by (auto simp: list_all_iff)
  from scan_string_plain [OF this, of t] show ?thesis
    using scan_string_u4 [of "CHR ''f''" "CHR ''f''" "CHR ''f''" "CHR ''d''" t]
      scan_string_u4 [of "CHR ''2''" "CHR ''0''" "CHR ''2''" "lowerhex 8" t]
      scan_string_u4 [of "CHR ''2''" "CHR ''0''" "CHR ''2''" "lowerhex 9" t] hex
    by (auto simp: escape_rune_def d simp del: scan_string.simps)
qed

lemma scan_string_escape:
  "scan_string (json_escape s @ CHR 0x22 # t) = Inr (json_escape s, t)"
proof (induction s rule: json_escape.induct)
  case (2 c s)
  show ?case
  proof (cases "byte_of c < 0x80")
    case True
    with 2(1) scan_string_escape_byte [OF True, of "json_escape s @ CHR 0x22 # t"] show ?thesis
      by (simp add: json_escape.simps(2) del: scan_string.simps)
  next
    case False
    with 2(2) scan_string_escape_rune [of c s "json_escape (drop (snd (DecodeRune (c # s))) (c # s)) @ CHR 0x22 # t"]
    show ?thesis by (simp add: json_escape.simps(2) del: scan_string.simps)
  qed
qed simp

text \<open>What is printed is read back, up to the repair of invalid UTF-8.\<close>

lemma unquote_u4:
  assumes "list_all ishex hs" and "length hs = 4" and "\<not> IsSurrogate (hex4 hs)"
  shows "unquote (CHR 0x5C # CHR ''u'' # hs @ t) = map_option ((@) (EncodeRune (hex4 hs))) (unquote t)"
  using assms
  by (simp add: unquote.simps(2) take_u4_def getu4_def HasPrefix_def numeral_eq_Suc)

lemma unquote_escape_byte:
  assumes "byte_of c < 0x80"
  shows "unquote (escape_byte c @ t) = map_option ((#) c) (unquote t)"
proof -
  have zero: "ishex (CHR ''0'')" "unhex (CHR ''0'') = 0" by (simp_all add: ishex_def unhex_def is_digit_def)
  let ?hs = "[CHR ''0'', CHR ''0'', lowerhex (byte_of c div 16), lowerhex (byte_of c mod 16)]"
  have h: "hex4 ?hs = byte_of c" using assms by (simp add: hex4_def zero lowerhex_hex)
  have u4: "unquote (CHR 0x5C # CHR ''u'' # ?hs @ t) = map_option ((#) c) (unquote t)"
    using unquote_u4 [of ?hs t] assms unfolding h
    by (cases "unquote t") (simp_all add: zero lowerhex_hex IsSurrogate_def EncodeRune_def)
  have short: "unquote (CHR 0x5C # d # t) = map_option ((@) x) (unquote t)"
    if "d \<noteq> CHR ''u''" "simple_escape d = Some x" for d x
    using that by (simp add: unquote.simps(2))
  have plain: "unquote (c # t) = map_option ((#) c) (unquote t)"
    if "0x20 \<le> byte_of c" "c \<noteq> CHR 0x22" "c \<noteq> CHR 0x5C"
    using that assms by (simp add: unquote.simps(2))
  show ?thesis
    unfolding escape_byte_def by (simp add: short simple_escape_def plain u4 [simplified] not_less)
qed

lemma unquote_escape_rune:
  assumes "0x80 \<le> byte_of c"
  shows "unquote (escape_rune (c # s) @ t) = map_option ((@) (EncodeRune (fst (DecodeRune (c # s))))) (unquote t)"
proof -
  obtain r n where d: "DecodeRune (c # s) = (r, n)" by fastforce
  have n: "1 \<le> n" "n \<le> length (c # s)" using DecodeRune_size [of "c # s"] d by auto
  have hex: "ishex (CHR ''f'')" "ishex (CHR ''d'')" "ishex (CHR ''2'')" "ishex (CHR ''0'')" "ishex (lowerhex 8)"
    "ishex (lowerhex 9)" "unhex (CHR ''f'') = 15" "unhex (CHR ''d'') = 13" "unhex (CHR ''2'') = 2"
    "unhex (CHR ''0'') = 0" "unhex (lowerhex 8) = 8" "unhex (lowerhex 9) = 9"
    by (simp_all add: ishex_def is_digit_def lowerhex_def unhex_def)
  consider (bad) "(r, n) = (RuneError, 1)" | (ls) "r = 0x2028" | (ps) "r = 0x2029"
    | (copied) "(r, n) \<noteq> (RuneError, 1)" "r \<noteq> 0x2028" "r \<noteq> 0x2029"
    by blast
  then show ?thesis
  proof cases
    case bad
    with unquote_u4 [of "''fffd''" t] show ?thesis
      by (simp add: escape_rune_def d hex hex4_def IsSurrogate_def RuneError_def)
  next
    case ls
    with unquote_u4 [of "''202'' @ [lowerhex 8]" t] show ?thesis
      by (simp add: escape_rune_def d hex hex4_def IsSurrogate_def RuneError_def)
  next
    case ps
    with unquote_u4 [of "''202'' @ [lowerhex 9]" t] show ?thesis
      by (simp add: escape_rune_def d hex hex4_def IsSurrogate_def RuneError_def)
  next
    case copied
    then have e: "escape_rune (c # s) = take n (c # s)" by (auto simp: escape_rune_def d)
    have "DecodeRune (take n (c # s) @ t) = (r, n)" using DecodeRune_append [OF d] copied by auto
    moreover obtain p where p: "take n (c # s) = c # p" using n by (cases n) auto
    moreover have "length (take n (c # s)) = n" using n by simp
    ultimately show ?thesis using assms by (auto simp: e d unquote.simps(2) simp del: take_Suc_Cons)
  qed
qed

lemma unquote_escape: "unquote (json_escape s) = Some (to_valid s)"
proof (induction s rule: json_escape.induct)
  case (2 c s)
  show ?case
  proof (cases "byte_of c < 0x80")
    case True
    then have "DecodeRune (c # s) = (byte_of c, 1)" by (rule DecodeRune_ascii)
    with 2(1) True show ?thesis
      by (simp add: json_escape.simps(2) unquote_escape_byte to_valid.simps [of "c # s"] EncodeRune_def)
  next
    case False
    with 2(2) show ?thesis
      by (simp add: json_escape.simps(2) unquote_escape_rune to_valid.simps [of "c # s"])
  qed
qed simp

end
