(* ===== verification/GoJSONValue.thy ===== *)
theory GoJSONValue
  imports GoJSON
begin

text \<open>
  Printing a JSON value and scanning it again: the scanner takes exactly the text of the
  value and leaves what follows.  Decoding a value into a struct, field by field.
\<close>

definition raw_ok :: "string \<Rightarrow> bool" where
  "raw_ok raw = (scan_string (raw @ [CHR 0x22]) = Inr (raw, []))"

definition num_ok :: "string \<Rightarrow> bool" where
  "num_ok n =
     (let ds = (if HasPrefix n ''-'' then tl n else n)
      in ds \<noteq> [] \<and> list_all is_digit ds \<and> (hd ds = CHR ''0'' \<longrightarrow> ds = ''0''))"

text \<open>Values that are printed as integers, scanned strings and not too deep.\<close>

fun json_ok :: "nat \<Rightarrow> json \<Rightarrow> bool" where
  "json_ok d JNull = True"
| "json_ok d (JBool b) = True"
| "json_ok d (JNum n) = num_ok n"
| "json_ok d (JStr raw) = raw_ok raw"
| "json_ok 0 (JArr vs) = False"
| "json_ok (Suc d) (JArr vs) = list_all (json_ok d) vs"
| "json_ok 0 (JObj ms) = False"
| "json_ok (Suc d) (JObj ms) = list_all (\<lambda>(key, v). raw_ok key \<and> json_ok d v) ms"

definition number_char :: "char \<Rightarrow> bool" where
  "number_char c = (is_digit c \<or> c \<in> set ''.eE'')"

text \<open>What follows a value: not a character that would continue a number.\<close>

definition delimited :: "string \<Rightarrow> bool" where
  "delimited t = (case t of [] \<Rightarrow> True | c # _ \<Rightarrow> \<not> number_char c)"

lemma scan_string_append: "scan_string s = Inr (x, y) \<Longrightarrow> scan_string (s @ t) = Inr (x, y @ t)"
proof (induction s arbitrary: x y rule: scan_string.induct)
  case (2 c s)
  show ?case
  proof (cases "c = CHR 0x5C")
    case bs: True
    with "2.prems" obtain d u where s: "s = d # u" by (cases s) auto
    show ?thesis
    proof (cases "d \<in> set escape_chars")
      case True
      with bs s "2.prems" obtain x' where x': "scan_string u = Inr (x', y)" "x = c # d # x'" by auto
      with "2.IH"(1) [OF _ bs s True x'(1)] bs s True show ?thesis by simp
    next
      case False
      with bs s "2.prems" have d: "d = CHR ''u''" by (auto split: if_splits)
      with bs s False "2.prems" obtain h i j k v where u: "u = h # i # j # k # v"
        by (auto split: list.splits)
      with bs s d False "2.prems" obtain x' where x': "scan_string v = Inr (x', y)"
          "list_all ishex [h, i, j, k]" "x = c # d # h # i # j # k # x'"
        by (auto split: if_splits)
      with "2.IH"(2) [OF _ bs s False d u refl refl refl x'(2,1)] bs s False d u show ?thesis by simp
    qed
  next
    case False
    with 2 show ?thesis by (auto split: if_splits)
  qed
qed simp

lemma raw_ok_scan: "raw_ok raw \<Longrightarrow> scan_string (raw @ CHR 0x22 # t) = Inr (raw, t)"
  unfolding raw_ok_def using scan_string_append [of "raw @ [CHR 0x22]" raw "[]" t] by simp

lemma raw_ok_escape [simp]: "raw_ok (json_escape s)"
  using scan_string_escape [of s "[]"] by (simp add: raw_ok_def)

lemma scan_digits_all:
  assumes "ds \<noteq> []" and "list_all is_digit ds" and "delimited t"
  shows "scan_digits (ds @ t) = Inr (ds, t)"
proof -
  have "takeWhile is_digit (ds @ t) = ds \<and> dropWhile is_digit (ds @ t) = t"
    using assms(2,3) by (cases t) (auto simp: list_all_iff delimited_def number_char_def takeWhile_append dropWhile_append)
  moreover obtain c r where "ds = c # r" "is_digit c" using assms by (cases ds) auto
  ultimately show ?thesis by (auto simp: scan_digits_def)
qed

lemma scan_number_ok:
  assumes "num_ok n" and "delimited t"
  shows "scan_number (n @ t) = Inr (n, t)"
proof -
  define ds where "ds = (if HasPrefix n ''-'' then tl n else n)"
  have ds: "ds \<noteq> []" "list_all is_digit ds" "hd ds = CHR ''0'' \<Longrightarrow> ds = ''0''"
    using assms(1) by (auto simp: num_ok_def Let_def ds_def)
  have sign: "(HasPrefix (n @ t) ''-'' \<and> n = CHR ''-'' # ds) \<or> (\<not> HasPrefix (n @ t) ''-'' \<and> n = ds)"
    using ds by (cases n) (auto simp: ds_def HasPrefix_def is_digit_def split: if_splits)
  have "scan_integer (ds @ t) = Inr (ds, t)"
  proof (cases "hd ds = CHR ''0''")
    case True
    with ds(3) show ?thesis by (simp add: scan_integer_def HasPrefix_def)
  next
    case False
    with ds(1) have "\<not> HasPrefix (ds @ t) ''0''" by (cases ds) (auto simp: HasPrefix_def)
    with scan_digits_all [OF ds(1,2) assms(2)] show ?thesis by (simp add: scan_integer_def)
  qed
  moreover have "scan_fraction t = Inr ([], t)" "scan_exponent t = Inr ([], t)"
    using assms(2)
    by (auto simp: scan_fraction_def scan_exponent_def HasPrefix_def delimited_def number_char_def split: list.splits)
  ultimately show ?thesis using sign by (auto simp: scan_number_def)
qed

lemma num_ok_decimal [simp]: "num_ok (decimal i)"
proof -
  have lead: "hd (decimal_nat m) = CHR ''0'' \<longrightarrow> decimal_nat m = ''0''" for m
  proof (induction m rule: decimal_nat.induct)
    case (1 m)
    show ?case
    proof (cases "m < 10")
      case True
      then show ?thesis by (subst (1 2) decimal_nat.simps) simp
    next
      case False
      have "decimal_nat (m div 10) \<noteq> ''0''"
      proof
        assume "decimal_nat (m div 10) = ''0''"
        then have "int (m div 10) = 0" using digits_decimal_nat [of "m div 10"] by (simp add: digits_value_def)
        with False show False by simp
      qed
      with 1 [OF False] False show ?thesis by (subst (1 2) decimal_nat.simps) simp
    qed
  qed
  have "\<not> HasPrefix (decimal_nat m) ''-''" for m
    using digits_decimal_nat [of m] by (cases "decimal_nat m") (auto simp: HasPrefix_def is_digit_def)
  with lead digits_decimal_nat show ?thesis
    by (auto simp: num_ok_def decimal_def HasPrefix_def Let_def)
qed

lemma commas_Cons: "commas (x # xs) = x @ concat (map ((#) (CHR '','')) xs)"
  by (induction xs arbitrary: x) auto

lemma scan_scalar_ok:
  assumes "json_ok d v" and "\<nexists>vs. v = JArr vs" and "\<nexists>ms. v = JObj ms" and "delimited t"
  shows "scan_scalar (print_json v @ t) = Inr (v, t)"
proof (cases v)
  case (JNum n)
  then have ok: "num_ok n" using assms(1) by simp
  then obtain c r where n: "n = c # r" and c: "c = CHR ''-'' \<or> is_digit c"
    by (cases n) (auto simp: num_ok_def HasPrefix_def Let_def split: if_splits)
  from c have "c \<notin> {CHR 0x22, CHR ''t'', CHR ''f'', CHR ''n''}" by (auto simp: is_digit_def)
  with c JNum scan_number_ok [OF ok assms(4)] show ?thesis by (simp add: n scan_scalar_def)
next
  case (JStr raw)
  with assms(1) show ?thesis by (simp add: scan_scalar_def quoted_def raw_ok_scan)
qed (use assms in \<open>auto simp: scan_scalar_def scan_literal_def HasPrefix_def\<close>)

text \<open>A printed value starts with a character that tells which kind it is.\<close>

lemma print_json_head:
  assumes "json_ok d v"
  obtains c r where "print_json v = c # r" "\<not> json_space c" "c \<noteq> CHR '']''"
    "c = CHR ''{'' \<longleftrightarrow> (\<exists>ms. v = JObj ms)" "c = CHR ''['' \<longleftrightarrow> (\<exists>vs. v = JArr vs)"
proof (cases v)
  case (JNum n)
  with assms obtain c r where n: "n = c # r" and c: "c = CHR ''-'' \<or> is_digit c"
    by (cases n) (auto simp: num_ok_def HasPrefix_def Let_def split: if_splits)
  from c JNum n show thesis by (intro that [of c r]) (auto simp: json_space_def is_digit_def)
next
  case (JBool b)
  then show thesis using that by (cases b) (auto simp: json_space_def)
qed (use that in \<open>auto simp: json_space_def quoted_def\<close>)

lemma scan_value_scalar:
  assumes "json_ok d v" and "\<nexists>vs. v = JArr vs" and "\<nexists>ms. v = JObj ms" and "delimited t"
  shows "scan_value k (print_json v @ t) = scan_end k v t"
proof -
  obtain c r where c: "print_json v = c # r" "\<not> json_space c" "c \<noteq> CHR ''{''" "c \<noteq> CHR ''[''"
    using print_json_head [OF assms(1)] assms(2,3) by metis
  with scan_scalar_ok [OF assms] show ?thesis by (simp add: scan_value.simps)
qed

lemma delimited_simps [simp]:
  "delimited []" "delimited (CHR '','' # t)" "delimited (CHR '']'' # t)" "delimited (CHR ''}'' # t)"
  "delimited (CHR 0x0A # t)" "delimited (CHR '' '' # t)"
  by (simp_all add: delimited_def number_char_def is_digit_def)

lemma scan_elements:
  assumes "\<And>w k t. w \<in> set vs \<Longrightarrow> length k \<le> n \<Longrightarrow> delimited t \<Longrightarrow> scan_value k (print_json w @ t) = scan_end k w t"
    and "Suc (length k) \<le> n"
  shows "scan_end (InArray acc # k) v (concat (map ((#) (CHR '','')) (map print_json vs)) @ CHR '']'' # t) =
     scan_end k (JArr (rev acc @ v # vs)) t"
  using assms(1)
proof (induction vs arbitrary: acc v)
  case Nil
  then show ?case by (simp add: scan_end.simps json_space_def)
next
  case (Cons w vs)
  let ?rest = "concat (map ((#) (CHR '','')) (map print_json vs)) @ CHR '']'' # t"
  have "delimited ?rest" by (cases vs) simp_all
  then have "scan_value (InArray (v # acc) # k) (print_json w @ ?rest) = scan_end (InArray (v # acc) # k) w ?rest"
    using Cons.prems [of w] assms(2) by simp
  moreover have "scan_end (InArray (v # acc) # k) w ?rest = scan_end k (JArr (rev (v # acc) @ w # vs)) t"
    by (rule Cons.IH) (use Cons.prems in auto)
  ultimately show ?case by (simp add: scan_end.simps(2) [of acc] json_space_def)
qed

lemma scan_members:
  assumes "\<And>key w k t. (key, w) \<in> set ms \<Longrightarrow> length k \<le> n \<Longrightarrow> delimited t \<Longrightarrow>
        scan_value k (print_json w @ t) = scan_end k w t"
    and "list_all (raw_ok \<circ> fst) ms"
    and "Suc (length k) \<le> n"
  shows "scan_end (InObject acc key # k) v
       (concat (map ((#) (CHR '','')) (map (\<lambda>(key, v). quoted key @ '':'' @ print_json v) ms)) @ CHR ''}'' # t) =
     scan_end k (JObj (rev acc @ (key, v) # ms)) t"
  using assms(1,2)
proof (induction ms arbitrary: acc key v)
  case Nil
  then show ?case by (simp add: scan_end.simps json_space_def)
next
  case (Cons m ms)
  obtain key' w where m: "m = (key', w)" by fastforce
  let ?rest = "concat (map ((#) (CHR '','')) (map (\<lambda>(key, v). quoted key @ '':'' @ print_json v) ms)) @ CHR ''}'' # t"
  have "delimited ?rest" by (cases ms) simp_all
  then have v: "scan_value (InObject ((key, v) # acc) key' # k) (print_json w @ ?rest) =
      scan_end (InObject ((key, v) # acc) key' # k) w ?rest"
    using Cons.prems(1) [of key' w] assms(3) m by simp
  have "raw_ok key'" using Cons.prems(2) m by simp
  then have "scan_key k ((key, v) # acc) (quoted key' @ '':'' @ print_json w @ ?rest) =
      scan_value (InObject ((key, v) # acc) key' # k) (print_json w @ ?rest)"
    by (simp add: scan_key.simps quoted_def json_space_def raw_ok_scan)
  moreover have "scan_end (InObject ((key, v) # acc) key' # k) w ?rest =
      scan_end k (JObj (rev ((key, v) # acc) @ (key', w) # ms)) t"
    by (rule Cons.IH) (use Cons.prems in auto)
  ultimately show ?case using v by (simp add: scan_end.simps(3) [of acc] json_space_def m)
qed

lemma scan_value_print:
  "json_ok d v \<Longrightarrow> d + length k \<le> maxNestingDepth \<Longrightarrow> delimited t \<Longrightarrow>
     scan_value k (print_json v @ t) = scan_end k v t"
proof (induction d v arbitrary: k t rule: json_ok.induct)
  case (6 d vs)
  have k: "length k < maxNestingDepth" using "6.prems" by simp
  show ?case
  proof (cases vs)
    case Nil
    with k show ?thesis by (simp add: scan_value.simps json_space_def)
  next
    case (Cons w ws)
    have step: "scan_value k' (print_json u @ t') = scan_end k' u t'"
      if "u \<in> set vs" "length k' \<le> Suc (length k)" "delimited t'" for u k' t'
      using "6.IH" [OF that(1)] "6.prems"(1,2) that by (auto simp: list_all_iff)
    let ?rest = "concat (map ((#) (CHR '','')) (map print_json ws)) @ CHR '']'' # t"
    have del: "delimited ?rest" by (cases ws) simp_all
    have ok: "json_ok d w" using "6.prems"(1) Cons by simp
    obtain c r where c: "print_json w = c # r" "\<not> json_space c" "c \<noteq> CHR '']''"
      using print_json_head [OF ok] by metis
    have "scan_value k (print_json (JArr vs) @ t) = scan_value (InArray [] # k) (print_json w @ ?rest)"
      using k c by (simp add: scan_value.simps [of k] Cons commas_Cons json_space_def)
    also have "\<dots> = scan_end (InArray [] # k) w ?rest"
      using step [of w "InArray [] # k"] del Cons by simp
    also have "\<dots> = scan_end k (JArr vs) t"
      using scan_elements [of ws "Suc (length k)" k "[]" w t] step Cons by simp
    finally show ?thesis .
  qed
next
  case (8 d ms)
  have k: "length k < maxNestingDepth" using "8.prems" by simp
  show ?case
  proof (cases ms)
    case Nil
    with k show ?thesis by (simp add: scan_value.simps json_space_def)
  next
    case (Cons m ns)
    obtain key w where m: "m = (key, w)" by fastforce
    have step: "scan_value k' (print_json u @ t') = scan_end k' u t'"
      if "(key', u) \<in> set ms" "length k' \<le> Suc (length k)" "delimited t'" for key' u k' t'
      using "8.IH" [OF that(1) refl] "8.prems"(1,2) that by (auto simp: list_all_iff)
    have raw: "list_all (raw_ok \<circ> fst) ms"
      using "8.prems"(1) by (auto simp: list_all_iff)
    let ?rest = "concat (map ((#) (CHR '','')) (map (\<lambda>(key, v). quoted key @ '':'' @ print_json v) ns)) @ CHR ''}'' # t"
    have del: "delimited ?rest" by (cases ns) simp_all
    have "scan_value k (print_json (JObj ms) @ t) = scan_value (InObject [] key # k) (print_json w @ ?rest)"
      using k raw Cons m
      by (simp add: scan_value.simps [of k] scan_key.simps commas_Cons json_space_def quoted_def raw_ok_scan)
    also have "\<dots> = scan_end (InObject [] key # k) w ?rest"
      using step [of key w "InObject [] key # k"] del Cons m by simp
    also have "\<dots> = scan_end k (JObj ms) t"
    proof -
      have "scan_end (InObject [] key # k) w ?rest = scan_end k (JObj (rev [] @ (key, w) # ns)) t"
        by (rule scan_members [where n = "Suc (length k)"]) (use step raw Cons in \<open>auto simp: list_all_iff\<close>)
      then show ?thesis by (simp add: Cons m)
    qed
    finally show ?thesis .
  qed
qed ((rule scan_value_scalar, assumption, simp, simp, assumption) | simp)+

end
