(* ===== verification/GoTimeParse.thy ===== *)
theory GoTimeParse
  imports GoStrconv
begin

text \<open>
  \<^verbatim>\<open>time.Parse\<close> at the layout \<^verbatim>\<open>RFC3339\<close>, which is what decoding a JSON string into a
  \<^verbatim>\<open>time.Time\<close> comes to: the fields with their ranges, an optional fraction of the second
  after a point or a comma, and \<^verbatim>\<open>Z\<close> or a numeric offset.  The result is the instant.
\<close>

definition digit_val :: "char \<Rightarrow> int" where
  "digit_val c = int (byte_of c) - 48"

text \<open>\<^verbatim>\<open>getnum\<close>: two digits, or one when the layout allows it.\<close>

fun getnum :: "bool \<Rightarrow> string \<Rightarrow> (int \<times> string) option" where
  "getnum fixed (c # d # s) =
     (if \<not> is_digit c then None
      else if is_digit d then Some (10 * digit_val c + digit_val d, s)
      else if fixed then None else Some (digit_val c, d # s))"
| "getnum fixed [c] = (if is_digit c \<and> \<not> fixed then Some (digit_val c, []) else None)"
| "getnum fixed [] = None"

fun get_year :: "string \<Rightarrow> (int \<times> string) option" where
  "get_year (a # b # c # d # s) =
     (if list_all is_digit [a, b, c, d] then Some (digits_value [a, b, c, d], s) else None)"
| "get_year _ = None"

text \<open>A separator of the layout.\<close>

definition skip_char :: "char \<Rightarrow> string \<Rightarrow> string option" where
  "skip_char c s = (case s of x # t \<Rightarrow> if x = c then Some t else None | [] \<Rightarrow> None)"

text \<open>\<^verbatim>\<open>parseNanoseconds\<close>: digits past the ninth are read and ignored.\<close>

definition get_fraction :: "string \<Rightarrow> int \<times> string" where
  "get_fraction s =
     (case s of
        c # d # t \<Rightarrow>
          if (c = CHR ''.'' \<or> c = CHR '','') \<and> is_digit d
          then let ds = take 9 (takeWhile is_digit (d # t))
               in (digits_value ds * 10 ^ (9 - length ds), dropWhile is_digit (d # t))
          else (0, s)
      | _ \<Rightarrow> (0, s))"

text \<open>The offset in seconds; hours up to 24 and minutes up to 60 are accepted.\<close>

definition get_offset :: "string \<Rightarrow> (int \<times> string) option" where
  "get_offset s =
     (case s of
        sign # h1 # h2 # colon # m1 # m2 # t \<Rightarrow>
          if sign = CHR ''Z'' then Some (0, tl s)
          else if colon \<noteq> CHR '':'' \<or> \<not> list_all is_digit [h1, h2, m1, m2] then None
          else let hh = 10 * digit_val h1 + digit_val h2; mm = 10 * digit_val m1 + digit_val m2;
                   off = (hh * 60 + mm) * 60
               in if hh > 24 \<or> mm > 60 then None
                  else if sign = CHR ''+'' then Some (off, t)
                  else if sign = CHR ''-'' then Some (- off, t)
                  else None
      | c # t \<Rightarrow> if c = CHR ''Z'' then Some (0, t) else None
      | [] \<Rightarrow> None)"

definition isLeap :: "int \<Rightarrow> bool" where
  "isLeap y = (y mod 4 = 0 \<and> (y mod 100 \<noteq> 0 \<or> y mod 400 = 0))"

definition daysIn :: "int \<Rightarrow> int \<Rightarrow> int" where
  "daysIn m y =
     (if m = 2 then (if isLeap y then 29 else 28)
      else if m \<in> {4, 6, 9, 11} then 30 else 31)"

text \<open>Days from 1 January 1970 to a date of the proleptic Gregorian calendar.\<close>

definition days_of_civil :: "int \<Rightarrow> int \<Rightarrow> int \<Rightarrow> int" where
  "days_of_civil y m d =
     (let y' = (if m \<le> 2 then y - 1 else y);
          era = y' div 400;
          yoe = y' mod 400;
          mp = (m + 9) mod 12;
          doy = (153 * mp + 2) div 5 + d - 1;
          doe = yoe * 365 + yoe div 4 - yoe div 100 + doy
      in era * 146097 + doe - 719468)"

definition parse_RFC3339 :: "string \<Rightarrow> time option" where
  "parse_RFC3339 s =
     Option.bind (get_year s) (\<lambda>(year, s).
     Option.bind (skip_char (CHR ''-'') s) (\<lambda>s.
     Option.bind (getnum True s) (\<lambda>(month, s).
     Option.bind (skip_char (CHR ''-'') s) (\<lambda>s.
     Option.bind (getnum True s) (\<lambda>(day, s).
     Option.bind (skip_char (CHR ''T'') s) (\<lambda>s.
     Option.bind (getnum False s) (\<lambda>(hh, s).
     Option.bind (skip_char (CHR '':'') s) (\<lambda>s.
     Option.bind (getnum True s) (\<lambda>(mm, s).
     Option.bind (skip_char (CHR '':'') s) (\<lambda>s.
     Option.bind (getnum True s) (\<lambda>(ss, s).
       let (ns, s) = get_fraction s
       in Option.bind (get_offset s) (\<lambda>(off, s).
            if s \<noteq> [] \<or> month < 1 \<or> month > 12 \<or> hh \<ge> 24 \<or> mm \<ge> 60 \<or> ss \<ge> 60
               \<or> day < 1 \<or> day > daysIn month year then None
            else Some ((days_of_civil year month day * 86400 + hh * 3600 + mm * 60 + ss - off) * second + ns)))))))))))))"

lemma parse_RFC3339_examples:
  "parse_RFC3339 ''1970-01-01T00:00:00Z'' = Some 0"
  "parse_RFC3339 ''2024-02-29T12:00:00.5+01:00'' = Some 1709204400500000000"
  "parse_RFC3339 ''0001-01-01T00:00:00Z'' = Some zero_time"
  "parse_RFC3339 ''2023-02-29T12:00:00Z'' = None"
  "parse_RFC3339 ''2024-02-29'' = None"
  by (code_simp)+

end
