(* ===== verification/GoJSONStruct.thy ===== *)
theory GoJSONStruct
  imports GoJSONValue GoTimeParse Model
begin

text \<open>
  JSON and Go structs.  Decoding walks over the members in their order: a member whose key
  names no field is ignored, \<^verbatim>\<open>null\<close> leaves a field as it is, a member that comes again
  overwrites, and a value of the wrong kind is an error.
\<close>

definition bytes_of_string :: "string \<Rightarrow> bytes" where
  "bytes_of_string s = map (\<lambda>c. of_nat (byte_of c)) s"

definition string_of_bytes :: "bytes \<Rightarrow> string" where
  "string_of_bytes bs = map (\<lambda>b. char_of (unat b)) bs"

lemma string_of_bytes_of_string [simp]: "string_of_bytes (bytes_of_string s) = s"
proof -
  have "unat (of_nat (byte_of c) :: 8 word) = byte_of c" for c :: char
    using nat_of_char_less_256 [of c] by (simp add: unat_of_nat)
  then show ?thesis by (simp add: string_of_bytes_def bytes_of_string_def map_idI)
qed

lemma bytes_of_string_inject: "bytes_of_string s = bytes_of_string t \<Longrightarrow> s = t"
  using string_of_bytes_of_string by metis

lemma bytes_of_string_length [simp]: "length (bytes_of_string s) = length s"
  by (simp add: bytes_of_string_def)

text \<open>
  \<^verbatim>\<open>foldName\<close>, as far as it decides whether a key equals a field name in ASCII: letters in
  upper case, and the two letters outside ASCII that fold into it, U+017F and U+212A.
\<close>

fun fold_name :: "string \<Rightarrow> string" where
  "fold_name [] = []"
| "fold_name (c # s) =
     (if byte_of c = 0xC5 \<and> s \<noteq> [] \<and> byte_of (hd s) = 0xBF then CHR ''S'' # fold_name (tl s)
      else if byte_of c = 0xE2 \<and> 2 \<le> length s \<and> byte_of (hd s) = 0x84 \<and> byte_of (hd (tl s)) = 0xAA
      then CHR ''K'' # fold_name (tl (tl s))
      else if 97 \<le> byte_of c \<and> byte_of c \<le> 122 then char_of (byte_of c - 32) # fold_name s
      else c # fold_name s)"

type_synonym 'a json_store = "json \<Rightarrow> 'a \<Rightarrow> error + 'a"

definition UnmarshalTypeError :: error where
  "UnmarshalTypeError = OpaqueError ''json: cannot unmarshal''"

definition SyntaxError :: error where
  "SyntaxError = OpaqueError ''json: invalid character''"

fun store_string :: "string json_store" where
  "store_string (JStr raw) old = (case unquote raw of Some x \<Rightarrow> Inr x | None \<Rightarrow> Inl SyntaxError)"
| "store_string JNull old = Inr old"
| "store_string _ old = Inl UnmarshalTypeError"

fun store_string_ptr :: "string option json_store" where
  "store_string_ptr (JStr raw) old = (case unquote raw of Some x \<Rightarrow> Inr (Some x) | None \<Rightarrow> Inl SyntaxError)"
| "store_string_ptr JNull old = Inr None"
| "store_string_ptr _ old = Inl UnmarshalTypeError"

fun store_int64 :: "int json_store" where
  "store_int64 (JNum n) old = (case ParseInt64 n of Some i \<Rightarrow> Inr i | None \<Rightarrow> Inl UnmarshalTypeError)"
| "store_int64 JNull old = Inr old"
| "store_int64 _ old = Inl UnmarshalTypeError"

fun store_bool :: "bool json_store" where
  "store_bool (JBool b) old = Inr b"
| "store_bool JNull old = Inr old"
| "store_bool _ old = Inl UnmarshalTypeError"

text \<open>\<^verbatim>\<open>Time.UnmarshalJSON\<close> looks at the text between the quotes as it stands.\<close>

fun store_time :: "time json_store" where
  "store_time (JStr raw) old =
     (case parse_RFC3339 raw of Some t \<Rightarrow> Inr t | None \<Rightarrow> Inl (OpaqueError ''parsing time''))"
| "store_time JNull old = Inr old"
| "store_time _ old = Inl (OpaqueError ''Time.UnmarshalJSON: input is not a JSON string'')"

definition json_field ::
  "string \<Rightarrow> 'a json_store \<Rightarrow> ('r \<Rightarrow> 'a) \<Rightarrow> (('a \<Rightarrow> 'a) \<Rightarrow> 'r \<Rightarrow> 'r) \<Rightarrow> string \<times> 'r json_store" where
  "json_field name st get upd = (name, \<lambda>v r. map_sum id (\<lambda>x. upd (\<lambda>_. x) r) (st v (get r)))"

text \<open>The field a key stands for: its exact name first, then the folded one.\<close>

definition find_field :: "(string \<times> 'r json_store) list \<Rightarrow> string \<Rightarrow> 'r json_store option" where
  "find_field fds key =
     (case map_of fds key of
        Some st \<Rightarrow> Some st
      | None \<Rightarrow> map_of (map (map_prod fold_name id) fds) (fold_name key))"

fun store_members :: "(string \<times> 'r json_store) list \<Rightarrow> (string \<times> json) list \<Rightarrow> 'r \<Rightarrow> error + 'r" where
  "store_members fds [] r = Inr r"
| "store_members fds ((key, v) # ms) r =
     (case unquote key of
        None \<Rightarrow> Inl SyntaxError
      | Some name \<Rightarrow>
          (case find_field fds name of
             None \<Rightarrow> store_members fds ms r
           | Some st \<Rightarrow> bind_result (st v r) (store_members fds ms)))"

fun store_struct :: "(string \<times> 'r json_store) list \<Rightarrow> 'r json_store" where
  "store_struct fds (JObj ms) r = store_members fds ms r"
| "store_struct fds JNull r = Inr r"
| "store_struct fds _ r = Inl UnmarshalTypeError"

text \<open>
  \<^verbatim>\<open>Decoder.Decode\<close> reads one value and leaves what follows it.  The end of a number or a
  literal is seen only with the next byte or the end of the input, so a failing read in
  that place is the error; the end of an object needs no look-ahead.
\<close>

definition composite :: "json \<Rightarrow> bool" where
  "composite v = (case v of JArr _ \<Rightarrow> True | JObj _ \<Rightarrow> True | _ \<Rightarrow> False)"

definition json_Decode :: "'r json_store \<Rightarrow> 'r \<Rightarrow> stream \<Rightarrow> error + 'r" where
  "json_Decode st zero body =
     (case scan_value [] (string_of_bytes (fst body)) of
        Inl Malformed \<Rightarrow> Inl SyntaxError
      | Inl Short \<Rightarrow> Inl (case snd body of Some err \<Rightarrow> err | None \<Rightarrow> OpaqueError ''unexpected EOF'')
      | Inr (v, rest) \<Rightarrow>
          (case snd body of
             Some err \<Rightarrow> if rest = [] \<and> \<not> composite v then Inl err else st v zero
           | None \<Rightarrow> st v zero))"

text \<open>\<^verbatim>\<open>json.Unmarshal\<close>: nothing but white space may follow.\<close>

definition json_Unmarshal :: "'r json_store \<Rightarrow> 'r \<Rightarrow> bytes \<Rightarrow> error + 'r" where
  "json_Unmarshal st zero data =
     (case scan_value [] (string_of_bytes data) of
        Inl _ \<Rightarrow> Inl SyntaxError
      | Inr (v, rest) \<Rightarrow> if skip_space rest \<noteq> [] then Inl SyntaxError else st v zero)"

text \<open>
  \<^verbatim>\<open>json.Marshal\<close> and \<^verbatim>\<open>Encoder.Encode\<close>: the messages of the service are made of strings,
  numbers and booleans, which always have an encoding.
\<close>

definition json_Marshal :: "json \<Rightarrow> error + bytes" where
  "json_Marshal v = Inr (bytes_of_string (print_json v))"

definition json_Encode :: "json \<Rightarrow> string" where
  "json_Encode v = print_json v @ [CHR 0x0A]"

definition omitempty :: "string \<Rightarrow> bool \<Rightarrow> json \<Rightarrow> (string \<times> json) list" where
  "omitempty name isEmpty v = (if isEmpty then [] else [(name, v)])"

subsection \<open>What decoding makes of what was encoded\<close>

text \<open>Keys that need no escape.\<close>

definition plain_text :: "string \<Rightarrow> bool" where
  "plain_text s = list_all (\<lambda>c. 0x20 \<le> byte_of c \<and> byte_of c < 0x80 \<and> c \<noteq> CHR 0x22 \<and> c \<noteq> CHR 0x5C) s"

lemma unquote_plain: "plain_text s \<Longrightarrow> unquote s = Some s"
  by (induction s) (auto simp: plain_text_def unquote.simps(2))

lemma raw_ok_plain: "plain_text s \<Longrightarrow> raw_ok s"
  unfolding raw_ok_def plain_text_def
  by (subst scan_string_plain) (auto simp: list_all_iff)

lemma store_members_plain:
  assumes "plain_text key" and "map_of fds key = Some st"
  shows "store_members fds ((key, v) # ms) r = bind_result (st v r) (store_members fds ms)"
  using assms by (simp add: unquote_plain find_field_def)

lemma store_json_string [simp]:
  "store_string (json_string s) old = Inr (to_valid s)"
  "store_string_ptr (json_string s) p = Inr (Some (to_valid s))"
  by (simp_all add: json_string_def unquote_escape)

lemma store_json_int [simp]:
  "- (2 ^ 63) \<le> i \<Longrightarrow> i < 2 ^ 63 \<Longrightarrow> store_int64 (json_int i) old = Inr i"
  by (simp add: json_int_def ParseInt64_decimal)

lemma json_ok_atoms [simp]: "json_ok d (json_string s)" "json_ok d (json_int i)"
  by (simp_all add: json_string_def json_int_def)

lemma scan_printed:
  assumes "json_ok d v" and "d \<le> maxNestingDepth" and "delimited t"
  shows "scan_value [] (print_json v @ t) = Inr (v, t)"
  using scan_value_print [OF assms(1) _ assms(3), of "[]"] assms(2) by simp

lemma decode_printed:
  assumes "json_ok d v" and "d \<le> maxNestingDepth"
  shows "json_Decode st zero (bytes_of_string (print_json v), None) = st v zero"
    and "json_Unmarshal st zero (bytes_of_string (print_json v)) = st v zero"
    and "json_Decode st zero (bytes_of_string (json_Encode v), None) = st v zero"
  using scan_printed [OF assms, of "[]"] scan_printed [OF assms, of "[CHR 0x0A]"]
  by (simp_all add: json_Decode_def json_Unmarshal_def json_Encode_def)

text \<open>Errors of the decoder come from the library.\<close>

definition foreign_store :: "'r json_store \<Rightarrow> bool" where
  "foreign_store st = (\<forall>v r e. st v r = Inl e \<longrightarrow> foreign_error e)"

lemma foreign_stores [simp]:
  "foreign_store store_string" "foreign_store store_string_ptr" "foreign_store store_int64"
  "foreign_store store_bool" "foreign_store store_time"
proof -
  note d = foreign_store_def SyntaxError_def UnmarshalTypeError_def
  have "store_string v r = Inl e \<Longrightarrow> foreign_error e" for v r e
    by (cases v) (auto simp: d split: option.splits)
  moreover have "store_string_ptr v r = Inl e \<Longrightarrow> foreign_error e" for v r e
    by (cases v) (auto simp: d split: option.splits)
  moreover have "store_int64 v r = Inl e \<Longrightarrow> foreign_error e" for v r e
    by (cases v) (auto simp: d split: option.splits)
  moreover have "store_bool v r = Inl e \<Longrightarrow> foreign_error e" for v r e
    by (cases v) (auto simp: d)
  moreover have "store_time v r = Inl e \<Longrightarrow> foreign_error e" for v r e
    by (cases v) (auto simp: d split: option.splits)
  ultimately show "foreign_store store_string" "foreign_store store_string_ptr" "foreign_store store_int64"
    "foreign_store store_bool" "foreign_store store_time"
    unfolding foreign_store_def by blast+
qed

lemma foreign_field [simp]: "foreign_store st \<Longrightarrow> foreign_store (snd (json_field name st get upd))"
  by (auto simp: foreign_store_def json_field_def)

lemma foreign_struct [simp]:
  assumes "list_all (foreign_store \<circ> snd) fds"
  shows "foreign_store (store_struct fds)"
proof -
  have find: "foreign_store st" if found: "find_field fds key = Some st" for key st
  proof -
    have "st \<in> snd ` set fds"
      using found by (force simp: find_field_def dest!: map_of_SomeD split: option.splits)
    then show ?thesis using assms by (auto simp: list_all_iff)
  qed
  have members: "store_members fds ms r = Inl e \<Longrightarrow> foreign_error e" for ms r e
  proof (induction ms arbitrary: r)
    case (Cons m ms)
    then show ?case
      using find by (cases m) (auto simp: bind_result_Inl foreign_store_def SyntaxError_def split: option.splits)
  qed simp
  have "store_struct fds v r = Inl e \<Longrightarrow> foreign_error e" for v r e
    using members by (cases v) (auto simp: UnmarshalTypeError_def)
  then show ?thesis by (auto simp: foreign_store_def)
qed

lemma json_Decode_foreign:
  "json_Decode st zero body = Inl e \<Longrightarrow> foreign_store st \<Longrightarrow> (\<And>x. snd body = Some x \<Longrightarrow> foreign_error x) \<Longrightarrow>
     foreign_error e"
  by (auto simp: json_Decode_def foreign_store_def SyntaxError_def
      split: sum.splits scan_error.splits option.splits if_splits)

lemma json_Unmarshal_foreign:
  "json_Unmarshal st zero data = Inl e \<Longrightarrow> foreign_store st \<Longrightarrow> foreign_error e"
  by (auto simp: json_Unmarshal_def foreign_store_def SyntaxError_def split: sum.splits if_splits)

end
