(* ===== verification/Proof.thy ===== *)
theory Proof
  imports Http GoJSONStruct
begin

text \<open>
  \<^verbatim>\<open>middleware_proof.go\<close>: WOPI proof validation.  The payload, the time window, the
  decoding of signatures and keys and the order of the three attempts are the code's;
  the hash function and the RSA verification of \<^verbatim>\<open>crypto\<close> are parameters.  Signed
  64-bit arithmetic wraps.
\<close>

definition proofTimestampMaxAge :: duration where
  "proofTimestampMaxAge = 20 * minute"

definition unixEpochTicks :: int where
  "unixEpochTicks = 621355968000000000"

definition isTimestampFresh :: "time \<Rightarrow> int \<Rightarrow> bool" where
  "isTimestampFresh now ticks =
     (let unixNanos = wrap64 (wrap64 (ticks - unixEpochTicks) * 100);
          skew = time_Sub now unixNanos;
          skew' = (if skew < 0 then wrap64 (- skew) else skew)
      in skew' \<le> proofTimestampMaxAge)"

text \<open>\<^verbatim>\<open>base64.StdEncoding.DecodeString\<close>: new lines are skipped, padding is required.\<close>

definition std_value :: "char \<Rightarrow> nat option" where
  "std_value c =
     (if 65 \<le> byte_of c \<and> byte_of c \<le> 90 then Some (byte_of c - 65)
      else if 97 \<le> byte_of c \<and> byte_of c \<le> 122 then Some (byte_of c - 71)
      else if is_digit c then Some (byte_of c + 4)
      else if c = CHR ''+'' then Some 62
      else if c = CHR ''/'' then Some 63
      else None)"

fun decode_quanta :: "string \<Rightarrow> bytes option" where
  "decode_quanta [] = Some []"
| "decode_quanta [a, b, c, d] =
     (case (std_value a, std_value b) of
        (Some x, Some y) \<Rightarrow>
          (case (std_value c, std_value d) of
             (Some z, Some v) \<Rightarrow>
               Some [of_nat (x * 4 + y div 16), of_nat (y * 16 + z div 4), of_nat (z * 64 + v)]
           | (Some z, None) \<Rightarrow>
               if d = CHR ''='' then Some [of_nat (x * 4 + y div 16), of_nat (y * 16 + z div 4)] else None
           | (None, _) \<Rightarrow>
               if c = CHR ''='' \<and> d = CHR ''='' then Some [of_nat (x * 4 + y div 16)] else None)
      | _ \<Rightarrow> None)"
| "decode_quanta (a # b # c # d # rest) =
     (case (std_value a, std_value b, std_value c, std_value d) of
        (Some x, Some y, Some z, Some v) \<Rightarrow>
          map_option (\<lambda>r. [of_nat (x * 4 + y div 16), of_nat (y * 16 + z div 4), of_nat (z * 64 + v)] @ r)
            (decode_quanta rest)
      | _ \<Rightarrow> None)"
| "decode_quanta _ = None"

definition StdDecode :: "string \<Rightarrow> bytes option" where
  "StdDecode s = decode_quanta (filter (\<lambda>c. c \<noteq> CHR 0x0A \<and> c \<noteq> CHR 0x0D) s)"

text \<open>Big-endian integers.\<close>

definition be_bytes :: "nat \<Rightarrow> int \<Rightarrow> bytes" where
  "be_bytes n v = rev (map (\<lambda>i. of_int (v div 256 ^ i)) [0..<n])"

definition appendBigEndianUint32 :: "bytes \<Rightarrow> int \<Rightarrow> bytes" where
  "appendBigEndianUint32 buf v = buf @ be_bytes 4 v"

definition appendBigEndianUint64 :: "bytes \<Rightarrow> int \<Rightarrow> bytes" where
  "appendBigEndianUint64 buf v = buf @ be_bytes 8 v"

text \<open>\<^verbatim>\<open>uint32(len)\<close> and \<^verbatim>\<open>uint64(timestamp)\<close> keep the low bits.\<close>

definition buildProofPayload :: "string \<Rightarrow> string \<Rightarrow> int \<Rightarrow> bytes" where
  "buildProofPayload accessToken urlUpper timestamp =
     (let tokenBytes = bytes_of_string accessToken;
          urlBytes = bytes_of_string urlUpper;
          buf1 = appendBigEndianUint32 [] (int (length tokenBytes)) @ tokenBytes;
          buf2 = appendBigEndianUint32 buf1 (int (length urlBytes)) @ urlBytes;
          buf3 = appendBigEndianUint32 buf2 8
      in appendBigEndianUint64 buf3 timestamp)"

record crypto_lib =
  cr_Sum256 :: "bytes \<Rightarrow> bytes"
  cr_VerifyPKCS1v15 :: "int \<Rightarrow> int \<Rightarrow> bytes \<Rightarrow> bytes \<Rightarrow> bool"

record rsa_key =
  key_N :: int
  key_E :: int

definition SetBytes :: "bytes \<Rightarrow> int" where
  "SetBytes bs = foldl (\<lambda>n b. n * 256 + int (unat b)) 0 bs"

datatype proof_error = errMissingProofHeaders | errInvalidTimestamp | errTimestampExpired
  | errInvalidProofEncoding | errInvalidKeyEncoding | errProofVerificationFailed

primrec proofError_Error :: "proof_error \<Rightarrow> string" where
  "proofError_Error errMissingProofHeaders = ''missing X-WOPI-Proof or X-WOPI-TimeStamp headers''"
| "proofError_Error errInvalidTimestamp = ''invalid X-WOPI-TimeStamp''"
| "proofError_Error errTimestampExpired = ''X-WOPI-TimeStamp too old''"
| "proofError_Error errInvalidProofEncoding = ''invalid proof base64 encoding''"
| "proofError_Error errInvalidKeyEncoding = ''invalid proof key encoding''"
| "proofError_Error errProofVerificationFailed = ''proof signature verification failed''"

definition buildRSAKey :: "string \<Rightarrow> string \<Rightarrow> proof_error + rsa_key" where
  "buildRSAKey modulusB64 exponentB64 =
     (case StdDecode modulusB64 of
        None \<Rightarrow> Inl errInvalidKeyEncoding
      | Some modBytes \<Rightarrow>
          (case StdDecode exponentB64 of
             None \<Rightarrow> Inl errInvalidKeyEncoding
           | Some expBytes \<Rightarrow>
               (let exponent = SetBytes expBytes
                in if \<not> (exponent < 2 ^ 63) \<or> exponent \<le> 0 then Inl errInvalidKeyEncoding
                   else Inr \<lparr>key_N = SetBytes modBytes, key_E = exponent\<rparr>)))"

definition verifyRSASHA256 :: "crypto_lib \<Rightarrow> rsa_key \<Rightarrow> bytes \<Rightarrow> bytes \<Rightarrow> bool" where
  "verifyRSASHA256 cr key message signature =
     cr_VerifyPKCS1v15 cr (key_N key) (key_E key) (cr_Sum256 cr message) signature"

text \<open>\<^verbatim>\<open>strings.ToUpper\<close> on the ASCII letters; \<open>requestURL\<close> is a URL in its encoded form.\<close>

definition ToUpper :: "string \<Rightarrow> string" where
  "ToUpper s = map (\<lambda>c. if 97 \<le> byte_of c \<and> byte_of c \<le> 122 then char_of (byte_of c - 32 :: nat) else c) s"

definition requestURL :: "request \<Rightarrow> string" where
  "requestURL r =
     (let forwarded = rq_Header r ''X-Forwarded-Proto'';
          scheme = (if forwarded = '''' then (if \<not> rq_TLS r then ''http'' else ''https'') else forwarded)
      in scheme @ ''://'' @ rq_Host r @ rq_RequestURI r)"

text \<open>The three attempts, once the payload and the signature are known.\<close>

definition verify_attempts ::
  "crypto_lib \<Rightarrow> proof_key \<Rightarrow> bytes \<Rightarrow> bytes \<Rightarrow> string \<Rightarrow> proof_error option" where
  "verify_attempts cr keys expected proofBytes proofOld =
     (case buildRSAKey (Modulus keys) (Exponent keys) of
        Inl err \<Rightarrow> Some err
      | Inr currentKey \<Rightarrow>
          if verifyRSASHA256 cr currentKey expected proofBytes then None
          else if proofOld \<noteq> '''' \<and>
                  (case StdDecode proofOld of
                     Some oldBytes \<Rightarrow> verifyRSASHA256 cr currentKey expected oldBytes
                   | None \<Rightarrow> False) then None
          else if OldModulus keys \<noteq> '''' \<and> OldExponent keys \<noteq> '''' \<and>
                  (case buildRSAKey (OldModulus keys) (OldExponent keys) of
                     Inr oldKey \<Rightarrow> verifyRSASHA256 cr oldKey expected proofBytes
                   | Inl _ \<Rightarrow> False) then None
          else Some errProofVerificationFailed)"

definition validateProof ::
  "crypto_lib \<Rightarrow> 'w go_runtime \<Rightarrow> request \<Rightarrow> proof_key \<Rightarrow> ('w, proof_error option) prog" where
  "validateProof cr rt r keys =
     (let proof = rq_Header r ''X-WOPI-Proof'';
          proofOld = rq_Header r ''X-WOPI-ProofOld'';
          timestampStr = rq_Header r ''X-WOPI-TimeStamp''
      in if proof = '''' \<or> timestampStr = '''' then Done (Some errMissingProofHeaders)
         else case ParseInt64 timestampStr of
           None \<Rightarrow> Done (Some errInvalidTimestamp)
         | Some timestamp \<Rightarrow>
             call (rt_Now rt) (\<lambda>now.
               if \<not> isTimestampFresh now timestamp then Done (Some errTimestampExpired)
               else let accessToken = query_Get (rq_RawQuery r) ''access_token'';
                        fullURL = ToUpper (requestURL r);
                        expected = buildProofPayload accessToken fullURL timestamp
                    in case StdDecode proof of
                         None \<Rightarrow> Done (Some errInvalidProofEncoding)
                       | Some proofBytes \<Rightarrow>
                           Done (verify_attempts cr keys expected proofBytes proofOld)))"

definition ProofMiddleware ::
  "crypto_lib \<Rightarrow> 'w go_runtime \<Rightarrow> bool \<Rightarrow> 'w discovery_service \<Rightarrow> 'w logger \<Rightarrow> 'w middleware" where
  "ProofMiddleware cr rt enabled discoverySvc logger nxt r =
     (if \<not> enabled then nxt r
      else call (GetProofKeys discoverySvc) (\<lambda>k.
        case k of
          None \<Rightarrow>
            effect (logger (log_record Warn ''proof validation enabled but no discovery keys available'' []))
            (Done (http_Error 500 ''proof validation unavailable''))
        | Some keys \<Rightarrow>
            bind_prog (validateProof cr rt r keys) (\<lambda>e.
              case e of
                Some err \<Rightarrow>
                  effect (logger (log_record Warn ''WOPI proof validation failed''
                    [(''error'', FError (OpaqueError (proofError_Error err)))]))
                  (Done (http_Error 401 ''invalid proof''))
              | None \<Rightarrow> nxt r)))"

lemmas [handler_defs] = validateProof_def ProofMiddleware_def

text \<open>Big-endian encodings determine the number modulo their size.\<close>

lemma be_bytes_length [simp]: "length (be_bytes n v) = n"
  by (simp add: be_bytes_def)

lemma be_bytes_Suc: "be_bytes (Suc n) v = of_int (v div 256 ^ n) # be_bytes n v"
  by (simp add: be_bytes_def)

lemma byte_of_int_eq: "(of_int a :: 8 word) = of_int b \<longleftrightarrow> a mod 256 = b mod 256"
  by (simp add: word_of_int_eq_iff take_bit_eq_mod)

lemma be_bytes_inject: "be_bytes n v = be_bytes n v' \<Longrightarrow> v mod 256 ^ n = v' mod 256 ^ n"
proof (induction n)
  case 0
  then show ?case by simp
next
  case (Suc n)
  then have hi: "(v div 256 ^ n) mod 256 = (v' div 256 ^ n) mod 256" and lo: "v mod 256 ^ n = v' mod 256 ^ n"
    by (simp_all add: be_bytes_Suc byte_of_int_eq)
  have split: "x mod 256 ^ Suc n = (x div 256 ^ n) mod 256 * 256 ^ n + x mod 256 ^ n" for x :: int
    using zmod_zmult2_eq [of 256 x "256 ^ n"] by (simp add: mult.commute)
  show ?case unfolding split hi lo ..
qed

lemma payload_inject:
  assumes eq: "buildProofPayload tok url ts = buildProofPayload tok' url' ts'"
    and len: "length tok < 2 ^ 32" "length tok' < 2 ^ 32" "length url < 2 ^ 32" "length url' < 2 ^ 32"
    and ts: "- (2 ^ 63) \<le> ts" "ts < 2 ^ 63" "- (2 ^ 63) \<le> ts'" "ts' < 2 ^ 63"
  shows "tok = tok' \<and> url = url' \<and> ts = ts'"
proof -
  let ?B = bytes_of_string
  from eq have eq1: "be_bytes 4 (int (length tok)) @ ?B tok @ be_bytes 4 (int (length url)) @ ?B url
        @ be_bytes 4 8 @ be_bytes 8 ts =
      be_bytes 4 (int (length tok')) @ ?B tok' @ be_bytes 4 (int (length url')) @ ?B url'
        @ be_bytes 4 8 @ be_bytes 8 ts'"
    by (simp add: buildProofPayload_def appendBigEndianUint32_def appendBigEndianUint64_def Let_def)
  have lens: "a = b" if "be_bytes 4 (int a) = be_bytes 4 (int b)" "a < 2 ^ 32" "b < 2 ^ 32" for a b
    using be_bytes_inject [OF that(1)] that(2,3) by (simp add: zmod_int [symmetric])
  from eq1 have t: "be_bytes 4 (int (length tok)) = be_bytes 4 (int (length tok'))"
    and eq2: "?B tok @ be_bytes 4 (int (length url)) @ ?B url @ be_bytes 4 8 @ be_bytes 8 ts =
      ?B tok' @ be_bytes 4 (int (length url')) @ ?B url' @ be_bytes 4 8 @ be_bytes 8 ts'"
    by simp_all
  from eq2 lens [OF t len(1,2)] have "?B tok = ?B tok'"
    and u: "be_bytes 4 (int (length url)) = be_bytes 4 (int (length url'))"
    and eq3: "?B url @ be_bytes 4 8 @ be_bytes 8 ts = ?B url' @ be_bytes 4 8 @ be_bytes 8 ts'"
    by simp_all
  from eq3 lens [OF u len(3,4)] have "?B url = ?B url'" and "be_bytes 8 ts = be_bytes 8 ts'"
    by simp_all
  moreover from this have "ts = ts'"
    using be_bytes_inject [of 8 ts ts'] ts wrap64_id [of ts] wrap64_id [of ts']
    by (simp add: wrap64_def mod_add_eq [symmetric, of ts] mod_add_eq [symmetric, of ts'])
  ultimately show ?thesis using \<open>?B tok = ?B tok'\<close> bytes_of_string_inject by blast
qed



text \<open>
  C25: the freshness test accepts a timestamp of the representable era exactly when it
  is within twenty minutes of the clock, in the past or in the future.
\<close>

theorem timestamp_fresh_iff:
  assumes "\<bar>ticks - unixEpochTicks\<bar> \<le> 92233720368547758" and "0 \<le> now" "now < 2 ^ 63"
  shows "isTimestampFresh now ticks = (\<bar>now - (ticks - unixEpochTicks) * 100\<bar> \<le> proofTimestampMaxAge)"
proof -
  let ?d = "ticks - unixEpochTicks"
  have "wrap64 ?d = ?d" using assms(1) by (intro wrap64_id) auto
  moreover have "wrap64 (?d * 100) = ?d * 100" using assms(1) by (intro wrap64_id) auto
  moreover have "- (2 ^ 63) < now - ?d * 100" using assms by auto
  then have "wrap64 (- time_Sub now (?d * 100)) = - time_Sub now (?d * 100)"
    by (intro wrap64_id) (auto simp: time_Sub_def min_duration_def max_duration_def)
  ultimately show ?thesis
    using \<open>- (2 ^ 63) < now - ?d * 100\<close>
    by (auto simp: isTimestampFresh_def Let_def time_Sub_def min_duration_def max_duration_def
        proofTimestampMaxAge_def time_units)
qed

theorem timestamp_fresh_iff_witness:
  "isTimestampFresh 0 unixEpochTicks \<and> \<not> isTimestampFresh (30 * minute) unixEpochTicks"
  using timestamp_fresh_iff [of unixEpochTicks 0] timestamp_fresh_iff [of unixEpochTicks "30 * minute"]
  by (simp add: proofTimestampMaxAge_def time_units)

text \<open>
  Outside that era the test wraps around.  A timestamp that is \<open>2 ^ 62\<close> ticks, more
  than fourteen thousand years, away is judged as if it were not, because the product
  with one hundred nanoseconds overflows.
\<close>

theorem timestamp_fresh_wraps:
  "isTimestampFresh now (ticks + 2 ^ 62) = isTimestampFresh now ticks"
proof -
  have "wrap64 (wrap64 (ticks + 2 ^ 62 - unixEpochTicks) * 100) =
      wrap64 ((ticks - unixEpochTicks) * 100 + 25 * 2 ^ 64)"
    unfolding wrap64_mult by (simp add: algebra_simps)
  also have "\<dots> = wrap64 (wrap64 (ticks - unixEpochTicks) * 100)"
    unfolding wrap64_add_period wrap64_mult ..
  finally show ?thesis by (simp add: isTimestampFresh_def)
qed

text \<open>
  When a proof is valid: a fresh timestamp and a signature of this request's token, URL and
  timestamp, in one of the three documented combinations of proof and key.
\<close>

definition proof_valid :: "crypto_lib \<Rightarrow> time \<Rightarrow> request \<Rightarrow> proof_key \<Rightarrow> bool" where
  "proof_valid cr now r keys =
     (rq_Header r ''X-WOPI-Proof'' \<noteq> '''' \<and>
      (\<exists>ts sig key. ParseInt64 (rq_Header r ''X-WOPI-TimeStamp'') = Some ts \<and> isTimestampFresh now ts
        \<and> StdDecode (rq_Header r ''X-WOPI-Proof'') = Some sig
        \<and> buildRSAKey (Modulus keys) (Exponent keys) = Inr key
        \<and> (let signed = (\<lambda>k. verifyRSASHA256 cr k (buildProofPayload
                 (query_Get (rq_RawQuery r) ''access_token'') (ToUpper (requestURL r)) ts))
           in signed key sig
              \<or> (rq_Header r ''X-WOPI-ProofOld'' \<noteq> ''''
                  \<and> (\<exists>old. StdDecode (rq_Header r ''X-WOPI-ProofOld'') = Some old \<and> signed key old))
              \<or> (OldModulus keys \<noteq> '''' \<and> OldExponent keys \<noteq> ''''
                  \<and> (\<exists>k. buildRSAKey (OldModulus keys) (OldExponent keys) = Inr k \<and> signed k sig)))))"

lemma verify_attempts_None:
  "verify_attempts cr keys expected proofBytes proofOld = None \<longleftrightarrow>
     (\<exists>key. buildRSAKey (Modulus keys) (Exponent keys) = Inr key
       \<and> (verifyRSASHA256 cr key expected proofBytes
          \<or> (proofOld \<noteq> '''' \<and> (\<exists>old. StdDecode proofOld = Some old \<and> verifyRSASHA256 cr key expected old))
          \<or> (OldModulus keys \<noteq> '''' \<and> OldExponent keys \<noteq> ''''
              \<and> (\<exists>k. buildRSAKey (OldModulus keys) (OldExponent keys) = Inr k
                   \<and> verifyRSASHA256 cr k expected proofBytes))))"
  by (auto simp: verify_attempts_def split: sum.splits option.splits)

lemma validateProof_None:
  "fst (run (validateProof cr rt r keys) w) = None \<longleftrightarrow> proof_valid cr (fst (rt_Now rt w)) r keys"
proof -
  have "ParseInt64 [] = None" by (simp add: ParseInt64_def HasPrefix_def)
  then show ?thesis
    by (auto simp: validateProof_def proof_valid_def prog_simps Let_def verify_attempts_None
        split: option.splits)
qed

lemma validateProof_world:
  "fst (run (validateProof cr rt r keys) w) = None \<Longrightarrow>
     snd (run (validateProof cr rt r keys) w) = snd (rt_Now rt w)"
  by (auto simp: validateProof_def prog_simps Let_def split: if_splits option.splits)


end
