(* ===== verification/Handlers.thy ===== *)
theory Handlers
  imports WopiHandler Proof
begin

text \<open>
  The remaining handlers of \<^verbatim>\<open>internal/adapter/inbound/http\<close> (token issuance, previews,
  discovery, health) and the router: which middleware stands in front of which handler.
\<close>

text \<open>\<^verbatim>\<open>token_handler.go\<close>.\<close>

record token_request =
  trq_DocumentID :: string
  trq_ActorName :: string
  trq_Lang :: string

definition tokenRequest_fields :: "(string \<times> token_request json_store) list" where
  "tokenRequest_fields =
     [json_field ''documentId'' store_string trq_DocumentID trq_DocumentID_update,
      json_field ''actorName'' store_string trq_ActorName trq_ActorName_update,
      json_field ''lang'' store_string trq_Lang trq_Lang_update]"

definition decode_tokenRequest :: "stream \<Rightarrow> error + token_request" where
  "decode_tokenRequest =
     json_Decode (store_struct tokenRequest_fields) \<lparr>trq_DocumentID = '''', trq_ActorName = '''', trq_Lang = ''''\<rparr>"

record 'w token_handler =
  th_tokenSvc :: "'w token_service"
  th_logger :: "'w logger"

definition NewTokenHandler :: "'w token_service \<Rightarrow> 'w logger \<Rightarrow> 'w token_handler" where
  "NewTokenHandler tokenSvc logger = \<lparr>th_tokenSvc = tokenSvc, th_logger = logger\<rparr>"

definition logFailure :: "'w token_handler \<Rightarrow> string \<Rightarrow> string \<Rightarrow> error \<Rightarrow> 'w \<Rightarrow> 'w" where
  "logFailure h documentID actorID err =
     th_logger h (log_record Error ''token issuance failed''
       [(FieldEvent, FString EventTokenIssuance), (FieldOutcome, FString (tokenIssuanceOutcome err)),
        (FieldDocumentID, FString documentID), (FieldActorID, FString actorID), (''error'', FError err)])"

definition token_error :: "'w token_handler \<Rightarrow> string \<Rightarrow> string \<Rightarrow> error \<Rightarrow> ('w, response) prog" where
  "token_error h documentID actorID err =
     (if errors_Is err ErrDocumentNotFound then Done (http_Error 404 ''document not found'')
      else if errors_Is err ErrNotAuthorized
      then effect (th_logger h (log_record Warn ''token issuance denied: actor not authorized for document''
             [(''documentId'', FString documentID), (''actorId'', FString actorID)]))
           (Done (http_Error 403 ''not authorized''))
      else if errors_Is err ErrUnsupportedMIME
      then Done (http_Error 422 ''document type not supported for editing'')
      else if errors_Is err ErrUnsupportedExtension
      then Done (http_Error 422 ''document type not supported for editing'')
      else if errors_Is err ErrNoDiscoveryData
      then effect (logFailure h documentID actorID err) (Done (http_Error 503 ''editor discovery unavailable''))
      else effect (logFailure h documentID actorID err) (Done (http_Error 500 ''internal error'')))"

definition TokenHandler_ServeHTTP :: "'w go_runtime \<Rightarrow> 'w token_handler \<Rightarrow> 'w handler" where
  "TokenHandler_ServeHTTP rt h r =
     (if rq_Method r \<noteq> ''POST'' then Done (http_Error 405 ''method not allowed'')
      else let actorID = ActorIDFromContext r
           in if actorID = '''' then Done (http_Error 401 ''missing actor identity'')
              else case decode_tokenRequest (rq_Body r) of
                Inl err \<Rightarrow> Done (http_Error 400 ''invalid request body'')
              | Inr req \<Rightarrow>
                  if trq_DocumentID req = '''' then Done (http_Error 400 ''documentId is required'')
                  else let actorName = (if trq_ActorName req = '''' then ActorNameFromContext r
                                        else trq_ActorName req)
                       in bind_prog (IssueToken rt (th_tokenSvc h) actorID actorName (trq_DocumentID req)
                                       (trq_Lang req)) (\<lambda>res.
                            case res of
                              Inl err \<Rightarrow> token_error h (trq_DocumentID req) actorID err
                            | Inr result \<Rightarrow>
                                effect (th_logger h (log_record Info ''token issued''
                                  [(''documentId'', FString (trq_DocumentID req)), (''actorId'', FString actorID)]))
                                (Done (json_response [] 200 (TokenBody result)))))"

text \<open>\<^verbatim>\<open>preview_handler.go\<close>.\<close>

record 'w preview_handler =
  ph_svc :: "'w preview_service"
  ph_logger :: "'w logger"

definition NewPreviewHandler :: "'w preview_service \<Rightarrow> 'w logger \<Rightarrow> 'w preview_handler" where
  "NewPreviewHandler svc logger = \<lparr>ph_svc = svc, ph_logger = logger\<rparr>"

definition preview_writeError :: "'w preview_handler \<Rightarrow> string \<Rightarrow> error \<Rightarrow> ('w, response) prog" where
  "preview_writeError h fileID err =
     (let failed = (\<lambda>msg. effect (ph_logger h (log_record Error msg
                            [(''fileID'', FString fileID), (''error'', FError err)])))
      in if errors_Is err ErrDocumentNotFound then Done (http_Error 404 ''document not found'')
         else if errors_Is err ErrNotAuthorized then Done (http_Error 403 ''not authorized'')
         else if errors_Is err ErrUnsupportedPreviewSource
         then Done (http_Error 422 ''document type not supported for preview'')
         else if errors_Is err ErrRenderAdmissionFull
         then Done (http_Error 503 ''preview render capacity exceeded'')
         else if errors_Is err ErrStaleSharedRender
         then Done (http_Error 503 ''preview not current; retry later'')
         else if errors_Is err ErrRenderFailed
         then failed ''preview render failed'' (Done (http_Error 502 ''preview render failed''))
         else failed ''preview resolution failed'' (Done (http_Error 500 ''internal error'')))"

text \<open>
  A result without a body that is not \<^verbatim>\<open>NotModified\<close> would be a nil dereference, which the
  router's \<^verbatim>\<open>Recoverer\<close> turns into a bare 500; \<^verbatim>\<open>Resolve\<close> makes no such result.
\<close>

definition PreviewHandler_ServeHTTP :: "'w preview_handler \<Rightarrow> 'w handler" where
  "PreviewHandler_ServeHTTP h r =
     (let actorID = ActorIDFromContext r; fileID = rq_fileID r
      in if actorID = '''' then Done (http_Error 401 ''missing actor identity'')
         else if fileID = '''' then Done (http_Error 400 ''missing fileID'')
         else bind_prog (Resolve (ph_svc h) actorID fileID (rq_Header r ''If-None-Match'')) (\<lambda>v.
           case v of
             Inl err \<Rightarrow> preview_writeError h fileID err
           | Inr res \<Rightarrow>
               (let hs = [(''Cache-Control'', ''private, no-cache, must-revalidate''), (''ETag'', pr_ETag res)]
                in if pr_NotModified res
                   then Done \<lparr>rs_Status = 304, rs_Headers = hs, rs_Body = NoBody\<rparr>
                   else let hs' = hs @ [(''Content-Type'', ''image/png''), (''X-Content-Type-Options'', ''nosniff'')]
                        in case pr_Body res of
                             Some body \<Rightarrow>
                               copied (\<lambda>err. ph_logger h (log_record Warn ''preview stream error''
                                   [(''fileID'', FString fileID), (''error'', FError err)])) body
                                 (Done \<lparr>rs_Status = 200, rs_Headers = hs', rs_Body = ContentBody (fst body)\<rparr>)
                           | None \<Rightarrow> Done \<lparr>rs_Status = 500, rs_Headers = hs', rs_Body = NoBody\<rparr>)))"

text \<open>\<^verbatim>\<open>discovery_handler.go\<close>.\<close>

record 'w discovery_handler =
  dh_discoverySvc :: "'w discovery_service"
  dh_logger :: "'w logger"

definition NewDiscoveryHandler :: "'w discovery_service \<Rightarrow> 'w logger \<Rightarrow> 'w discovery_handler" where
  "NewDiscoveryHandler discoverySvc logger = \<lparr>dh_discoverySvc = discoverySvc, dh_logger = logger\<rparr>"

definition DiscoveryHandler_ServeHTTP :: "'w go_runtime \<Rightarrow> 'w discovery_handler \<Rightarrow> 'w handler" where
  "DiscoveryHandler_ServeHTTP rt h r =
     bind_prog (GetDiscovery rt (dh_discoverySvc h)) (\<lambda>v.
       case v of
         Inl err \<Rightarrow>
           effect (dh_logger h (log_record Error ''discovery fetch failed'' [(''error'', FError err)]))
           (Done (http_Error 503 ''discovery unavailable''))
       | Inr data \<Rightarrow> Done (json_response [] 200 (DiscoveryBody data)))"

text \<open>
  \<^verbatim>\<open>health_handler.go\<close>.  The database ping and the state of the NATS connection are
  outside; without NATS there is no connection to ask.
\<close>

record 'w health_handler =
  hh_Ping :: "'w \<Rightarrow> error option \<times> 'w"
  hh_natsConnected :: "('w \<Rightarrow> bool \<times> 'w) option"
  hh_prober :: "'w discovery_service option"
  hh_logger :: "'w logger"

definition NewHealthHandler ::
  "('w \<Rightarrow> error option \<times> 'w) \<Rightarrow> ('w \<Rightarrow> bool \<times> 'w) option \<Rightarrow> 'w discovery_service option \<Rightarrow> 'w logger \<Rightarrow>
   'w health_handler" where
  "NewHealthHandler ping nats prober logger =
     \<lparr>hh_Ping = ping, hh_natsConnected = nats, hh_prober = prober, hh_logger = logger\<rparr>"

definition health_body :: "nat \<Rightarrow> string \<Rightarrow> string \<Rightarrow> string \<Rightarrow> response" where
  "health_body code status collabora lastOK =
     json_response [] code (HealthBody
       \<lparr>hr_Status = status, hr_Collabora = collabora, hr_CollaboraLastSuccess = lastOK\<rparr>)"

definition health_probe :: "'w go_runtime \<Rightarrow> 'w health_handler \<Rightarrow> ('w, response) prog" where
  "health_probe rt h =
     (case hh_prober h of
        None \<Rightarrow> Done (health_body 200 ''ok'' '''' '''')
      | Some prober \<Rightarrow>
          bind_prog (Probe rt prober) (\<lambda>p.
            let (reachable, lastOK) = p
            in Done (health_body 200 ''ok'' (if reachable then ''reachable'' else ''unreachable'')
                 (if \<not> IsZero lastOK then format_RFC3339 lastOK else ''''))))"

definition HealthHandler_ServeHTTP :: "'w go_runtime \<Rightarrow> 'w health_handler \<Rightarrow> 'w handler" where
  "HealthHandler_ServeHTTP rt h r =
     call (hh_Ping h) (\<lambda>e.
       case e of
         Some err \<Rightarrow>
           effect (hh_logger h (log_record Warn ''wopi db health check failed'' [(''error'', FError err)]))
           (Done (health_body 503 ''db_unavailable'' '''' ''''))
       | None \<Rightarrow>
           (case hh_natsConnected h of
              None \<Rightarrow> health_probe rt h
            | Some connected \<Rightarrow>
                call connected (\<lambda>up.
                  if \<not> up
                  then effect (hh_logger h (log_record Warn ''nats health check failed'' []))
                       (Done (health_body 503 ''nats_unavailable'' '''' ''''))
                  else health_probe rt h)))"

definition LiveHandler :: "'w handler" where
  "LiveHandler r = Done (health_body 200 ''ok'' '''' '''')"

text \<open>
  \<^verbatim>\<open>router.go\<close>: the routes that \<^verbatim>\<open>NewRouter\<close> registers and the handler chain of each.
  Matching a request to a route is the router library's.
\<close>

datatype route = Health | Live | DiscoveryRoute | TokenRoute | LockStatusRoute | PreviewRoute
  | CheckFileInfoRoute | GetFileRoute | PutFileRoute | FileOperationRoute

record 'w router_deps =
  rd_TokenSvc :: "'w token_service"
  rd_DiscoverySvc :: "'w discovery_service"
  rd_TokenHandler :: "'w token_handler"
  rd_WOPIHandler :: "'w wopi_handler"
  rd_PreviewHandler :: "'w preview_handler"
  rd_HealthHandler :: "'w health_handler"
  rd_DiscoveryHandler :: "'w discovery_handler"
  rd_ContributionWnd :: "'w contribution_window option"
  rd_ProofValidation :: bool
  rd_Logger :: "'w logger"

fun RegisterWOPIRoutes :: "'w go_runtime \<Rightarrow> 'w wopi_handler \<Rightarrow> route \<Rightarrow> 'w handler option" where
  "RegisterWOPIRoutes rt h CheckFileInfoRoute = Some (handle_CheckFileInfo h)"
| "RegisterWOPIRoutes rt h GetFileRoute = Some (handle_GetFile h)"
| "RegisterWOPIRoutes rt h PutFileRoute = Some (PutFileContents rt h)"
| "RegisterWOPIRoutes rt h FileOperationRoute = Some (FileOperation rt h)"
| "RegisterWOPIRoutes rt h _ = None"

definition wopi_chain :: "crypto_lib \<Rightarrow> 'w go_runtime \<Rightarrow> 'w router_deps \<Rightarrow> 'w middleware" where
  "wopi_chain cr rt deps nxt =
     TokenAuthMiddleware rt (rd_TokenSvc deps)
       (ProofMiddleware cr rt (rd_ProofValidation deps) (rd_DiscoverySvc deps) (rd_Logger deps)
          (ContributionMiddleware (rd_ContributionWnd deps) nxt))"

text \<open>The router library's answer to a request without a route.\<close>

definition NotFound :: "'w handler" where
  "NotFound r = Done ((http_Error 404 '''')\<lparr>rs_Body := ErrorText (''404 page not found'' @ [CHR 0x0A])\<rparr>)"

definition route_handler ::
  "crypto_lib \<Rightarrow> 'w go_runtime \<Rightarrow> 'w router_deps \<Rightarrow> route \<Rightarrow> 'w handler" where
  "route_handler cr rt deps rte =
     (case rte of
        Health \<Rightarrow> HealthHandler_ServeHTTP rt (rd_HealthHandler deps)
      | Live \<Rightarrow> LiveHandler
      | DiscoveryRoute \<Rightarrow> DiscoveryHandler_ServeHTTP rt (rd_DiscoveryHandler deps)
      | TokenRoute \<Rightarrow> ActorHeaderMiddleware (TokenHandler_ServeHTTP rt (rd_TokenHandler deps))
      | LockStatusRoute \<Rightarrow> ActorHeaderMiddleware (LockStatus (rd_WOPIHandler deps))
      | PreviewRoute \<Rightarrow> ActorHeaderMiddleware (PreviewHandler_ServeHTTP (rd_PreviewHandler deps))
      | _ \<Rightarrow> (case RegisterWOPIRoutes rt (rd_WOPIHandler deps) rte of
               Some h \<Rightarrow> wopi_chain cr rt deps h
             | None \<Rightarrow> NotFound))"

definition NewRouter ::
  "crypto_lib \<Rightarrow> 'w go_runtime \<Rightarrow> string \<Rightarrow> string \<Rightarrow> 'w router_deps \<Rightarrow>
   route \<Rightarrow> 'w handler" where
  "NewRouter cr rt reqID remoteAddr deps rte =
     RequestLogger rt (rd_Logger deps) reqID remoteAddr (route_handler cr rt deps rte)"

lemmas [handler_defs] = token_error_def TokenHandler_ServeHTTP_def preview_writeError_def
  PreviewHandler_ServeHTTP_def DiscoveryHandler_ServeHTTP_def health_probe_def HealthHandler_ServeHTTP_def
  LiveHandler_def

end
