(* ===== verification/App.thy ===== *)
theory App
  imports Server Handlers Examples
begin

text \<open>
  The application of \<^verbatim>\<open>cmd/server/main.go\<close>: handlers and router on the services of
  \<open>Server\<close>.  The health check's database ping and NATS connection and the cryptographic
  functions are arguments.
\<close>

record 'w outer =
  out_Ping :: "'w \<Rightarrow> error option \<times> 'w"
  out_nats :: "('w \<Rightarrow> bool \<times> 'w) option"
  out_crypto :: crypto_lib
  out_reqID :: string
  out_remoteAddr :: string

record 'w http_handlers =
  hs_token :: "'w token_handler"
  hs_wopi :: "'w wopi_handler"
  hs_preview :: "'w preview_handler"
  hs_health :: "'w health_handler"
  hs_discovery :: "'w discovery_handler"

definition createHandlers ::
  "'z server_scheme outer \<Rightarrow> 'z server_scheme services \<Rightarrow> 'z server_scheme http_handlers" where
  "createHandlers out s =
     \<lparr>hs_token = NewTokenHandler (sv_token s) Logger,
      hs_wopi = NewWOPIHandler (sv_wopi s) (Some (sv_contribution s)) (Some (sv_publisher s)) Logger,
      hs_preview = NewPreviewHandler (sv_preview s) Logger,
      hs_health = NewHealthHandler (out_Ping out) (out_nats out) (Some (sv_discovery s)) Logger,
      hs_discovery = NewDiscoveryHandler (sv_discovery s) Logger\<rparr>"

definition app_deps :: "'e server_env_scheme \<Rightarrow> config \<Rightarrow> 'z server_scheme outer \<Rightarrow> 'z server_scheme router_deps" where
  "app_deps env cfg out =
     (let s = createServices env cfg; hs = createHandlers out s
      in \<lparr>rd_TokenSvc = sv_token s, rd_DiscoverySvc = sv_discovery s, rd_TokenHandler = hs_token hs,
          rd_WOPIHandler = hs_wopi hs, rd_PreviewHandler = hs_preview hs, rd_HealthHandler = hs_health hs,
          rd_DiscoveryHandler = hs_discovery hs, rd_ContributionWnd = Some (sv_contribution s),
          rd_ProofValidation = cfg_ProofValidation cfg, rd_Logger = Logger\<rparr>)"

definition app ::
  "'e server_env_scheme \<Rightarrow> config \<Rightarrow> 'z server_scheme outer \<Rightarrow> route \<Rightarrow> 'z server_scheme handler" where
  "app env cfg out rte =
     NewRouter (out_crypto out) (GoRuntime env) (out_reqID out) (out_remoteAddr out)
       (app_deps env cfg out) rte"

abbreviation wopi_h :: "'e server_env_scheme \<Rightarrow> config \<Rightarrow> 'z server_scheme outer \<Rightarrow> 'z server_scheme wopi_handler" where
  "wopi_h env cfg out \<equiv> rd_WOPIHandler (app_deps env cfg out)"

lemma app_deps_sel [simp]:
  "rd_TokenSvc (app_deps env cfg out) = sv_token (createServices env cfg)"
  "rd_DiscoverySvc (app_deps env cfg out) = sv_discovery (createServices env cfg)"
  "rd_TokenHandler (app_deps env cfg out) =
     \<lparr>th_tokenSvc = sv_token (createServices env cfg), th_logger = Logger\<rparr>"
  "rd_PreviewHandler (app_deps env cfg out) =
     \<lparr>ph_svc = sv_preview (createServices env cfg), ph_logger = Logger\<rparr>"
  "rd_HealthHandler (app_deps env cfg out) =
     \<lparr>hh_Ping = out_Ping out, hh_natsConnected = out_nats out,
      hh_prober = Some (sv_discovery (createServices env cfg)), hh_logger = Logger\<rparr>"
  "rd_DiscoveryHandler (app_deps env cfg out) =
     \<lparr>dh_discoverySvc = sv_discovery (createServices env cfg), dh_logger = Logger\<rparr>"
  "rd_ContributionWnd (app_deps env cfg out) = Some (sv_contribution (createServices env cfg))"
  "rd_ProofValidation (app_deps env cfg out) = cfg_ProofValidation cfg"
  "rd_Logger (app_deps env cfg out) = Logger"
  by (simp_all add: app_deps_def createHandlers_def NewTokenHandler_def NewPreviewHandler_def
      NewHealthHandler_def NewDiscoveryHandler_def Let_def)

lemma wopi_h_sel [simp]:
  "wh_wopiSvc (wopi_h env cfg out) = sv_wopi (createServices env cfg)"
  "wh_window (wopi_h env cfg out) = Some (sv_contribution (createServices env cfg))"
  "wh_publisher (wopi_h env cfg out) = Some (newPublisher env cfg)"
  "wh_logger (wopi_h env cfg out) = Logger"
  by (simp_all add: app_deps_def createHandlers_def NewWOPIHandler_def Let_def)

text \<open>
  A WOPI request is confined to its token: whatever it asks and whatever fails, the lock
  rows of other files stay as they are, and content is written to the token's file only
  and with the write permission only.
\<close>

definition wrote :: "event list \<Rightarrow> string set" where
  "wrote tr = {f. \<exists>c. EvWriteFile f c \<in> set tr}"

definition confined :: "access_token \<Rightarrow> lock_row list \<Rightarrow> string set \<Rightarrow> 'z sysworld_scheme \<Rightarrow> bool" where
  "confined t rows before w =
     (wf_locks (locks w) \<and> (\<forall>g. g \<noteq> tok_FileID t \<longrightarrow> row_at (locks w) g = row_at rows g)
      \<and> wrote (trace w) \<subseteq> before \<union> (if HasPermission t ''write'' then {tok_FileID t} else {}))"

lemma wrote_Cons [simp]:
  "wrote (ev # tr) = (case ev of EvWriteFile f c \<Rightarrow> insert f (wrote tr) | _ \<Rightarrow> wrote tr)"
  by (cases ev) (auto simp: wrote_def)

lemma confined_stmt:
  assumes "confined t rows b w"
    and "\<And>now. wf_locks (locks w) \<Longrightarrow> wf_locks (snd (st now (locks w)))"
    and "\<And>now g. g \<noteq> tok_FileID t \<Longrightarrow> row_at (snd (st now (locks w))) g = row_at (locks w) g"
  shows "confined t rows b (snd (db_stmt env locks_table st w))"
proof -
  have "trace (snd (db_stmt env locks_table st w)) = trace w"
    by (auto simp: db_stmt_def locks_table_def Let_def split_beta split: pg_fault.splits)
  with db_stmt_locks_cases [of env st w] assms show ?thesis
    unfolding confined_def by metis
qed

lemma confined_repo:
  assumes "confined t rows b w"
  shows "confined t rows b (snd (LockRepository_FindByFileID env (tok_FileID t) w))"
    "lock_FileID l = tok_FileID t \<Longrightarrow> confined t rows b (snd (LockRepository_Create env (Some l) w))"
    "confined t rows b (snd (LockRepository_RefreshExpiry env (tok_FileID t) lid (Some l) w))"
    "confined t rows b (snd (LockRepository_UpdateLockID env (tok_FileID t) lid lid2 l w))"
    "confined t rows b (snd (LockRepository_DeleteByFileID env (tok_FileID t) lid w))"
    "confined t rows b (snd (LockRepository_Takeover env (tok_FileID t) lid lid2 cr ex w))"
  using assms
  by (auto simp: repo_defs sql_other_file intro!: confined_stmt wf_sql_locks wf_sql_select)

lemma confined_other [simp]:
  "confined t rows b (advance w) = confined t rows b w"
  "confined t rows b (Logger e w) = confined t rows b w"
  by (simp_all add: confined_def)

lemma confined_server [simp]:
  "confined t rows b (w\<lparr>sv_docs := d\<rparr>) = confined t rows b w"
  by (simp add: confined_def)

lemma confined_outside:
  assumes "confined t rows b w"
    and "\<And>f c. ev = EvWriteFile f c \<Longrightarrow> f = tok_FileID t \<and> HasPermission t ''write''"
  shows "confined t rows b (snd (outside reply ev w))"
  using assms by (cases ev) (auto simp: confined_def)

lemma confined_publish:
  "confined t rows b w \<Longrightarrow> confined t rows b (snd (qp_Publish (newPublisher env cfg) topic p w))"
  by (auto simp: newPublisher_def NoopPublisher_def intro: confined_outside)

lemma confined_services:
  fixes env :: "'e server_env_scheme"
  shows "prog_inv (confined t rows b) (CheckFileInfo (sv_wopi (createServices env cfg)) t)"
    "prog_inv (confined t rows b) (GetFile (sv_wopi (createServices env cfg)) t)"
    "prog_inv (confined t rows b) (PutFile (GoRuntime env) (sv_wopi (createServices env cfg)) t lid c)"
    "prog_inv (confined t rows b) (Unlock (sv_wopi (createServices env cfg)) (tok_FileID t) lid)"
    "prog_inv (confined t rows b) (RefreshLock (GoRuntime env) (sv_wopi (createServices env cfg)) (tok_FileID t) lid)"
    "prog_inv (confined t rows b)
       (UnlockAndRelock (GoRuntime env) (sv_wopi (createServices env cfg)) (tok_FileID t) new old)"
  by (auto simp: svc_defs Let_def intro!: prog_inv_call confined_repo confined_outside
      split: sum.splits option.splits)

lemma confined_Lock:
  "prog_inv (confined t rows b) (Lock (GoRuntime env) (sv_wopi (createServices env cfg)) (tok_FileID t) lid)"
proof -
  have "prog_inv (confined t rows b)
      (Lock_takeover (sv_wopi (createServices env cfg)) (tok_FileID t) ex lid now)" for ex now
    by (auto simp: Lock_takeover_def Lock_refetch_def
        intro!: prog_inv_call prog_inv_effect confined_repo split: sum.splits option.splits)
  then show ?thesis
    by (auto simp: Lock_def intro!: prog_inv_call confined_repo split: sum.splits option.splits)
qed

lemma confined_putFile:
  "prog_inv (confined t rows b) (handle_putFile (GoRuntime env) (wopi_h env cfg out) (r\<lparr>rq_token := Some t\<rparr>))"
  unfolding handle_putFile_def TokenFromContext_def
  by (auto simp: Let_def MarkModified_def locked_def
      intro!: prog_inv_bind prog_inv_call prog_inv_effect confined_services split: sum.splits option.splits)

lemma confined_lock_handlers:
  "prog_inv (confined t rows b) (handle_lock (GoRuntime env) (wopi_h env cfg out) (r\<lparr>rq_token := Some t\<rparr>))"
  "prog_inv (confined t rows b) (handle_unlock (wopi_h env cfg out) (r\<lparr>rq_token := Some t\<rparr>))"
  "prog_inv (confined t rows b) (handle_refreshLock (GoRuntime env) (wopi_h env cfg out) (r\<lparr>rq_token := Some t\<rparr>))"
  "prog_inv (confined t rows b) (handle_unlockAndRelock (GoRuntime env) (wopi_h env cfg out) (r\<lparr>rq_token := Some t\<rparr>))"
  by (auto simp: handler_defs TokenFromContext_def
      intro!: prog_inv_bind prog_inv_effect confined_services confined_Lock split: option.splits)

lemma confined_other_handlers:
  "prog_inv (confined t rows b) (handle_CheckFileInfo (wopi_h env cfg out) (r\<lparr>rq_token := Some t\<rparr>))"
  "prog_inv (confined t rows b) (handle_GetFile (wopi_h env cfg out) (r\<lparr>rq_token := Some t\<rparr>))"
  "prog_inv (confined t rows b) (handle_renameFile (wopi_h env cfg out) (r\<lparr>rq_token := Some t\<rparr>))"
  by (auto simp: handle_CheckFileInfo_def handle_GetFile_def handle_renameFile_def TokenFromContext_def Let_def
      intro!: prog_inv_bind prog_inv_call prog_inv_effect prog_inv_copied confined_services confined_publish
      split: sum.splits option.splits)

lemma confined_route:
  assumes "RegisterWOPIRoutes (GoRuntime env) (wopi_h env cfg out) rte = Some h"
  shows "prog_inv (confined t rows b) (h (r\<lparr>rq_token := Some t\<rparr>))"
proof -
  have "prog_inv (confined t rows b) (FileOperation (GoRuntime env) (wopi_h env cfg out) (r\<lparr>rq_token := Some t\<rparr>))"
    by (simp add: FileOperation_def Let_def confined_putFile confined_lock_handlers confined_other_handlers)
  with assms show ?thesis
    by (cases rte) (auto simp: PutFileContents_def confined_putFile confined_other_handlers)
qed

text \<open>The WOPI routes and the middleware in front of them.\<close>

definition wopi_route :: "route \<Rightarrow> bool" where
  "wopi_route rte = (rte \<in> {CheckFileInfoRoute, GetFileRoute, PutFileRoute, FileOperationRoute})"

definition wopi_next ::
  "'e server_env_scheme \<Rightarrow> config \<Rightarrow> 'z server_scheme outer \<Rightarrow> route \<Rightarrow> 'z server_scheme handler" where
  "wopi_next env cfg out rte =
     ProofMiddleware (out_crypto out) (GoRuntime env) (cfg_ProofValidation cfg)
       (sv_discovery (createServices env cfg)) Logger
       (ContributionMiddleware (Some (sv_contribution (createServices env cfg)))
          (the (RegisterWOPIRoutes (GoRuntime env) (wopi_h env cfg out) rte)))"

lemma app_wopi:
  "wopi_route rte \<Longrightarrow>
   app env cfg out rte r = RequestLogger (GoRuntime env) Logger (out_reqID out) (out_remoteAddr out)
     (TokenAuthMiddleware (GoRuntime env) (sv_token (createServices env cfg)) (wopi_next env cfg out rte)) r"
  by (cases rte)
     (simp_all add: app_def NewRouter_def route_handler_def wopi_chain_def wopi_next_def wopi_route_def
        RequestLogger_def TokenAuthMiddleware_def)

lemma confined_next:
  assumes "wopi_route rte"
  shows "prog_inv (confined t rows b) (wopi_next env cfg out rte (r\<lparr>rq_token := Some t\<rparr>))"
proof -
  obtain h where h: "RegisterWOPIRoutes (GoRuntime env) (wopi_h env cfg out) rte = Some h"
    using assms by (cases rte) (auto simp: wopi_route_def)
  have val: "prog_inv (confined t rows b) (validateProof cr (GoRuntime env) r' keys)" for cr r' keys
    by (auto simp: validateProof_def Let_def intro!: prog_inv_call split: option.splits)
  show ?thesis
    by (auto simp: wopi_next_def h ProofMiddleware_def GetProofKeys_def ContributionMiddleware_def AddActor_def
        TokenFromContext_def locked_def docs_cell_def
        intro!: prog_inv_call prog_inv_bind prog_inv_effect val confined_route [OF h] split: option.splits)
qed

lemma FindByToken_row:
  assumes "fst (TokenRepository_FindByToken env v w) = Inr (Some t)"
  shows "\<exists>row\<in>set (access_tokens w). trow_token row = v \<and> t = token_of_row row"
  using assms
  by (auto simp: repo_defs sql_defs db_stmt_def access_tokens_table_def optional_row_def Let_def
      split: pg_fault.splits list.splits option.splits sum.splits if_splits dest!: filter_eq_ConsD)

lemma FindByToken_frame:
  "snd (TokenRepository_FindByToken env v w) = advance w"
  by (auto simp: repo_defs sql_defs db_stmt_def access_tokens_table_def advance_def Let_def
      split: pg_fault.splits)

lemma ValidateToken_row:
  assumes "fst (run (ValidateToken (GoRuntime env) (sv_token (createServices env cfg)) v) w) = Inr (Some t)"
  shows "\<exists>row\<in>set (access_tokens w). trow_token row = v \<and> t = token_of_row row
    \<and> go_now env (tick w + 1) \<le> trow_expires_at row"
  using assms FindByToken_row [of env v w]
  by (auto simp: ValidateToken_def prog_simps FindByToken_frame Token_IsExpired_def token_of_row_def
      split: sum.splits option.splits if_splits)

lemma ValidateToken_frame [simp]:
  fixes env :: "'e server_env_scheme" and w :: "'z server_scheme" and cfg :: config and v :: string
  defines "w' \<equiv> snd (run (ValidateToken (GoRuntime env) (sv_token (createServices env cfg)) v) w)"
  shows "locks w' = locks w" "trace w' = trace w" "access_tokens w' = access_tokens w"
    "document_preview_cache w' = document_preview_cache w" "sv_docs w' = sv_docs w" "sv_cache w' = sv_cache w"
  by (simp_all add: w'_def ValidateToken_def prog_simps FindByToken_frame split: sum.splits option.splits)

lemma ValidateToken_reliable:
  "reliable env \<Longrightarrow>
   fst (run (ValidateToken (GoRuntime env) (sv_token (createServices env cfg)) v) w) \<noteq> Inl e"
  by (auto simp: ValidateToken_def prog_simps repo_defs sql_defs db_stmt_def access_tokens_table_def
      optional_row_def reliable_def Let_def split: list.splits option.splits sum.splits if_splits)

lemma sum_option_cases:
  obtains (err) e where "x = Inl e" | (none) "x = Inr None" | (some) t where "x = Inr (Some t)"
  by (metis sum.exhaust option.exhaust)

text \<open>What the application does with a WOPI request, by what its token is.\<close>

definition presented :: "request \<Rightarrow> string" where
  "presented r = query_Get (rq_RawQuery r) ''access_token''"

lemma app_wopi_run:
  assumes "wopi_route rte"
  obtains (refused) resp where "fst (run (app env cfg out rte r) w) = http_Error (fst resp) (snd resp)"
      "resp \<in> {(401, ''missing access_token''), (401, ''invalid or expired token''), (500, ''token validation failed'')}"
      "reliable env \<Longrightarrow> fst resp = 401"
      "locks (snd (run (app env cfg out rte r) w)) = locks w"
      "access_tokens (snd (run (app env cfg out rte r) w)) = access_tokens w"
      "sv_docs (snd (run (app env cfg out rte r) w)) = sv_docs w"
      "\<exists>e. trace (snd (run (app env cfg out rte r) w)) = EvLog e # trace w"
    | (accepted) row w1 where "row \<in> set (access_tokens w)" "trow_token row = presented r"
      "presented r \<noteq> ''''"
      "go_now env (tick w + 2) \<le> trow_expires_at row" "locks w1 = locks w" "trace w1 = trace w"
      "sv_docs w1 = sv_docs w"
      "fst (run (app env cfg out rte r) w) =
         fst (run (wopi_next env cfg out rte (r\<lparr>rq_token := Some (token_of_row row)\<rparr>)) w1)"
      "locks (snd (run (app env cfg out rte r) w)) =
         locks (snd (run (wopi_next env cfg out rte (r\<lparr>rq_token := Some (token_of_row row)\<rparr>)) w1))"
      "\<exists>e. trace (snd (run (app env cfg out rte r) w)) =
         EvLog e # trace (snd (run (wopi_next env cfg out rte (r\<lparr>rq_token := Some (token_of_row row)\<rparr>)) w1))"
proof -
  let ?v = "run (ValidateToken (GoRuntime env) (sv_token (createServices env cfg)) (presented r)) (advance w)"
  note * = app_wopi [OF assms] RequestLogger_def TokenAuthMiddleware_def prog_simps presented_def [symmetric] Let_def
  show thesis
  proof (cases "presented r = ''''")
    case True
    then show thesis by (intro refused [of "(401, ''missing access_token'')"]) (simp_all add: *)
  next
    case False
    consider (err) e where "fst ?v = Inl e" | (none) "fst ?v = Inr None" | (tok) t where "fst ?v = Inr (Some t)"
      by (rule sum_option_cases)
    then show thesis
    proof cases
      case err
      then have "\<not> reliable env" using ValidateToken_reliable by force
      with err False show thesis by (intro refused [of "(500, ''token validation failed'')"]) (simp_all add: *)
    next
      case none
      with False show thesis by (intro refused [of "(401, ''invalid or expired token'')"]) (simp_all add: *)
    next
      case tok
      from ValidateToken_row [OF tok] obtain row where row: "row \<in> set (access_tokens w)"
        "trow_token row = presented r" "t = token_of_row row" "go_now env (tick w + 2) \<le> trow_expires_at row"
        by auto
      then show thesis using tok by (intro accepted [of row "snd ?v"]) (simp_all add: * False)
    qed
  qed
qed

lemma app_confined:
  assumes "wopi_route rte" and "wf_locks (locks w)" and "w' = snd (run (app env cfg out rte r) w)"
  shows "(locks w' = locks w \<and> wrote (trace w') = wrote (trace w))
    \<or> (\<exists>row\<in>set (access_tokens w).
        trow_token row = presented r \<and> go_now env (tick w + 2) \<le> trow_expires_at row
        \<and> (\<forall>g. g \<noteq> trow_file_id row \<longrightarrow> row_at (locks w') g = row_at (locks w) g)
        \<and> wrote (trace w') \<subseteq> wrote (trace w) \<union>
            (if HasPermission (token_of_row row) ''write'' then {trow_file_id row} else {}))"
  using assms(1)
proof (cases rule: app_wopi_run [where env = env and cfg = cfg and out = out and r = r and w = w])
  case (refused resp)
  then show ?thesis using assms(3) by auto
next
  case (accepted row w1)
  let ?t = "token_of_row row"
  have "confined ?t (locks w) (wrote (trace w)) w1" using accepted assms(2) by (simp add: confined_def)
  from prog_inv_run [OF confined_next [OF assms(1)] this, of env cfg out r]
  have "confined ?t (locks w) (wrote (trace w)) w'"
    using accepted assms(3) by (auto simp: confined_def)
  moreover have "tok_FileID ?t = trow_file_id row" by (simp add: token_of_row_def)
  ultimately have "(\<forall>g. g \<noteq> trow_file_id row \<longrightarrow> row_at (locks w') g = row_at (locks w) g)
    \<and> wrote (trace w') \<subseteq> wrote (trace w) \<union> (if HasPermission ?t ''write'' then {trow_file_id row} else {})"
    unfolding confined_def by metis
  with accepted(1,2,4) show ?thesis by blast
qed

text \<open>
  C2: a WOPI request can only affect the file its token was issued for.  For each of the
  four WOPI routes of the application and every request, whatever the URL names and the
  headers say and with any failures of the database and of the file service: either no
  lock row changes and no file is written, or the request presented the token of a
  stored, unexpired row, the lock rows of all files but that row's stay as they were,
  and the file service is asked to write no other file, and that one only when the
  row carries the write permission.
\<close>

theorem wopi_request_confined:
  assumes "wopi_route rte" and "wf_locks (locks w)" and "w' = snd (run (app env cfg out rte r) w)"
  shows "(locks w' = locks w \<and> wrote (trace w') = wrote (trace w))
    \<or> (\<exists>row\<in>set (access_tokens w).
        trow_token row = presented r \<and> go_now env (tick w + 2) \<le> trow_expires_at row
        \<and> (\<forall>g. g \<noteq> trow_file_id row \<longrightarrow> row_at (locks w') g = row_at (locks w) g)
        \<and> wrote (trace w') \<subseteq> wrote (trace w) \<union>
            (if HasPermission (token_of_row row) ''write'' then {trow_file_id row} else {}))"
  using assms by (rule app_confined)

text \<open>A server with a token, another file's lock, and a request that presents the token.\<close>

definition ex_token_row :: token_row where
  "ex_token_row = \<lparr>trow_id = 1, trow_token = ''secret'', trow_file_id = ''doc'', trow_actor_id = ''actor'',
     trow_permissions = ''read,write'', trow_expires_at = ex_start + hour, trow_created_at = ex_start,
     trow_actor_name = ''Ada''\<rparr>"

definition ex_request :: "(string \<times> string) list \<Rightarrow> request" where
  "ex_request hs =
     \<lparr>rq_Method = ''POST'', rq_Path = ''/wopi/files/doc/contents'', rq_RawQuery = ''access_token=secret'',
      rq_Header = (\<lambda>k. case map_of hs k of Some v \<Rightarrow> v | None \<Rightarrow> ''''), rq_Body = ([9], None), rq_Host = ''wopi'',
      rq_TLS = False, rq_RequestURI = ''/wopi/files/doc/contents?access_token=secret'', rq_fileID = ''doc'',
      rq_token = None, rq_actorID = '''', rq_actorName = ''''\<rparr>"

definition ex_out :: "server outer" where
  "ex_out = \<lparr>out_Ping = (\<lambda>w. (None, w)), out_nats = None,
     out_crypto = \<lparr>cr_Sum256 = (\<lambda>b. b), cr_VerifyPKCS1v15 = (\<lambda>n e h s. h = s)\<rparr>,
     out_reqID = '''', out_remoteAddr = ''''\<rparr>"

definition ex_app_world :: server where
  "ex_app_world = ex_server\<lparr>access_tokens := [ex_token_row], locks := [ex_row\<lparr>row_file_id := ''other''\<rparr>]\<rparr>"

theorem wopi_request_confined_witness:
  "\<exists>w'. w' = snd (run (app ex_senv ex_cfg ex_out PutFileRoute (ex_request [])) ex_app_world)
     \<and> row_at (locks w') ''other'' = Some (ex_row\<lparr>row_file_id := ''other''\<rparr>) \<and> ''other'' \<notin> wrote (trace w')"
proof -
  have wf: "wf_locks (locks ex_app_world)" by (simp add: ex_app_world_def wf_locks_def)
  have w: "locks ex_app_world = [ex_row\<lparr>row_file_id := ''other''\<rparr>]" "trace ex_app_world = []"
    "access_tokens ex_app_world = [ex_token_row]" "trow_file_id ex_token_row = ''doc''"
    by (simp_all add: ex_app_world_def ex_token_row_def)
  have none: "wrote [] = {}" by (simp add: wrote_def)
  have route: "wopi_route PutFileRoute" by (simp add: wopi_route_def)
  define w' where "w' = snd (run (app ex_senv ex_cfg ex_out PutFileRoute (ex_request [])) ex_app_world)"
  have "row_at (locks w') ''other'' = row_at (locks ex_app_world) ''other''
      \<and> wrote (trace w') \<subseteq> wrote (trace ex_app_world) \<union> {''doc''}"
    using wopi_request_confined [OF route wf w'_def]
  proof (elim disjE bexE conjE)
    assume "locks w' = locks ex_app_world" and "wrote (trace w') = wrote (trace ex_app_world)"
    then show ?thesis by auto
  next
    fix row
    assume "row \<in> set (access_tokens ex_app_world)"
      and other: "\<forall>g. g \<noteq> trow_file_id row \<longrightarrow> row_at (locks w') g = row_at (locks ex_app_world) g"
      and files: "wrote (trace w') \<subseteq> wrote (trace ex_app_world) \<union>
        (if HasPermission (token_of_row row) ''write'' then {trow_file_id row} else {})"
    then have row: "trow_file_id row = ''doc''" by (simp add: w)
    have "row_at (locks w') ''other'' = row_at (locks ex_app_world) ''other''"
      using other unfolding row by simp
    moreover have "wrote (trace w') \<subseteq> wrote (trace ex_app_world) \<union> {''doc''}"
      using files unfolding row by (rule subset_trans) auto
    ultimately show ?thesis ..
  qed
  moreover have "row_at (locks ex_app_world) ''other'' = Some (ex_row\<lparr>row_file_id := ''other''\<rparr>)"
    by (simp add: w)
  ultimately show ?thesis unfolding w'_def [symmetric] w none by auto
qed

end
