(* ===== verification/AppInvariant.thy ===== *)
theory AppInvariant
  imports App
begin

text \<open>
  Invariants of the whole application.  A property of the world that every port keeps and
  that does not look at the services' memory is kept by every endpoint, by the clean-up and
  by the contribution window, action by action, and so by every interleaving of them.  The
  well-formedness of the three tables is such a property.
\<close>

locale server_keep = ports_keep I "GoRuntime env" Logger "LockRepository env" "TokenRepository env"
    "PreviewCacheRepository env" "FileServiceOutside env" "AuthServiceOutside env"
    "DiscoveryClientOutside env" "RendererOutside env" "PublisherOutside env"
  for I :: "'z server_scheme \<Rightarrow> bool" and env :: "'e server_env_scheme" +
  assumes keep_memory [simp]:
      "I (w\<lparr>sv_cache := a\<rparr>) = I w" "I (w\<lparr>sv_reach := b\<rparr>) = I w" "I (w\<lparr>sv_docs := c\<rparr>) = I w"
      "I (w\<lparr>sv_counters := d\<rparr>) = I w" "I (w\<lparr>sv_slots := m\<rparr>) = I w" "I (w\<lparr>sv_active := n\<rparr>) = I w"
    and keep_advance [simp]: "I (advance w) = I w"
begin

lemmas keep_reduced = keep_lock [simplified] keep_token [simplified] keep_cache [simplified] keep_file [simplified]
  keep_auth [simplified] keep_disc [simplified] keep_render [simplified]

lemmas keep_intros = prog_inv_call prog_inv_effect prog_inv_copied prog_inv_bind keep_ops keep_reduced

lemma keep_locked:
  "I w \<Longrightarrow> I (snd (locked cache_cell f w))" "I w \<Longrightarrow> I (snd (locked reach_cell g w))"
  "I w \<Longrightarrow> I (snd (locked docs_cell h w))" "I w \<Longrightarrow> I (snd (locked counters_cell k w))"
  by (simp_all add: locked_def split_beta cache_cell_def reach_cell_def docs_cell_def counters_cell_def)

lemma keep_semaphore:
  "I w \<Longrightarrow> I (snd (sem_TryAcquire (CounterSemaphore env slots_cell j) w))"
  "I w \<Longrightarrow> I (sem_Release (CounterSemaphore env slots_cell j) w)"
  "I w \<Longrightarrow> I (snd (sem_Acquire (CounterSemaphore env active_cell j) w))"
  "I w \<Longrightarrow> I (sem_Release (CounterSemaphore env active_cell j) w)"
  "I w \<Longrightarrow> I (snd (sem_TryAcquire (CounterSemaphore env active_cell j) w))"
  by (auto simp: CounterSemaphore_def slots_cell_def active_cell_def split: option.split)

lemma keep_publisher: "I w \<Longrightarrow> I (snd (qp_Publish (newPublisher env cfg) t p w))"
  using keep_publish by (simp add: newPublisher_def NoopPublisher_def)

lemma keep_refresh: "prog_inv I (refresh (GoRuntime env) (sv_discovery (createServices env cfg)))"
  by (auto simp: refresh_def split_beta intro!: keep_intros keep_locked
      split: sum.splits option.splits)

lemma keep_GetDiscovery: "prog_inv I (GetDiscovery (GoRuntime env) (sv_discovery (createServices env cfg)))"
  by (auto simp: GetDiscovery_def fresh_snapshot_def Let_def
      intro!: prog_inv_call keep_refresh split: option.splits)

lemma keep_find_action:
  "I w \<Longrightarrow> I (snd (FindActionByExtension (sv_discovery (createServices env cfg)) ext cw w))"
  "I w \<Longrightarrow> I (snd (GetProofKeys (sv_discovery (createServices env cfg)) w))"
  by (auto simp: FindActionByExtension_def GetProofKeys_def keep_locked)

lemma keep_tokens:
  "prog_inv I (IssueToken (GoRuntime env) (sv_token (createServices env cfg)) a an d lang)"
  "prog_inv I (ValidateToken (GoRuntime env) (sv_token (createServices env cfg)) v)"
proof -
  have "prog_inv I (resolveEditorURL (GoRuntime env) (sv_token (createServices env cfg)) mime src tok ttl cw lang)"
    for mime src tok ttl cw lang
    by (auto simp: resolveEditorURL_def intro!: keep_intros keep_GetDiscovery keep_find_action
        split: sum.splits option.splits)
  then have "prog_inv I (issue_granted (GoRuntime env) (sv_token (createServices env cfg)) a an d lang mime perms)"
    for mime perms
    by (auto simp: issue_granted_def generateURLSafeToken_def Let_def intro!: keep_intros
        split: sum.splits option.splits)
  then show "prog_inv I (IssueToken (GoRuntime env) (sv_token (createServices env cfg)) a an d lang)"
    by (auto simp: IssueToken_def intro!: keep_intros split: sum.splits option.splits)
  show "prog_inv I (ValidateToken (GoRuntime env) (sv_token (createServices env cfg)) v)"
    by (auto simp: ValidateToken_def intro!: keep_intros split: sum.splits option.splits)
qed

lemma keep_preview: "prog_inv I (Resolve (sv_preview (createServices env cfg)) a i m)"
proof -
  let ?s = "sv_preview (createServices env cfg)"
  have admitted: "prog_inv I (render_admitted ?s src ext)" for src ext
    by (auto simp: render_admitted_def writeTarget_def commitRefresh_def commitMapping_def Let_def
        intro!: keep_intros split: sum.splits option.splits)
  have "prog_inv I (renderAndStore ?s src ext)" for src ext
    by (auto simp: renderAndStore_def intro!: keep_intros keep_semaphore admitted split: option.splits)
  then have "prog_inv I (resolveMiss ?s src ext d)" for src ext d
    by (auto simp: resolveMiss_def Let_def intro!: keep_intros split: flight.splits sum.splits)
  then have "prog_inv I (resolve_render ?s src ext)" for src ext
    by (auto simp: resolve_render_def intro!: keep_intros split: sum.splits)
  then show ?thesis
    by (auto simp: Resolve_def currentMapping_def Let_def intro!: keep_intros split: sum.splits option.splits)
qed

lemma keep_window:
  "prog_inv I (flush order (sv_contribution (createServices env cfg)))"
  "I w \<Longrightarrow> I (snd (MarkModified (sv_contribution (createServices env cfg)) f w))"
  "I w \<Longrightarrow> I (snd (AddActor (sv_contribution (createServices env cfg)) f a b w))"
proof -
  have "prog_inv I (flush_loop (sv_contribution (createServices env cfg)) ds n)" for ds n
    by (induction ds arbitrary: n)
       (auto intro!: keep_intros keep_locked keep_publisher split: option.splits prod.splits)
  then show "prog_inv I (flush order (sv_contribution (createServices env cfg)))"
    by (auto simp: flush_def intro!: prog_inv_call keep_locked)
qed (simp_all add: MarkModified_def AddActor_def keep_locked)

lemma keep_background:
  "prog_inv I (cleanup_Start (sv_cleanup (createServices env cfg)) n)"
  "prog_inv I (window_Start (sv_contribution (createServices env cfg)) orders)"
proof -
  show "prog_inv I (cleanup_Start (sv_cleanup (createServices env cfg)) n)"
    by (rule keep_cleanup_Start) simp_all
  show "prog_inv I (window_Start (sv_contribution (createServices env cfg)) orders)"
    by (induction orders) (auto intro!: prog_inv_bind keep_window)
qed

lemma wopi_service_uses: "wopi_uses (FileServiceOutside env) (LockRepository env) Logger (sv_wopi (createServices env cfg))"
  by (simp add: wopi_uses_def)

lemmas keep_wopi_service = keep_wopi [OF wopi_service_uses] keep_Lock [OF wopi_service_uses]

lemma keep_wopi_routes:
  assumes "RegisterWOPIRoutes (GoRuntime env) (wopi_h env cfg out) rte = Some h"
  shows "prog_inv I (h r)"
proof -
  let ?h = "wopi_h env cfg out"
  have put: "prog_inv I (handle_putFile (GoRuntime env) ?h r)"
    by (auto simp: handle_putFile_def Let_def intro!: keep_intros keep_wopi_service keep_window
        split: sum.splits option.splits)
  have lock: "prog_inv I (lock_reply ?h p)" if "prog_inv I p" for p
    using that by (auto simp: lock_reply_def handleLockError_def intro!: keep_intros split: option.splits)
  have rest: "prog_inv I (handle_CheckFileInfo ?h r)" "prog_inv I (handle_GetFile ?h r)"
    "prog_inv I (handle_renameFile ?h r)"
    by (auto simp: handle_CheckFileInfo_def handle_GetFile_def handle_renameFile_def Let_def
        intro!: keep_intros keep_wopi_service keep_publisher split: sum.splits option.splits)
  have "prog_inv I (handle_lock (GoRuntime env) ?h r)" "prog_inv I (handle_unlock ?h r)"
    "prog_inv I (handle_refreshLock (GoRuntime env) ?h r)" "prog_inv I (handle_unlockAndRelock (GoRuntime env) ?h r)"
    by (auto simp: handle_lock_def handle_unlock_def handle_refreshLock_def handle_unlockAndRelock_def
        intro!: lock keep_wopi_service split: option.splits)
  with put rest have "prog_inv I (FileOperation (GoRuntime env) ?h r)" by (simp add: FileOperation_def Let_def)
  with assms put rest show ?thesis by (cases rte) (auto simp: PutFileContents_def)
qed

lemma keep_wopi_chain:
  assumes "RegisterWOPIRoutes (GoRuntime env) (wopi_h env cfg out) rte = Some h"
  shows "prog_inv I (wopi_chain (out_crypto out) (GoRuntime env) (app_deps env cfg out) h r)"
proof -
  have proof_check: "prog_inv I (validateProof cr (GoRuntime env) r' keys)" for cr r' keys
    by (auto simp: validateProof_def Let_def intro!: keep_intros split: option.splits)
  show ?thesis
    by (auto simp: wopi_chain_def TokenAuthMiddleware_def ProofMiddleware_def ContributionMiddleware_def Let_def
        intro!: keep_intros keep_tokens proof_check keep_window keep_find_action keep_wopi_routes [OF assms]
        split: sum.splits option.splits)
qed

lemma keep_probe: "prog_inv I (Probe (GoRuntime env) (sv_discovery (createServices env cfg)))"
proof -
  have "I w \<Longrightarrow> I (snd (probe_section (GoRuntime env) (sv_discovery (createServices env cfg)) e w))" for e w
    using keep_log by (auto simp: probe_section_def Let_def reach_cell_def split: option.split)
  then show ?thesis by (auto simp: Probe_def intro!: keep_intros split: sum.splits option.splits)
qed

text \<open>Every endpoint, when the ping of the database and the look at NATS keep the property.\<close>

lemma keep_app:
  assumes "\<forall>w. I w \<longrightarrow> I (snd (out_Ping out w))" and "\<forall>c w. out_nats out = Some c \<longrightarrow> I w \<longrightarrow> I (snd (c w))"
  shows "prog_inv I (app env cfg out rte r)"
proof -
  let ?d = "app_deps env cfg out"
  have probe: "prog_inv I (health_probe (GoRuntime env) (rd_HealthHandler ?d))"
    by (auto simp: health_probe_def Let_def split_beta intro!: prog_inv_bind keep_probe)
  have health: "prog_inv I (HealthHandler_ServeHTTP (GoRuntime env) (rd_HealthHandler ?d) r)"
    using assms probe by (auto simp: HealthHandler_ServeHTTP_def intro!: keep_intros split: option.splits)
  have token: "prog_inv I (TokenHandler_ServeHTTP (GoRuntime env) (rd_TokenHandler ?d) r')" for r'
    by (auto simp: TokenHandler_ServeHTTP_def token_error_def logFailure_def Let_def
        intro!: keep_intros keep_tokens split: sum.splits option.splits)
  have status: "prog_inv I (LockStatus (rd_WOPIHandler ?d) r')" for r'
    by (auto simp: LockStatus_def intro!: keep_intros keep_wopi_service split: sum.splits)
  have preview: "prog_inv I (PreviewHandler_ServeHTTP (rd_PreviewHandler ?d) r')" for r'
    by (auto simp: PreviewHandler_ServeHTTP_def preview_writeError_def Let_def
        intro!: keep_intros keep_preview split: sum.splits option.splits)
  have discovery: "prog_inv I (DiscoveryHandler_ServeHTTP (GoRuntime env) (rd_DiscoveryHandler ?d) r)"
    by (auto simp: DiscoveryHandler_ServeHTTP_def intro!: keep_intros keep_GetDiscovery split: sum.splits)
  have "prog_inv I (route_handler (out_crypto out) (GoRuntime env) ?d rte r)"
  proof (cases "RegisterWOPIRoutes (GoRuntime env) (wopi_h env cfg out) rte")
    case None
    then show ?thesis using health token status preview discovery
      by (cases rte) (simp_all add: route_handler_def LiveHandler_def ActorHeaderMiddleware_def Let_def)
  next
    case (Some h)
    with keep_wopi_chain [OF Some, of r] show ?thesis by (cases rte) (auto simp: route_handler_def)
  qed
  then show ?thesis
    by (auto simp: app_def NewRouter_def RequestLogger_def intro!: keep_intros)
qed

end

interpretation wf_server: server_keep wf_db env for env :: "'e server_env_scheme"
  by unfold_locales (simp_all add: wf_db_def)


text \<open>A lock request interleaved with the clean-up.\<close>

definition ex_pool :: "(server, unit) prog list" where
  "ex_pool = [bind_prog (app ex_senv ex_cfg ex_out FileOperationRoute (ex_request [(''X-WOPI-Override'', ''LOCK'')])) (\<lambda>_. Done ()),
     cleanup_Start (sv_cleanup (createServices ex_senv ex_cfg)) 1]"


end
