(* ===== verification/DiscoveryCache.thy ===== *)
theory DiscoveryCache
  imports Server Examples
begin

text \<open>
  The discovery cache and the reachability probe of a running process.
\<close>

lemma locked_cache [simp]:
  "locked cache_cell f w = (fst (f (sv_cache w)), w\<lparr>sv_cache := snd (f (sv_cache w))\<rparr>)"
  by (simp add: locked_def split_beta)

lemma sv_cache_update_id [simp]: "w\<lparr>sv_cache := sv_cache w\<rparr> = w"
  by (cases w) simp

text \<open>
  \<^verbatim>\<open>GetDiscovery\<close> on every branch.  A snapshot younger than twelve hours is
  answered without contacting Collabora.  Otherwise Collabora is asked once: its
  answer is returned and replaces the snapshot, dated with the clock; when it does
  not answer, the old snapshot is returned and kept, and only a process that never
  had one reports the failure.
\<close>

theorem GetDiscovery_branches:
  "(let c = sv_cache w;
        age = time_Sub (go_now env (tick w)) (cachedAt c);
        n = (if cached c = None then tick w else tick w + 1);
        (r, w') = run (GetDiscovery (GoRuntime env) (sv_discovery (createServices env cfg))) w
    in if cached c \<noteq> None \<and> age < defaultDiscoveryCacheTTL
       then r = Inr (the (cached c)) \<and> sv_cache w' = c \<and> trace w' = trace w
       else case ext_FetchDiscovery env n of
              Inr d \<Rightarrow> r = Inr d \<and> sv_cache w' = \<lparr>cached = Some d, cachedAt = go_now env (n + 1)\<rparr>
                       \<and> trace w' = EvFetchDiscovery # trace w
            | Inl e \<Rightarrow> sv_cache w' = c
                       \<and> r = (case cached c of
                                Some d \<Rightarrow> Inr d
                              | None \<Rightarrow> Inl (Errorf ''fetch discovery: %w: %w'' [Sentinel ErrDiscoveryFetch, e])))"
proof (cases "cached (sv_cache w)")
  case None
  then show ?thesis
    by (cases "sv_cache w")
       (auto simp: GetDiscovery_def refresh_def fresh_snapshot_def prog_simps Let_def split: sum.splits)
next
  case (Some d)
  then show ?thesis
    by (cases "sv_cache w")
       (auto simp: GetDiscovery_def refresh_def fresh_snapshot_def prog_simps Let_def split: sum.splits)
qed

text \<open>A sequence of probes, and how often a sequence of outcomes changes.\<close>

primrec probes ::
  "'e server_env_scheme \<Rightarrow> config \<Rightarrow> nat \<Rightarrow> 'z server_scheme \<Rightarrow> bool list \<times> 'z server_scheme" where
  "probes env cfg 0 w = ([], w)"
| "probes env cfg (Suc n) w =
     (let (r, w1) = run (Probe (GoRuntime env) (sv_discovery (createServices env cfg))) w;
          (rs, w2) = probes env cfg n w1
      in (fst r # rs, w2))"

definition reachability_log :: "event \<Rightarrow> bool" where
  "reachability_log ev =
     (case ev of EvLog e \<Rightarrow> (FieldEvent, FString EventCollaboraReachability) \<in> set (log_fields e)
      | _ \<Rightarrow> False)"

definition reachability_logs :: "event list \<Rightarrow> nat" where
  "reachability_logs tr = length (filter reachability_log tr)"

definition changes :: "bool list \<Rightarrow> nat" where
  "changes rs = length (filter (\<lambda>(a, b). a \<noteq> b) (zip rs (tl rs)))"

fun transitions :: "reachability \<Rightarrow> bool list \<Rightarrow> nat" where
  "transitions st [] = 0"
| "transitions st (r # rs) =
     (if st = (if r then reachDown else reachUp) then 1 else 0)
     + transitions (if r then reachUp else reachDown) rs"

lemma transitions_known:
  "transitions (if r then reachUp else reachDown) rs = changes (r # rs)"
  by (induction rs arbitrary: r) (auto simp: changes_def)

lemma transitions_unknown: "transitions reachUnknown rs = changes rs"
  by (cases rs) (simp_all add: transitions_known [symmetric] changes_def [of "[]"])

lemma probe_step:
  fixes env :: "'e server_env_scheme" and w :: "'z server_scheme" and cfg :: config
  defines "out \<equiv> run (Probe (GoRuntime env) (sv_discovery (createServices env cfg))) w"
  shows "sv_cache (snd out) = sv_cache w"
    and "reachState (sv_reach (snd out)) = (if fst (fst out) then reachUp else reachDown)"
    and "reachability_logs (trace (snd out)) = reachability_logs (trace w)
      + (if reachState (sv_reach w) = (if fst (fst out) then reachDown else reachUp) then 1 else 0)"
  unfolding out_def
  by (auto simp: Probe_def probe_section_def prog_simps Let_def reachability_logs_def reachability_log_def
      split: sum.splits)

lemma probes_logs:
  "reachability_logs (trace (snd (probes env cfg n w))) =
     reachability_logs (trace w) + transitions (reachState (sv_reach w)) (fst (probes env cfg n w))
   \<and> sv_cache (snd (probes env cfg n w)) = sv_cache w"
proof (induction n arbitrary: w)
  case (Suc n)
  let ?out = "run (Probe (GoRuntime env) (sv_discovery (createServices env cfg))) w"
  from Suc [of "snd ?out"] probe_step [of env cfg w] show ?case
    by (simp add: split_beta Let_def)
qed simp

text \<open>
  The probe writes exactly one log record per change of Collabora's reachability,
  none for a first observation and none for a repeated one, whatever the sequence of
  outcomes; and it never touches the discovery cache.
\<close>

theorem probe_logs_transitions:
  "reachState (sv_reach w) = reachUnknown \<longrightarrow>
     reachability_logs (trace (snd (probes env cfg n w))) =
       reachability_logs (trace w) + changes (fst (probes env cfg n w))
     \<and> sv_cache (snd (probes env cfg n w)) = sv_cache w"
  by (simp add: probes_logs transitions_unknown)

theorem probe_logs_transitions_witness:
  "reachability_logs (trace (snd (probes (ex_senv\<lparr>ext_FetchDiscovery :=
      \<lambda>n. if n = 3 then Inl (OpaqueError ''down'') else Inr ex_discovery\<rparr>) ex_cfg 2 ex_server))) =
    changes (fst (probes (ex_senv\<lparr>ext_FetchDiscovery :=
      \<lambda>n. if n = 3 then Inl (OpaqueError ''down'') else Inr ex_discovery\<rparr>) ex_cfg 2 ex_server))"
  using probe_logs_transitions [of ex_server "ex_senv\<lparr>ext_FetchDiscovery :=
      \<lambda>n. if n = 3 then Inl (OpaqueError ''down'') else Inr ex_discovery\<rparr>" ex_cfg 2]
  by (simp add: initial_reach_def reachability_logs_def)

text \<open>
  C26: the editor action for a format is the one the discovery document prefers.  The
  loop over the actions returns the first action of the preferred kind, else the last
  of the other kind, else the last annotation action, else an error; every action it
  returns is one of the cached document's and has the extension asked for.
\<close>

theorem FindActionByExtension_spec:
  "fst (FindActionByExtension (sv_discovery (createServices env cfg)) ext preferEdit w) =
     (case cached (sv_cache w) of
        None \<Rightarrow> Inl (Sentinel ErrNoDiscoveryData)
      | Some d \<Rightarrow> find_action_spec ext (if preferEdit then ''edit'' else ''view'')
                    (if preferEdit then ''view'' else ''edit'') (Actions d))"
  by (simp add: FindActionByExtension_def find_action_def find_action_loop_eq Let_def
      split: option.splits)

end
