(* ===== verification/PreviewCache.thy ===== *)
theory PreviewCache
  imports Server Examples
begin

text \<open>
  What the preview service guarantees: authorization before anything else, no picture
  older than the state the request saw, one stable preview file per source, and
  balanced admission.
\<close>

lemma resolveMiss_current:
  "fst (run (resolveMiss s sourceID ext d) w) = Inr entry \<Longrightarrow> d \<le> SourceUpdatedDate entry"
  by (auto simp: resolveMiss_def prog_simps Let_def split: flight.splits sum.splits if_splits)

text \<open>
  Where a picture comes from: the content of the preview file that an entry names, and the
  entry is the cached row of the source at its present date, or the result of a render
  whose date is not before the one the request saw.
\<close>

definition picture_of ::
  "'e server_env_scheme \<Rightarrow> config \<Rightarrow> document \<Rightarrow> preview_entry list \<Rightarrow> preview_result \<Rightarrow> preview_entry \<Rightarrow> bool" where
  "picture_of env cfg src rows res e =
     ((\<exists>k body. ext_ReadFile env k (PreviewFileID e) = Inr body \<and> pr_Body res = Some body)
      \<and> pr_ETag res = etagFor (SourceUpdatedDate e)
      \<and> (e \<in> set rows \<and> SourceFileID e = doc_ID src \<and> SourceUpdatedDate e = doc_UpdatedAt src
         \<or> (\<exists>ext w. fst (run (resolveMiss (sv_preview (createServices env cfg) :: server preview_service)
                (doc_ID src) ext (doc_UpdatedAt src)) w) = Inr e) \<and> doc_UpdatedAt src \<le> SourceUpdatedDate e))"

lemma resolve_render_picture:
  fixes w :: server
  assumes "fst (run (resolve_render (sv_preview (createServices env cfg)) src ext) w) = Inr res"
  shows "\<not> pr_NotModified res \<and> (\<exists>e. picture_of env cfg src rows res e)"
proof -
  let ?miss = "resolveMiss (sv_preview (createServices env cfg)) (doc_ID src) ext (doc_UpdatedAt src)"
  from assms obtain e body where e: "fst (run ?miss w) = Inr e"
    "ext_ReadFile env (tick (snd (run ?miss w))) (PreviewFileID e) = Inr body"
    "res = \<lparr>pr_ETag = etagFor (SourceUpdatedDate e), pr_Body = Some body, pr_NotModified = False\<rparr>"
    by (auto simp: resolve_render_def prog_simps split: sum.splits)
  have "picture_of env cfg src rows res e"
    unfolding picture_of_def using e resolveMiss_current [OF e(1)] by (auto simp del: split_paired_Ex)
  with e(3) show ?thesis by auto
qed

lemma cached_row:
  assumes "fst (PreviewCacheRepository_FindBySourceID env i w) = Inr (Some e)"
  shows "e \<in> set (map entry_of_row (document_preview_cache w)) \<and> SourceFileID e = i"
proof -
  obtain rs r where f: "filter (\<lambda>r. prow_source_file_id r = i) (document_preview_cache w) = r # rs" and e: "e = entry_of_row r"
    using assms
    by (cases "pg_fault env (tick w)"; cases "filter (\<lambda>r. prow_source_file_id r = i) (document_preview_cache w)")
       (simp_all add: PreviewCacheRepository_FindBySourceID_def optional_row_def db_stmt_def preview_table_def
        sql_findPreviewCacheBySourceID_def sql_select_one_def Let_def split: if_splits)
  have "r \<in> set (filter (\<lambda>r. prow_source_file_id r = i) (document_preview_cache w))" by (simp add: f)
  then show ?thesis by (auto simp: e entry_of_row_def)
qed

text \<open>A request past the guards whose tag does not match: a cached row or a render.\<close>

lemma Resolve_picture:
  fixes w :: server
  assumes "fst (run (Resolve (sv_preview (createServices env cfg)) actor sourceID ifNoneMatch) w) = Inr res"
    and "ext_FindByID env (tick w) sourceID = Inr (Some src)"
    and "ext_CheckPrivilege env (tick w + 1) actor ''read'' (doc_AuthorizationPolicyID src) = Inr a" and "Allowed a"
    and "doc_Size src \<noteq> 0" and "PreviewExtension (doc_MimeType src) = Inr ext"
    and "\<not> (ifNoneMatch \<noteq> '''' \<and> ifNoneMatch = etagFor (doc_UpdatedAt src))"
  shows "\<not> pr_NotModified res
    \<and> (\<exists>e. picture_of env cfg src (map entry_of_row (document_preview_cache w)) res e)"
proof -
  let ?s = "sv_preview (createServices env cfg)" and ?rows = "map entry_of_row (document_preview_cache w)"
  define w2 where "w2 = snd (outside (\<lambda>n. ext_CheckPrivilege env n actor ''read'' (doc_AuthorizationPolicyID src))
    (EvCheckPrivilege actor ''read'' (doc_AuthorizationPolicyID src))
    (snd (outside (\<lambda>n. ext_FindByID env n sourceID) (EvFindByID sourceID) w)))"
  have rows: "document_preview_cache w2 = document_preview_cache w" by (simp add: w2_def)
  let ?find = "PreviewCacheRepository_FindBySourceID env (doc_ID src) w2"
  from assms consider
      (render) w3 :: server where "fst (run (resolve_render ?s src ext) w3) = Inr res"
    | (cached) e k body where "fst ?find = Inr (Some e)" "SourceUpdatedDate e = doc_UpdatedAt src"
        "ext_ReadFile env k (PreviewFileID e) = Inr body"
        "res = \<lparr>pr_ETag = etagFor (doc_UpdatedAt src), pr_Body = Some body, pr_NotModified = False\<rparr>"
  proof (cases "fst ?find")
    case (Inr m)
    show ?thesis
    proof (cases m)
      case None
      with Inr assms show ?thesis
        by (intro render [of "snd ?find"]) (auto simp: Resolve_def prog_simps Let_def currentMapping_def w2_def)
    next
      case (Some e)
      let ?read = "ext_ReadFile env (tick (snd ?find)) (PreviewFileID e)"
      show ?thesis
      proof (cases "SourceUpdatedDate e = doc_UpdatedAt src")
        case True
        with Inr Some assms show ?thesis
          by (cases ?read) (auto simp: Resolve_def prog_simps Let_def currentMapping_def w2_def split: if_splits
              intro: render cached [of e])
      next
        case False
        with Inr Some assms show ?thesis
          by (intro render [of "snd ?find"]) (auto simp: Resolve_def prog_simps Let_def currentMapping_def w2_def)
      qed
    qed
  qed (use assms in \<open>auto simp: Resolve_def prog_simps Let_def currentMapping_def w2_def\<close>)
  then show ?thesis
  proof cases
    case render
    then show ?thesis by (rule resolve_render_picture)
  next
    case cached
    from cached_row [OF cached(1)] have "e \<in> set ?rows" "SourceFileID e = doc_ID src" by (simp_all add: rows)
    with cached(2-4) show ?thesis by (auto simp: picture_of_def simp del: split_paired_Ex)
  qed
qed



text \<open>
  An actor without the read privilege learns nothing.  When the check says no, the
  answer is the authorization error; the only outside calls are the look-up of the
  source and the check itself, and no table, no cached file and no admission slot is
  touched.
\<close>

theorem preview_denied_touches_nothing:
  assumes "ext_FindByID env (tick w) sourceID = Inr (Some src)"
    and "ext_CheckPrivilege env (tick w + 1) actor ''read'' (doc_AuthorizationPolicyID src) = Inr a"
    and "\<not> Allowed a"
    and "run (Resolve (sv_preview (createServices env cfg)) actor sourceID ifNoneMatch) w = (r, w')"
  shows "r = Inl (Sentinel ErrNotAuthorized)
    \<and> trace w' = EvCheckPrivilege actor ''read'' (doc_AuthorizationPolicyID src) # EvFindByID sourceID # trace w
    \<and> document_preview_cache w' = document_preview_cache w \<and> sv_slots w' = sv_slots w"
  using assms by (auto simp: Resolve_def prog_simps)

definition ex_no_read :: server_env where
  "ex_no_read = ex_senv\<lparr>ext_CheckPrivilege := (\<lambda>_ _ _ _. Inr \<lparr>Allowed = False, Reason = ''no''\<rparr>)\<rparr>"

theorem preview_denied_touches_nothing_witness:
  "fst (run (Resolve (sv_preview (createServices ex_no_read ex_cfg)) ''actor'' ''doc'' '''') ex_server) =
     Inl (Sentinel ErrNotAuthorized)
   \<and> length (trace (snd (run (Resolve (sv_preview (createServices ex_no_read ex_cfg)) ''actor'' ''doc'' '''')
       ex_server))) = 2"
  using preview_denied_touches_nothing [of ex_no_read ex_server "''doc''" ex_document "''actor''"
      "\<lparr>Allowed = False, Reason = ''no''\<rparr>" ex_cfg "''''", OF _ _ _ surjective_pairing]
  by (simp add: ex_no_read_def)

text \<open>Admission: a job gives back what it took, on every path.\<close>

lemma sem_simps [simp]:
  "sv_slots (snd (sem_TryAcquire (CounterSemaphore env slots_cell n) w)) =
     (if fst (sem_TryAcquire (CounterSemaphore env slots_cell n) w) then sv_slots w + 1 else sv_slots w)"
  "sv_slots (sem_Release (CounterSemaphore env slots_cell n) w) = sv_slots w - 1"
  "sv_active (snd (sem_Acquire (CounterSemaphore env active_cell n) w)) =
     (if fst (sem_Acquire (CounterSemaphore env active_cell n) w) = None then sv_active w + 1 else sv_active w)"
  "sv_active (sem_Release (CounterSemaphore env active_cell n) w) = sv_active w - 1"
  by (simp_all only: slots_sem.try_acquire slots_sem.release active_sem.acquire active_sem.release)

lemma sem_other [simp]:
  "sv_active (snd (sem_TryAcquire (CounterSemaphore env slots_cell n) w)) = sv_active w"
  "sv_active (sem_Release (CounterSemaphore env slots_cell n) w) = sv_active w"
  "sv_slots (snd (sem_Acquire (CounterSemaphore env active_cell n) w)) = sv_slots w"
  "sv_slots (sem_Release (CounterSemaphore env active_cell n) w) = sv_slots w"
  by (auto simp: CounterSemaphore_def slots_cell_def active_cell_def split: option.splits)

lemma preview_repo_other [simp]:
  "sv_slots (snd (PreviewCacheRepository_FindBySourceID env i w)) = sv_slots w"
  "sv_active (snd (PreviewCacheRepository_FindBySourceID env i w)) = sv_active w"
  "sv_slots (snd (PreviewCacheRepository_Upsert env e w)) = sv_slots w"
  "sv_active (snd (PreviewCacheRepository_Upsert env e w)) = sv_active w"
  by (auto simp: repo_defs db_stmt_def preview_table_def Let_def split_beta split: pg_fault.splits)

lemma inv_render_admitted:
  "prog_inv (\<lambda>w. sv_slots w = m \<and> sv_active w = k)
     (render_admitted (sv_preview (createServices env cfg)) sourceID ext)"
  by (auto simp: render_admitted_def writeTarget_def commitRefresh_def commitMapping_def Let_def
      intro!: prog_inv_call prog_inv_effect prog_inv_bind split: sum.splits option.splits)

lemma render_admitted_counts [simp]:
  "sv_slots (snd (run (render_admitted (sv_preview (createServices env cfg)) sourceID ext) w)) = sv_slots w"
  "sv_active (snd (run (render_admitted (sv_preview (createServices env cfg)) sourceID ext) w)) = sv_active w"
  using prog_inv_run [OF inv_render_admitted [of "sv_slots w" "sv_active w"], of w] by auto

text \<open>
  C22: a render job releases every admission it took.  Whether it is refused, gives up
  waiting, fails at any step or succeeds, both semaphores hold afterwards what they
  held before, so no sequence of failures can exhaust the render queue.
\<close>

theorem render_admission_balanced:
  "sv_slots (snd (run (renderAndStore (sv_preview (createServices env cfg)) sourceID ext) w)) = sv_slots w
   \<and> sv_active (snd (run (renderAndStore (sv_preview (createServices env cfg)) sourceID ext) w)) = sv_active w"
  by (auto simp: renderAndStore_def prog_simps split: option.splits)

text \<open>
  The mapping of a source.  While the preview file's metadata exists, no job re-points
  the mapping: not the leader of this source's render, not another source's, with any
  failure of the database.
\<close>

definition mapping_of :: "'z pgdb_scheme \<Rightarrow> string \<Rightarrow> preview_row option" where
  "mapping_of w src = List.find (\<lambda>r. prow_source_file_id r = src) (document_preview_cache w)"

definition points_to :: "string \<Rightarrow> string \<Rightarrow> 'z pgdb_scheme \<Rightarrow> bool" where
  "points_to src pid w = (map_option prow_preview_file_id (mapping_of w src) = Some pid)"

lemma find_map_key:
  "(\<And>r. prow_source_file_id (g r) = prow_source_file_id r) \<Longrightarrow>
   List.find (\<lambda>r. prow_source_file_id r = k) (map g rows) =
     map_option g (List.find (\<lambda>r. prow_source_file_id r = k) rows)"
  by (induction rows) auto

lemma find_snoc_found:
  "List.find P rows = Some r \<Longrightarrow> List.find P (rows @ [x]) = Some r"
  by (induction rows) (auto split: if_splits)

lemma find_snoc_new:
  "List.find P rows = None \<Longrightarrow> P x \<Longrightarrow> List.find P (rows @ [x]) = Some x"
  by (induction rows) (auto split: if_splits)

lemma points_to_outside [simp]:
  "points_to src pid (advance w) = points_to src pid w"
  "points_to src pid (snd (outside reply ev w')) = points_to src pid w'"
  "points_to src pid (Logger e w') = points_to src pid w'"
  by (simp_all add: points_to_def mapping_of_def)

lemma points_to_sem [simp]:
  "points_to src pid (snd (sem_TryAcquire (CounterSemaphore env slots_cell n) w)) = points_to src pid w"
  "points_to src pid (sem_Release (CounterSemaphore env slots_cell n) w) = points_to src pid w"
  "points_to src pid (snd (sem_Acquire (CounterSemaphore env active_cell n) w)) = points_to src pid w"
  "points_to src pid (sem_Release (CounterSemaphore env active_cell n) w) = points_to src pid w"
  by (auto simp: CounterSemaphore_def slots_cell_def active_cell_def points_to_def mapping_of_def
      split: option.splits)

lemma points_to_find [simp]:
  "points_to src pid (snd (PreviewCacheRepository_FindBySourceID env i w)) = points_to src pid w"
  by (auto simp: repo_defs sql_defs db_stmt_def preview_table_def points_to_def mapping_of_def Let_def
      split: pg_fault.splits)

lemma points_to_upsert:
  assumes "points_to src pid w" and "SourceFileID e = src \<Longrightarrow> PreviewFileID e = pid"
  shows "points_to src pid (snd (PreviewCacheRepository_Upsert env e w))"
proof -
  obtain r where r: "List.find (\<lambda>r. prow_source_file_id r = src) (document_preview_cache w) = Some r"
    and pid: "prow_preview_file_id r = pid"
    using assms(1) by (auto simp: points_to_def mapping_of_def)
  have key: "prow_source_file_id r = src" using r by (auto simp: find_Some_iff)
  have "map_option prow_preview_file_id (List.find (\<lambda>r. prow_source_file_id r = src)
      (snd (sql_upsertPreviewCache env (SourceFileID e) (PreviewFileID e) (SourceUpdatedDate e) t
        (document_preview_cache w)))) = Some pid" for t
  proof (cases "list_ex (\<lambda>r. prow_source_file_id r = SourceFileID e) (document_preview_cache w)")
    case True
    then show ?thesis using assms(2) by (simp add: sql_defs find_map_key r key pid)
  next
    case False
    then show ?thesis by (simp add: sql_defs find_snoc_found [OF r] pid)
  qed
  with assms(1) show ?thesis
    by (auto simp: repo_defs db_stmt_def preview_table_def points_to_def mapping_of_def Let_def split_beta
        split: pg_fault.splits)
qed

lemma find_filter: "List.find P xs = Some x \<Longrightarrow> \<exists>ys. filter P xs = x # ys"
  by (induction xs) (auto split: if_splits)

lemma find_points:
  assumes "honest_faults env" and "points_to src pid w"
    and "fst (PreviewCacheRepository_FindBySourceID env src w) = Inr x"
  shows "\<exists>e. x = Some e \<and> PreviewFileID e = pid"
proof -
  obtain r where r: "List.find (\<lambda>r. prow_source_file_id r = src) (document_preview_cache w) = Some r"
    and pid: "prow_preview_file_id r = pid"
    using assms(2) by (auto simp: points_to_def mapping_of_def)
  obtain ys where f: "filter (\<lambda>r. prow_source_file_id r = src) (document_preview_cache w) = r # ys"
    using find_filter [OF r] by blast
  have "case pg_fault env (tick w) of NoFault \<Rightarrow> True
      | FailBefore e \<Rightarrow> \<not> errors_Is e PgxErrNoRows | FailAfter e \<Rightarrow> \<not> errors_Is e PgxErrNoRows"
    using assms(1) by (simp add: honest_faults_def)
  with assms(3) f pid show ?thesis
    by (auto simp: repo_defs sql_defs db_stmt_def preview_table_def optional_row_def entry_of_row_def
        split: pg_fault.splits)
qed

definition preview_row_exists :: "'e sys_env_scheme \<Rightarrow> string \<Rightarrow> bool" where
  "preview_row_exists env pid = (pid \<noteq> '''' \<and> (\<forall>n. ext_FindByID env n pid \<noteq> Inr None))"

lemma writeTarget_stable:
  assumes "honest_faults env" and "preview_row_exists env pid"
  shows "prog_spec (points_to src pid) (\<lambda>t. k = src \<longrightarrow> (\<forall>i. t = Inr (None, i) \<longrightarrow> i = pid))
     (writeTarget (sv_preview (createServices env cfg)) k d)"
proof -
  have found: "k = src \<longrightarrow> PreviewFileID e = pid"
    if "points_to src pid w" "fst (PreviewCacheRepository_FindBySourceID env k w) = Inr (Some e)"
    for e and w :: "'z server_scheme"
    using find_points [OF assms(1) that(1)] that(2) by auto
  have none: "k \<noteq> src" if "points_to src pid w" "fst (PreviewCacheRepository_FindBySourceID env k w) = Inr None"
    for w :: "'z server_scheme"
    using find_points [OF assms(1) that(1)] that(2) by auto
  show ?thesis
    unfolding writeTarget_def Let_def preview_sel PreviewCacheRepository_sel
  proof (rule prog_spec_call, goal_cases)
    case (1 w)
    then show ?case by simp
  next
    case (2 w)
    show ?case
    proof (cases "fst (PreviewCacheRepository_FindBySourceID env k w)")
      case (Inl e)
      then show ?thesis by simp
    next
      case (Inr x)
      show ?thesis
      proof (cases x)
        case None
        with none [OF 2] Inr show ?thesis by simp
      next
        case (Some e)
        with Inr found [OF 2] have "k = src \<longrightarrow> PreviewFileID e = pid" by simp
        with assms(2) show ?thesis unfolding Inr Some preview_row_exists_def
          by (auto intro!: prog_spec_call split: sum.splits option.splits)
      qed
    qed
  qed
qed

lemma commit_stable:
  assumes "k = src \<Longrightarrow> i = pid"
  shows "prog_inv (points_to src pid) (commitRefresh (sv_preview (createServices env cfg)) k i d)"
    and "prog_inv (points_to src pid) (commitMapping (sv_preview (createServices env cfg)) k i d)"
  using assms
  by (auto simp: commitRefresh_def commitMapping_def Let_def
      intro!: prog_inv_call prog_inv_effect points_to_upsert split: option.splits)

lemma render_stable:
  assumes "honest_faults env" and row: "preview_row_exists env pid"
  shows "prog_inv (points_to src pid) (renderAndStore (sv_preview (createServices env cfg)) k ext)"
proof -
  note target = prog_inv_bind_spec [OF writeTarget_stable [OF assms]]
  have "prog_inv (points_to src pid) (render_admitted (sv_preview (createServices env cfg)) k ext)"
    unfolding render_admitted_def
    using row
    by (auto intro!: prog_inv_call target commit_stable simp: preview_row_exists_def
        split: sum.splits option.splits)
  then show ?thesis
    unfolding renderAndStore_def
    by (auto intro!: prog_inv_call prog_inv_effect prog_inv_bind split: option.splits)
qed

lemma resolve_stable:
  assumes "honest_faults env" and "preview_row_exists env pid"
  shows "prog_inv (points_to src pid) (Resolve (sv_preview (createServices env cfg)) actor k m)"
proof -
  have miss: "prog_inv (points_to src pid) (resolveMiss (sv_preview (createServices env cfg)) i ext d)" for i ext d
    unfolding resolveMiss_def Let_def
    by (auto intro!: prog_inv_call prog_inv_bind render_stable [OF assms] split: flight.splits sum.splits)
  have "prog_inv (points_to src pid) (resolve_render (sv_preview (createServices env cfg)) d ext)" for d ext
    unfolding resolve_render_def by (auto intro!: prog_inv_bind miss prog_inv_call split: sum.splits)
  then show ?thesis
    unfolding Resolve_def currentMapping_def Let_def
    by (auto intro!: prog_inv_call prog_inv_bind split: sum.splits option.splits)
qed

text \<open>
  C23: a source's preview file never changes while it exists.  Whatever preview requests
  run concurrently, for this source or others, by any actors, with renders that fail at
  any step and database calls that fail before or after taking effect, the mapping of a
  source keeps naming the same preview file as long as the file service knows that
  file: a refresh replaces its content in place and never creates a second one.
\<close>

theorem preview_file_is_stable:
  assumes "honest_faults env" and "preview_row_exists env pid" and "points_to src pid w"
    and "\<forall>p\<in>set ps. \<exists>actor k m. p = Resolve (sv_preview (createServices env cfg)) actor k m"
    and "pool_reach (ps, w) (ps', w')"
  shows "points_to src pid w'"
  using pool_reach_inv [OF assms(5), of "points_to src pid"] resolve_stable [OF assms(1,2)] assms(3,4)
  by fastforce

definition ex_previewed :: server where
  "ex_previewed = ex_server\<lparr>document_preview_cache :=
     [\<lparr>prow_source_file_id = ''doc'', prow_preview_file_id = ''preview'', prow_source_updated_date = 0\<rparr>]\<rparr>"

theorem preview_file_is_stable_witness:
  "points_to ''doc'' ''preview''
     (snd (sched (replicate 9 0 @ [1, 0, 1, 0, 1, 0])
       ([Resolve (sv_preview (createServices ex_senv ex_cfg)) ''a'' ''doc'' '''',
         Resolve (sv_preview (createServices ex_senv ex_cfg)) ''b'' ''doc'' ''''], ex_previewed)))"
  (is "points_to _ _ (snd (sched ?js (?ps, _)))")
proof (rule preview_file_is_stable [of ex_senv "''preview''" "''doc''" ex_previewed ?ps ex_cfg])
  show "honest_faults ex_senv" by (simp add: honest_faults_def)
  show "preview_row_exists ex_senv ''preview''" by (simp add: preview_row_exists_def)
  show "points_to ''doc'' ''preview'' ex_previewed"
    by (simp add: points_to_def mapping_of_def ex_previewed_def)
  show "\<forall>p\<in>set ?ps. \<exists>actor k m. p = Resolve (sv_preview (createServices ex_senv ex_cfg)) actor k m"
    by auto
  show "pool_reach (?ps, ex_previewed) (fst (sched ?js (?ps, ex_previewed)), snd (sched ?js (?ps, ex_previewed)))"
    unfolding prod.collapse by (rule pool_reach_sched)
qed

text \<open>
  A lost acknowledgement leaves a mapping that names a deleted file.  When the
  database commits a new mapping but the call reports an error, the service answers a
  failure and deletes the preview file although the stored mapping refers to it, which
  the clean-up was meant to exclude.
\<close>

theorem lost_commit_deletes_mapped_file:
  assumes "pg_fault env (tick w) = FailAfter e" and "mapping_of w src = None"
    and "run (commitMapping (sv_preview (createServices env cfg)) src pid d) w = (r, w')"
  shows "isl r \<and> points_to src pid w' \<and> EvDeletePreviewFile pid \<in> set (trace w')"
proof -
  let ?e = "\<lparr>SourceFileID = src, PreviewFileID = pid, SourceUpdatedDate = d\<rparr>"
  have "\<not> list_ex (\<lambda>r. prow_source_file_id r = src) (document_preview_cache w)"
    using assms(2) by (auto simp: mapping_of_def find_None_iff list_ex_iff)
  then have up: "fst (PreviewCacheRepository_Upsert env ?e w) = Some e"
    "points_to src pid (snd (PreviewCacheRepository_Upsert env ?e w))"
    using assms(1,2)
    by (simp_all add: repo_defs sql_defs db_stmt_def preview_table_def exec_err_def points_to_def mapping_of_def
        find_snoc_new)
  with assms(3) show ?thesis
    by (auto simp: commitMapping_def prog_simps Let_def split: option.splits)
qed

theorem lost_commit_deletes_mapped_file_witness:
  "EvDeletePreviewFile ''p'' \<in> set (trace (snd (run (commitMapping (sv_preview (createServices
       (ex_senv\<lparr>pg_fault := \<lambda>_. FailAfter (OpaqueError ''connection reset'')\<rparr>) ex_cfg)) ''doc'' ''p'' 0) ex_server)))
   \<and> points_to ''doc'' ''p'' (snd (run (commitMapping (sv_preview (createServices
       (ex_senv\<lparr>pg_fault := \<lambda>_. FailAfter (OpaqueError ''connection reset'')\<rparr>) ex_cfg)) ''doc'' ''p'' 0) ex_server))"
  using lost_commit_deletes_mapped_file
    [of "ex_senv\<lparr>pg_fault := \<lambda>_. FailAfter (OpaqueError ''connection reset'')\<rparr>" ex_server
      "OpaqueError ''connection reset''" "''doc''" ex_cfg "''p''" 0, OF _ _ surjective_pairing]
  by (simp add: mapping_of_def)

end
