(* ===== verification/Requests.thy ===== *)
theory Requests
  imports App Locking
begin

text \<open>
  What the WOPI endpoints answer.  The handlers are composed with the service and the
  PostgreSQL repository through the refinement lemmas of \<open>Locking\<close>: the answer and the
  effect of a request are functions of the map of locks, of the clocks and of what the
  file service says.
\<close>

text \<open>The answer to a lock operation, by its error.\<close>

definition lock_answer :: "error option \<Rightarrow> response" where
  "lock_answer e =
     (case e of
        None \<Rightarrow> WriteHeader 200
      | Some err \<Rightarrow>
          (case errors_As_LockConflict err of
             Some existing \<Rightarrow> http_ErrorWith [(''X-WOPI-Lock'', existing)] 409 ''lock conflict''
           | None \<Rightarrow> http_Error 500 ''internal error''))"

lemma lock_reply_answer:
  "fst (run (lock_reply h p) w) = lock_answer (fst (run p w))"
  by (simp add: lock_reply_def lock_answer_def handleLockError_def prog_simps split: option.splits)

lemma lock_reply_view:
  "lock_view (snd (run (lock_reply (wopi_h env cfg out) p) w)) = lock_view (snd (run p w))"
  by (simp add: lock_reply_def handleLockError_def prog_simps lock_view_def fun_eq_iff split: option.splits)

text \<open>What the four lock operations do to the map of locks, by the headers of the request.\<close>

definition lock_operation ::
  "'e server_env_scheme \<Rightarrow> duration \<Rightarrow> nat \<Rightarrow> (string \<Rightarrow> lock option) \<Rightarrow> string \<Rightarrow> request \<Rightarrow>
   (error option \<times> (string \<Rightarrow> lock option)) option" where
  "lock_operation env maxLife n m f r =
     (let op = rq_Header r ''X-WOPI-Override''; lid = rq_Header r ''X-WOPI-Lock'';
          old = rq_Header r ''X-WOPI-OldLock'';
          t1 = pg_now env n; now = go_now env (n + 1); t2 = pg_now env (n + 2)
      in if op = ''LOCK'' \<and> old = ''''
         then Some (Lock_spec (pg_tstz env) maxLife m f lid (go_uuid env (n + 2)) t1 now t2)
         else if op = ''LOCK'' then Some (UnlockAndRelock_spec (pg_tstz env) m f lid old t1 now t2)
         else if op = ''UNLOCK'' then Some (Unlock_spec m f lid t1)
         else if op = ''REFRESH_LOCK'' then Some (RefreshLock_spec (pg_tstz env) m f lid t1 now t2)
         else None)"

lemma lock_services_refine:
  fixes env :: "'e server_env_scheme" and w :: "'z server_scheme"
  assumes "reliable env" and "wf_locks (locks w)" and s: "s = sv_wopi (createServices env cfg)"
  shows "fresh_id (lock_view w) (go_uuid env (tick w + 2)) \<Longrightarrow>
      (fst (run (Lock (GoRuntime env) s f lid) w), lock_view (snd (run (Lock (GoRuntime env) s f lid) w))) =
      Lock_spec (pg_tstz env) (cfg_MaxLockLifetime cfg) (lock_view w) f lid (go_uuid env (tick w + 2))
        (pg_now env (tick w)) (go_now env (tick w + 1)) (pg_now env (tick w + 2))"
    and "(fst (run (Unlock s f lid) w), lock_view (snd (run (Unlock s f lid) w))) =
      Unlock_spec (lock_view w) f lid (pg_now env (tick w))"
    and "(fst (run (RefreshLock (GoRuntime env) s f lid) w),
          lock_view (snd (run (RefreshLock (GoRuntime env) s f lid) w))) =
      RefreshLock_spec (pg_tstz env) (lock_view w) f lid
        (pg_now env (tick w)) (go_now env (tick w + 1)) (pg_now env (tick w + 2))"
    and "(fst (run (UnlockAndRelock (GoRuntime env) s f new old) w),
          lock_view (snd (run (UnlockAndRelock (GoRuntime env) s f new old) w))) =
      UnlockAndRelock_spec (pg_tstz env) (lock_view w) f new old
        (pg_now env (tick w)) (go_now env (tick w + 1)) (pg_now env (tick w + 2))"
  using assms
    pg_locking.Lock_refines [of w s env _ f _ lid] pg_locking.Unlock_refines [of w s env f lid]
    pg_locking.RefreshLock_refines [of w s env _ f _ lid]
    pg_locking.UnlockAndRelock_refines [of w s env _ f _ new old]
  by (simp_all add: fault_free_reliable)

text \<open>
  C10: the lock endpoint implements the specifications.  For every request with a
  validated token whose \<^verbatim>\<open>X-WOPI-Override\<close> is one of the four lock operations, run on a
  reliable database, the map of locks changes as the operation's specification says and
  the answer is its outcome: success is 200, a conflict is 409 and names in
  \<^verbatim>\<open>X-WOPI-Lock\<close> the lock that is in the way, anything else is 500.
\<close>

theorem lock_endpoint_implements_spec:
  assumes "reliable env" and "wf_locks (locks w)" and "fresh_id (lock_view w) (go_uuid env (tick w + 2))"
    and "rq_token r = Some t"
    and "lock_operation env (cfg_MaxLockLifetime cfg) (tick w) (lock_view w) (tok_FileID t) r = Some (e, m)"
  shows "fst (run (FileOperation (GoRuntime env) (wopi_h env cfg out) r) w) = lock_answer e
    \<and> lock_view (snd (run (FileOperation (GoRuntime env) (wopi_h env cfg out) r) w)) = m"
  using assms lock_services_refine [OF assms(1,2) refl, of cfg "tok_FileID t"]
  by (auto simp: FileOperation_def Let_def lock_operation_def handle_lock_def handle_unlock_def
      handle_refreshLock_def handle_unlockAndRelock_def TokenFromContext_def lock_reply_answer lock_reply_view
      split: if_splits) (metis fst_conv snd_conv)+

text \<open>A request of another client for a file that is locked.\<close>

definition ex_lock_world :: server where
  "ex_lock_world = ex_server\<lparr>access_tokens := [ex_token_row], locks := [ex_row]\<rparr>"

definition ex_lock_request :: "string \<Rightarrow> request" where
  "ex_lock_request lid = (ex_request [(''X-WOPI-Override'', ''LOCK''), (''X-WOPI-Lock'', lid)])
     \<lparr>rq_token := Some (token_of_row ex_token_row)\<rparr>"

lemma ex_lock_world_sel [simp]:
  "tick ex_lock_world = 0" "locks ex_lock_world = [ex_row]" "trace ex_lock_world = []"
  "access_tokens ex_lock_world = [ex_token_row]" "sv_docs ex_lock_world = []"
  "lock_view ex_lock_world f = (if f = ''doc'' then Some (lock_of_row ex_row) else None)"
  by (simp_all add: ex_lock_world_def lock_view_def)

lemma ex_lock_request_sel [simp]:
  "rq_Header (ex_lock_request lid) k =
     (if k = ''X-WOPI-Override'' then ''LOCK'' else if k = ''X-WOPI-Lock'' then lid else '''')"
  "rq_token (ex_lock_request lid) = Some (token_of_row ex_token_row)"
  "tok_FileID (token_of_row ex_token_row) = ''doc''"
  by (simp_all add: ex_lock_request_def ex_request_def ex_token_row_def token_of_row_def)

lemma ex_senv_reliable' [simp]: "reliable ex_senv"
  by (simp add: reliable_def)

theorem lock_endpoint_implements_spec_witness:
  "fst (run (FileOperation (GoRuntime ex_senv) (wopi_h ex_senv ex_cfg ex_out) (ex_lock_request ''B'')) ex_lock_world)
     = http_ErrorWith [(''X-WOPI-Lock'', ''A'')] 409 ''lock conflict''"
proof -
  have "lock_operation ex_senv (cfg_MaxLockLifetime ex_cfg) (tick ex_lock_world) (lock_view ex_lock_world)
      ''doc'' (ex_lock_request ''B'') = Some (Some (LockConflictError ''A''), lock_view ex_lock_world)"
    by (simp add: lock_operation_def Lock_spec_def lock_of_row_def ex_times ex_cfg_def)
  moreover have "wf_locks (locks ex_lock_world)" by (simp add: wf_locks_def)
  moreover have "fresh_id (lock_view ex_lock_world) (go_uuid ex_senv (tick ex_lock_world + 2))"
    by (simp add: fresh_id_def lock_of_row_def)
  ultimately show ?thesis
    using lock_endpoint_implements_spec [OF ex_senv_reliable', of ex_lock_world "ex_lock_request ''B''"
        "token_of_row ex_token_row" ex_cfg _ _ ex_out]
    by (simp add: lock_answer_def)
qed

text \<open>
  Saving a file: the answer, whether the file service was asked to write, and whether the
  document was marked as modified, from the lock that is active at the look-up.
\<close>

definition is_write :: "event \<Rightarrow> bool" where
  "is_write ev = (case ev of EvWriteFile f c \<Rightarrow> True | _ \<Rightarrow> False)"

definition put_conflict :: "lock option \<Rightarrow> string \<Rightarrow> bool" where
  "put_conflict lk lid = (case lk of Some l \<Rightarrow> lid = '''' \<or> LockID l \<noteq> lid | None \<Rightarrow> False)"

definition put_file_spec ::
  "'e server_env_scheme \<Rightarrow> nat \<Rightarrow> lock option \<Rightarrow> access_token \<Rightarrow> request \<Rightarrow> response \<times> bool \<times> bool" where
  "put_file_spec env n lk t r =
     (if \<not> HasPermission t ''write'' then (http_Error 403 ''not authorized'', False, False)
      else if put_conflict lk (rq_Header r ''X-WOPI-Lock'')
      then (http_ErrorWith [(''X-WOPI-Lock'', LockID (the lk))] 409 ''lock conflict'', False, False)
      else case ext_WriteFile env (n + 1) (tok_FileID t) (rq_Body r) of
        Inl e \<Rightarrow> (http_Error 500 ''internal error'', True, False)
      | Inr res \<Rightarrow>
          (let stamp = format_RFC3339Nano (go_now env (n + 2))
           in (json_response [(''X-WOPI-ItemVersion'', fw_ExternalID res), (''X-COOL-WOPI-Timestamp'', stamp)] 200
                 (PutFileBody \<lparr>pfr_LastModifiedTime = stamp, pfr_Version = fw_ExternalID res\<rparr>),
               True, isModifiedByUser r)))"

lemma find_reliable:
  assumes "reliable env" and "wf_locks (locks w)"
  shows "fst (LockRepository_FindByFileID env f w) = Inr (active (pg_now env (tick w)) (lock_view w f))"
  using pg_locks.find_result [of w env f] assms by (simp add: fault_free_reliable)

lemma find_frame:
  "snd (LockRepository_FindByFileID env f w) = advance w"
  by (auto simp: repo_defs sql_defs db_stmt_def locks_table_def advance_def Let_def split: pg_fault.splits)

lemma foreign_put_error:
  "foreign_error e \<Longrightarrow> \<not> errors_Is (Errorf fmt [Sentinel ErrFileWrite, e]) ErrNotAuthorized
     \<and> \<not> errors_Is (Errorf fmt [Sentinel ErrFileWrite, e]) ErrDocumentNotFound
     \<and> errors_As_LockConflict (Errorf fmt [Sentinel ErrFileWrite, e]) = None"
  by (simp add: foreign_error_not_Is foreign_sentinel_def foreign_error_no_conflict)

text \<open>The write itself, once the guards have passed.\<close>

definition put_file_write ::
  "'e server_env_scheme \<Rightarrow> access_token \<Rightarrow> stream \<Rightarrow> 'z server_scheme \<Rightarrow>
   (error + put_file_result) \<times> 'z server_scheme" where
  "put_file_write env t body w =
     (let w1 = snd (outside (\<lambda>n. ext_WriteFile env n (tok_FileID t) body) (EvWriteFile (tok_FileID t) body) w)
      in case ext_WriteFile env (tick w) (tok_FileID t) body of
           Inl e \<Rightarrow> (Inl (Errorf ''write file: %w: %w'' [Sentinel ErrFileWrite, e]), w1)
         | Inr res \<Rightarrow>
             (Inr \<lparr>pf_Version = fw_ExternalID res, pf_LastModifiedTime = go_now env (tick w1)\<rparr>, advance w1))"

text \<open>How saving ends, by the specification.\<close>

lemma put_file_refines:
  assumes "reliable env" and "wf_locks (locks w)" and "rq_token r = Some t"
    and "\<And>n f c e. ext_WriteFile env n f c = Inl e \<Longrightarrow> foreign_error e"
    and "put_file_spec env (tick w) (active (pg_now env (tick w)) (lock_view w (tok_FileID t))) t r
      = (resp, asked, marked)"
    and "result = run (handle_putFile (GoRuntime env) (wopi_h env cfg out) r) w"
  shows "fst result = resp \<and> locks (snd result) = locks w
    \<and> filter is_write (trace (snd result)) =
        (if asked then [EvWriteFile (tok_FileID t) (rq_Body r)] else []) @ filter is_write (trace w)
    \<and> sv_docs (snd result) = (if marked then mark_modified (tok_FileID t) (sv_docs w) else sv_docs w)"
proof -
  let ?lk = "active (pg_now env (tick w)) (lock_view w (tok_FileID t))"
  let ?lid = "rq_Header r ''X-WOPI-Lock''"
  note spec = assms(5) [unfolded put_file_spec_def]
  note unf = assms(6) handle_putFile_def TokenFromContext_def assms(3) prog_simps
  consider (denied) "\<not> HasPermission t ''write''"
    | (conflict) l where "HasPermission t ''write''" "?lk = Some l" "put_conflict ?lk ?lid"
    | (free) "HasPermission t ''write''" "\<not> put_conflict ?lk ?lid"
    by (cases ?lk) (auto simp: put_conflict_def)
  then show ?thesis
  proof cases
    case denied
    then show ?thesis using spec by (simp add: unf PutFile_def)
  next
    case conflict
    then show ?thesis using spec
      by (auto simp: unf PutFile_def put_conflict_def find_reliable [OF assms(1,2)] find_frame Let_def)
  next
    case free
    have "run (PutFile (GoRuntime env) (sv_wopi (createServices env cfg)) t ?lid (rq_Body r)) w =
      put_file_write env t (rq_Body r) (advance w)"
      using free
      by (cases ?lk) (simp_all add: PutFile_def prog_simps put_conflict_def put_file_write_def Let_def
          find_reliable [OF assms(1,2)] find_frame split: sum.splits)
    then show ?thesis using spec free foreign_put_error [OF assms(4)]
      by (cases "ext_WriteFile env (tick w + 1) (tok_FileID t) (rq_Body r)")
         (auto simp: unf put_file_write_def is_write_def MarkModified_def locked_def docs_cell_def Let_def)
  qed
qed

text \<open>
  C9: saving a file is guarded by the permission and by the lock.  Without the write
  permission the answer is 403, with another client's live lock, or none presented
  against one, it is 409 with that lock's identifier, and in both cases the file service
  is not asked to write and the contribution window does not change.  Otherwise the
  request's body is written to the token's file exactly once; a success answers the new
  version and marks the document modified when the client said a user did it, a failure
  answers 500 and marks nothing.  The errors of the file service are assumed to be
  foreign to the domain package.
\<close>

theorem put_file_implements_spec:
  assumes "reliable env" and "wf_locks (locks w)" and "rq_token r = Some t"
    and "\<And>n f c e. ext_WriteFile env n f c = Inl e \<Longrightarrow> foreign_error e"
    and "put_file_spec env (tick w) (active (pg_now env (tick w)) (lock_view w (tok_FileID t))) t r
      = (resp, asked, marked)"
    and "result = run (handle_putFile (GoRuntime env) (wopi_h env cfg out) r) w"
  shows "fst result = resp \<and> locks (snd result) = locks w
    \<and> filter is_write (trace (snd result)) =
        (if asked then [EvWriteFile (tok_FileID t) (rq_Body r)] else []) @ filter is_write (trace w)
    \<and> sv_docs (snd result) = (if marked then mark_modified (tok_FileID t) (sv_docs w) else sv_docs w)"
  using assms by (rule put_file_refines)

theorem put_file_implements_spec_witness:
  "fst (run (handle_putFile (GoRuntime ex_senv) (wopi_h ex_senv ex_cfg ex_out) (ex_lock_request ''B'')) ex_lock_world)
     = http_ErrorWith [(''X-WOPI-Lock'', ''A'')] 409 ''lock conflict''
   \<and> filter is_write (trace (snd (run (handle_putFile (GoRuntime ex_senv) (wopi_h ex_senv ex_cfg ex_out)
       (ex_lock_request ''B'')) ex_lock_world))) = []"
proof -
  have can: "HasPermission (token_of_row ex_token_row) ''write''"
    by (simp add: issued_permissions token_of_row_def ex_token_row_def)
  have errs: "ext_WriteFile ex_senv n f c = Inl e \<Longrightarrow> foreign_error e" for n f c e
    by (simp add: ex_senv_def ex_env_def sys_env.extend_def server_env.fields_def)
  have spec: "put_file_spec ex_senv (tick ex_lock_world) (active (pg_now ex_senv (tick ex_lock_world))
      (lock_view ex_lock_world (tok_FileID (token_of_row ex_token_row)))) (token_of_row ex_token_row)
      (ex_lock_request ''B'') = (http_ErrorWith [(''X-WOPI-Lock'', ''A'')] 409 ''lock conflict'', False, False)"
    by (simp add: put_file_spec_def put_conflict_def can lock_of_row_def ex_times)
  have wf: "wf_locks (locks ex_lock_world)" by (simp add: wf_locks_def)
  show ?thesis
    using put_file_implements_spec [OF ex_senv_reliable' wf ex_lock_request_sel(2) errs spec refl,
        where cfg = ex_cfg and out = ex_out]
    by simp
qed

text \<open>
  Reading a file answers its content or 500.  When the errors of the file service are
  foreign to the domain package, as the operating system's \<^verbatim>\<open>fs.ErrNotExist\<close> is, which
  the client returns for a missing file, the answer is never 404.
\<close>

theorem get_file_answers:
  assumes "rq_token r = Some t" and "\<And>n f e. ext_ReadFile env n f = Inl e \<Longrightarrow> foreign_error e"
  shows "fst (run (handle_GetFile (wopi_h env cfg out) r) w) =
    (case ext_ReadFile env (tick w) (tok_FileID t) of
       Inr content \<Rightarrow> \<lparr>rs_Status = 200, rs_Headers = [(''Content-Type'', ''application/octet-stream'')],
                       rs_Body = ContentBody (fst content)\<rparr>
     | Inl e \<Rightarrow> http_Error 500 ''internal error'')"
  using assms foreign_error_not_Is [of _ ErrDocumentNotFound]
  by (auto simp: handle_GetFile_def TokenFromContext_def GetFile_def prog_simps foreign_sentinel_def
      split: sum.splits)

definition ex_missing :: server_env where
  "ex_missing = ex_senv\<lparr>ext_ReadFile := (\<lambda>_ _. Inl (Errorf ''file content not found: %w'' [Sentinel FsErrNotExist]))\<rparr>"

theorem get_file_answers_witness:
  "fst (run (handle_GetFile (wopi_h ex_missing ex_cfg ex_out) (ex_lock_request ''B'')) ex_lock_world) =
     http_Error 500 ''internal error''"
  using get_file_answers [of "ex_lock_request ''B''" "token_of_row ex_token_row" ex_missing ex_cfg ex_out ex_lock_world]
  by (auto simp: ex_missing_def foreign_sentinel_def)

end
