(* ===== verification/Tokens.thy ===== *)
theory Tokens
  imports Server Examples
begin

text \<open>
  What token issuance and validation guarantee on the PostgreSQL repository, for any
  behaviour of the file service, the authorization service and Collabora.
\<close>

text \<open>Resolving the editor URL touches no table.\<close>

lemma locked_read [simp]: "locked cache_cell (\<lambda>c. (g c, c)) w = (g (sv_cache w), w)"
  by (simp add: locked_def)

lemma keep_tokens_refresh:
  "prog_inv (\<lambda>w. access_tokens w = T) (refresh (GoRuntime env) (sv_discovery (createServices env cfg)))"
  by (auto simp: refresh_def locked_def intro!: prog_inv_call prog_inv_effect
      split: sum.splits option.splits)

lemma fresh_snapshot_tables [simp]:
  fixes env :: "'e server_env_scheme" and w :: "'z server_scheme" and cfg :: config
  defines "w' \<equiv> snd (fresh_snapshot (GoRuntime env) (sv_discovery (createServices env cfg)) w)"
  shows "access_tokens w' = access_tokens w" "locks w' = locks w"
    "document_preview_cache w' = document_preview_cache w"
  by (simp_all add: w'_def fresh_snapshot_def Let_def split: option.splits)

lemma keep_tokens_resolve:
  "prog_inv (\<lambda>w. access_tokens w = T)
     (resolveEditorURL (GoRuntime env) (sv_token (createServices env cfg)) mime src tok ttl cw lang)"
  by (auto simp: resolveEditorURL_def GetDiscovery_def FindActionByExtension_def
      intro!: prog_inv_call prog_inv_bind keep_tokens_refresh split: sum.splits option.splits)

lemma resolve_tokens [simp]:
  "access_tokens (snd (run (resolveEditorURL (GoRuntime env) (sv_token (createServices env cfg))
     mime src tok ttl cw lang) w)) = access_tokens w"
  using prog_inv_run [OF keep_tokens_resolve [where T = "access_tokens w"], of w] by simp

text \<open>The row a token is stored as.\<close>

definition token_row_of ::
  "'e pg_env_scheme \<Rightarrow> uuid \<Rightarrow> string \<Rightarrow> string \<Rightarrow> string \<Rightarrow> string \<Rightarrow> string \<Rightarrow> time \<Rightarrow> token_row" where
  "token_row_of env uid tok fileID actorID actorName perms now =
     \<lparr>trow_id = uid, trow_token = tok, trow_file_id = fileID, trow_actor_id = actorID,
      trow_permissions = perms, trow_expires_at = pg_tstz env (now + defaultTokenTTL),
      trow_created_at = pg_tstz env now, trow_actor_name = actorName\<rparr>"

lemma token_create_ok:
  "fst (TokenRepository_Create env t w) = None \<Longrightarrow>
     access_tokens (snd (TokenRepository_Create env t w)) = access_tokens w @
        [\<lparr>trow_id = tok_ID t, trow_token = tok_Token t, trow_file_id = tok_FileID t,
          trow_actor_id = tok_ActorID t, trow_permissions = tok_Permissions t,
          trow_expires_at = pg_tstz env (tok_ExpiresAt t), trow_created_at = pg_tstz env (tok_CreatedAt t),
          trow_actor_name = tok_ActorName t\<rparr>]
     \<and> tok_Token t \<notin> trow_token ` set (access_tokens w)"
  by (auto simp: repo_defs sql_defs db_stmt_def access_tokens_table_def exec_err_def
      list_ex_iff Let_def split: pg_fault.splits if_splits)

lemma token_create_fail:
  "fst (TokenRepository_Create env t w) = Some e \<Longrightarrow> reliable env \<Longrightarrow>
     access_tokens (snd (TokenRepository_Create env t w)) = access_tokens w"
  by (auto simp: repo_defs sql_defs db_stmt_def access_tokens_table_def exec_err_def reliable_def
      Let_def split: if_splits)

lemma issue_granted_result:
  assumes "run (issue_granted (GoRuntime env) (sv_token (createServices env cfg)) actor name doc lang mime perms) w
    = (r, w')"
  shows "(\<forall>e. r = Inl e \<and> reliable env \<longrightarrow> access_tokens w' = access_tokens w) \<and>
    (\<forall>res. r = Inr res \<longrightarrow> (\<exists>uid bs. go_rand env (tick w) 32 = Inr bs \<and> ti_AccessToken res = RawURLEncode bs
       \<and> ti_TTL res = UnixMilli (go_now env (tick w + 1) + defaultTokenTTL)
       \<and> ti_AccessToken res \<notin> trow_token ` set (access_tokens w)
       \<and> access_tokens w' = access_tokens w @
          [token_row_of env uid (ti_AccessToken res) doc actor name perms (go_now env (tick w + 1))]))"
  using assms
  by (auto simp: issue_granted_def generateURLSafeToken_def prog_simps Let_def token_row_of_def
      token_create_fail split: sum.splits option.splits dest!: token_create_ok)

text \<open>
  The permissions a request is entitled to: nothing without the read privilege,
  write only for a document that is not a PDF and with the write privilege.
\<close>

definition granted ::
  "'e sys_env_scheme \<Rightarrow> nat \<Rightarrow> string \<Rightarrow> document \<Rightarrow> string" where
  "granted env n actor d =
     (if doc_MimeType d \<noteq> MimeTypePDF
         \<and> (\<exists>a. ext_CheckPrivilege env n actor ''update-content'' (doc_AuthorizationPolicyID d) = Inr a
                \<and> Allowed a)
      then ''read,write'' else ''read'')"

text \<open>What \<open>IssueToken\<close> does, by its answer.\<close>

definition issued ::
  "'e server_env_scheme \<Rightarrow> string \<Rightarrow> string \<Rightarrow> string \<Rightarrow> 'z server_scheme \<Rightarrow> token_issuance_result \<Rightarrow>
   'z server_scheme \<Rightarrow> token_row \<Rightarrow> bool" where
  "issued env actor name docID w res w' row =
     (\<exists>d a uid now bs n m.
        ext_FindByID env (tick w) docID = Inr (Some d)
        \<and> ext_CheckPrivilege env (tick w + 1) actor ''read'' (doc_AuthorizationPolicyID d) = Inr a
        \<and> Allowed a
        \<and> go_rand env n 32 = Inr bs \<and> ti_AccessToken res = RawURLEncode bs
        \<and> now = go_now env m \<and> ti_TTL res = UnixMilli (now + defaultTokenTTL)
        \<and> row = token_row_of env uid (ti_AccessToken res) docID actor name
                  (granted env (tick w + 2) actor d) now
        \<and> ti_AccessToken res \<notin> trow_token ` set (access_tokens w)
        \<and> access_tokens w' = access_tokens w @ [row])"

lemma IssueToken_ok:
  assumes "run (IssueToken (GoRuntime env) (sv_token (createServices env cfg)) actor name docID lang) w
    = (Inr res, w')"
  shows "\<exists>row. issued env actor name docID w res w' row"
proof -
  let ?g = "\<lambda>mime perms v. run (issue_granted (GoRuntime env) (sv_token (createServices env cfg))
     actor name docID lang mime perms) v"
  from assms obtain d a v where d: "ext_FindByID env (tick w) docID = Inr (Some d)"
    and a: "ext_CheckPrivilege env (tick w + 1) actor ''read'' (doc_AuthorizationPolicyID d) = Inr a" "Allowed a"
    and g: "?g (doc_MimeType d) (granted env (tick w + 2) actor d) v = (Inr res, w')"
    and v: "access_tokens v = access_tokens w"
    by (auto simp: IssueToken_def prog_simps granted_def split: sum.splits option.splits if_splits)
  from issue_granted_result [OF g] obtain uid bs where
    "go_rand env (tick v) 32 = Inr bs" "ti_AccessToken res = RawURLEncode bs"
    "ti_TTL res = UnixMilli (go_now env (tick v + 1) + defaultTokenTTL)"
    "ti_AccessToken res \<notin> trow_token ` set (access_tokens v)"
    "access_tokens w' = access_tokens v @
        [token_row_of env uid (ti_AccessToken res) docID actor name (granted env (tick w + 2) actor d)
           (go_now env (tick v + 1))]" by blast
  with d a v show ?thesis unfolding issued_def by metis
qed

lemma IssueToken_fail:
  assumes "run (IssueToken (GoRuntime env) (sv_token (createServices env cfg)) actor name docID lang) w
    = (Inl e, w')" and "reliable env"
  shows "access_tokens w' = access_tokens w"
  using assms
  by (auto simp: IssueToken_def prog_simps split: sum.splits option.splits if_splits
      dest!: issue_granted_result)

lemma validate_appended:
  assumes "reliable env" and "access_tokens w = old @ [row]" and "trow_token row \<notin> trow_token ` set old"
  shows "fst (run (ValidateToken (GoRuntime env) (sv_token (createServices env cfg)) (trow_token row)) w) =
    Inr (if go_now env (tick w + 1) > trow_expires_at row then None else Some (token_of_row row))"
proof -
  have "filter (\<lambda>r. trow_token r = trow_token row) (access_tokens w) = [row]"
    using assms(2,3) by (auto simp: filter_empty_conv image_iff)
  then show ?thesis
    using assms(1)
    by (auto simp: ValidateToken_def prog_simps repo_defs sql_defs db_stmt_def access_tokens_table_def
        optional_row_def reliable_def Token_IsExpired_def token_of_row_def)
qed

text \<open>A request that succeeds in the example environment, and one that is refused.\<close>

lemmas issue_eval = IssueToken_def issue_granted_def generateURLSafeToken_def resolveEditorURL_def
  GetDiscovery_def refresh_def fresh_snapshot_def locked_def FindActionByExtension_def find_action_def
  prog_simps empty_cache_def ExtensionForMIME_def mimeToExtension_def MimeTypePDF_def
  ex_parse buildEditorURL_def repo_defs sql_defs db_stmt_def access_tokens_table_def exec_err_def

definition ex_issue :: "server_env \<Rightarrow> (error + token_issuance_result) \<times> server" where
  "ex_issue env = run (IssueToken (GoRuntime env) (sv_token (createServices env ex_cfg))
     ''actor'' ''Ada'' ''doc'' ''en'') ex_server"

lemma ex_issue_ok: "\<exists>res. fst (ex_issue ex_senv) = Inr res"
  unfolding ex_issue_def by (simp add: issue_eval ex_document_def ex_discovery_def Let_def)

definition ex_deny :: server_env where
  "ex_deny = ex_senv\<lparr>ext_CheckPrivilege := (\<lambda>_ _ _ _. Inr \<lparr>Allowed = False, Reason = ''''\<rparr>)\<rparr>"

lemma ex_issue_denied: "fst (ex_issue ex_deny) = Inl (Sentinel ErrNotAuthorized)"
  unfolding ex_issue_def ex_deny_def by (simp add: issue_eval ex_document_def)

lemma ex_senv_reliable [simp]: "reliable ex_senv" "reliable ex_deny"
  by (simp_all add: reliable_def ex_deny_def)

text \<open>
  C4: a token is issued only to an actor who may read the document, and for writing
  only when the document is not a PDF and the actor may update its content.  A
  successful request stores exactly one row: the fresh token, built from 32 random
  bytes, for the document and the actor, with those permissions and eight hours to
  live; the expiry told to the caller is the expiry stored.
\<close>

theorem issued_token_is_authorized:
  assumes "run (IssueToken (GoRuntime env) (sv_token (createServices env cfg)) actor name docID lang) w
    = (Inr res, w')"
  shows "\<exists>row. issued env actor name docID w res w' row"
  using assms by (rule IssueToken_ok)

theorem issued_token_is_authorized_witness:
  "\<exists>res row. fst (ex_issue ex_senv) = Inr res
     \<and> issued ex_senv ''actor'' ''Ada'' ''doc'' ex_server res (snd (ex_issue ex_senv)) row"
proof -
  obtain res where res: "fst (ex_issue ex_senv) = Inr res" using ex_issue_ok by blast
  have "\<exists>row. issued ex_senv ''actor'' ''Ada'' ''doc'' ex_server res (snd (ex_issue ex_senv)) row"
    using issued_token_is_authorized [of ex_senv ex_cfg "''actor''" "''Ada''" "''doc''" "''en''" ex_server res
        "snd (ex_issue ex_senv)"] res
    by (simp add: ex_issue_def prod_eq_iff)
  with res show ?thesis by blast
qed

text \<open>
  A refused or failed request leaves no token behind.  When the database answers
  reliably, every error of token issuance, whether the document is unknown, the actor
  is not authorized, the format has no editor or Collabora is down, leaves the table
  of tokens as it was.
\<close>

theorem failed_issuance_stores_nothing:
  assumes "run (IssueToken (GoRuntime env) (sv_token (createServices env cfg)) actor name docID lang) w
    = (Inl e, w')" and "reliable env"
  shows "access_tokens w' = access_tokens w"
  using assms by (rule IssueToken_fail)

theorem failed_issuance_stores_nothing_witness:
  "fst (ex_issue ex_deny) = Inl (Sentinel ErrNotAuthorized) \<and> access_tokens (snd (ex_issue ex_deny)) = []"
  using failed_issuance_stores_nothing [of ex_deny ex_cfg "''actor''" "''Ada''" "''doc''" "''en''" ex_server
      "Sentinel ErrNotAuthorized" "snd (ex_issue ex_deny)"] ex_issue_denied
  by (simp add: ex_issue_def prod_eq_iff)



end
