(* ===== verification/Access.thy ===== *)
theory Access
  imports Requests Tokens
begin

text \<open>
  Access end to end: what a request without a valid token gets, what a token issued for a
  PDF can do, how the token endpoint answers when something outside fails, and what the
  health endpoint reports.
\<close>

text \<open>
  C18: without a stored, unexpired token no WOPI request does anything.  On a reliable
  database such a request is answered 401 on every WOPI route, with or without proof
  validation, and neither the tables nor the contribution window change, nor is anything
  outside called: the only trace is the request log.
\<close>

theorem unauthenticated_request_refused:
  assumes "wopi_route rte" and "reliable env"
    and "\<forall>row\<in>set (access_tokens w). trow_token row = presented r \<longrightarrow>
      trow_expires_at row < go_now env (tick w + 2)"
    and "result = run (app env cfg out rte r) w"
  shows "rs_Status (fst result) = 401 \<and> locks (snd result) = locks w
    \<and> access_tokens (snd result) = access_tokens w \<and> sv_docs (snd result) = sv_docs w
    \<and> (\<exists>e. trace (snd result) = EvLog e # trace w)"
  using assms(1)
proof (cases rule: app_wopi_run [where env = env and cfg = cfg and out = out and r = r and w = w])
  case (refused resp)
  then show ?thesis using assms(2,4) by simp
next
  case (accepted row w1)
  then show ?thesis using assms(3) by fastforce
qed

theorem unauthenticated_request_refused_witness:
  "rs_Status (fst (run (app ex_senv ex_cfg ex_out PutFileRoute (ex_request [])) ex_server)) = 401"
  using unauthenticated_request_refused [of PutFileRoute ex_senv ex_server "ex_request []" _ ex_cfg ex_out]
  by (simp add: wopi_route_def)

text \<open>
  C19: a token issued for a PDF never writes, whoever asked for it.  Whatever the
  authorization service said, a WOPI request that presents such a token, at any later
  time at which the table holds no other row for it, does not ask the file service to
  write anything.
\<close>

theorem pdf_token_cannot_write:
  assumes "run (IssueToken (GoRuntime env) (sv_token (createServices env cfg)) actor name docID lang) w
      = (Inr res, w1)"
    and "ext_FindByID env (tick w) docID = Inr (Some d)" and "doc_MimeType d = MimeTypePDF"
    and "wopi_route rte" and "wf_locks (locks w2)" and "presented r = ti_AccessToken res"
    and "\<forall>row\<in>set (access_tokens w2). trow_token row = ti_AccessToken res \<longrightarrow> row \<in> set (access_tokens w1)"
  shows "wrote (trace (snd (run (app env cfg out rte r) w2))) \<subseteq> wrote (trace w2)"
proof -
  obtain issued_row where i: "issued env actor name docID w res w1 issued_row"
    using IssueToken_ok [OF assms(1)] by blast
  have perms: "trow_permissions issued_row = ''read''"
    using i assms(2,3) by (auto simp: issued_def token_row_of_def granted_def)
  have only: "row = issued_row" if "row \<in> set (access_tokens w2)" "trow_token row = ti_AccessToken res" for row
  proof -
    from that assms(7) have "row \<in> set (access_tokens w1)" by blast
    moreover have "access_tokens w1 = access_tokens w @ [issued_row]"
      "ti_AccessToken res \<notin> trow_token ` set (access_tokens w)"
      using i by (auto simp: issued_def)
    ultimately show ?thesis using that(2) by force
  qed
  have "\<not> HasPermission (token_of_row issued_row) ''write''"
    using perms by (intro issued_permissions(2)) (simp add: token_of_row_def)
  then show ?thesis
    using app_confined [OF assms(4,5) refl, of env cfg out r] only assms(6) by fastforce
qed

definition ex_pdf :: server_env where
  "ex_pdf = ex_senv\<lparr>ext_FindByID := (\<lambda>_ _. Inr (Some (ex_document\<lparr>doc_MimeType := MimeTypePDF\<rparr>))),
     ext_FetchDiscovery := (\<lambda>_. Inr (ex_discovery\<lparr>Actions :=
       [\<lparr>act_App = ''draw'', act_Name = ''view_comment'', act_Ext = ''pdf'',
         act_URLSrc = ''https://office/cool.html?<ui=UI_LLCC&>''\<rparr>]\<rparr>))\<rparr>"

lemma ex_issue_pdf: "\<exists>res. fst (ex_issue ex_pdf) = Inr res"
  unfolding ex_issue_def ex_pdf_def by (simp add: issue_eval ex_document_def ex_discovery_def Let_def)

theorem pdf_token_cannot_write_witness:
  "\<exists>res r. fst (ex_issue ex_pdf) = Inr res \<and> presented r = ti_AccessToken res
     \<and> wrote (trace (snd (run (app ex_pdf ex_cfg ex_out PutFileRoute r) (snd (ex_issue ex_pdf)))))
        \<subseteq> wrote (trace (snd (ex_issue ex_pdf)))"
proof -
  obtain res where res: "fst (ex_issue ex_pdf) = Inr res" using ex_issue_pdf by blast
  then have issue: "run (IssueToken (GoRuntime ex_pdf) (sv_token (createServices ex_pdf ex_cfg))
      ''actor'' ''Ada'' ''doc'' ''en'') ex_server = (Inr res, snd (ex_issue ex_pdf))"
    by (simp add: ex_issue_def prod_eq_iff)
  have "locks (snd (ex_issue ex_pdf)) = []"
    unfolding ex_issue_def ex_pdf_def by (simp add: issue_eval ex_document_def ex_discovery_def Let_def)
  then have wf: "wf_locks (locks (snd (ex_issue ex_pdf)))" by (simp add: wf_locks_def)
  define r where "r = ex_request []\<lparr>rq_RawQuery := ''access_token='' @ QueryEscape (ti_AccessToken res)\<rparr>"
  have raw: "rq_RawQuery (q\<lparr>rq_RawQuery := x\<rparr>) = x" for q :: request and x by simp
  have tok: "presented r = ti_AccessToken res" unfolding r_def presented_def raw by (rule query_Get_escaped)
  have "wrote (trace (snd (run (app ex_pdf ex_cfg ex_out PutFileRoute r) (snd (ex_issue ex_pdf)))))
        \<subseteq> wrote (trace (snd (ex_issue ex_pdf)))"
    using pdf_token_cannot_write [OF issue _ _ _ wf tok, where rte = PutFileRoute and out = ex_out]
    by (simp add: ex_pdf_def wopi_route_def)
  with res tok show ?thesis by blast
qed

end
