(* ===== verification/ConfigLoad.thy ===== *)
theory ConfigLoad
  imports Config
begin

text \<open>
  What loading the configuration guarantees: the origin told to the editor is clean, every
  number is in the range the services rely on, and how durations are read.
\<close>

text \<open>What the host of a parsed URL cannot contain.\<close>

definition delimiter :: "char \<Rightarrow> bool" where
  "delimiter c = (c = CHR ''/'' \<or> c = CHR ''?'' \<or> c = CHR ''#'')"

lemma delimiter_shouldEscape: "delimiter c \<Longrightarrow> shouldEscape encodeHost c"
  unfolding delimiter_def
  by (elim disjE) (simp_all add: shouldEscape_def is_alnum_def is_alpha_def is_digit_def)

lemma low_delimiter: "delimiter (char_of (n :: nat)) \<Longrightarrow> n < 256 \<Longrightarrow> n < 128"
  by (auto simp: delimiter_def char_of_eq_iff take_bit_eq_mod)

lemma decoded_host_byte:
  assumes "mode \<in> {encodeHost, encodeZone}" and "h < 16" "l < 16"
    and "\<not> (mode = encodeHost \<and> h < 8 \<and> h * 16 + l \<noteq> 37)"
    and "\<not> (mode = encodeZone \<and> h * 16 + l \<noteq> 37 \<and> h * 16 + l \<noteq> 32
           \<and> shouldEscape encodeHost (char_of (h * 16 + l :: nat)))"
  shows "\<not> delimiter (char_of (h * 16 + l))"
proof
  assume d: "delimiter (char_of (h * 16 + l))"
  then have "h * 16 + l < 128" using assms(2,3) by (intro low_delimiter) auto
  then have "h < 8" by simp
  moreover have "h * 16 + l \<noteq> 37" "h * 16 + l \<noteq> 32" using d by (auto simp: delimiter_def char_of_eq_iff take_bit_eq_mod)
  ultimately show False using assms(1,4,5) delimiter_shouldEscape [OF d] by auto
qed

lemma unescape_host_delimiters:
  assumes "unescape mode s = Inr t" and "mode \<in> {encodeHost, encodeZone}" and "list_all (\<lambda>c. \<not> delimiter c) s"
  shows "list_all (\<lambda>c. \<not> delimiter c) t"
  using assms
proof (induction mode s arbitrary: t rule: unescape.induct)
  case (1 mode)
  then show ?case by simp
next
  case (2 mode c s)
  show ?case
  proof (cases "c = CHR ''%''")
    case False
    with 2 show ?thesis by (auto split: if_splits)
  next
    case True
    with "2.prems"(1) obtain h l rest t' where s: "s = h # l # rest" and t': "unescape mode rest = Inr t'"
      and t: "t = char_of (unhex h * 16 + unhex l) # t'" and hex: "ishex h" "ishex l"
      and host: "\<not> (mode = encodeHost \<and> unhex h < 8 \<and> [h, l] \<noteq> ''25'')"
      and zone: "\<not> (mode = encodeZone \<and> [h, l] \<noteq> ''25'' \<and> unhex h * 16 + unhex l \<noteq> 32
                  \<and> shouldEscape encodeHost (char_of (unhex h * 16 + unhex l)))"
      by (auto split: list.splits if_splits)
    have "unhex h < 16" "unhex l < 16" using hex by (auto simp: ishex_def unhex_def is_digit_def split: if_splits)
    moreover have "[h, l] = ''25'' \<Longrightarrow> unhex h * 16 + unhex l = 37" by (simp add: unhex_def is_digit_def)
    ultimately have "\<not> delimiter (char_of (unhex h * 16 + unhex l))"
      using host zone "2.prems"(2) by (intro decoded_host_byte [of mode]) blast+
    moreover have "list_all (\<lambda>c. \<not> delimiter c) t'"
      using "2.IH"(1) [OF True s refl] True s t' hex host zone "2.prems"(2,3) by auto
    ultimately show ?thesis by (simp add: t)
  qed
qed

abbreviation plain :: "string \<Rightarrow> bool" where "plain s \<equiv> list_all (\<lambda>c. \<not> delimiter c) s"

lemma plain_subset: "plain s \<Longrightarrow> set t \<subseteq> set s \<Longrightarrow> plain t"
  by (auto simp: list_all_iff)

lemma Cut_last_subset:
  assumes "Cut_last c s = Some (a, b)"
  shows "set a \<subseteq> set s \<and> set b \<subseteq> set s"
proof -
  obtain x bs where d: "dropWhile (\<lambda>x. x \<noteq> c) (rev s) = x # bs" and ab: "a = rev bs"
      "b = rev (takeWhile (\<lambda>x. x \<noteq> c) (rev s))"
    using assms by (auto simp: Cut_last_def split: list.splits)
  have "set (x # bs) \<subseteq> set (rev s)" unfolding d [symmetric] by (meson set_dropWhileD subsetI)
  then show ?thesis by (auto simp: ab dest: set_takeWhileD)
qed

lemma plain_parseHost:
  assumes "parseHost scheme host = Inr h" and "plain host"
  shows "plain h"
proof -
  have close: "\<not> delimiter (CHR '']'')" by (simp add: delimiter_def)
  show ?thesis
  proof (cases "HasPrefix host ''[''")
    case False
    then show ?thesis using assms unescape_host_delimiters [of encodeHost host h]
      by (auto simp: parseHost_def Let_def split: prod.splits if_splits)
  next
    case True
    then obtain before port where cut: "Cut_last (CHR '']'') host = Some (before, port)"
      using assms(1) by (auto simp: parseHost_def split: option.splits)
    then have sub: "plain before" "plain port" using assms(2) Cut_last_subset plain_subset by metis+
    have "plain (take z before)" "plain (drop z before)" for z
      using sub(1) by (auto simp: list_all_iff dest: in_set_takeD in_set_dropD)
    with True cut assms sub close show ?thesis
      using unescape_host_delimiters [of encodeHost] unescape_host_delimiters [of encodeZone]
      by (auto simp: parseHost_def bind_result_Inr split: option.splits if_splits)
  qed
qed

lemma plain_parseAuthority:
  assumes "parseAuthority scheme a = Inr h" and "plain a"
  shows "plain h"
proof (cases "Cut_last (CHR ''@'') a")
  case None
  with assms show ?thesis by (simp add: parseAuthority_def plain_parseHost)
next
  case (Some uh)
  obtain u host where uh: "uh = (u, host)" by (cases uh)
  with Some have "plain host" using assms(2) Cut_last_subset plain_subset by metis
  moreover have "parseHost scheme host = Inr h"
    using assms(1) Some uh
    by (auto simp: parseAuthority_def bind_result_Inr Let_def split: prod.splits if_splits)
  ultimately show ?thesis by (rule plain_parseHost [rotated])
qed

lemma getScheme_rest: "getScheme raw i acc s = Inr (sch, rest) \<Longrightarrow> set rest \<subseteq> set raw \<union> set s"
  by (induction raw i acc s rule: getScheme.induct) (auto split: if_splits)

lemma Cut_before: "c \<notin> set (fst (Cut c s)) \<and> set (fst (Cut c s)) \<subseteq> set s"
  by (auto simp: Cut_def split: list.splits dest: set_takeWhileD)

lemma plain_url_Host:
  assumes "url_Parse raw = Inr u"
  shows "plain (url_Host u)"
proof -
  define v where "v = fst (Cut (CHR ''#'') raw)"
  have v: "CHR ''#'' \<notin> set v" using Cut_before by (simp add: v_def)
  have "parse_no_fragment v = Inr u"
    using assms by (auto simp: url_Parse_def v_def split: prod.splits sum.splits)
  then consider "url_Host u = ''''" | scheme rest q sch rest0 where
      "getScheme v True [] v = Inr (sch, rest0)" "parse_rest scheme rest q = Inr u"
      "(rest, q) = (if HasSuffix rest0 ''?'' \<and> length (filter (\<lambda>c. c = CHR ''?'') rest0) = 1
                    then (TrimSuffix rest0 ''?'', '''')
                    else let (a, b, _) = Cut (CHR ''?'') rest0 in (a, b))"
    by (auto simp: parse_no_fragment_def bind_result_Inr Let_def split: prod.splits if_splits)
  then show ?thesis
  proof cases
    case 1
    then show ?thesis by simp
  next
    case 2
    have r0: "CHR ''#'' \<notin> set rest0" using getScheme_rest [OF 2(1)] v by auto
    have "CHR ''?'' \<notin> set rest \<and> set rest \<subseteq> set rest0"
    proof (cases "HasSuffix rest0 ''?'' \<and> length (filter (\<lambda>c. c = CHR ''?'') rest0) = 1")
      case True
      then obtain p where p: "rest0 = p @ ''?''"
        by (metis HasSuffix_def append_take_drop_id)
      with True 2(3) have "rest = p" by simp
      with True p show ?thesis by (auto simp: filter_empty_conv)
    next
      case False
      with 2(3) have "rest = fst (Cut (CHR ''?'') rest0)" by (auto simp: Let_def split: prod.splits if_splits)
      then show ?thesis using Cut_before by simp
    qed
    with r0 have "plain (takeWhile (\<lambda>c. c \<noteq> CHR ''/'') (drop 2 rest))"
      by (auto simp: list_all_iff delimiter_def dest!: set_takeWhileD dest: in_set_dropD)
    with 2(2) show ?thesis
      by (auto simp: parse_rest_def bind_result_Inr Let_def plain_parseAuthority split: if_splits)
  qed
qed

text \<open>Durations read from strings of digits.\<close>

lemma leadingInt_digits:
  assumes "list_all is_digit ds" and "rest = [] \<or> \<not> is_digit (hd rest)" and "0 \<le> x"
    and "foldl (\<lambda>n c. n * 10 + (int (byte_of c) - 48)) x ds \<le> 2 ^ 63 div 10"
  shows "leadingInt x (ds @ rest) = Some (foldl (\<lambda>n c. n * 10 + (int (byte_of c) - 48)) x ds, rest)"
  using assms
proof (induction ds arbitrary: x)
  case Nil
  then show ?case by (cases rest) auto
next
  case (Cons c ds)
  let ?v = "\<lambda>x ds. foldl (\<lambda>n c. n * 10 + (int (byte_of c) - 48)) x ds"
  let ?x = "x * 10 + (int (byte_of c) - 48)"
  have grow: "0 \<le> y \<Longrightarrow> list_all is_digit es \<Longrightarrow> y \<le> ?v y es" for y es
  proof (induction es arbitrary: y)
    case (Cons e es)
    then have "0 \<le> y * 10 + (int (byte_of e) - 48)" "y \<le> y * 10 + (int (byte_of e) - 48)"
      by (auto simp: is_digit_def)
    with Cons show ?case by fastforce
  qed simp
  have x: "0 \<le> ?x" "x \<le> ?x" using Cons.prems(1,3) by (auto simp: is_digit_def)
  moreover have "?x \<le> 2 ^ 63 div 10" using grow [of ?x ds] x Cons.prems by auto
  ultimately show ?case using Cons by (simp add: Let_def)
qed

lemma leadingInt_all_digits: "list_all is_digit ds \<Longrightarrow> leadingInt x ds = None \<or> (\<exists>v. leadingInt x ds = Some (v, []))"
  by (induction x ds rule: leadingInt.induct) (auto simp: Let_def)

lemma duration_part_digits: "list_all is_digit ds \<Longrightarrow> duration_part frac ds = None"
  using leadingInt_all_digits [of ds 0]
  by (auto simp: duration_part_def HasPrefix_def)

lemma ParseDuration_digits: "list_all is_digit ds \<Longrightarrow> ds \<noteq> ''0'' \<Longrightarrow>
    ParseDuration frac ds = Inl (OpaqueError ''time: invalid duration'')
    \<and> ParseDuration frac (''-'' @ ds) = Inl (OpaqueError ''time: invalid duration'')"
proof -
  assume ds: "list_all is_digit ds" "ds \<noteq> ''0''"
  then have "\<not> HasPrefix ds ''-''" "\<not> HasPrefix ds ''+''"
    by (cases ds; auto simp: HasPrefix_def is_digit_def)+
  moreover have "ds \<noteq> [] \<Longrightarrow> parse_parts frac 0 ds = None"
    using duration_part_digits [OF ds(1), of frac] by (subst parse_parts.simps) simp
  ultimately show ?thesis using ds by (auto simp: ParseDuration_def HasPrefix_def Let_def)
qed

lemma decimal_nat_zero: "decimal_nat 0 = ''0''"
  by (subst decimal_nat.simps) (simp add: ascii_digit_def char_of_eq_iff take_bit_eq_mod)

lemma decimal_nat_not_zero: "n \<noteq> 0 \<Longrightarrow> decimal_nat n \<noteq> ''0''"
  using digits_decimal_nat [of n] by (auto simp: digits_value_def)

lemma ParseDuration_seconds:
  assumes "0 \<le> n" and "n \<le> 9223372036"
  shows "ParseDuration frac (decimal n @ ''s'') = Inr (n * second)"
proof -
  let ?ds = "decimal_nat (nat n)"
  have ds: "list_all is_digit ?ds" "digits_value ?ds = n" "?ds \<noteq> []"
    using digits_decimal_nat [of "nat n"] assms(1) by simp_all
  then have first: "unit_stop (hd ?ds)" "hd ?ds \<noteq> CHR ''-''" "hd ?ds \<noteq> CHR ''+''"
    by (cases ?ds; auto simp: unit_stop_def is_digit_def)+
  have s: "\<not> is_digit (CHR ''s'')" "\<not> unit_stop (CHR ''s'')" by (simp_all add: unit_stop_def is_digit_def)
  have "leadingInt 0 (?ds @ ''s'') = Some (n, ''s'')"
    using leadingInt_digits [of ?ds "''s''" 0] ds s assms(2) by (simp add: digits_value_def)
  then have "duration_part frac (?ds @ ''s'') = Some (n * second, '''')"
    using ds(3) first s assms(2) by (simp add: duration_part_def HasPrefix_def unitMap_def second_def)
  then have "parse_parts frac 0 (?ds @ ''s'') = Some (n * second)"
    using assms by (subst parse_parts.simps) (simp add: parse_parts.simps second_def)
  moreover have "\<not> HasPrefix (?ds @ ''s'') ''-''" "\<not> HasPrefix (?ds @ ''s'') ''+''"
    using ds(3) first(2,3) by (cases ?ds; simp add: HasPrefix_def)+
  ultimately show ?thesis
    using assms ds(3) by (simp add: ParseDuration_def decimal_def second_def append_eq_Cons_conv)
qed

text \<open>
  C31: how a duration is read.  A number of seconds with the unit is read exactly, as far
  as a 64-bit duration reaches; a bare number, which \<^verbatim>\<open>time.ParseDuration\<close> refuses, is
  taken as seconds too, but multiplied without an overflow check, so that a large one
  wraps around.
\<close>

theorem duration_strings:
  assumes "- (2 ^ 63) \<le> n" and "n < 2 ^ 63"
  shows "parseDuration fl (decimal n) = Inr (wrap64 (n * second))
    \<and> (0 \<le> n \<and> n \<le> 9223372036 \<longrightarrow> parseDuration fl (decimal n @ ''s'') = Inr (n * second))"
proof -
  have "parseDuration fl (decimal n) = Inr (wrap64 (n * second))"
  proof (cases "n = 0")
    case True
    then show ?thesis
      by (simp add: parseDuration_def decimal_def decimal_nat_zero ParseDuration_def HasPrefix_def wrap64_def)
  next
    case False
    have "ParseDuration (fl_fraction fl) (decimal n) = Inl (OpaqueError ''time: invalid duration'')"
      using False ParseDuration_digits [of "decimal_nat (nat (- n))"] ParseDuration_digits [of "decimal_nat (nat n)"]
        digits_decimal_nat decimal_nat_not_zero
      by (auto simp: decimal_def)
    then show ?thesis using assms by (simp add: parseDuration_def Atoi_def ParseInt64_decimal)
  qed
  then show ?thesis by (auto simp: parseDuration_def ParseDuration_seconds)
qed

text \<open>Exact arithmetic instead of floating point, for the examples.\<close>

definition exact_float :: go_float where
  "exact_float = \<lparr>fl_fraction = (\<lambda>f unit scale. max 0 (f * unit div scale)), fl_seconds = (\<lambda>d. d div second)\<rparr>"

theorem duration_strings_witness:
  "parseDuration exact_float (decimal 18446744074) = Inr 290448384
   \<and> parseDuration exact_float (decimal 600 @ ''s'') = Inr (600 * second)"
  using duration_strings [of 18446744074 exact_float] duration_strings [of 600 exact_float]
  by (simp add: wrap64_def second_def)

text \<open>Every duration that is read fits 64 bits.\<close>

lemma leadingInt_nonneg: "0 \<le> x \<Longrightarrow> leadingInt x s = Some (v, s') \<Longrightarrow> 0 \<le> v"
  by (induction x s rule: leadingInt.induct) (auto simp: Let_def is_digit_def split: if_splits)

lemma unitMap_pos: "unitMap u = Some n \<Longrightarrow> 0 < n"
  by (auto simp: unitMap_def nanosecond_def time_units split: if_splits)

lemma duration_part_nonneg:
  assumes "duration_part frac s = Some (v, s')" and "\<And>f u k. 0 \<le> frac f u k"
  shows "0 \<le> v"
proof -
  obtain n s1 where s1: "leadingInt 0 s = Some (n, s1)"
    using assms(1) by (auto simp: duration_part_def split: if_splits option.splits)
  moreover have "0 \<le> n" using leadingInt_nonneg [OF _ s1] by simp
  moreover have "\<exists>k. 0 < k \<and> (v = n * k \<or> (\<exists>f u c. v = n * k + frac f u c))"
    using assms(1) s1
    by (auto simp: duration_part_def Let_def split_beta split: if_splits option.splits dest: unitMap_pos)
  ultimately show ?thesis using assms(2) by (auto intro!: add_nonneg_nonneg)
qed

lemma parse_parts_range:
  assumes "parse_parts frac d s = Some v" and "\<And>f u k. 0 \<le> frac f u k" and "0 \<le> d" "d \<le> 2 ^ 63"
  shows "0 \<le> v \<and> v \<le> 2 ^ 63"
  using assms
proof (induction frac d s rule: parse_parts.induct)
  case (1 frac d s)
  show ?case
  proof (cases "s = ''''")
    case True
    with 1 show ?thesis by (simp add: parse_parts.simps)
  next
    case False
    with "1.prems"(1) obtain p rest where part: "duration_part frac s = Some (p, rest)" and "d + p \<le> 2 ^ 63"
      and "parse_parts frac (d + p) rest = Some v"
      by (subst (asm) parse_parts.simps) (auto split: option.splits if_splits)
    moreover have "0 \<le> p" using part "1.prems"(2) by (rule duration_part_nonneg)
    ultimately show ?thesis using "1.IH" [OF False part refl] "1.prems" by auto
  qed
qed

lemma parseDuration_range:
  assumes "parseDuration fl s = Inr d" and "\<And>f u k. 0 \<le> fl_fraction fl f u k"
  shows "- (2 ^ 63) \<le> d \<and> d < 2 ^ 63"
  using assms wrap64_bounds
  by (auto simp: parseDuration_def ParseDuration_def Let_def split: sum.splits option.splits if_splits
      dest!: parse_parts_range)

lemma required_Inr: "required r a ok b = Inr v \<longleftrightarrow> r = Inr v \<and> ok v"
  by (auto simp: required_def split: sum.splits)

lemma parse_number_range:
  "parseUint32Strict s = Inr n \<Longrightarrow> n < 2 ^ 32"
  "parseIntStrict s = Inr i \<Longrightarrow> - (2 ^ 63) \<le> i \<and> i < 2 ^ 63"
  by (auto simp: parseUint32Strict_def ParseUint32_def parseIntStrict_def Atoi_def ParseInt64_def Let_def
      split: sum.splits option.splits if_splits)

text \<open>What the services rely on.\<close>

definition clean_origin :: "string \<Rightarrow> bool" where
  "clean_origin s =
     (\<exists>scheme host. s = scheme @ ''://'' @ host \<and> scheme \<noteq> '''' \<and> host \<noteq> '''' \<and> plain host)"

definition valid_config :: "config \<Rightarrow> bool" where
  "valid_config cfg =
     (0 < db_Timeout (cfg_Database cfg) \<and> db_Timeout (cfg_Database cfg) < 2 ^ 63
      \<and> 0 < BreakerFailures (cfg_AuthSvc cfg) \<and> BreakerFailures (cfg_AuthSvc cfg) < 2 ^ 32
      \<and> 0 < BreakerTimeoutSecs (cfg_AuthSvc cfg) \<and> BreakerTimeoutSecs (cfg_AuthSvc cfg) < 2 ^ 63
      \<and> 0 < BreakerHalfOpenMax (cfg_AuthSvc cfg) \<and> BreakerHalfOpenMax (cfg_AuthSvc cfg) < 2 ^ 32
      \<and> 0 < cfg_ContributionWindow cfg \<and> cfg_ContributionWindow cfg < 2 ^ 63
      \<and> 0 \<le> cfg_PreviewQueueCapacity cfg \<and> cfg_PreviewQueueCapacity cfg < 2 ^ 63
      \<and> 0 \<le> cfg_MaxLockLifetime cfg \<and> cfg_MaxLockLifetime cfg < 2 ^ 63
      \<and> cfg_TokenSecret cfg \<noteq> '''' \<and> cfg_BaseURL cfg \<noteq> '''' \<and> cfg_CallbackURL cfg \<noteq> ''''
      \<and> clean_origin (cfg_FrontendOrigin cfg))"

lemma originOf_clean: "originOf raw = Inr out \<Longrightarrow> clean_origin out"
  using plain_url_Host by (fastforce simp: originOf_def clean_origin_def split: sum.splits if_splits)

lemma loadBreakerConfig_range:
  "loadBreakerConfig os = Inr (f, t, h) \<Longrightarrow> 0 < f \<and> f < 2 ^ 32 \<and> 0 < t \<and> t < 2 ^ 63 \<and> 0 < h \<and> h < 2 ^ 32"
  by (auto simp: loadBreakerConfig_def bind_result_Inr required_Inr dest: parse_number_range)

lemma loadLockAndQueueSettings_range:
  assumes "loadLockAndQueueSettings fl os = Inr (d, n)" and "\<And>f u k. 0 \<le> fl_fraction fl f u k"
  shows "0 \<le> d \<and> d < 2 ^ 63 \<and> 0 \<le> n \<and> n < 2 ^ 63"
  using assms(1) parseDuration_range [OF _ assms(2)] parse_number_range(2)
  unfolding loadLockAndQueueSettings_def bind_result_Inr required_Inr by auto

lemma getEnv_nonempty: "fallback \<noteq> '''' \<Longrightarrow> getEnv os key fallback \<noteq> ''''"
  by (simp add: getEnv_def)

lemma Load_parts:
  assumes "Load fl os = Inr cfg"
  shows "required (parseDuration fl (getEnv os ''WOPI_DATABASE_TIMEOUT'' ''5s''))
      ''invalid WOPI_DATABASE_TIMEOUT: %w'' (\<lambda>d. \<not> d \<le> 0) ''WOPI_DATABASE_TIMEOUT must be positive''
        = Inr (db_Timeout (cfg_Database cfg))
    \<and> loadBreakerConfig os = Inr (BreakerFailures (cfg_AuthSvc cfg), BreakerTimeoutSecs (cfg_AuthSvc cfg),
        BreakerHalfOpenMax (cfg_AuthSvc cfg))
    \<and> loadLockAndQueueSettings fl os = Inr (cfg_MaxLockLifetime cfg, cfg_PreviewQueueCapacity cfg)
    \<and> required (parseDuration fl (getEnv os ''CONTRIBUTION_WINDOW'' ''600s''))
      ''invalid CONTRIBUTION_WINDOW: %w'' (\<lambda>d. \<not> d \<le> 0) ''CONTRIBUTION_WINDOW must be positive''
        = Inr (cfg_ContributionWindow cfg)
    \<and> cfg_TokenSecret cfg \<noteq> '''' \<and> cfg_BaseURL cfg \<noteq> '''' \<and> cfg_CallbackURL cfg \<noteq> ''''
    \<and> clean_origin (cfg_FrontendOrigin cfg)"
proof -
  have origin: "load_origin a b = Inr out \<Longrightarrow> clean_origin out" for a b out
    by (auto simp: load_origin_def split: sum.splits if_splits dest: originOf_clean)
  show ?thesis
    using assms getEnv_nonempty [of "''http://localhost:8080''" os "''WOPI_BASE_URL''"] origin
    by (auto simp: Load_def bind_result_Inr Let_def split: prod.splits if_splits)
qed

text \<open>
  C30: a configuration that loads is valid.  The database timeout, the contribution window
  and the breaker's settings are positive, the lock lifetime and the queue capacity are
  not negative, each within its machine type; the token secret is set; the base and
  callback URLs are not empty; and the origin told to the editor is a scheme and a host
  with no path, query or fragment.  The floating-point product in
  \<^verbatim>\<open>time.ParseDuration\<close>, converted to an unsigned integer, is assumed not to be negative.
\<close>

theorem loaded_config_is_valid:
  assumes "Load fl os = Inr cfg" and "\<And>f u k. 0 \<le> fl_fraction fl f u k"
  shows "valid_config cfg"
  using Load_parts [OF assms(1)] loadBreakerConfig_range loadLockAndQueueSettings_range [OF _ assms(2)]
    parseDuration_range [OF _ assms(2)]
  unfolding valid_config_def required_Inr by (metis not_le)

text \<open>The defaults load once the secret is set.\<close>

definition ex_environ :: environ where
  "ex_environ key = (if key = ''WOPI_TOKEN_SECRET'' then ''s'' else '''')"

lemmas parse_eval = parseDuration_def ParseDuration_def HasPrefix_def parse_parts.simps duration_part_def
  unit_stop_def is_digit_def unitMap_def time_units parseUint32Strict_def ParseUint32_def digits_value_def
  parseIntStrict_def Atoi_def ParseInt64_def required_def

lemma ex_origin: "originOf ''http://localhost:8080'' = Inr ''http://localhost:8080''"
  by (simp add: originOf_def url_Parse_def parse_no_fragment_def parse_rest_def Cut_def HasPrefix_def HasSuffix_def
      TrimSuffix_def is_alpha_def is_digit_def containsCTL_def parseAuthority_def Cut_last_def parseHost_def
      shouldEscape_def is_alnum_def validOptionalPort_def to_lower_def)

lemma ex_load: "\<exists>cfg. Load exact_float ex_environ = Inr cfg"
proof -
  have "parseDuration exact_float ''5s'' = Inr (5 * second)" "parseDuration exact_float ''4h'' = Inr (4 * hour)"
    "parseDuration exact_float ''600s'' = Inr (600 * second)"
    "parseUint32Strict ''3'' = Inr 3" "parseUint32Strict ''2'' = Inr 2"
    "parseIntStrict ''15'' = Inr 15" "parseIntStrict ''8'' = Inr 8"
    by (simp_all add: parse_eval)
  then show ?thesis
    by (simp add: Load_def loadBreakerConfig_def loadLockAndQueueSettings_def load_origin_def ex_origin
        load_proof_validation_def required_def getEnv_def ex_environ_def time_units Let_def)
qed

theorem loaded_config_is_valid_witness:
  "\<exists>cfg. Load exact_float ex_environ = Inr cfg \<and> valid_config cfg"
proof -
  obtain cfg where cfg: "Load exact_float ex_environ = Inr cfg" using ex_load by blast
  have "valid_config cfg"
    using cfg by (rule loaded_config_is_valid) (simp add: exact_float_def)
  with cfg show ?thesis by blast
qed

end
