(* ===== verification/HttpClients.thy ===== *)
theory HttpClients
  imports Ports GoJSONStruct
begin

text \<open>
  The HTTP clients of \<^verbatim>\<open>internal/adapter/outbound\<close>: file-service, Collabora's discovery and
  thumbnails.  Every operation makes at most one exchange, so it is a function of the
  \<^verbatim>\<open>http.Client\<close>'s answer: \<open>exchange\<close> maps a request to a response or a transport error.
  A body is a stream, the bytes that arrive and how the stream ends.  JSON bodies are
  decoded into the structs of the source; of the XML package the tokenizer is an argument,
  which answers the root element, and the random boundary of a multipart body is another.
\<close>

record http_request =
  hq_Method :: string
  hq_URL :: string
  hq_ContentType :: string
  hq_Body :: stream

record http_response =
  hp_StatusCode :: int
  hp_ContentType :: string
  hp_Body :: stream

type_synonym exchange = "http_request \<Rightarrow> error + http_response"

text \<open>\<^verbatim>\<open>http.NewRequestWithContext\<close> with a fixed method fails only when the URL does not parse.\<close>

definition NewRequest :: "string \<Rightarrow> string \<Rightarrow> stream \<Rightarrow> error + http_request" where
  "NewRequest meth url body =
     (case url_Parse url of
        Inl err \<Rightarrow> Inl err
      | Inr _ \<Rightarrow> Inr \<lparr>hq_Method = meth, hq_URL = url, hq_ContentType = '''', hq_Body = body\<rparr>)"

abbreviation no_body :: stream where
  "no_body \<equiv> ([], None)"

text \<open>\<^verbatim>\<open>io.ReadAll\<close> and \<^verbatim>\<open>io.LimitReader\<close>.\<close>

definition ReadAll :: "stream \<Rightarrow> error + bytes" where
  "ReadAll st = (case snd st of None \<Rightarrow> Inr (fst st) | Some err \<Rightarrow> Inl err)"

definition LimitReader :: "nat \<Rightarrow> stream \<Rightarrow> stream" where
  "LimitReader n st = (take n (fst st), if n \<le> length (fst st) then None else snd st)"

text \<open>\<^verbatim>\<open>fileservice/file_client.go\<close>.\<close>

record file_client =
  fc_baseURL :: string

definition NewFileClient :: "string \<Rightarrow> file_client" where
  "NewFileClient baseURL = \<lparr>fc_baseURL = TrimSuffix baseURL ''/''\<rparr>"

record meta_response =
  mr_ID :: string
  mr_ExternalID :: string
  mr_MimeType :: string
  mr_Size :: int
  mr_DisplayName :: string
  mr_CreatedBy :: "string option"
  mr_AuthorizationID :: string
  mr_UpdatedDate :: time
  mr_StorageBucketID :: string

definition metaResponse_zero :: meta_response where
  "metaResponse_zero = \<lparr>mr_ID = '''', mr_ExternalID = '''', mr_MimeType = '''', mr_Size = 0, mr_DisplayName = '''',
     mr_CreatedBy = None, mr_AuthorizationID = '''', mr_UpdatedDate = zero_time, mr_StorageBucketID = ''''\<rparr>"

definition metaResponse_fields :: "(string \<times> meta_response json_store) list" where
  "metaResponse_fields =
     [json_field ''id'' store_string mr_ID mr_ID_update,
      json_field ''externalID'' store_string mr_ExternalID mr_ExternalID_update,
      json_field ''mimeType'' store_string mr_MimeType mr_MimeType_update,
      json_field ''size'' store_int64 mr_Size mr_Size_update,
      json_field ''displayName'' store_string mr_DisplayName mr_DisplayName_update,
      json_field ''createdBy'' store_string_ptr mr_CreatedBy mr_CreatedBy_update,
      json_field ''authorizationId'' store_string mr_AuthorizationID mr_AuthorizationID_update,
      json_field ''updatedDate'' store_time mr_UpdatedDate mr_UpdatedDate_update,
      json_field ''storageBucketId'' store_string mr_StorageBucketID mr_StorageBucketID_update]"

definition decode_meta :: "stream \<Rightarrow> error + meta_response" where
  "decode_meta = json_Decode (store_struct metaResponse_fields) metaResponse_zero"

text \<open>\<^verbatim>\<open>port.FileWriteResult\<close> and the anonymous struct with the new file's identifier.\<close>

definition FileWriteResult_fields :: "(string \<times> file_write_result json_store) list" where
  "FileWriteResult_fields =
     [json_field ''externalID'' store_string fw_ExternalID fw_ExternalID_update,
      json_field ''mimeType'' store_string fw_MimeType fw_MimeType_update,
      json_field ''size'' store_int64 fw_Size fw_Size_update]"

definition decode_write :: "stream \<Rightarrow> error + file_write_result" where
  "decode_write = json_Decode (store_struct FileWriteResult_fields) \<lparr>fw_ExternalID = '''', fw_MimeType = '''', fw_Size = 0\<rparr>"

definition decode_created :: "stream \<Rightarrow> error + string" where
  "decode_created = json_Decode (store_struct [(''id'', store_string)]) ''''"

definition document_of_meta :: "meta_response \<Rightarrow> document" where
  "document_of_meta m =
     \<lparr>doc_ID = mr_ID m, doc_ExternalID = mr_ExternalID m, doc_DisplayName = mr_DisplayName m,
      doc_MimeType = mr_MimeType m, doc_Size = mr_Size m, doc_AuthorizationPolicyID = mr_AuthorizationID m,
      doc_StorageBucketID = mr_StorageBucketID m,
      doc_CreatedBy = (case mr_CreatedBy m of Some c \<Rightarrow> c | None \<Rightarrow> ''''), doc_UpdatedAt = mr_UpdatedDate m\<rparr>"

definition FileClient_FindByID ::
  "exchange \<Rightarrow> file_client \<Rightarrow> string \<Rightarrow> error + document option" where
  "FileClient_FindByID exchange c documentID =
     (case NewRequest ''GET'' (fc_baseURL c @ ''/internal/file/'' @ documentID @ ''/meta'') no_body of
        Inl err \<Rightarrow> Inl (Errorf ''create meta request: %w'' [err])
      | Inr req \<Rightarrow>
          (case exchange req of
             Inl err \<Rightarrow> Inl (Errorf ''file-service meta: %w'' [err])
           | Inr resp \<Rightarrow>
               if hp_StatusCode resp = 404 then Inr None
               else if hp_StatusCode resp \<noteq> 200 then Inl (Errorf ''file-service meta status %d'' [])
               else (case decode_meta (hp_Body resp) of
                  Inl err \<Rightarrow> Inl (Errorf ''decode meta response: %w'' [err])
                | Inr meta \<Rightarrow> Inr (Some (document_of_meta meta)))))"

definition FileClient_ReadFile :: "exchange \<Rightarrow> file_client \<Rightarrow> string \<Rightarrow> error + stream" where
  "FileClient_ReadFile exchange c documentID =
     (case NewRequest ''GET'' (fc_baseURL c @ ''/internal/file/'' @ documentID @ ''/content'') no_body of
        Inl err \<Rightarrow> Inl (Errorf ''create read request: %w'' [err])
      | Inr req \<Rightarrow>
          (case exchange req of
             Inl err \<Rightarrow> Inl (Errorf ''file-service read: %w'' [err])
           | Inr resp \<Rightarrow>
               if hp_StatusCode resp = 404 then Inl (Errorf ''%w: %s'' [Sentinel FsErrNotExist])
               else if hp_StatusCode resp \<noteq> 200 then Inl (Errorf ''file-service read status %d'' [])
               else Inr (hp_Body resp)))"

definition FileClient_WriteFile ::
  "exchange \<Rightarrow> file_client \<Rightarrow> string \<Rightarrow> stream \<Rightarrow> error + file_write_result" where
  "FileClient_WriteFile exchange c documentID content =
     (case NewRequest ''PUT'' (fc_baseURL c @ ''/internal/file/'' @ documentID @ ''/content'') content of
        Inl err \<Rightarrow> Inl (Errorf ''create write request: %w'' [err])
      | Inr req \<Rightarrow>
          (case exchange (req\<lparr>hq_ContentType := ''application/octet-stream''\<rparr>) of
             Inl err \<Rightarrow> Inl (Errorf ''file-service write: %w'' [err])
           | Inr resp \<Rightarrow>
               if hp_StatusCode resp = 404 then Inl (Errorf ''document not found: %s'' [])
               else if hp_StatusCode resp \<noteq> 200 then Inl (Errorf ''file-service write status %d'' [])
               else (case decode_write (hp_Body resp) of
                  Inl err \<Rightarrow> Inl (Errorf ''decode write response: %w'' [err])
                | Inr result \<Rightarrow> Inr result)))"

text \<open>
  A multipart form: its fields and the file part, and the body the writer of
  \<^verbatim>\<open>mime/multipart\<close> makes of it.  The boundary is random, sixty hexadecimal digits.
\<close>

record form =
  fm_fields :: "(string \<times> string) list"
  fm_part :: string
  fm_filename :: string
  fm_content :: stream

definition crlf :: string where
  "crlf = [CHR 0x0D, CHR 0x0A]"

definition escapeQuotes :: "string \<Rightarrow> string" where
  "escapeQuotes s = concat (map (\<lambda>c. if c \<in> {CHR 0x5C, CHR 0x22} then [CHR 0x5C, c] else [c]) s)"

definition form_field :: "string \<Rightarrow> string \<times> string \<Rightarrow> string" where
  "form_field boundary nv =
     ''--'' @ boundary @ crlf @ ''Content-Disposition: form-data; name='' @ quoted (escapeQuotes (fst nv)) @ crlf @ crlf
     @ snd nv @ crlf"

definition form_file :: "string \<Rightarrow> string \<Rightarrow> string \<Rightarrow> string" where
  "form_file boundary part filename =
     ''--'' @ boundary @ crlf @ ''Content-Disposition: form-data; name='' @ quoted (escapeQuotes part)
     @ ''; filename='' @ quoted (escapeQuotes filename) @ crlf @ ''Content-Type: application/octet-stream'' @ crlf @ crlf"

text \<open>The pipe: when the content cannot be read to its end the body ends with that error, unclosed.\<close>

definition multipart_body :: "string \<Rightarrow> form \<Rightarrow> stream" where
  "multipart_body boundary f =
     (let start = bytes_of_string (concat (map (form_field boundary) (fm_fields f))
                    @ form_file boundary (fm_part f) (fm_filename f));
          close = (case snd (fm_content f) of
                     None \<Rightarrow> bytes_of_string (crlf @ ''--'' @ boundary @ ''--'' @ crlf)
                   | Some err \<Rightarrow> [])
      in (start @ fst (fm_content f) @ close, snd (fm_content f)))"

definition FormDataContentType :: "string \<Rightarrow> string" where
  "FormDataContentType boundary = ''multipart/form-data; boundary='' @ boundary"

definition preview_form :: "string \<Rightarrow> stream \<Rightarrow> form" where
  "preview_form storageBucketID content =
     \<lparr>fm_fields = [(''storageBucketId'', storageBucketID), (''skipDedup'', ''true''),
                   (''displayName'', ''collabora-preview.png'')],
      fm_part = ''file'', fm_filename = ''collabora-preview.png'', fm_content = content\<rparr>"

definition FileClient_CreatePreviewFile ::
  "string \<Rightarrow> exchange \<Rightarrow> file_client \<Rightarrow> string \<Rightarrow> stream \<Rightarrow> error + string" where
  "FileClient_CreatePreviewFile boundary exchange c storageBucketID content =
     (case NewRequest ''POST'' (fc_baseURL c @ ''/internal/file'') (multipart_body boundary (preview_form storageBucketID content)) of
        Inl err \<Rightarrow> Inl (Errorf ''create preview-file request: %w'' [err])
      | Inr req \<Rightarrow>
          (case exchange (req\<lparr>hq_ContentType := FormDataContentType boundary\<rparr>) of
             Inl err \<Rightarrow> Inl (Errorf ''file-service create preview: %w'' [err])
           | Inr resp \<Rightarrow>
               if hp_StatusCode resp \<noteq> 201 then Inl (Errorf ''file-service create preview status %d'' [])
               else (case decode_created (hp_Body resp) of
                  Inl err \<Rightarrow> Inl (Errorf ''decode create preview response: %w'' [err])
                | Inr fileID \<Rightarrow>
                    if fileID = '''' then Inl (Errorf ''file-service create preview returned no file id'' [])
                    else Inr fileID)))"

definition FileClient_DeletePreviewFile :: "exchange \<Rightarrow> file_client \<Rightarrow> string \<Rightarrow> error option" where
  "FileClient_DeletePreviewFile exchange c fileID =
     (case NewRequest ''DELETE'' (fc_baseURL c @ ''/internal/file/'' @ fileID) no_body of
        Inl err \<Rightarrow> Some (Errorf ''create delete-preview request: %w'' [err])
      | Inr req \<Rightarrow>
          (case exchange req of
             Inl err \<Rightarrow> Some (Errorf ''file-service delete preview: %w'' [err])
           | Inr resp \<Rightarrow>
               if hp_StatusCode resp \<noteq> 200 \<and> hp_StatusCode resp \<noteq> 404
               then Some (Errorf ''file-service delete preview status %d'' []) else None))"

text \<open>\<^verbatim>\<open>collabora/discovery_client.go\<close>.\<close>

definition maxDiscoveryBytes :: nat where
  "maxDiscoveryBytes = 2 ^ 20"

record collabora_client =
  cc_collaboraURL :: string

definition NewDiscoveryClient :: "string \<Rightarrow> collabora_client" where
  "NewDiscoveryClient url = \<lparr>cc_collaboraURL = TrimSuffix url ''/''\<rparr>"

record xml_action =
  xa_Name :: string
  xa_Ext :: string
  xa_URLSrc :: string
  xa_Requires :: string

record xml_app =
  xp_Name :: string
  xp_FavIconURL :: string
  xp_Actions :: "xml_action list"

record net_zone =
  nz_Name :: string
  nz_Apps :: "xml_app list"

record wopi_discovery =
  wd_NetZones :: "net_zone list"
  wd_ProofKey :: proof_key

text \<open>
  \<^verbatim>\<open>xml.Unmarshal\<close> into these structs: the root must be \<^verbatim>\<open>wopi-discovery\<close>, child elements are
  found by their local name, an attribute that comes again overwrites.
\<close>

datatype xml_element = Element (xe_Name: string) (xe_Attrs: "(string \<times> string) list") (xe_Children: "xml_element list")

definition xml_attr :: "xml_element \<Rightarrow> string \<Rightarrow> string \<Rightarrow> string" where
  "xml_attr e name old = fold (\<lambda>(n, v) acc. if n = name then v else acc) (xe_Attrs e) old"

definition xml_children :: "string \<Rightarrow> xml_element \<Rightarrow> xml_element list" where
  "xml_children name e = filter (\<lambda>c. xe_Name c = name) (xe_Children e)"

definition action_of_xml :: "xml_element \<Rightarrow> xml_action" where
  "action_of_xml e =
     \<lparr>xa_Name = xml_attr e ''name'' '''', xa_Ext = xml_attr e ''ext'' '''', xa_URLSrc = xml_attr e ''urlsrc'' '''',
      xa_Requires = xml_attr e ''requires'' ''''\<rparr>"

definition app_of_xml :: "xml_element \<Rightarrow> xml_app" where
  "app_of_xml e =
     \<lparr>xp_Name = xml_attr e ''name'' '''', xp_FavIconURL = xml_attr e ''favIconUrl'' '''',
      xp_Actions = map action_of_xml (xml_children ''action'' e)\<rparr>"

definition netZone_of_xml :: "xml_element \<Rightarrow> net_zone" where
  "netZone_of_xml e = \<lparr>nz_Name = xml_attr e ''name'' '''', nz_Apps = map app_of_xml (xml_children ''app'' e)\<rparr>"

definition proofKey_of_xml :: "xml_element \<Rightarrow> proof_key \<Rightarrow> proof_key" where
  "proofKey_of_xml e k =
     \<lparr>Modulus = xml_attr e ''modulus'' (Modulus k), Exponent = xml_attr e ''exponent'' (Exponent k),
      OldModulus = xml_attr e ''oldmodulus'' (OldModulus k), OldExponent = xml_attr e ''oldexponent'' (OldExponent k)\<rparr>"

definition wopiDiscovery_of_xml :: "xml_element \<Rightarrow> error + wopi_discovery" where
  "wopiDiscovery_of_xml e =
     (if xe_Name e \<noteq> ''wopi-discovery'' then Inl (OpaqueError ''expected element type <wopi-discovery>'')
      else Inr \<lparr>wd_NetZones = map netZone_of_xml (xml_children ''net-zone'' e),
                wd_ProofKey = fold proofKey_of_xml (xml_children ''proof-key'' e)
                  \<lparr>Modulus = '''', Exponent = '''', OldModulus = '''', OldExponent = ''''\<rparr>\<rparr>)"

definition xml_Unmarshal :: "(bytes \<Rightarrow> error + xml_element) \<Rightarrow> bytes \<Rightarrow> error + wopi_discovery" where
  "xml_Unmarshal tokens data = bind_result (tokens data) wopiDiscovery_of_xml"

definition flatten_actions :: "net_zone list \<Rightarrow> discovery_action list" where
  "flatten_actions zones =
     fold (\<lambda>zone acc.
       fold (\<lambda>a acc.
         fold (\<lambda>act acc. acc @ [\<lparr>act_App = xp_Name a, act_Name = xa_Name act, act_Ext = xa_Ext act,
                                 act_URLSrc = xa_URLSrc act\<rparr>]) (xp_Actions a) acc)
         (nz_Apps zone) acc)
       zones []"

definition client_FetchDiscovery ::
  "(bytes \<Rightarrow> error + xml_element) \<Rightarrow> exchange \<Rightarrow> collabora_client \<Rightarrow> error + discovery_data" where
  "client_FetchDiscovery tokens exchange c =
     (case NewRequest ''GET'' (cc_collaboraURL c @ ''/hosting/discovery'') no_body of
        Inl err \<Rightarrow> Inl (Errorf ''create discovery request: %w'' [err])
      | Inr req \<Rightarrow>
          (case exchange req of
             Inl err \<Rightarrow> Inl (Errorf ''fetch discovery: %w'' [err])
           | Inr resp \<Rightarrow>
               if hp_StatusCode resp \<noteq> 200 then Inl (Errorf ''discovery status %d'' [])
               else (case ReadAll (LimitReader maxDiscoveryBytes (hp_Body resp)) of
                  Inl err \<Rightarrow> Inl (Errorf ''read discovery body: %w'' [err])
                | Inr body \<Rightarrow>
                    (case xml_Unmarshal tokens body of
                       Inl err \<Rightarrow> Inl (Errorf ''parse discovery XML: %w'' [err])
                     | Inr d \<Rightarrow> Inr \<lparr>Actions = flatten_actions (wd_NetZones d), ProofKey = wd_ProofKey d\<rparr>))))"

text \<open>\<^verbatim>\<open>collabora/thumbnail_client.go\<close>.\<close>

definition NewThumbnailClient :: "string \<Rightarrow> collabora_client" where
  "NewThumbnailClient url = \<lparr>cc_collaboraURL = TrimSuffix url ''/''\<rparr>"

definition thumbnail_form :: "string \<Rightarrow> stream \<Rightarrow> form" where
  "thumbnail_form extension content =
     \<lparr>fm_fields = [], fm_part = ''data'', fm_filename = ''source.'' @ extension, fm_content = content\<rparr>"

definition client_Render ::
  "string \<Rightarrow> exchange \<Rightarrow> collabora_client \<Rightarrow> string \<Rightarrow> stream \<Rightarrow> error + stream" where
  "client_Render boundary exchange c extension content =
     (case NewRequest ''POST'' (cc_collaboraURL c @ ''/cool/get-thumbnail'')
             (multipart_body boundary (thumbnail_form extension content)) of
        Inl err \<Rightarrow> Inl (Errorf ''create thumbnail request: %w'' [err])
      | Inr req \<Rightarrow>
          (case exchange (req\<lparr>hq_ContentType := FormDataContentType boundary\<rparr>) of
             Inl err \<Rightarrow> Inl (Errorf ''thumbnail request: %w'' [err])
           | Inr resp \<Rightarrow>
               if hp_StatusCode resp \<noteq> 200 \<or> \<not> HasPrefix (hp_ContentType resp) ''image/png''
               then Inl (Errorf ''%w: status %d body %q'' [Sentinel ErrInvalidThumbnail])
               else Inr (hp_Body resp)))"

lemma json_fields_sel [simp]: "fst (json_field name st get upd) = name"
  by (simp add: json_field_def)

lemma decode_foreign:
  assumes "\<And>x. snd body = Some x \<Longrightarrow> foreign_error x"
  shows "decode_meta body = Inl e \<Longrightarrow> foreign_error e" "decode_write body = Inl e \<Longrightarrow> foreign_error e"
    "decode_created body = Inl e \<Longrightarrow> foreign_error e"
proof -
  have st: "foreign_store (store_struct metaResponse_fields)" "foreign_store (store_struct FileWriteResult_fields)"
    "foreign_store (store_struct [(''id'', store_string)])"
    by (simp_all add: metaResponse_fields_def FileWriteResult_fields_def)
  show "decode_meta body = Inl e \<Longrightarrow> foreign_error e" "decode_write body = Inl e \<Longrightarrow> foreign_error e"
    "decode_created body = Inl e \<Longrightarrow> foreign_error e"
    using json_Decode_foreign [OF _ st(1) assms] json_Decode_foreign [OF _ st(2) assms] json_Decode_foreign [OF _ st(3) assms]
    unfolding decode_meta_def decode_write_def decode_created_def by blast+
qed

lemma xml_Unmarshal_foreign:
  "xml_Unmarshal tokens data = Inl e \<Longrightarrow> (\<And>x. tokens data = Inl x \<Longrightarrow> foreign_error x) \<Longrightarrow> foreign_error e"
  by (auto simp: xml_Unmarshal_def wopiDiscovery_of_xml_def bind_result_Inl split: if_splits)

text \<open>Every error the clients make up or pass on is foreign to the domain package.\<close>

lemma unescape_foreign: "unescape mode s = Inl e \<Longrightarrow> foreign_error e"
  by (induction mode s rule: unescape.induct)
     (auto simp: escape_error_def host_error_def split: if_splits list.splits)

lemma getScheme_foreign: "getScheme raw i acc s = Inl e \<Longrightarrow> foreign_error e"
  by (induction raw i acc s rule: getScheme.induct) (auto split: if_splits)

lemma parseHost_foreign: "parseHost scheme host = Inl e \<Longrightarrow> foreign_error e"
  by (auto simp: parseHost_def host_error_def bind_result_Inl Let_def split: option.splits prod.splits if_splits
      dest: unescape_foreign)

lemma parseAuthority_foreign: "parseAuthority scheme a = Inl e \<Longrightarrow> foreign_error e"
  by (auto simp: parseAuthority_def bind_result_Inl Let_def split: option.splits prod.splits if_splits
      dest: unescape_foreign parseHost_foreign)

lemma parse_no_fragment_foreign: "parse_no_fragment raw = Inl e \<Longrightarrow> foreign_error e"
  by (auto simp: parse_no_fragment_def parse_rest_def bind_result_Inl Let_def split: prod.splits if_splits
      dest: unescape_foreign getScheme_foreign parseAuthority_foreign)

lemma url_Parse_foreign: "url_Parse raw = Inl e \<Longrightarrow> foreign_error e"
  by (auto simp: url_Parse_def split: prod.splits sum.splits
      dest: unescape_foreign parse_no_fragment_foreign)

lemma NewRequest_foreign: "NewRequest m u b = Inl e \<Longrightarrow> foreign_error e"
  by (auto simp: NewRequest_def split: sum.splits dest: url_Parse_foreign)

lemma flatten_actions_eq:
  "flatten_actions zones =
     [\<lparr>act_App = xp_Name a, act_Name = xa_Name act, act_Ext = xa_Ext act, act_URLSrc = xa_URLSrc act\<rparr>.
       zone \<leftarrow> zones, a \<leftarrow> nz_Apps zone, act \<leftarrow> xp_Actions a]"
proof -
  have snoc: "fold (\<lambda>x acc. acc @ [f x]) xs acc = acc @ map f xs" for f :: "'a \<Rightarrow> 'b" and xs acc
    by (induction xs arbitrary: acc) auto
  have app: "fold (\<lambda>x acc. acc @ g x) xs acc = acc @ concat (map g xs)" for g :: "'a \<Rightarrow> 'b list" and xs acc
    by (induction xs arbitrary: acc) auto
  show ?thesis by (simp add: flatten_actions_def snoc app)
qed

end
