(* ===== verification/AuthClients.thy ===== *)
theory AuthClients
  imports HttpClients
begin

text \<open>
  The two transports of the authorization service and the circuit breaker around them.
  The HTTP client retries, so it is a function of one answer per attempt and of what the
  request's context says in between; the breaker of \<^verbatim>\<open>sony/gobreaker\<close> is an argument
  with its documented behaviour as a hypothesis of the theorems.
\<close>

text \<open>\<^verbatim>\<open>authhttp/auth_service.go\<close>.\<close>

definition maxRetries :: nat where
  "maxRetries = 3"

definition retryBaseWait :: duration where
  "retryBaseWait = 50 * 1000000"

record auth_http =
  ah_baseURL :: string

definition NewAuthService :: "string \<Rightarrow> auth_http" where
  "NewAuthService baseURL = \<lparr>ah_baseURL = TrimSuffix baseURL ''/''\<rparr>"

record evaluate_request =
  ev_ActorID :: string
  ev_Privilege :: string
  ev_AuthorizationPolicyID :: string

text \<open>The struct that is sent, and \<^verbatim>\<open>evaluateResponse\<close>, the struct that is read.\<close>

definition evaluate_json :: "evaluate_request \<Rightarrow> json" where
  "evaluate_json r =
     JObj [(''actorId'', json_string (ev_ActorID r)), (''privilege'', json_string (ev_Privilege r)),
           (''authorizationPolicyId'', json_string (ev_AuthorizationPolicyID r))]"

definition evaluateResponse_fields :: "(string \<times> auth_result json_store) list" where
  "evaluateResponse_fields =
     [json_field ''allowed'' store_bool Allowed Allowed_update, json_field ''reason'' store_string Reason Reason_update]"

abbreviation evaluateResponse_zero :: auth_result where
  "evaluateResponse_zero \<equiv> \<lparr>Allowed = False, Reason = ''''\<rparr>"

definition decode_evaluate :: "stream \<Rightarrow> error + auth_result" where
  "decode_evaluate = json_Decode (store_struct evaluateResponse_fields) evaluateResponse_zero"

definition unmarshal_evaluate :: "bytes \<Rightarrow> error + auth_result" where
  "unmarshal_evaluate = json_Unmarshal (store_struct evaluateResponse_fields) evaluateResponse_zero"

definition doRequest :: "exchange \<Rightarrow> auth_http \<Rightarrow> bytes \<Rightarrow> error + auth_result" where
  "doRequest exchange s payload =
     (case NewRequest ''POST'' (ah_baseURL s @ ''/internal/auth/evaluate'') (payload, None) of
        Inl err \<Rightarrow> Inl (Errorf ''create auth request: %w'' [err])
      | Inr req \<Rightarrow>
          (case exchange (req\<lparr>hq_ContentType := ''application/json''\<rparr>) of
             Inl err \<Rightarrow> Inl err
           | Inr resp \<Rightarrow>
               if hp_StatusCode resp = 503 then Inl (Errorf ''auth service unavailable (503)'' [])
               else if hp_StatusCode resp \<noteq> 200 \<and> hp_StatusCode resp \<noteq> 400
               then Inl (Errorf ''auth service returned unexpected status %d'' [])
               else (case decode_evaluate (hp_Body resp) of
                  Inl err \<Rightarrow> Inl (Errorf ''decode auth response: %w'' [err])
                | Inr result \<Rightarrow> Inr result)))"

text \<open>
  What the context says: done right after an attempt, or before the wait that follows it
  is over.  The loop over the attempts answers the result and the waits that were begun.
\<close>

record request_context =
  ctx_Err :: "nat \<Rightarrow> bool"
  ctx_Done :: "nat \<Rightarrow> bool"

definition retry_wait :: "nat \<Rightarrow> duration" where
  "retry_wait attempt = retryBaseWait * 2 ^ attempt"

primrec auth_attempts ::
  "(nat \<Rightarrow> exchange) \<Rightarrow> request_context \<Rightarrow> auth_http \<Rightarrow> bytes \<Rightarrow> error option \<Rightarrow> nat list \<Rightarrow>
   (error + auth_result) \<times> duration list" where
  "auth_attempts ex ctx s payload lastErr [] =
     (Inl (Errorf ''auth request failed after %d attempts: %w'' (case lastErr of Some e \<Rightarrow> [e] | None \<Rightarrow> [])), [])"
| "auth_attempts ex ctx s payload lastErr (attempt # rest) =
     (case doRequest (ex attempt) s payload of
        Inr result \<Rightarrow> (Inr result, [])
      | Inl err \<Rightarrow>
          if ctx_Err ctx attempt then (Inl (Errorf ''auth request cancelled: %w'' [err]), [])
          else if attempt < maxRetries - 1
          then (if ctx_Done ctx attempt
                then (Inl (Errorf ''auth request cancelled: %w'' [err]), [retry_wait attempt])
                else map_prod id (\<lambda>ws. retry_wait attempt # ws)
                       (auth_attempts ex ctx s payload (Some err) rest))
          else auth_attempts ex ctx s payload (Some err) rest)"

definition AuthHTTP_CheckPrivilege ::
  "(nat \<Rightarrow> exchange) \<Rightarrow> request_context \<Rightarrow> auth_http \<Rightarrow>
   string \<Rightarrow> string \<Rightarrow> string \<Rightarrow> (error + auth_result) \<times> duration list" where
  "AuthHTTP_CheckPrivilege ex ctx s actorID privilege authorizationPolicyID =
     (let req = \<lparr>ev_ActorID = actorID, ev_Privilege = privilege, ev_AuthorizationPolicyID = authorizationPolicyID\<rparr>
      in case json_Marshal (evaluate_json req) of
           Inl err \<Rightarrow> (Inl (Errorf ''marshal auth request: %w'' [err]), [])
         | Inr payload \<Rightarrow> auth_attempts ex ctx s payload None [0..<maxRetries])"

text \<open>\<^verbatim>\<open>nats/auth_service.go\<close>: one request and its reply.\<close>

definition authSubject :: string where
  "authSubject = ''auth.evaluate''"

record nats_request =
  nr_Pattern :: string
  nr_Data :: evaluate_request

definition nats_json :: "nats_request \<Rightarrow> json" where
  "nats_json r = JObj [(''pattern'', json_string (nr_Pattern r)), (''data'', evaluate_json (nr_Data r))]"

definition NATS_CheckPrivilege ::
  "(string \<Rightarrow> bytes \<Rightarrow> error + bytes) \<Rightarrow>
   string \<Rightarrow> string \<Rightarrow> string \<Rightarrow> error + auth_result" where
  "NATS_CheckPrivilege request actorID privilege authorizationPolicyID =
     (let req = \<lparr>nr_Pattern = ''evaluate'',
                 nr_Data = \<lparr>ev_ActorID = actorID, ev_Privilege = privilege,
                            ev_AuthorizationPolicyID = authorizationPolicyID\<rparr>\<rparr>
      in case json_Marshal (nats_json req) of
           Inl err \<Rightarrow> Inl (Errorf ''marshal auth request: %w'' [err])
         | Inr payload \<Rightarrow>
             (case request authSubject payload of
                Inl err \<Rightarrow> Inl (Errorf ''nats auth request: %w'' [err])
              | Inr msg \<Rightarrow>
                  (case unmarshal_evaluate msg of
                     Inl err \<Rightarrow> Inl (Errorf ''unmarshal auth response: %w'' [err])
                   | Inr resp \<Rightarrow> Inr resp)))"

text \<open>
  \<^verbatim>\<open>authbreaker/breaker.go\<close>.  The settings handed to the library, with the predicate that
  trips it; \<open>execute\<close> is \<^verbatim>\<open>CircuitBreaker.Execute\<close> on what the call would return, \<open>state\<close>
  the breaker's state as text.  A Go method may return a value beside an error, so the
  result is a pair.
\<close>

record breaker_config =
  FailureThreshold :: nat
  TimeoutSeconds :: int
  HalfOpenMax :: nat

record breaker_settings =
  st_Name :: string
  st_MaxRequests :: nat
  st_Interval :: duration
  st_Timeout :: duration
  st_ReadyToTrip :: "nat \<Rightarrow> bool"

definition breaker_settings_of :: "breaker_config \<Rightarrow> breaker_settings" where
  "breaker_settings_of cfg =
     \<lparr>st_Name = ''auth-evaluation'', st_MaxRequests = HalfOpenMax cfg, st_Interval = 0,
      st_Timeout = wrap64 (TimeoutSeconds cfg * second),
      st_ReadyToTrip = (\<lambda>consecutiveFailures. consecutiveFailures \<ge> FailureThreshold cfg)\<rparr>"

type_synonym breaker_execute = "breaker_settings \<Rightarrow> (error + auth_result) \<Rightarrow> error + auth_result"

definition breaker_CheckPrivilege ::
  "breaker_execute \<Rightarrow> string \<Rightarrow> breaker_config \<Rightarrow> (string \<Rightarrow> string \<Rightarrow> string \<Rightarrow> error + auth_result) \<Rightarrow>
   string \<Rightarrow> string \<Rightarrow> string \<Rightarrow> auth_result option \<times> error option" where
  "breaker_CheckPrivilege execute state cfg inner actorID privilege authorizationPolicyID =
     (case execute (breaker_settings_of cfg) (inner actorID privilege authorizationPolicyID) of
        Inl err \<Rightarrow>
          if errors_Is err GobreakerErrOpenState \<or> errors_Is err GobreakerErrTooManyRequests
          then (Some \<lparr>Allowed = False, Reason = ''auth service circuit breaker '' @ state\<rparr>, Some err)
          else (None, Some err)
      | Inr result \<Rightarrow> (Some result, None))"

text \<open>The port's view of such a pair: callers look at the error first.\<close>

definition port_result :: "auth_result option \<times> error option \<Rightarrow> error + auth_result" where
  "port_result p =
     (case p of
        (_, Some err) \<Rightarrow> Inl err
      | (Some r, None) \<Rightarrow> Inr r
      | (None, None) \<Rightarrow> Inl (OpaqueError ''nil dereference''))"

text \<open>The documented behaviour of \<^verbatim>\<open>Execute\<close>: the call's own outcome, or a rejection.\<close>

definition breaker_law :: "breaker_execute \<Rightarrow> bool" where
  "breaker_law execute =
     (\<forall>st r. execute st r = r \<or> execute st r = Inl (Sentinel GobreakerErrOpenState)
           \<or> execute st r = Inl (Sentinel GobreakerErrTooManyRequests))"

lemma auth_attempts_Inr:
  assumes "fst (auth_attempts ex ctx s payload le ns) = Inr a"
  shows "\<exists>n\<in>set ns. doRequest (ex n) s payload = Inr a"
  using assms
  by (induction ns arbitrary: le) (auto split: sum.splits if_splits)

lemma doRequest_Inr:
  "doRequest exchange s payload = Inr a \<Longrightarrow>
     \<exists>req resp. exchange req = Inr resp \<and> hp_StatusCode resp \<in> {200, 400} \<and> decode_evaluate (hp_Body resp) = Inr a
       \<and> hq_URL req = ah_baseURL s @ ''/internal/auth/evaluate'' \<and> hq_Body req = (payload, None)"
  by (fastforce simp: doRequest_def NewRequest_def split: sum.splits if_splits)

text \<open>The other end of the wire: what a service reads that decodes the request with the same struct.\<close>

definition evaluateRequest_fields :: "(string \<times> evaluate_request json_store) list" where
  "evaluateRequest_fields =
     [json_field ''actorId'' store_string ev_ActorID ev_ActorID_update,
      json_field ''privilege'' store_string ev_Privilege ev_Privilege_update,
      json_field ''authorizationPolicyId'' store_string ev_AuthorizationPolicyID ev_AuthorizationPolicyID_update]"

definition read_evaluate :: "bytes \<Rightarrow> error + evaluate_request" where
  "read_evaluate = json_Unmarshal (store_struct evaluateRequest_fields)
     \<lparr>ev_ActorID = '''', ev_Privilege = '''', ev_AuthorizationPolicyID = ''''\<rparr>"

definition asks_for :: "string \<Rightarrow> string \<Rightarrow> string \<Rightarrow> bytes \<Rightarrow> bool" where
  "asks_for actorID privilege policyID payload =
     (read_evaluate payload = Inr \<lparr>ev_ActorID = to_valid actorID, ev_Privilege = to_valid privilege,
        ev_AuthorizationPolicyID = to_valid policyID\<rparr>)"

lemma evaluate_json_ok: "json_ok (Suc d) (evaluate_json q)"
  by (simp add: evaluate_json_def raw_ok_plain plain_text_def)

lemma evaluate_payload_read:
  "asks_for a p i (bytes_of_string (print_json (evaluate_json
     \<lparr>ev_ActorID = a, ev_Privilege = p, ev_AuthorizationPolicyID = i\<rparr>)))"
  unfolding asks_for_def read_evaluate_def
  by (subst decode_printed(2) [OF evaluate_json_ok [of 0]])
     (simp_all add: maxNestingDepth_def evaluate_json_def store_members_plain plain_text_def evaluateRequest_fields_def
       json_field_def del: store_members.simps(2))

text \<open>
  C28: authorization fails closed.  Through the breaker and the retrying client a privilege
  is granted only when the authorization service itself answered so: one of the three
  attempts got a response with status 200 or 400 whose body decodes to \<^verbatim>\<open>allowed\<close>, and the
  request it answered asks, when it is read as JSON, for exactly this actor, privilege and
  policy, whatever characters they hold.  No transport error, other status, undecodable
  body, cancellation or rejection by the breaker grants anything.
\<close>

theorem authorization_fails_closed:
  assumes "breaker_law execute"
    and "port_result (breaker_CheckPrivilege execute state cfg
      (\<lambda>a p i. fst (AuthHTTP_CheckPrivilege ex ctx s a p i)) actor priv policy) = Inr r"
    and "Allowed r"
  shows "\<exists>attempt req resp. attempt < maxRetries \<and> ex attempt req = Inr resp
    \<and> hp_StatusCode resp \<in> {200, 400} \<and> decode_evaluate (hp_Body resp) = Inr r
    \<and> hq_URL req = ah_baseURL s @ ''/internal/auth/evaluate'' \<and> asks_for actor priv policy (fst (hq_Body req))"
proof -
  let ?inner = "fst (AuthHTTP_CheckPrivilege ex ctx s actor priv policy)"
  have "execute (breaker_settings_of cfg) ?inner = Inr r"
    using assms(2) by (auto simp: breaker_CheckPrivilege_def port_result_def split: sum.splits if_splits)
  with assms(1) have "?inner = Inr r" unfolding breaker_law_def by (metis sum.distinct(1))
  then obtain payload where first: "fst (auth_attempts ex ctx s payload None [0..<maxRetries]) = Inr r"
      and asks: "asks_for actor priv policy payload"
    using evaluate_payload_read by (auto simp: AuthHTTP_CheckPrivilege_def json_Marshal_def Let_def)
  from auth_attempts_Inr [OF first]
  obtain n where "n < maxRetries" and ok: "doRequest (ex n) s payload = Inr r" by auto
  with doRequest_Inr [OF ok] asks show ?thesis by fastforce
qed

text \<open>An authorization service that answers on the second attempt.\<close>

definition ex_allowed :: stream where
  "ex_allowed = (bytes_of_string (print_json (JObj [(''allowed'', JBool True)])), None)"

lemma ex_allowed_decoded: "decode_evaluate ex_allowed = Inr \<lparr>Allowed = True, Reason = ''''\<rparr>"
proof -
  have ok: "json_ok 1 (JObj [(''allowed'', JBool True)])" by (simp add: raw_ok_plain plain_text_def)
  show ?thesis
    unfolding decode_evaluate_def ex_allowed_def
    by (subst decode_printed(1) [OF ok])
       (simp_all add: maxNestingDepth_def store_members_plain plain_text_def evaluateResponse_fields_def json_field_def
         del: store_members.simps(2))
qed

definition ex_second :: "nat \<Rightarrow> exchange" where
  "ex_second n req =
     (if n = 0 then Inl (OpaqueError ''connection reset'')
      else Inr \<lparr>hp_StatusCode = 200, hp_ContentType = ''application/json'', hp_Body = ex_allowed\<rparr>)"

definition ex_ctx :: request_context where
  "ex_ctx = \<lparr>ctx_Err = (\<lambda>_. False), ctx_Done = (\<lambda>_. False)\<rparr>"

definition ex_breaker :: breaker_config where
  "ex_breaker = \<lparr>FailureThreshold = 3, TimeoutSeconds = 15, HalfOpenMax = 2\<rparr>"

lemma ex_parse_auth: "\<exists>u. url_Parse ''http://auth/internal/auth/evaluate'' = Inr u"
  by (simp add: url_Parse_def parse_no_fragment_def parse_rest_def Cut_def HasPrefix_def HasSuffix_def
      TrimSuffix_def is_alpha_def is_digit_def containsCTL_def parseAuthority_def Cut_last_def parseHost_def
      shouldEscape_def is_alnum_def validOptionalPort_def to_lower_def)

lemma ex_attempts:
  "AuthHTTP_CheckPrivilege ex_second ex_ctx (NewAuthService ''http://auth/'') a p i =
     (Inr \<lparr>Allowed = True, Reason = ''''\<rparr>, [50000000])"
proof -
  obtain u where u: "url_Parse ''http://auth/internal/auth/evaluate'' = Inr u" using ex_parse_auth by blast
  have base: "NewAuthService ''http://auth/'' = \<lparr>ah_baseURL = ''http://auth''\<rparr>"
    by (simp add: NewAuthService_def TrimSuffix_def HasSuffix_def)
  show ?thesis
    by (simp add: AuthHTTP_CheckPrivilege_def maxRetries_def upt_rec doRequest_def NewRequest_def u base
        ex_second_def ex_ctx_def ex_allowed_decoded json_Marshal_def retry_wait_def retryBaseWait_def)
qed

theorem authorization_fails_closed_witness:
  "\<exists>attempt req resp. attempt < maxRetries \<and> ex_second attempt req = Inr resp
     \<and> hp_StatusCode resp \<in> {200, 400} \<and> decode_evaluate (hp_Body resp) = Inr \<lparr>Allowed = True, Reason = ''''\<rparr>
     \<and> hq_URL req = ah_baseURL (NewAuthService ''http://auth/'') @ ''/internal/auth/evaluate''
     \<and> asks_for ''actor'' ''read'' ''policy'' (fst (hq_Body req))"
  by (rule authorization_fails_closed [of "\<lambda>_ r. r" "''closed''" ex_breaker ex_second ex_ctx
        "NewAuthService ''http://auth/''" "''actor''" "''read''" "''policy''"])
     (simp_all add: breaker_law_def breaker_CheckPrivilege_def port_result_def ex_attempts)

text \<open>
  C29: the retries are bounded.  Whatever the answers and the context are, a privilege check
  ends after at most three attempts with waits of at most 50 and 100 milliseconds between
  them; when every attempt fails and nothing is cancelled all three are made, whatever
  the failure is, and the answer wraps the last one.
\<close>

theorem auth_retries_bounded:
  "(\<exists>k. snd (AuthHTTP_CheckPrivilege ex ctx s actor priv policy) = take k [50000000, 100000000])
   \<and> (\<forall>payload. json_Marshal (evaluate_json
            \<lparr>ev_ActorID = actor, ev_Privilege = priv, ev_AuthorizationPolicyID = policy\<rparr>) = Inr payload
        \<and> (\<forall>n. \<exists>e. doRequest (ex n) s payload = Inl e) \<and> (\<forall>n. \<not> ctx_Err ctx n \<and> \<not> ctx_Done ctx n) \<longrightarrow>
        (\<exists>e. doRequest (ex 2) s payload = Inl e
          \<and> AuthHTTP_CheckPrivilege ex ctx s actor priv policy =
              (Inl (Errorf ''auth request failed after %d attempts: %w'' [e]), [50000000, 100000000])))"
proof -
  let ?m = "json_Marshal (evaluate_json
    \<lparr>ev_ActorID = actor, ev_Privilege = priv, ev_AuthorizationPolicyID = policy\<rparr>)"
  note unf = AuthHTTP_CheckPrivilege_def maxRetries_def upt_rec retry_wait_def retryBaseWait_def Let_def
  have "\<exists>k. snd (AuthHTTP_CheckPrivilege ex ctx s actor priv policy) = take k [50000000, 100000000]"
    by (rule exI [of _ "length (snd (AuthHTTP_CheckPrivilege ex ctx s actor priv policy))"])
       (simp add: unf split: sum.splits)
  moreover have "AuthHTTP_CheckPrivilege ex ctx s actor priv policy =
      (Inl (Errorf ''auth request failed after %d attempts: %w'' [e2]), [50000000, 100000000])"
    if "?m = Inr p" "doRequest (ex 0) s p = Inl e0" "doRequest (ex 1) s p = Inl e1"
      "doRequest (ex 2) s p = Inl e2" "\<forall>n. \<not> ctx_Err ctx n \<and> \<not> ctx_Done ctx n" for p e0 e1 e2
    using that by (simp add: unf numeral_2_eq_2)
  ultimately show ?thesis by metis
qed

definition ex_unknown :: "nat \<Rightarrow> exchange" where
  "ex_unknown n req = Inr \<lparr>hp_StatusCode = 404, hp_ContentType = '''', hp_Body = ([], None)\<rparr>"

theorem auth_retries_bounded_witness:
  "\<exists>e. AuthHTTP_CheckPrivilege ex_unknown ex_ctx (NewAuthService ''http://auth/'')
       ''actor'' ''read'' ''policy'' =
     (Inl (Errorf ''auth request failed after %d attempts: %w'' [e]), [50000000, 100000000])"
proof -
  have "\<exists>e. doRequest (ex_unknown n) s payload = Inl e" for n s payload
    by (auto simp: doRequest_def ex_unknown_def split: sum.splits)
  then show ?thesis
    using auth_retries_bounded [of ex_unknown ex_ctx "NewAuthService ''http://auth/''"
        "''actor''" "''read''" "''policy''"]
    by (auto simp: ex_ctx_def json_Marshal_def)
qed

end
