(* ===== verification/Network.thy ===== *)
theory Network
  imports App AuthClients
begin

text \<open>
  The deployed adapters: the environment of the application when the file service, the
  authorization service and Collabora are reached through the clients of
  \<open>HttpClients\<close> and \<open>AuthClients\<close>.  A \<open>network\<close> says what every exchange answers; the
  theorems about arbitrary environments apply to \<open>networked\<close> ones, and their hypotheses
  on errors are discharged here.
\<close>

record network =
  net_exchange :: "nat \<Rightarrow> nat \<Rightarrow> exchange"
  net_context :: "nat \<Rightarrow> request_context"
  net_nats :: "nat \<Rightarrow> string \<Rightarrow> bytes \<Rightarrow> error + bytes"
  net_execute :: "nat \<Rightarrow> breaker_execute"
  net_breaker_state :: "nat \<Rightarrow> string"
  net_xml :: "bytes \<Rightarrow> error + xml_element"
  net_boundary :: "nat \<Rightarrow> string"

text \<open>The transport that \<^verbatim>\<open>main\<close> selects, and the breaker around it.\<close>

definition raw_auth ::
  "network \<Rightarrow> config \<Rightarrow> nat \<Rightarrow> string \<Rightarrow> string \<Rightarrow> string \<Rightarrow> error + auth_result" where
  "raw_auth net cfg n actorID privilege policyID =
     (if as_URL (cfg_AuthSvc cfg) \<noteq> ''''
      then fst (AuthHTTP_CheckPrivilege (net_exchange net n) (net_context net n)
             (NewAuthService (as_URL (cfg_AuthSvc cfg))) actorID privilege policyID)
      else NATS_CheckPrivilege (net_nats net n) actorID privilege policyID)"

definition wrapped_auth ::
  "network \<Rightarrow> config \<Rightarrow> nat \<Rightarrow> string \<Rightarrow> string \<Rightarrow> string \<Rightarrow> error + auth_result" where
  "wrapped_auth net cfg n actorID privilege policyID =
     port_result (breaker_CheckPrivilege (net_execute net n) (net_breaker_state net n)
       \<lparr>FailureThreshold = BreakerFailures (cfg_AuthSvc cfg),
        TimeoutSeconds = BreakerTimeoutSecs (cfg_AuthSvc cfg),
        HalfOpenMax = BreakerHalfOpenMax (cfg_AuthSvc cfg)\<rparr>
       (raw_auth net cfg n) actorID privilege policyID)"

definition networked :: "network \<Rightarrow> config \<Rightarrow> 'e server_env_scheme \<Rightarrow> 'e server_env_scheme" where
  "networked net cfg env =
     (let fc = NewFileClient (fsc_URL (cfg_FileService cfg));
          ex = (\<lambda>n. net_exchange net n 0)
      in env\<lparr>ext_FindByID := (\<lambda>n. FileClient_FindByID (ex n) fc),
             ext_ReadFile := (\<lambda>n. FileClient_ReadFile (ex n) fc),
             ext_WriteFile := (\<lambda>n. FileClient_WriteFile (ex n) fc),
             ext_CreatePreviewFile := (\<lambda>n. FileClient_CreatePreviewFile (net_boundary net n) (ex n) fc),
             ext_DeletePreviewFile := (\<lambda>n. FileClient_DeletePreviewFile (ex n) fc),
             ext_CheckPrivilege := wrapped_auth net cfg,
             ext_FetchDiscovery := (\<lambda>n. client_FetchDiscovery (net_xml net) (ex n)
                                          (NewDiscoveryClient (cfg_CollaboraURL cfg))),
             ext_Render := (\<lambda>n. client_Render (net_boundary net n) (ex n)
                                  (NewThumbnailClient (cfg_CollaboraURL cfg)))\<rparr>)"

lemma networked_sel [simp]:
  fixes cfg :: config
  defines "fc \<equiv> NewFileClient (fsc_URL (cfg_FileService cfg))"
  shows "ext_FindByID (networked net cfg env) n i = FileClient_FindByID (net_exchange net n 0) fc i"
    "ext_ReadFile (networked net cfg env) n i = FileClient_ReadFile (net_exchange net n 0) fc i"
    "ext_WriteFile (networked net cfg env) n i c =
       FileClient_WriteFile (net_exchange net n 0) fc i c"
    "ext_CheckPrivilege (networked net cfg env) = wrapped_auth net cfg"
    "ext_FetchDiscovery (networked net cfg env) n =
       client_FetchDiscovery (net_xml net) (net_exchange net n 0) (NewDiscoveryClient (cfg_CollaboraURL cfg))"
    "pg_fault (networked net cfg env) = pg_fault env" "pg_now (networked net cfg env) = pg_now env"
    "go_now (networked net cfg env) = go_now env" "go_rand (networked net cfg env) = go_rand env"
  by (simp_all add: networked_def fc_def Let_def)

text \<open>
  Errors that come from outside: transport errors, decoding errors and the breaker's
  rejections are no sentinel of the domain package.
\<close>

definition outside_errors :: "network \<Rightarrow> bool" where
  "outside_errors net =
     ((\<forall>n k q e. net_exchange net n k q = Inl e \<longrightarrow> foreign_error e \<and> \<not> errors_Is e FsErrNotExist)
      \<and> (\<forall>n k q resp e. net_exchange net n k q = Inr resp \<and> snd (hp_Body resp) = Some e \<longrightarrow> foreign_error e)
      \<and> (\<forall>n a b e. net_nats net n a b = Inl e \<longrightarrow> foreign_error e)
      \<and> (\<forall>n. breaker_law (net_execute net n))
      \<and> (\<forall>b e. net_xml net b = Inl e \<longrightarrow> foreign_error e))"

lemma outside_errorsD:
  assumes "outside_errors net"
  shows "net_exchange net n k q = Inl e \<Longrightarrow> foreign_error e"
    "net_nats net n a b = Inl e \<Longrightarrow> foreign_error e"
    "net_xml net b = Inl e \<Longrightarrow> foreign_error e"
    "breaker_law (net_execute net n)"
    "net_exchange net n k q = Inr resp \<Longrightarrow> snd (hp_Body resp) = Some e \<Longrightarrow> foreign_error e"
  using assms unfolding outside_errors_def by (elim conjE, metis)+

lemma evaluate_foreign:
  "decode_evaluate body = Inl e \<Longrightarrow> (\<And>x. snd body = Some x \<Longrightarrow> foreign_error x) \<Longrightarrow> foreign_error e"
  "unmarshal_evaluate data = Inl e \<Longrightarrow> foreign_error e"
proof -
  have st: "foreign_store (store_struct evaluateResponse_fields)" by (simp add: evaluateResponse_fields_def)
  show "decode_evaluate body = Inl e \<Longrightarrow> (\<And>x. snd body = Some x \<Longrightarrow> foreign_error x) \<Longrightarrow> foreign_error e"
    unfolding decode_evaluate_def by (rule json_Decode_foreign [OF _ st])
  show "unmarshal_evaluate data = Inl e \<Longrightarrow> foreign_error e"
    unfolding unmarshal_evaluate_def by (rule json_Unmarshal_foreign [OF _ st])
qed

lemma net_decode_foreign:
  assumes "outside_errors net" and "net_exchange net n k q = Inr resp"
  shows "decode_meta (hp_Body resp) = Inl e \<Longrightarrow> foreign_error e" "decode_write (hp_Body resp) = Inl e \<Longrightarrow> foreign_error e"
    "decode_created (hp_Body resp) = Inl e \<Longrightarrow> foreign_error e"
    "decode_evaluate (hp_Body resp) = Inl e \<Longrightarrow> foreign_error e"
  using decode_foreign [OF outside_errorsD(5) [OF assms]] evaluate_foreign(1) [OF _ outside_errorsD(5) [OF assms]]
  by blast+

lemma file_client_foreign:
  assumes "outside_errors net"
  shows "FileClient_FindByID (net_exchange net n k) c i = Inl e \<Longrightarrow> foreign_error e"
    "FileClient_ReadFile (net_exchange net n k) c i = Inl e \<Longrightarrow> foreign_error e"
    "FileClient_WriteFile (net_exchange net n k) c i b = Inl e \<Longrightarrow> foreign_error e"
  by (auto simp: FileClient_FindByID_def FileClient_ReadFile_def FileClient_WriteFile_def foreign_sentinel_def
      split: sum.splits if_splits dest: NewRequest_foreign outside_errorsD(1-3) [OF assms] net_decode_foreign [OF assms])

lemma doRequest_foreign:
  assumes "outside_errors net"
  shows "doRequest (net_exchange net n k) s p = Inl e \<Longrightarrow> foreign_error e"
  by (auto simp: doRequest_def split: sum.splits if_splits dest: NewRequest_foreign outside_errorsD(1-3) [OF assms] net_decode_foreign [OF assms])

lemma auth_attempts_foreign:
  assumes "outside_errors net"
    and "fst (auth_attempts (net_exchange net n) ctx s p le ks) = Inl e"
    and "\<And>x. le = Some x \<Longrightarrow> foreign_error x"
  shows "foreign_error e"
  using assms(2,3)
proof (induction ks arbitrary: le)
  case Nil
  then show ?case by (auto split: option.splits)
next
  case (Cons k ks)
  from Cons.prems(1) obtain x where x: "doRequest (net_exchange net n k) s p = Inl x"
    by (auto split: sum.splits)
  then have f: "foreign_error x" by (rule doRequest_foreign [OF assms(1)])
  show ?case
    using Cons.prems(1) x f Cons.IH [of "Some x"] by (auto split: if_splits)
qed

lemma wrapped_auth_foreign:
  assumes "outside_errors net" and "wrapped_auth net cfg n a p i = Inl e"
  shows "foreign_error e"
proof -
  have raw: "foreign_error x" if "raw_auth net cfg n a p i = Inl x" for x
    using that
    by (auto simp: raw_auth_def AuthHTTP_CheckPrivilege_def NATS_CheckPrivilege_def json_Marshal_def Let_def
        split: if_splits sum.splits
        dest: auth_attempts_foreign [OF assms(1)] outside_errorsD(1-3) [OF assms(1)] evaluate_foreign(2))
  obtain st where "net_execute net n st (raw_auth net cfg n a p i) = Inl e"
    using assms(2)
    by (auto simp: wrapped_auth_def breaker_CheckPrivilege_def port_result_def split: sum.splits if_splits)
  with outside_errorsD(4) [OF assms(1), of n]
  have "raw_auth net cfg n a p i = Inl e \<or> e = Sentinel GobreakerErrOpenState
      \<or> e = Sentinel GobreakerErrTooManyRequests"
    unfolding breaker_law_def by (metis Inl_inject)
  then show ?thesis using raw by (auto simp: foreign_sentinel_def)
qed

lemma fetch_foreign:
  assumes "outside_errors net"
  shows "client_FetchDiscovery (net_xml net) (net_exchange net n k) c = Inl e \<Longrightarrow> foreign_error e"
proof -
  have "xml_Unmarshal (net_xml net) b = Inl x \<Longrightarrow> foreign_error x" for b x
    by (erule xml_Unmarshal_foreign) (rule outside_errorsD(3) [OF assms])
  then show "client_FetchDiscovery (net_xml net) (net_exchange net n k) c = Inl e \<Longrightarrow> foreign_error e"
    by (auto simp: client_FetchDiscovery_def ReadAll_def LimitReader_def
        split: sum.splits option.splits if_splits
        dest: NewRequest_foreign outside_errorsD(1) [OF assms] outside_errorsD(5) [OF assms])
qed

end
