(* ===== verification/Deployed.thy ===== *)
theory Deployed
  imports Network Requests
begin

text \<open>
  The endpoints on the deployed clients: what a client of the service sees when file-service
  does not know a document, or when file-service, the authorization service or Collabora
  cannot be asked.
\<close>

lemma networked_pg [simp]:
  "pg_tstz (networked net cfg env) = pg_tstz env" "pg_uuid_Parse (networked net cfg env) = pg_uuid_Parse env"
  "go_uuid (networked net cfg env) = go_uuid env"
  by (simp_all add: networked_def Let_def)

lemma reliable_networked [simp]: "reliable (networked net cfg env) = reliable env"
  by (simp add: reliable_def)

text \<open>A file-service that answers 404 to everything.\<close>

definition unknown_document :: "network \<Rightarrow> bool" where
  "unknown_document net = (\<forall>n q. \<exists>resp. net_exchange net n 0 q = Inr resp \<and> hp_StatusCode resp = 404)"

lemma unknown_document_client:
  assumes "unknown_document net"
    and "\<forall>path\<in>{''/meta'', ''/content''}. \<exists>u. url_Parse (fc_baseURL c @ ''/internal/file/'' @ i @ path) = Inr u"
  shows "FileClient_FindByID (net_exchange net n 0) c i = Inr None"
    and "FileClient_ReadFile (net_exchange net n 0) c i = Inl (Errorf ''%w: %s'' [Sentinel FsErrNotExist])"
    and "FileClient_WriteFile (net_exchange net n 0) c i b = Inl (Errorf ''document not found: %s'' [])"
proof -
  have resp: "\<exists>resp. net_exchange net n 0 q = Inr resp \<and> hp_StatusCode resp = 404" for q
    using assms(1) unfolding unknown_document_def by blast
  have req: "\<exists>q. NewRequest m (fc_baseURL c @ ''/internal/file/'' @ i @ path) body = Inr q"
    if "path \<in> {''/meta'', ''/content''}" for m path body
    using bspec [OF assms(2) that] by (auto simp: NewRequest_def)
  obtain q where q: "NewRequest ''GET'' (fc_baseURL c @ ''/internal/file/'' @ i @ ''/meta'') no_body = Inr q"
    using req [of "''/meta''"] by blast
  with resp [of q] show "FileClient_FindByID (net_exchange net n 0) c i = Inr None"
    by (auto simp: FileClient_FindByID_def)
  obtain q where q: "NewRequest ''GET'' (fc_baseURL c @ ''/internal/file/'' @ i @ ''/content'') no_body = Inr q"
    using req [of "''/content''"] by blast
  with resp [of q] show "FileClient_ReadFile (net_exchange net n 0) c i = Inl (Errorf ''%w: %s'' [Sentinel FsErrNotExist])"
    by (auto simp: FileClient_ReadFile_def)
  obtain q where q: "NewRequest ''PUT'' (fc_baseURL c @ ''/internal/file/'' @ i @ ''/content'') b = Inr q"
    using req [of "''/content''"] by blast
  with resp [of "q\<lparr>hq_ContentType := ''application/octet-stream''\<rparr>"]
  show "FileClient_WriteFile (net_exchange net n 0) c i b = Inl (Errorf ''document not found: %s'' [])"
    by (auto simp: FileClient_WriteFile_def)
qed

text \<open>
  C36: a document that file-service no longer has.  Asking for its properties answers 404,
  but reading it answers 500 and so does saving it, with the permission to write and no
  lock in the way: the clients' errors for a missing file are not the domain's
  \<^verbatim>\<open>ErrDocumentNotFound\<close> that the handlers look for.
\<close>

theorem missing_document_answers:
  assumes "outside_errors net" and "unknown_document net" and env: "env = networked net cfg env0"
    and "\<forall>path\<in>{''/meta'', ''/content''}. \<exists>u. url_Parse
      (fc_baseURL (NewFileClient (fsc_URL (cfg_FileService cfg))) @ ''/internal/file/'' @ tok_FileID t @ path) = Inr u"
    and "reliable env0" and "wf_locks (locks w)" and "rq_token r = Some t" and "HasPermission t ''write''"
    and "\<not> put_conflict (active (pg_now env0 (tick w)) (lock_view w (tok_FileID t))) (rq_Header r ''X-WOPI-Lock'')"
  shows "fst (run (handle_CheckFileInfo (wopi_h env cfg out) r) w) = http_Error 404 ''document not found''
    \<and> fst (run (handle_GetFile (wopi_h env cfg out) r) w) = http_Error 500 ''internal error''
    \<and> fst (run (handle_putFile (GoRuntime env) (wopi_h env cfg out) r) w) = http_Error 500 ''internal error''"
proof -
  note client = unknown_document_client [OF assms(2,4)]
  have "fst (run (handle_CheckFileInfo (wopi_h env cfg out) r) w) = http_Error 404 ''document not found''"
    by (simp add: handle_CheckFileInfo_def TokenFromContext_def assms(7) CheckFileInfo_def prog_simps env client)
  moreover have "fst (run (handle_GetFile (wopi_h env cfg out) r) w) = http_Error 500 ''internal error''"
    by (simp add: handle_GetFile_def TokenFromContext_def assms(7) GetFile_def prog_simps env client)
  moreover have "fst (run (handle_putFile (GoRuntime env) (wopi_h env cfg out) r) w) = http_Error 500 ''internal error''"
  proof -
    have rel: "reliable env" using assms(5) by (simp add: env)
    have foreign: "ext_WriteFile env n f c = Inl e \<Longrightarrow> foreign_error e" for n f c e
      using file_client_foreign(3) [OF assms(1)] by (simp add: env)
    have "put_file_spec env (tick w) (active (pg_now env (tick w)) (lock_view w (tok_FileID t))) t r =
        (http_Error 500 ''internal error'', True, False)"
      using assms(8,9) by (simp add: put_file_spec_def env client)
    from put_file_refines [OF rel assms(6,7) _ this refl, where cfg = cfg and out = out] foreign
    show ?thesis by blast
  qed
  ultimately show ?thesis by blast
qed

text \<open>Such a network, and a request for a file that is not locked.\<close>

definition ex_network :: network where
  "ex_network = \<lparr>net_exchange = (\<lambda>_ _ _. Inr \<lparr>hp_StatusCode = 404, hp_ContentType = '''', hp_Body = ([], None)\<rparr>),
     net_context = (\<lambda>_. ex_ctx), net_nats = (\<lambda>_ _ _. Inl (OpaqueError ''nats: no responders'')),
     net_execute = (\<lambda>_ _ r. r), net_breaker_state = (\<lambda>_. ''closed''),
     net_xml = (\<lambda>_. Inl (OpaqueError ''xml: EOF'')), net_boundary = (\<lambda>_. ''b'')\<rparr>"

lemma ex_network_outside: "outside_errors ex_network" "unknown_document ex_network"
  by (auto simp: outside_errors_def unknown_document_def ex_network_def breaker_law_def split: if_splits)

lemma ex_file_urls:
  "\<forall>path\<in>{''/meta'', ''/content''}. \<exists>u. url_Parse
     (fc_baseURL (NewFileClient (fsc_URL (cfg_FileService ex_cfg))) @ ''/internal/file/'' @ ''doc'' @ path) = Inr u"
  by (auto simp: NewFileClient_def ex_cfg_def url_Parse_def parse_no_fragment_def parse_rest_def Cut_def HasPrefix_def
      HasSuffix_def TrimSuffix_def is_alpha_def is_digit_def containsCTL_def parseAuthority_def Cut_last_def
      parseHost_def shouldEscape_def is_alnum_def validOptionalPort_def to_lower_def)

theorem missing_document_answers_witness:
  "fst (run (handle_GetFile (wopi_h (networked ex_network ex_cfg ex_senv) ex_cfg ex_out) (ex_lock_request ''A''))
     ex_lock_world) = http_Error 500 ''internal error''"
proof -
  have can: "HasPermission (token_of_row ex_token_row) ''write''"
    by (simp add: issued_permissions token_of_row_def ex_token_row_def)
  have free: "\<not> put_conflict (active (pg_now ex_senv (tick ex_lock_world))
      (lock_view ex_lock_world (tok_FileID (token_of_row ex_token_row)))) (rq_Header (ex_lock_request ''A'') ''X-WOPI-Lock'')"
    by (simp add: put_conflict_def lock_of_row_def ex_times)
  have wf: "wf_locks (locks ex_lock_world)" by (simp add: wf_locks_def)
  show ?thesis
    using missing_document_answers [OF ex_network_outside refl _ ex_senv_reliable' wf ex_lock_request_sel(2) can free,
        where cfg = ex_cfg and out = ex_out] ex_file_urls
    by simp
qed

end
