(* ===== verification/TokenEndpoint.thy ===== *)
theory TokenEndpoint
  imports Deployed Tokens
begin

text \<open>
  What the token endpoint answers when it cannot issue a token, on the deployed clients, and
  which outcome the health signal of the failure carries.
\<close>

definition collabora_down :: "'e server_env_scheme \<Rightarrow> 'z server_scheme \<Rightarrow> bool" where
  "collabora_down env w =
     (cached (sv_cache w) = None \<and> (\<forall>k. \<exists>e. ext_FetchDiscovery env k = Inl e))"

text \<open>The answer and the outcome of the signal, if one is logged, stage by stage.\<close>

definition token_refusal ::
  "'e server_env_scheme \<Rightarrow> nat \<Rightarrow> bool \<Rightarrow> string \<Rightarrow> string \<Rightarrow> (response \<times> string option) option" where
  "token_refusal env n down actorID documentID =
     (case ext_FindByID env n documentID of
        Inl _ \<Rightarrow> Some (http_Error 500 ''internal error'', Some outcomeMetadataLookup)
      | Inr None \<Rightarrow> Some (http_Error 404 ''document not found'', None)
      | Inr (Some doc) \<Rightarrow>
          (case ext_CheckPrivilege env (n + 1) actorID ''read'' (doc_AuthorizationPolicyID doc) of
             Inl _ \<Rightarrow> Some (http_Error 500 ''internal error'', Some outcomeInternal)
           | Inr res \<Rightarrow>
               if \<not> Allowed res then Some (http_Error 403 ''not authorized'', None)
               else if down then Some (http_Error 500 ''internal error'', Some outcomeDiscoveryUnavail)
               else None))"

lemma issue_granted_down:
  fixes env :: "'e server_env_scheme" and w :: "'z server_scheme"
  assumes "collabora_down env w" and "\<forall>k e. ext_FetchDiscovery env k = Inl e \<longrightarrow> foreign_error e"
    and "\<forall>n. \<exists>b. go_rand env n 32 = Inr b"
    and "out = run (issue_granted (GoRuntime env) (sv_token (createServices env cfg)) a an d lang mime perms) w"
  shows "\<exists>e. foreign_error e \<and> access_tokens (snd out) = access_tokens w
    \<and> fst out = Inl (Errorf ''resolve editor URL: %w'' [Errorf ''fetch discovery: %w: %w'' [Sentinel ErrDiscoveryFetch, e]])"
proof -
  let ?k = "Suc (Suc (tick w))"
  obtain e where e: "ext_FetchDiscovery env ?k = Inl e" "foreign_error e"
    using assms(1,2) unfolding collabora_down_def by blast
  obtain b where b: "go_rand env (tick w) 32 = Inr b" using assms(3) by blast
  have c: "cached (sv_cache w) = None" using assms(1) by (simp add: collabora_down_def)
  show ?thesis
    by (intro exI [of _ e])
       (simp add: assms(4) issue_granted_def generateURLSafeToken_def resolveEditorURL_def GetDiscovery_def
         fresh_snapshot_def refresh_def prog_simps b c e locked_def cache_cell_def Let_def)
qed

text \<open>An issuance that is refused: the error, and that the tables did not change.\<close>

definition refusal_error :: "response \<times> string option \<Rightarrow> error \<Rightarrow> bool" where
  "refusal_error ro err =
     (\<not> errors_Is err ErrUnsupportedMIME \<and> \<not> errors_Is err ErrUnsupportedExtension \<and> \<not> errors_Is err ErrNoDiscoveryData
      \<and> (case snd ro of
           None \<Rightarrow> fst ro = http_Error 404 ''document not found'' \<and> err = Sentinel ErrDocumentNotFound
                 \<or> fst ro = http_Error 403 ''not authorized'' \<and> err = Sentinel ErrNotAuthorized
         | Some oc \<Rightarrow> fst ro = http_Error 500 ''internal error'' \<and> \<not> errors_Is err ErrDocumentNotFound
                 \<and> \<not> errors_Is err ErrNotAuthorized \<and> tokenIssuanceOutcome err = oc))"

lemma foreign_issue_error:
  assumes "foreign_error e"
  shows "refusal_error (http_Error 500 ''internal error'', Some outcomeMetadataLookup)
      (Errorf fmt [Sentinel ErrDocumentLookup, e])"
    and "refusal_error (http_Error 500 ''internal error'', Some outcomeInternal) (Errorf fmt [e])"
    and "refusal_error (http_Error 500 ''internal error'', Some outcomeDiscoveryUnavail)
      (Errorf fmt [Errorf fmt' [Sentinel ErrDiscoveryFetch, e]])"
  using foreign_error_not_Is [OF assms]
  by (simp_all add: refusal_error_def tokenIssuanceOutcome_def foreign_sentinel_def)

lemma IssueToken_refused:
  fixes env :: "'e server_env_scheme" and w :: "'z server_scheme"
  assumes find: "\<forall>n i e. ext_FindByID env n i = Inl e \<longrightarrow> foreign_error e"
    and auth: "\<forall>n x p i e. ext_CheckPrivilege env n x p i = Inl e \<longrightarrow> foreign_error e"
    and fetch: "\<forall>k e. ext_FetchDiscovery env k = Inl e \<longrightarrow> foreign_error e"
    and rand: "\<forall>n. \<exists>b. go_rand env n 32 = Inr b"
    and refused: "token_refusal env (tick w) (collabora_down env w) a d = Some ro"
    and out: "out = run (IssueToken (GoRuntime env) (sv_token (createServices env cfg)) a an d lang) w"
  shows "\<exists>err. fst out = Inl err \<and> refusal_error ro err \<and> access_tokens (snd out) = access_tokens w"
proof -
  note unf = IssueToken_def prog_simps out
  have down: "collabora_down env (snd (outside f ev v)) = collabora_down env v"
    "collabora_down env (Logger l v) = collabora_down env v"
    for f :: "nat \<Rightarrow> 'r" and ev l and v :: "'z server_scheme"
    by (simp_all add: collabora_down_def)
  have granted: "\<exists>err. fst (run (issue_granted (GoRuntime env) (sv_token (createServices env cfg)) a an d lang m p) v)
      = Inl err \<and> refusal_error (http_Error 500 ''internal error'', Some outcomeDiscoveryUnavail) err
    \<and> access_tokens (snd (run (issue_granted (GoRuntime env) (sv_token (createServices env cfg)) a an d lang m p) v)) = T"
    if "collabora_down env v" "access_tokens v = T" for m p T and v :: "'z server_scheme"
    using issue_granted_down [OF that(1) fetch rand refl, of cfg a an d lang m p] foreign_issue_error(3) that(2)
    by blast
  from refused consider
      (lookup) e where "ext_FindByID env (tick w) d = Inl e"
        "ro = (http_Error 500 ''internal error'', Some outcomeMetadataLookup)"
    | (missing) "ext_FindByID env (tick w) d = Inr None" "ro = (http_Error 404 ''document not found'', None)"
    | (unasked) doc e where "ext_FindByID env (tick w) d = Inr (Some doc)"
        "ext_CheckPrivilege env (Suc (tick w)) a ''read'' (doc_AuthorizationPolicyID doc) = Inl e"
        "ro = (http_Error 500 ''internal error'', Some outcomeInternal)"
    | (denied) doc res where "ext_FindByID env (tick w) d = Inr (Some doc)"
        "ext_CheckPrivilege env (Suc (tick w)) a ''read'' (doc_AuthorizationPolicyID doc) = Inr res" "\<not> Allowed res"
        "ro = (http_Error 403 ''not authorized'', None)"
    | (no_editor) doc res where "ext_FindByID env (tick w) d = Inr (Some doc)"
        "ext_CheckPrivilege env (Suc (tick w)) a ''read'' (doc_AuthorizationPolicyID doc) = Inr res" "Allowed res"
        "collabora_down env w" "ro = (http_Error 500 ''internal error'', Some outcomeDiscoveryUnavail)"
    by (auto simp: token_refusal_def split: sum.splits option.splits if_splits)
  then show ?thesis
  proof cases
    case lookup
    with find show ?thesis by (auto simp: unf foreign_issue_error)
  next
    case missing
    then show ?thesis by (simp add: unf refusal_error_def)
  next
    case unasked
    with auth show ?thesis by (auto simp: unf foreign_issue_error)
  next
    case denied
    then show ?thesis by (simp add: unf refusal_error_def)
  next
    case no_editor
    then show ?thesis by (simp add: unf down granted split: sum.split)
  qed
qed

lemma token_error_answers:
  assumes "refusal_error ro err" and "out = run (token_error h d a err) w"
    and h: "h = \<lparr>th_tokenSvc = s, th_logger = Logger\<rparr>"
  shows "fst out = fst ro \<and> access_tokens (snd out) = access_tokens w
    \<and> (\<forall>oc. snd ro = Some oc \<longrightarrow> hd (trace (snd out)) = EvLog (log_record Error ''token issuance failed''
         [(FieldEvent, FString EventTokenIssuance), (FieldOutcome, FString oc),
          (FieldDocumentID, FString d), (FieldActorID, FString a), (''error'', FError err)]))"
  using assms
  by (auto simp: refusal_error_def token_error_def logFailure_def prog_simps split: option.splits)

text \<open>
  C35: the token endpoint on the deployed clients.  A well-formed request is answered 404
  when file-service does not know the document and 403 when the authorization service
  says no; when file-service or the authorization service cannot be asked, or Collabora's
  discovery cannot be fetched and none is cached, the answer is 500, never 503, and a
  health signal is logged that names the stage.  In all these cases no token is stored.
\<close>

theorem token_endpoint_refuses:
  fixes w :: "'z server_scheme"
  assumes "outside_errors net" and "env = networked net cfg env0" and "\<forall>n. \<exists>b. go_rand env0 n 32 = Inr b"
    and "rq_Method r = ''POST''" and "ActorIDFromContext r = a" and "a \<noteq> ''''"
    and "decode_tokenRequest (rq_Body r) = Inr req" and "trq_DocumentID req = d" and "d \<noteq> ''''"
    and "token_refusal env (tick w) (collabora_down env w) a d = Some (resp, signal)"
    and "result = run (TokenHandler_ServeHTTP (GoRuntime env) (rd_TokenHandler (app_deps env cfg out)) r) w"
  shows "fst result = resp \<and> access_tokens (snd result) = access_tokens w
    \<and> (\<forall>oc. signal = Some oc \<longrightarrow> (\<exists>err. hd (trace (snd result)) = EvLog (log_record Error ''token issuance failed''
         [(FieldEvent, FString EventTokenIssuance), (FieldOutcome, FString oc),
          (FieldDocumentID, FString d), (FieldActorID, FString a), (''error'', FError err)])))"
proof -
  let ?h = "rd_TokenHandler (app_deps env cfg out)"
  let ?issue = "\<lambda>an. run (IssueToken (GoRuntime env) (sv_token (createServices env cfg)) a an d (trq_Lang req)) w"
  have foreign: "\<forall>n i e. ext_FindByID env n i = Inl e \<longrightarrow> foreign_error e"
    "\<forall>n x p i e. ext_CheckPrivilege env n x p i = Inl e \<longrightarrow> foreign_error e"
    "\<forall>k e. ext_FetchDiscovery env k = Inl e \<longrightarrow> foreign_error e" "\<forall>n. \<exists>b. go_rand env n 32 = Inr b"
    using file_client_foreign(1) [OF assms(1)] wrapped_auth_foreign [OF assms(1)] fetch_foreign [OF assms(1)] assms(3)
    by (auto simp: assms(2))
  define an where "an = (if trq_ActorName req = '''' then ActorNameFromContext r else trq_ActorName req)"
  from IssueToken_refused [OF foreign assms(10) refl, of cfg an "trq_Lang req"] obtain err where
    err: "fst (?issue an) = Inl err" "refusal_error (resp, signal) err" "access_tokens (snd (?issue an)) = access_tokens w"
    by blast
  have "result = run (token_error ?h d a err) (snd (?issue an))"
    using assms(4-9,11) err(1) by (simp add: TokenHandler_ServeHTTP_def Let_def prog_simps an_def)
  from token_error_answers [OF err(2) this, of "sv_token (createServices env cfg)"] err(3) show ?thesis by auto
qed

definition ex_token_body :: bytes where
  "ex_token_body = bytes_of_string (print_json (JObj [(''documentId'', json_string ''doc'')]))"

lemma ex_token_body_decoded:
  "decode_tokenRequest (ex_token_body, None) = Inr \<lparr>trq_DocumentID = ''doc'', trq_ActorName = '''', trq_Lang = ''''\<rparr>"
proof -
  have ok: "json_ok 1 (JObj [(''documentId'', json_string ''doc'')])" by (simp add: raw_ok_plain plain_text_def)
  have doc: "to_valid ''doc'' = ''doc''" by (rule to_valid_ValidString) (simp add: ValidString_ascii)
  show ?thesis
    unfolding decode_tokenRequest_def ex_token_body_def
    by (subst decode_printed(1) [OF ok])
       (simp_all add: maxNestingDepth_def store_members_plain plain_text_def tokenRequest_fields_def json_field_def doc
         del: store_members.simps(2))
qed

definition ex_token_request :: request where
  "ex_token_request = (ex_request [])\<lparr>rq_Method := ''POST'', rq_actorID := ''ada'', rq_Body := (ex_token_body, None)\<rparr>"

theorem token_endpoint_refuses_witness:
  "fst (run (TokenHandler_ServeHTTP (GoRuntime (networked ex_network ex_cfg ex_senv))
     (rd_TokenHandler (app_deps (networked ex_network ex_cfg ex_senv) ex_cfg ex_out)) ex_token_request) ex_server)
     = http_Error 404 ''document not found''"
proof -
  let ?env = "networked ex_network ex_cfg ex_senv"
  have "token_refusal ?env (tick ex_server) (collabora_down ?env ex_server) ''ada'' ''doc'' =
      Some (http_Error 404 ''document not found'', None)"
    using unknown_document_client(1) [OF ex_network_outside(2) ex_file_urls] by (simp add: token_refusal_def)
  from token_endpoint_refuses [OF ex_network_outside(1) refl _ _ _ _ _ _ _ this refl, of ex_token_request]
  show ?thesis by (simp add: ex_token_request_def ActorIDFromContext_def ex_token_body_decoded)
qed

end
