(* ===== verification/Publisher.thy ===== *)
theory Publisher
  imports Contribution GoJSONStruct
begin

text \<open>
  \<^verbatim>\<open>internal/adapter/outbound/rabbitmq/publisher.go\<close>: the life cycle of the broker
  connection.  The AMQP library is an environment: for every call, numbered by \<open>am_tick\<close>,
  it says whether the call fails, and at every moment whether a handle is found closed.
  The world keeps the connections that were dialled and not closed again, and the calls
  with their outcome, newest first.  \<^verbatim>\<open>Publish\<close> and \<^verbatim>\<open>Close\<close> hold the mutex from end to
  end, so each is one atomic action.
\<close>

type_synonym connection = nat
type_synonym channel = "connection \<times> nat"

record publishing =
  ContentType :: string
  DeliveryMode :: nat
  Timestamp :: time
  Body :: bytes

definition Persistent :: nat where
  "Persistent = 2"

datatype amqp_call =
    Dial string "error option"
  | OpenChannel connection "error option"
  | QueueDeclare channel string bool bool bool bool "error option"
  | PublishWithContext channel string string bool bool publishing "error option"
  | CloseChannel channel
  | CloseConnection connection

record amqp_env =
  aq_Answer :: "nat \<Rightarrow> error option"
  aq_ConnClosed :: "nat \<Rightarrow> connection \<Rightarrow> bool"
  aq_ChanClosed :: "nat \<Rightarrow> channel \<Rightarrow> bool"
  aq_Now :: "nat \<Rightarrow> time"

record publisher_state =
  pb_conn :: "connection option"
  pb_channel :: "channel option"
  pb_closed :: bool

record broker_world =
  am_tick :: nat
  am_open :: "connection list"
  am_calls :: "amqp_call list"
  am_pub :: publisher_state

definition amqp_log :: "amqp_call \<Rightarrow> 'z broker_world_scheme \<Rightarrow> 'z broker_world_scheme" where
  "amqp_log c w = w\<lparr>am_tick := Suc (am_tick w), am_calls := c # am_calls w\<rparr>"

definition amqp_Dial ::
  "'e amqp_env_scheme \<Rightarrow> string \<Rightarrow> 'z broker_world_scheme \<Rightarrow> (error + connection) \<times> 'z broker_world_scheme" where
  "amqp_Dial env url w =
     (case aq_Answer env (am_tick w) of
        Some err \<Rightarrow> (Inl err, amqp_log (Dial url (Some err)) w)
      | None \<Rightarrow> (Inr (am_tick w), amqp_log (Dial url None) (w\<lparr>am_open := am_tick w # am_open w\<rparr>)))"

definition conn_Channel ::
  "'e amqp_env_scheme \<Rightarrow> connection \<Rightarrow> 'z broker_world_scheme \<Rightarrow> (error + channel) \<times> 'z broker_world_scheme" where
  "conn_Channel env conn w =
     ((case aq_Answer env (am_tick w) of Some err \<Rightarrow> Inl err | None \<Rightarrow> Inr (conn, am_tick w)),
      amqp_log (OpenChannel conn (aq_Answer env (am_tick w))) w)"

definition channel_QueueDeclare ::
  "'e amqp_env_scheme \<Rightarrow> channel \<Rightarrow> string \<Rightarrow> bool \<Rightarrow> bool \<Rightarrow> bool \<Rightarrow> bool \<Rightarrow> 'z broker_world_scheme \<Rightarrow>
   error option \<times> 'z broker_world_scheme" where
  "channel_QueueDeclare env ch queue durable autoDelete exclusive noWait w =
     (aq_Answer env (am_tick w),
      amqp_log (QueueDeclare ch queue durable autoDelete exclusive noWait (aq_Answer env (am_tick w))) w)"

definition channel_Publish ::
  "'e amqp_env_scheme \<Rightarrow> channel \<Rightarrow> string \<Rightarrow> string \<Rightarrow> bool \<Rightarrow> bool \<Rightarrow> publishing \<Rightarrow> 'z broker_world_scheme \<Rightarrow>
   error option \<times> 'z broker_world_scheme" where
  "channel_Publish env ch exchange key mandatory immediate msg w =
     (aq_Answer env (am_tick w),
      amqp_log (PublishWithContext ch exchange key mandatory immediate msg (aq_Answer env (am_tick w))) w)"

definition channel_Close :: "channel \<Rightarrow> 'z broker_world_scheme \<Rightarrow> 'z broker_world_scheme" where
  "channel_Close ch w = amqp_log (CloseChannel ch) w"

definition conn_Close :: "connection \<Rightarrow> 'z broker_world_scheme \<Rightarrow> 'z broker_world_scheme" where
  "conn_Close conn w = amqp_log (CloseConnection conn) (w\<lparr>am_open := removeAll conn (am_open w)\<rparr>)"

text \<open>The publisher.\<close>

record publisher =
  pb_url :: string
  pb_queue :: string

definition NewPublisher :: "string \<Rightarrow> string \<Rightarrow> publisher \<times> publisher_state" where
  "NewPublisher url queue =
     (\<lparr>pb_url = url, pb_queue = queue\<rparr>, \<lparr>pb_conn = None, pb_channel = None, pb_closed = False\<rparr>)"

record envelope =
  env_Pattern :: string
  env_Data :: payload

text \<open>The JSON of the two events and of the envelope around them.\<close>

definition contributionEvent_json :: "contribution_event \<Rightarrow> json" where
  "contributionEvent_json e =
     JObj [(''documentId'', json_string (DocumentID e)), (''writeActors'', JArr (map json_string (WriteActors e))),
           (''readonlyActors'', JArr (map json_string (ReadonlyActors e)))]"

definition renameFileEvent_json :: "rename_file_event \<Rightarrow> json" where
  "renameFileEvent_json e =
     JObj [(''documentId'', json_string (rn_DocumentID e)), (''displayName'', json_string (rn_DisplayName e))]"

fun payload_json :: "payload \<Rightarrow> json" where
  "payload_json (ContributionPayload e) = contributionEvent_json e"
| "payload_json (RenamePayload e) = renameFileEvent_json e"

definition envelope_json :: "envelope \<Rightarrow> json" where
  "envelope_json v = JObj [(''pattern'', json_string (env_Pattern v)), (''data'', payload_json (env_Data v))]"

definition marshal_envelope :: "envelope \<Rightarrow> error + bytes" where
  "marshal_envelope v = json_Marshal (envelope_json v)"

definition set_pub :: "(publisher_state \<Rightarrow> publisher_state) \<Rightarrow> 'z broker_world_scheme \<Rightarrow> 'z broker_world_scheme" where
  "set_pub f w = w\<lparr>am_pub := f (am_pub w)\<rparr>"

definition resetLocked :: "'z broker_world_scheme \<Rightarrow> 'z broker_world_scheme" where
  "resetLocked w =
     (let w1 = (case pb_channel (am_pub w) of
                  Some ch \<Rightarrow> set_pub (\<lambda>s. s\<lparr>pb_channel := None\<rparr>) (channel_Close ch w)
                | None \<Rightarrow> w)
      in case pb_conn (am_pub w1) of
           Some conn \<Rightarrow> set_pub (\<lambda>s. s\<lparr>pb_conn := None\<rparr>) (conn_Close conn w1)
         | None \<Rightarrow> w1)"

definition live_channel :: "'e amqp_env_scheme \<Rightarrow> 'z broker_world_scheme \<Rightarrow> channel option" where
  "live_channel env w =
     (case (pb_conn (am_pub w), pb_channel (am_pub w)) of
        (Some conn, Some ch) \<Rightarrow>
          if \<not> aq_ConnClosed env (am_tick w) conn \<and> \<not> aq_ChanClosed env (am_tick w) ch then Some ch else None
      | _ \<Rightarrow> None)"

definition connect ::
  "'e amqp_env_scheme \<Rightarrow> publisher \<Rightarrow> 'z broker_world_scheme \<Rightarrow> (error + channel) \<times> 'z broker_world_scheme" where
  "connect env p w =
     (case amqp_Dial env (pb_url p) w of
        (Inl err, w1) \<Rightarrow> (Inl (Errorf ''dial rabbitmq: %w'' [err]), w1)
      | (Inr conn, w1) \<Rightarrow>
          (case conn_Channel env conn w1 of
             (Inl err, w2) \<Rightarrow> (Inl (Errorf ''open channel: %w'' [err]), conn_Close conn w2)
           | (Inr ch, w2) \<Rightarrow>
               (case channel_QueueDeclare env ch (pb_queue p) True False False False w2 of
                  (Some err, w3) \<Rightarrow>
                    (Inl (Errorf ''declare queue %q: %w'' [err]), conn_Close conn (channel_Close ch w3))
                | (None, w3) \<Rightarrow>
                    (Inr ch, set_pub (\<lambda>s. s\<lparr>pb_conn := Some conn, pb_channel := Some ch\<rparr>) w3))))"

definition ensureChannelLocked ::
  "'e amqp_env_scheme \<Rightarrow> publisher \<Rightarrow> 'z broker_world_scheme \<Rightarrow> (error + channel) \<times> 'z broker_world_scheme" where
  "ensureChannelLocked env p w =
     (case live_channel env w of
        Some ch \<Rightarrow> (Inr ch, w)
      | None \<Rightarrow> connect env p (resetLocked w))"

definition Publisher_Publish ::
  "'e amqp_env_scheme \<Rightarrow> publisher \<Rightarrow> string \<Rightarrow> payload \<Rightarrow>
   'z broker_world_scheme \<Rightarrow> error option \<times> 'z broker_world_scheme" where
  "Publisher_Publish env p topic payload w =
     (case marshal_envelope \<lparr>env_Pattern = topic, env_Data = payload\<rparr> of
        Inl err \<Rightarrow> (Some (Errorf ''marshal envelope: %w'' [err]), w)
      | Inr body \<Rightarrow>
          if pb_closed (am_pub w) then (Some (Errorf ''publisher closed'' []), w)
          else (case ensureChannelLocked env p w of
             (Inl err, w1) \<Rightarrow> (Some err, w1)
           | (Inr ch, w1) \<Rightarrow>
               (case channel_Publish env ch '''' (pb_queue p) False False
                       \<lparr>ContentType = ''application/json'', DeliveryMode = Persistent,
                        Timestamp = aq_Now env (am_tick w1), Body = body\<rparr> w1 of
                  (Some err, w2) \<Rightarrow> (Some (Errorf ''publish to %q: %w'' [err]), resetLocked w2)
                | (None, w2) \<Rightarrow> (None, w2))))"

definition Publisher_Close :: "'z broker_world_scheme \<Rightarrow> error option \<times> 'z broker_world_scheme" where
  "Publisher_Close w = (None, resetLocked (set_pub (\<lambda>s. s\<lparr>pb_closed := True\<rparr>) w))"

definition PublisherPort ::
  "'e amqp_env_scheme \<Rightarrow> publisher \<Rightarrow> 'z broker_world_scheme queue_publisher" where
  "PublisherPort env p = \<lparr>qp_Publish = Publisher_Publish env p\<rparr>"

lemma amqp_log_sel [simp]:
  "am_tick (amqp_log c w) = Suc (am_tick w)" "am_open (amqp_log c w) = am_open w"
  "am_calls (amqp_log c w) = c # am_calls w" "am_pub (amqp_log c w) = am_pub w"
  by (simp_all add: amqp_log_def)

lemma set_pub_sel [simp]:
  "am_tick (set_pub f w) = am_tick w" "am_open (set_pub f w) = am_open w"
  "am_calls (set_pub f w) = am_calls w" "am_pub (set_pub f w) = f (am_pub w)"
  by (simp_all add: set_pub_def)

lemmas amqp_defs = amqp_Dial_def conn_Channel_def channel_QueueDeclare_def channel_Publish_def
  channel_Close_def conn_Close_def

text \<open>
  The invariant: the two handles are set together, the channel is one of the held
  connection and carries a durable declaration of the queue, the held connection is the
  only one open, and a closed publisher holds none.
\<close>

definition declared :: "publisher \<Rightarrow> channel \<Rightarrow> 'z broker_world_scheme \<Rightarrow> bool" where
  "declared p ch w = (QueueDeclare ch (pb_queue p) True False False False None \<in> set (am_calls w))"

definition wf_publisher :: "publisher \<Rightarrow> 'z broker_world_scheme \<Rightarrow> bool" where
  "wf_publisher p w =
     (let s = am_pub w
      in (case pb_channel s of
            None \<Rightarrow> pb_conn s = None \<and> am_open w = []
          | Some ch \<Rightarrow> pb_conn s = Some (fst ch) \<and> am_open w = [fst ch] \<and> declared p ch w)
         \<and> (pb_closed s \<longrightarrow> pb_conn s = None))"

lemma resetLocked_wf:
  assumes "wf_publisher p w"
  shows "am_open (resetLocked w) = []" "pb_conn (am_pub (resetLocked w)) = None"
    "pb_channel (am_pub (resetLocked w)) = None" "pb_closed (am_pub (resetLocked w)) = pb_closed (am_pub w)"
  using assms by (auto simp: wf_publisher_def resetLocked_def amqp_defs Let_def split: option.splits)

lemma wf_resetLocked: "wf_publisher p w \<Longrightarrow> wf_publisher p (resetLocked w)"
  using resetLocked_wf [of p w] by (simp add: wf_publisher_def Let_def)

lemma wf_connect:
  assumes "wf_publisher p w" and "pb_conn (am_pub w) = None" and "\<not> pb_closed (am_pub w)"
  shows "wf_publisher p (snd (connect env p w))"
    and "fst (connect env p w) = Inr ch \<Longrightarrow> pb_channel (am_pub (snd (connect env p w))) = Some ch"
    and "pb_closed (am_pub (snd (connect env p w))) = pb_closed (am_pub w)"
  using assms
  by (auto simp: wf_publisher_def connect_def amqp_defs Let_def declared_def split: option.splits)

lemma ensureChannel_wf:
  assumes "wf_publisher p w" and "\<not> pb_closed (am_pub w)"
  shows "wf_publisher p (snd (ensureChannelLocked env p w))"
    and "fst (ensureChannelLocked env p w) = Inr ch \<Longrightarrow>
      pb_channel (am_pub (snd (ensureChannelLocked env p w))) = Some ch"
    and "pb_closed (am_pub (snd (ensureChannelLocked env p w))) = pb_closed (am_pub w)"
  using wf_connect [OF wf_resetLocked [OF assms(1)], of env] resetLocked_wf [OF assms(1)] assms
  by (auto simp: ensureChannelLocked_def live_channel_def split: option.splits if_splits)

lemma wf_log: "wf_publisher p w \<Longrightarrow> wf_publisher p (amqp_log c w)"
  by (auto simp: wf_publisher_def Let_def declared_def split: option.splits)

lemma wf_Publish:
  assumes "wf_publisher p w"
  shows "wf_publisher p (snd (Publisher_Publish env p t pl w))"
    and "pb_closed (am_pub (snd (Publisher_Publish env p t pl w))) = pb_closed (am_pub w)"
  using assms ensureChannel_wf [OF assms, of env]
  by (auto simp: Publisher_Publish_def channel_Publish_def wf_log wf_resetLocked resetLocked_wf(4) [OF wf_log]
      split: sum.splits option.splits prod.splits)

lemma wf_Close:
  assumes "wf_publisher p w"
  shows "wf_publisher p (snd (Publisher_Close w))"
  using assms
  by (auto simp: wf_publisher_def Publisher_Close_def resetLocked_def amqp_defs Let_def split: option.splits)

end
