(* ===== verification/ContributionFlush.thy ===== *)
theory ContributionFlush
  imports Server Examples
begin

text \<open>
  What a flush of the contribution window publishes, for any history of activity, any
  order in which the map is visited and any failures of the broker.
\<close>

definition published :: "event list \<Rightarrow> (string \<times> payload) list" where
  "published tr = List.map_filter (\<lambda>ev. case ev of EvPublish t p \<Rightarrow> Some (t, p) | _ \<Rightarrow> None) tr"

lemma published_simps [simp]:
  "published [] = []"
  "published (EvPublish t p # tr) = (t, p) # published tr"
  "published (EvLog e # tr) = published tr"
  by (simp_all add: published_def map_filter_def)

lemma locked_docs [simp]:
  "locked docs_cell f w = (fst (f (sv_docs w)), w\<lparr>sv_docs := snd (f (sv_docs w))\<rparr>)"
  by (simp add: locked_def split_beta)

lemma locked_counters [simp]:
  "locked counters_cell f w = (fst (f (sv_counters w)), w\<lparr>sv_counters := snd (f (sv_counters w))\<rparr>)"
  by (simp add: locked_def split_beta)

definition attempts :: "counters \<Rightarrow> int" where
  "attempts k = emitted k + publishFail k"

lemma attempts_update [simp]:
  "attempts (k\<lparr>emitted := emitted k + 1\<rparr>) = attempts k + 1"
  "attempts (k\<lparr>publishFail := publishFail k + 1\<rparr>) = attempts k + 1"
  by (simp_all add: attempts_def)

abbreviation messages :: "docs \<Rightarrow> (string \<times> payload) list" where
  "messages ds \<equiv> map (\<lambda>(t, e). (t, ContributionPayload e)) (List.map_filter event_of ds)"

lemma map_filter_Cons [simp]:
  "List.map_filter f (x # xs) = (case f x of None \<Rightarrow> List.map_filter f xs | Some y \<Rightarrow> y # List.map_filter f xs)"
  "List.map_filter f [] = []"
  by (simp_all add: map_filter_def split: option.split)

lemma flush_loop_run:
  fixes env :: "'e server_env_scheme" and w :: "'z server_scheme"
  assumes "RabbitMQ_IsConfigured (cfg_RabbitMQ cfg)"
  shows "published (trace (snd (run (flush_loop (sv_contribution (createServices env cfg)) ds n) w))) =
           rev (messages ds) @ published (trace w)
    \<and> sv_docs (snd (run (flush_loop (sv_contribution (createServices env cfg)) ds n) w)) = sv_docs w
    \<and> attempts (sv_counters (snd (run (flush_loop (sv_contribution (createServices env cfg)) ds n) w))) =
        attempts (sv_counters w) + int (length (List.map_filter event_of ds))"
proof (induction ds arbitrary: n w)
  case Nil
  then show ?case by (simp add: prog_simps)
next
  case (Cons kd ds)
  show ?case
  proof (cases "event_of kd")
    case None
    with Cons show ?thesis by simp
  next
    case (Some te)
    then show ?thesis
      by (cases te) (simp add: prog_simps Cons newPublisher_def assms split: option.split)
  qed
qed

lemma event_of_document: "event_of (k, d) = Some (t, e) \<Longrightarrow> DocumentID e = k"
  by (auto simp: event_of_def split: if_splits)

lemma messages_documents:
  "distinct (map fst ds) \<Longrightarrow> distinct (map (DocumentID \<circ> snd) (List.map_filter event_of ds))
   \<and> set (map (DocumentID \<circ> snd) (List.map_filter event_of ds)) \<subseteq> fst ` set ds"
proof (induction ds)
  case (Cons kd ds)
  obtain k d where kd: "kd = (k, d)" by (cases kd)
  from Cons have IH: "distinct (map (DocumentID \<circ> snd) (List.map_filter event_of ds))"
    "set (map (DocumentID \<circ> snd) (List.map_filter event_of ds)) \<subseteq> fst ` set ds" and k: "k \<notin> fst ` set ds"
    by (simp_all add: kd comp_def)
  show ?case
  proof (cases "event_of (k, d)")
    case None
    with IH show ?thesis by (auto simp: kd comp_def)
  next
    case (Some te)
    then have "DocumentID (snd te) = k" by (cases te) (simp add: event_of_document)
    with Some IH k show ?thesis by (auto simp: kd comp_def)
  qed
qed simp

lemma messages_distinct: "distinct (map fst ds) \<Longrightarrow> distinct (messages ds)"
proof -
  assume "distinct (map fst ds)"
  then have "distinct (List.map_filter event_of ds)"
    using messages_documents distinct_map by blast
  then show ?thesis
    by (auto simp: distinct_map inj_on_def)
qed

text \<open>
  C15: a flush publishes what the window's history calls for, once.  After any sequence
  of activity the flush attempts exactly one message for every document on which an
  actor was seen: on the contribution topic when the document was modified, on the view
  topic otherwise, with the sorted lists of the actors seen with and without write
  permission.  A document without actors yields no message.  The window is empty
  afterwards, and the two counters account for every message, sent or failed.
\<close>

theorem flush_publishes_window:
  assumes docs: "sv_docs w = window_after acts"
    and order: "mset (order (sv_docs w)) = mset (sv_docs w)"
    and broker: "RabbitMQ_IsConfigured (cfg_RabbitMQ cfg)"
    and out: "w' = snd (run (flush order (sv_contribution (createServices env cfg))) w)"
  shows "\<exists>sent. published (trace w') = sent @ published (trace w)
    \<and> distinct sent
    \<and> (\<forall>t p. (t, p) \<in> set sent \<longleftrightarrow> (\<exists>f e. expected_event acts f = Some (t, e) \<and> p = ContributionPayload e))
    \<and> sv_docs w' = []
    \<and> attempts (sv_counters w') = attempts (sv_counters w) + int (length sent)"
proof -
  let ?ds = "order (sv_docs w)"
  let ?sent = "rev (messages ?ds)"
  let ?c = "sv_contribution (createServices env cfg)"
  have w': "w' = snd (run (flush_loop ?c ?ds 0) (w\<lparr>sv_docs := []\<rparr>))"
    by (simp add: out flush_def prog_simps)
  have set: "set ?ds = set (window_after acts)"
    using order docs by (metis set_mset_mset)
  have "mset (map fst ?ds) = mset (map fst (window_after acts))"
    using order docs by (metis mset_map)
  then have "distinct (map fst ?ds)"
    using wf_window_after [of acts] unfolding wf_docs_def by (metis mset_eq_imp_distinct_iff)
  then have "distinct ?sent" using messages_distinct by (metis distinct_rev)
  moreover have "(t, p) \<in> set ?sent \<longleftrightarrow> (\<exists>f e. expected_event acts f = Some (t, e) \<and> p = ContributionPayload e)"
    for t p
  proof -
    have "set (List.map_filter event_of ?ds) = set (List.map_filter event_of (window_after acts))"
      by (auto simp: map_filter_def set)
    then have "(t, e) \<in> set (List.map_filter event_of ?ds) \<longleftrightarrow> (\<exists>f. expected_event acts f = Some (t, e))" for e
      by (simp add: window_events)
    then show ?thesis by force
  qed
  moreover note flush_loop_run [OF broker, of env ?ds 0 "w\<lparr>sv_docs := []\<rparr>"]
  ultimately show ?thesis unfolding w' by (intro exI [of _ ?sent]) simp
qed

theorem flush_publishes_window_witness:
  "\<exists>sent. published (trace (snd (run (flush rev (sv_contribution (createServices ex_senv ex_cfg)))
        (ex_server\<lparr>sv_docs := window_after [Active ''doc'' ''ada'' True, Modified ''doc'']\<rparr>)))) = sent
     \<and> (ContributionTopic, ContributionPayload \<lparr>DocumentID = ''doc'', WriteActors = [''ada''], ReadonlyActors = []\<rparr>)
        \<in> set sent"
proof -
  let ?acts = "[Active ''doc'' ''ada'' True, Modified ''doc'']"
  let ?w = "ex_server\<lparr>sv_docs := window_after ?acts\<rparr>"
  have "writers_of ?acts ''doc'' = {''ada''}" "readers_of ?acts ''doc'' = {}"
    by (auto simp: writers_of_def readers_of_def)
  then have "expected_event ?acts ''doc'' = Some (ContributionTopic,
      \<lparr>DocumentID = ''doc'', WriteActors = [''ada''], ReadonlyActors = []\<rparr>)"
    by (simp add: expected_event_def)
  with flush_publishes_window [of ?w ?acts rev ex_cfg _ ex_senv, OF _ _ _ refl] show ?thesis
    by (fastforce simp: RabbitMQ_IsConfigured_def ex_cfg_def)
qed

end
