(* ===== verification/Broker.thy ===== *)
theory Broker
  imports Publisher ContributionFlush
begin

text \<open>
  What the RabbitMQ publisher does over its whole life, and the contribution window on top
  of it.
\<close>

text \<open>Any history of a publisher: made by \<^verbatim>\<open>NewPublisher\<close>, then used and closed in any order.\<close>

inductive pub_reach ::
  "'e amqp_env_scheme \<Rightarrow> string \<Rightarrow> string \<Rightarrow> 'z broker_world_scheme \<Rightarrow> bool"
  for env url queue where
  made: "am_open w = [] \<Longrightarrow> am_calls w = [] \<Longrightarrow> am_pub w = snd (NewPublisher url queue) \<Longrightarrow>
         pub_reach env url queue w"
| publish: "pub_reach env url queue w \<Longrightarrow>
         pub_reach env url queue
           (snd (Publisher_Publish env (fst (NewPublisher url queue)) topic payload w))"
| close: "pub_reach env url queue w \<Longrightarrow> pub_reach env url queue (snd (Publisher_Close w))"

text \<open>
  The order of the calls, newest first: a message is handed to a channel only after the
  queue was declared durable on it, on the default exchange, with the queue's name as
  routing key, as a persistent JSON message.
\<close>

fun calls_ok :: "string \<Rightarrow> amqp_call list \<Rightarrow> bool" where
  "calls_ok q [] = True"
| "calls_ok q (PublishWithContext ch exchange key mandatory immediate msg r # cs) =
     (QueueDeclare ch q True False False False None \<in> set cs \<and> exchange = '''' \<and> key = q
      \<and> DeliveryMode msg = Persistent \<and> ContentType msg = ''application/json'' \<and> calls_ok q cs)"
| "calls_ok q (c # cs) = calls_ok q cs"

fun accepted :: "amqp_call list \<Rightarrow> bytes list" where
  "accepted [] = []"
| "accepted (PublishWithContext ch exchange key mandatory immediate msg None # cs) = Body msg # accepted cs"
| "accepted (c # cs) = accepted cs"

abbreviation delivered :: "'z broker_world_scheme \<Rightarrow> bytes list" where
  "delivered w \<equiv> accepted (am_calls w)"

lemma resetLocked_calls [simp]:
  "calls_ok q (am_calls (resetLocked w)) = calls_ok q (am_calls w)"
  "delivered (resetLocked w) = delivered w"
  by (simp_all add: resetLocked_def amqp_defs Let_def split: option.split)

lemma connect_calls [simp]:
  "calls_ok q (am_calls (snd (connect env p w))) = calls_ok q (am_calls w)"
  "delivered (snd (connect env p w)) = delivered w"
  by (simp_all add: connect_def amqp_defs split: option.split)

lemma ensureChannel_calls [simp]:
  "calls_ok q (am_calls (snd (ensureChannelLocked env p w))) = calls_ok q (am_calls w)"
  "delivered (snd (ensureChannelLocked env p w)) = delivered w"
  by (simp_all add: ensureChannelLocked_def split: option.split)

lemma wf_declared: "wf_publisher p w \<Longrightarrow> pb_channel (am_pub w) = Some ch \<Longrightarrow> declared p ch w"
  by (simp add: wf_publisher_def Let_def)

text \<open>
  The other end of the queue: what a consumer reads that decodes the envelope and the event
  with structs of the same shape.
\<close>

fun store_strings :: "string list json_store" where
  "store_strings (JArr vs) old =
     foldr (\<lambda>v acc. bind_result (store_string v '''') (\<lambda>x. map_sum id ((#) x) acc)) vs (Inr [])"
| "store_strings JNull old = Inr []"
| "store_strings _ old = Inl UnmarshalTypeError"

definition contributionEvent_fields :: "(string \<times> contribution_event json_store) list" where
  "contributionEvent_fields =
     [json_field ''documentId'' store_string DocumentID DocumentID_update,
      json_field ''writeActors'' store_strings WriteActors WriteActors_update,
      json_field ''readonlyActors'' store_strings ReadonlyActors ReadonlyActors_update]"

definition renameFileEvent_fields :: "(string \<times> rename_file_event json_store) list" where
  "renameFileEvent_fields =
     [json_field ''documentId'' store_string rn_DocumentID rn_DocumentID_update,
      json_field ''displayName'' store_string rn_DisplayName rn_DisplayName_update]"

definition envelope_fields :: "'d json_store \<Rightarrow> (string \<times> (string \<times> 'd) json_store) list" where
  "envelope_fields st = [json_field ''pattern'' store_string fst apfst, json_field ''data'' st snd apsnd]"

definition read_contribution :: "bytes \<Rightarrow> error + string \<times> contribution_event" where
  "read_contribution = json_Unmarshal (store_struct (envelope_fields (store_struct contributionEvent_fields)))
     ('''', \<lparr>DocumentID = '''', WriteActors = [], ReadonlyActors = []\<rparr>)"

definition read_rename :: "bytes \<Rightarrow> error + string \<times> rename_file_event" where
  "read_rename = json_Unmarshal (store_struct (envelope_fields (store_struct renameFileEvent_fields)))
     ('''', \<lparr>rn_DocumentID = '''', rn_DisplayName = ''''\<rparr>)"

fun reads_as :: "string \<Rightarrow> payload \<Rightarrow> bytes \<Rightarrow> bool" where
  "reads_as topic (ContributionPayload e) body =
     (read_contribution body = Inr (to_valid topic, \<lparr>DocumentID = to_valid (DocumentID e),
        WriteActors = map to_valid (WriteActors e), ReadonlyActors = map to_valid (ReadonlyActors e)\<rparr>))"
| "reads_as topic (RenamePayload e) body =
     (read_rename body = Inr (to_valid topic, \<lparr>rn_DocumentID = to_valid (rn_DocumentID e),
        rn_DisplayName = to_valid (rn_DisplayName e)\<rparr>))"

lemma store_strings_json [simp]: "store_strings (JArr (map json_string xs)) old = Inr (map to_valid xs)"
  by (induction xs) (simp_all del: store_string.simps)

lemma payload_json_ok: "json_ok (Suc (Suc d)) (payload_json pl)"
  by (cases pl) (simp_all add: contributionEvent_json_def renameFileEvent_json_def raw_ok_plain plain_text_def
      list.pred_map o_def list_all_iff)

lemma envelope_json_ok: "json_ok (Suc (Suc (Suc d))) (envelope_json v)"
  unfolding envelope_json_def using payload_json_ok [of d "env_Data v"]
  by (simp add: raw_ok_plain plain_text_def del: json_ok.simps(6) payload_json.simps)

lemma envelope_reads_as:
  assumes "marshal_envelope \<lparr>env_Pattern = t, env_Data = pl\<rparr> = Inr body"
  shows "reads_as t pl body"
proof -
  note unf = maxNestingDepth_def envelope_json_def store_members_plain plain_text_def envelope_fields_def json_field_def
  have body: "body = bytes_of_string (print_json (envelope_json \<lparr>env_Pattern = t, env_Data = pl\<rparr>))"
    using assms by (simp add: marshal_envelope_def json_Marshal_def)
  note read = decode_printed(2) [OF envelope_json_ok [of 0]]
  show ?thesis
  proof (cases pl)
    case (ContributionPayload e)
    show ?thesis
      unfolding body ContributionPayload reads_as.simps read_contribution_def
      by (subst read) (simp_all add: unf contributionEvent_json_def contributionEvent_fields_def
          del: store_members.simps(2) store_strings.simps(1))
  next
    case (RenamePayload e)
    show ?thesis
      unfolding body RenamePayload reads_as.simps read_rename_def
      by (subst read) (simp_all add: unf renameFileEvent_json_def renameFileEvent_fields_def
          del: store_members.simps(2))
  qed
qed

lemma marshal_envelope_total: "\<exists>body. marshal_envelope v = Inr body"
  by (simp add: marshal_envelope_def json_Marshal_def)

text \<open>The three ways \<^verbatim>\<open>Publish\<close> can end, once and for all.\<close>

lemma Publish_cases:
  assumes "wf_publisher p w"
  obtains (unopened) e where "Publisher_Publish env p t pl w = (Some e, w)"
      "pb_closed (am_pub w)"
  | (unreached) e where "\<not> pb_closed (am_pub w)" "fst (ensureChannelLocked env p w) = Inl e"
      "Publisher_Publish env p t pl w = (Some e, snd (ensureChannelLocked env p w))"
  | (handed) body ch msg w1 w2 r where "marshal_envelope \<lparr>env_Pattern = t, env_Data = pl\<rparr> = Inr body"
      "\<not> pb_closed (am_pub w)" "ensureChannelLocked env p w = (Inr ch, w1)" "declared p ch w1" "Body msg = body"
      "DeliveryMode msg = Persistent" "ContentType msg = ''application/json''"
      "r = aq_Answer env (am_tick w1)"
      "w2 = amqp_log (PublishWithContext ch '''' (pb_queue p) False False msg r) w1"
      "Publisher_Publish env p t pl w =
         (case r of None \<Rightarrow> (None, w2) | Some e \<Rightarrow> (Some (Errorf ''publish to %q: %w'' [e]), resetLocked w2))"
proof (cases "marshal_envelope \<lparr>env_Pattern = t, env_Data = pl\<rparr>")
  case (Inl e)
  then show ?thesis using marshal_envelope_total by (metis sum.distinct(1))
next
  case (Inr body)
  show ?thesis
  proof (cases "pb_closed (am_pub w)")
    case True
    with Inr show ?thesis by (intro unopened) (auto simp: Publisher_Publish_def)
  next
    case open_: False
    show ?thesis
    proof (cases "fst (ensureChannelLocked env p w)")
      case (Inl e)
      then show ?thesis using Inr open_
        by (intro unreached [of e]) (auto simp: Publisher_Publish_def split: prod.splits sum.splits)
    next
      case ch: (Inr ch)
      then obtain w1 where e: "ensureChannelLocked env p w = (Inr ch, w1)" by (metis prod.collapse)
      have d: "declared p ch w1"
        using ensureChannel_wf(1,2) [OF assms open_, of env] e wf_declared by (metis fst_conv snd_conv)
      show ?thesis
        by (rule handed [OF Inr open_ e d, where msg =
              "\<lparr>ContentType = ''application/json'', DeliveryMode = Persistent,
                Timestamp = aq_Now env (am_tick w1), Body = body\<rparr>", OF _ _ _ refl refl])
           (use Inr open_ in \<open>simp_all add: Publisher_Publish_def e channel_Publish_def split: option.split\<close>)
    qed
  qed
qed

lemma pub_reach_wf:
  assumes "pub_reach env url queue w"
  shows "wf_publisher (fst (NewPublisher url queue)) w \<and> calls_ok queue (am_calls w)"
  using assms
proof induction
  case (made w)
  then show ?case by (simp add: wf_publisher_def NewPublisher_def)
next
  case (publish w topic payload)
  let ?p = "fst (NewPublisher url queue)"
  from publish.IH have wf: "wf_publisher ?p w" and ok: "calls_ok queue (am_calls w)" by simp_all
  have q: "pb_queue ?p = queue" by (simp add: NewPublisher_def)
  have "calls_ok queue (am_calls (snd (Publisher_Publish env ?p topic payload w)))"
    using wf
  proof (cases rule: Publish_cases [where env = env and t = topic and pl = payload])
    case (handed body ch msg w1 w2 r)
    then have "calls_ok queue (am_calls w1)" using ok ensureChannel_calls(1) [of queue env ?p w] by simp
    with handed q show ?thesis by (auto simp: declared_def split: option.split)
  qed (use ok in simp_all)
  with wf_Publish(1) [OF wf] show ?case by simp
next
  case (close w)
  then show ?case by (simp add: wf_Close) (simp add: Publisher_Close_def)
qed

lemma Publish_outcome_wf:
  assumes wf: "wf_publisher p w"
    and "out = Publisher_Publish env p topic payload w"
  shows "(fst out = None \<longrightarrow> (\<exists>body. marshal_envelope \<lparr>env_Pattern = topic, env_Data = payload\<rparr> = Inr body
            \<and> delivered (snd out) = body # delivered w))
    \<and> (fst out \<noteq> None \<longrightarrow> delivered (snd out) = delivered w)
    \<and> (pb_closed (am_pub w) \<longrightarrow> fst out \<noteq> None \<and> snd out = w)
    \<and> (\<not> pb_closed (am_pub w) \<and> (\<forall>n\<ge>am_tick w. aq_Answer env n = None)
         \<longrightarrow> fst out = None)"
proof -
  have tick: "am_tick w \<le> am_tick (resetLocked w)"
    by (simp add: resetLocked_def amqp_defs Let_def split: option.split)
  have up: "fst (ensureChannelLocked env p w) \<noteq> Inl e \<and> am_tick w \<le> am_tick (snd (ensureChannelLocked env p w))"
    if "\<forall>n\<ge>am_tick w. aq_Answer env n = None" for e
    using that tick by (auto simp: ensureChannelLocked_def connect_def amqp_defs split: option.split)
  show ?thesis
    using wf
  proof (cases rule: Publish_cases [where env = env and t = topic and pl = payload])
    case (unopened e)
    then show ?thesis by (auto simp: assms(2))
  next
    case (unreached e)
    with up [of e] have "\<not> (\<forall>n\<ge>am_tick w. aq_Answer env n = None)" by blast
    with unreached show ?thesis by (auto simp: assms(2))
  next
    case (handed body ch msg w1 w2 r)
    have "delivered w1 = delivered w" using ensureChannel_calls(2) [of env p w] handed(3) by simp
    moreover have "r = None" if "\<forall>n\<ge>am_tick w. aq_Answer env n = None"
      using up [OF that] that handed by simp
    ultimately show ?thesis using handed by (auto simp: assms(2) split: option.splits)
  qed
qed

text \<open>
  C32: the publisher's connection.  However \<^verbatim>\<open>Publish\<close> and \<^verbatim>\<open>Close\<close> follow each other and
  whatever the broker does, at most one connection is open and it is the one the publisher
  holds, so none leaks; a closed publisher has none; and every message was handed to a
  channel on which the queue had been declared durable, on the default exchange with the
  queue's name as routing key, persistent and as JSON.
\<close>

theorem publisher_connection_invariant:
  assumes "pub_reach env url queue w"
  shows "am_open w = (case pb_conn (am_pub w) of None \<Rightarrow> [] | Some c \<Rightarrow> [c])
    \<and> (pb_conn (am_pub w) = None \<longleftrightarrow> pb_channel (am_pub w) = None)
    \<and> (pb_closed (am_pub w) \<longrightarrow> am_open w = [])
    \<and> calls_ok queue (am_calls w)"
  using pub_reach_wf [OF assms] by (auto simp: wf_publisher_def Let_def split: option.splits)


text \<open>
  A broker that refuses the first connection and answers from then on, and a publisher that
  lived through it: one failed and one successful call.
\<close>

definition ex_amqp :: amqp_env where
  "ex_amqp = \<lparr>aq_Answer = (\<lambda>n. if n = 0 then Some (OpaqueError ''connection refused'') else None),
     aq_ConnClosed = (\<lambda>_ _. False), aq_ChanClosed = (\<lambda>_ _. False), aq_Now = (\<lambda>_. 0)\<rparr>"

definition ex_broker_start :: broker_world where
  "ex_broker_start = \<lparr>am_tick = 0, am_open = [], am_calls = [], am_pub = snd (NewPublisher ''amqp://mq/'' ''q'')\<rparr>"

definition ex_broker :: broker_world where
  "ex_broker = snd (Publisher_Publish ex_amqp (fst (NewPublisher ''amqp://mq/'' ''q'')) ''a''
     (ContributionPayload \<lparr>DocumentID = ''doc'', WriteActors = [], ReadonlyActors = []\<rparr>) ex_broker_start)"

lemma ex_broker_reach: "pub_reach ex_amqp ''amqp://mq/'' ''q'' ex_broker"
  unfolding ex_broker_def
  by (intro pub_reach.publish pub_reach.made) (simp_all add: ex_broker_start_def)

lemma ex_broker_state: "am_tick ex_broker = 1" "\<not> pb_closed (am_pub ex_broker)" "delivered ex_broker = []"
  by (simp_all add: ex_broker_def ex_broker_start_def Publisher_Publish_def marshal_envelope_def json_Marshal_def ensureChannelLocked_def
      live_channel_def NewPublisher_def connect_def amqp_defs ex_amqp_def resetLocked_def Let_def)

theorem publisher_connection_invariant_witness:
  "am_open (snd (Publisher_Close ex_broker)) = []"
  using publisher_connection_invariant [OF pub_reach.close [OF ex_broker_reach]] ex_broker_reach
  by (auto simp: Publisher_Close_def resetLocked_def amqp_defs Let_def split: option.splits)


end
