(* ===== verification/BrokerWindow.thy ===== *)
theory BrokerWindow
  imports Broker "HOL-Library.Sublist"
begin

text \<open>
  The contribution window over the RabbitMQ publisher: what arrives at the broker when a
  window is flushed.  The world has the publisher's state, the window's two guarded fields
  and the log.
\<close>

record window_world = broker_world +
  ww_docs :: docs
  ww_counters :: counters
  ww_log :: "log_entry list"

definition ww_docs_cell :: "('z window_world_scheme, docs) cell" where
  "ww_docs_cell = \<lparr>cell_get = ww_docs, cell_put = (\<lambda>x w. w\<lparr>ww_docs := x\<rparr>)\<rparr>"

definition ww_counters_cell :: "('z window_world_scheme, counters) cell" where
  "ww_counters_cell = \<lparr>cell_get = ww_counters, cell_put = (\<lambda>x w. w\<lparr>ww_counters := x\<rparr>)\<rparr>"

definition ww_Logger :: "'z window_world_scheme logger" where
  "ww_Logger e w = w\<lparr>ww_log := e # ww_log w\<rparr>"

interpretation ww_docs_laws: cell_laws ww_docs_cell
  by unfold_locales (simp_all add: ww_docs_cell_def)

interpretation ww_counters_laws: cell_laws ww_counters_cell
  by unfold_locales (simp_all add: ww_counters_cell_def)

text \<open>\<^verbatim>\<open>newPublisher\<close> with a configured broker, and the window \<^verbatim>\<open>createServices\<close> makes on it.\<close>

definition live_window ::
  "'e amqp_env_scheme \<Rightarrow> config \<Rightarrow> 'z window_world_scheme contribution_window" where
  "live_window env cfg =
     NewContributionWindow
       (PublisherPort env (fst (NewPublisher (rmq_URL (cfg_RabbitMQ cfg)) ContributionQueue)))
       (cfg_ContributionWindow cfg) ww_Logger ww_docs_cell ww_counters_cell"

abbreviation live_publisher :: "config \<Rightarrow> publisher" where
  "live_publisher cfg \<equiv> fst (NewPublisher (rmq_URL (cfg_RabbitMQ cfg)) ContributionQueue)"

lemma live_window_sel [simp]:
  "qp_Publish (cw_publisher (live_window env cfg)) = Publisher_Publish env (live_publisher cfg)"
  "cw_logger (live_window env cfg) = ww_Logger"
  "cw_docs (live_window env cfg) = ww_docs_cell"
  "cw_counters (live_window env cfg) = ww_counters_cell"
  by (simp_all add: live_window_def NewContributionWindow_def PublisherPort_def)

text \<open>Broker state and window state do not touch each other.\<close>

lemma amqp_window [simp]:
  "ww_docs (amqp_log c w) = ww_docs w" "ww_counters (amqp_log c w) = ww_counters w"
  "ww_docs (set_pub f w) = ww_docs w" "ww_counters (set_pub f w) = ww_counters w"
  by (simp_all add: amqp_log_def set_pub_def)

lemma reset_window [simp]:
  "ww_docs (resetLocked w) = ww_docs w" "ww_counters (resetLocked w) = ww_counters w"
  by (simp_all add: resetLocked_def amqp_defs Let_def split: option.split)

lemma connect_window [simp]:
  "ww_docs (snd (connect env p w)) = ww_docs w" "ww_counters (snd (connect env p w)) = ww_counters w"
  by (simp_all add: connect_def amqp_defs split: option.split)

lemma ensure_window [simp]:
  "ww_docs (snd (ensureChannelLocked env p w)) = ww_docs w"
  "ww_counters (snd (ensureChannelLocked env p w)) = ww_counters w"
  by (simp_all add: ensureChannelLocked_def split: option.split)

lemma Publish_window [simp]:
  "ww_docs (snd (Publisher_Publish env p t pl w)) = ww_docs w"
  "ww_counters (snd (Publisher_Publish env p t pl w)) = ww_counters w"
proof -
  obtain r v where v: "ensureChannelLocked env p w = (r, v)" by (cases "ensureChannelLocked env p w")
  then have "ww_docs v = ww_docs w" "ww_counters v = ww_counters w" using ensure_window [of env p w] by simp_all
  then show "ww_docs (snd (Publisher_Publish env p t pl w)) = ww_docs w"
    "ww_counters (snd (Publisher_Publish env p t pl w)) = ww_counters w"
    by (simp_all add: Publisher_Publish_def channel_Publish_def v split: sum.split option.split)
qed

lemma tick_connect: "am_tick w \<le> am_tick (snd (connect env p w))"
  by (simp add: connect_def amqp_defs split: option.split)

lemma tick_reset: "am_tick w \<le> am_tick (resetLocked w)"
  by (simp add: resetLocked_def amqp_defs Let_def split: option.split)

lemma tick_ensure: "am_tick w \<le> am_tick (snd (ensureChannelLocked env p w))"
  using tick_reset [of w] tick_connect [of "resetLocked w" env p]
  by (simp add: ensureChannelLocked_def split: option.split)

lemma tick_Publish: "am_tick w \<le> am_tick (snd (Publisher_Publish env p t pl w))"
proof -
  obtain r v where v: "ensureChannelLocked env p w = (r, v)" by (cases "ensureChannelLocked env p w")
  then have "am_tick w \<le> am_tick v" using tick_ensure [of w env p] by simp
  moreover have "am_tick v \<le> am_tick (resetLocked (amqp_log c v))" for c
    using tick_reset [of "amqp_log c v"] by simp
  ultimately show ?thesis
    by (auto simp: Publisher_Publish_def channel_Publish_def v intro: order_trans split: sum.split option.split)
qed

definition healthy :: "'e amqp_env_scheme \<Rightarrow> 'z broker_world_scheme \<Rightarrow> bool" where
  "healthy env w = (\<not> pb_closed (am_pub w) \<and> (\<forall>n\<ge>am_tick w. aq_Answer env n = None))"

abbreviation wire :: "docs \<Rightarrow> (error + bytes) list" where
  "wire ds \<equiv> map (\<lambda>(t, e). marshal_envelope \<lparr>env_Pattern = t, env_Data = ContributionPayload e\<rparr>)
     (List.map_filter event_of ds)"

lemma window_locked [simp]:
  "locked ww_docs_cell f w = (fst (f (ww_docs w)), w\<lparr>ww_docs := snd (f (ww_docs w))\<rparr>)"
  "locked ww_counters_cell g w = (fst (g (ww_counters w)), w\<lparr>ww_counters := snd (g (ww_counters w))\<rparr>)"
  by (simp_all add: locked_def split_beta ww_docs_cell_def ww_counters_cell_def)

lemma window_frames [simp]:
  "am_calls (ww_Logger e w) = am_calls w" "am_pub (ww_Logger e w) = am_pub w"
  "am_tick (ww_Logger e w) = am_tick w" "am_open (ww_Logger e w) = am_open w"
  "ww_docs (ww_Logger e w) = ww_docs w" "ww_counters (ww_Logger e w) = ww_counters w"
  by (simp_all add: ww_Logger_def)

lemma wf_publisher_cong:
  "am_calls w' = am_calls w \<Longrightarrow> am_pub w' = am_pub w \<Longrightarrow> am_open w' = am_open w \<Longrightarrow>
   wf_publisher p w' = wf_publisher p w"
  by (simp add: wf_publisher_def declared_def Let_def split: option.split)

text \<open>The loop of a flush, message by message.\<close>

lemma flush_loop_broker:
  fixes w :: "'z window_world_scheme"
  assumes "wf_publisher (live_publisher cfg) w"
  shows "\<exists>new. delivered (snd (run (flush_loop (live_window env cfg) ds n) w)) = new @ delivered w
    \<and> emitted (ww_counters (snd (run (flush_loop (live_window env cfg) ds n) w))) =
        emitted (ww_counters w) + int (length new)
    \<and> subseq (map Inr (rev new)) (wire ds)
    \<and> (healthy env w \<longrightarrow> map Inr (rev new) = wire ds)
    \<and> (pb_closed (am_pub w) \<longrightarrow> am_calls (snd (run (flush_loop (live_window env cfg) ds n) w)) = am_calls w)
    \<and> ww_docs (snd (run (flush_loop (live_window env cfg) ds n) w)) = ww_docs w"
  using assms
proof (induction ds arbitrary: n w)
  case Nil
  then show ?case by (simp add: prog_simps)
next
  case (Cons kd ds)
  show ?case
  proof (cases "event_of kd")
    case None
    with Cons show ?thesis by simp
  next
    case (Some te)
    obtain t e where te: "te = (t, e)" by (cases te)
    let ?P = "Publisher_Publish env (live_publisher cfg) t (ContributionPayload e) w"
    note out = Publish_outcome_wf [OF Cons.prems refl, of env t "ContributionPayload e"]
    note wf = wf_Publish [OF Cons.prems, of env t "ContributionPayload e"]
    define m where "m = marshal_envelope \<lparr>env_Pattern = t, env_Data = ContributionPayload e\<rparr>"
    have wire: "wire (kd # ds) = m # wire ds" by (simp add: Some te m_def)
    show ?thesis
    proof (cases "fst ?P")
      case err: (Some x)
      define v where "v = ww_Logger (log_record Warn ''contribution publish failed (dropped, best-effort)''
          (event_fields t e @ [(''error'', FError x)]))
          ((snd ?P)\<lparr>ww_counters := (ww_counters w)\<lparr>publishFail := publishFail (ww_counters w) + 1\<rparr>\<rparr>)"
      have run: "run (flush_loop (live_window env cfg) (kd # ds) n) w =
          run (flush_loop (live_window env cfg) ds n) v"
        by (simp add: Some te prog_simps err v_def)
      have wfv: "wf_publisher (live_publisher cfg) v"
        using wf(1) by (rule wf_publisher_cong [THEN iffD2, rotated -1]) (simp_all add: v_def)
      have st: "delivered v = delivered w" "emitted (ww_counters v) = emitted (ww_counters w)"
        "ww_docs v = ww_docs w" "pb_closed (am_pub v) = pb_closed (am_pub w)"
        "pb_closed (am_pub w) \<Longrightarrow> am_calls v = am_calls w"
        using out err wf(2) by (auto simp: v_def)
      have "\<not> healthy env w"
        using out err by (auto simp: healthy_def)
      with Cons.IH [OF wfv, of n] st show ?thesis
        unfolding run wire by (auto intro: list_emb_Cons)
    next
      case ok: None
      define v where "v = ww_Logger (log_record Info ''document activity event emitted'' (event_fields t e))
          ((snd ?P)\<lparr>ww_counters := (ww_counters w)\<lparr>emitted := emitted (ww_counters w) + 1\<rparr>\<rparr>)"
      have run: "run (flush_loop (live_window env cfg) (kd # ds) n) w =
          run (flush_loop (live_window env cfg) ds (Suc n)) v"
        by (simp add: Some te prog_simps ok v_def)
      have wfv: "wf_publisher (live_publisher cfg) v"
        using wf(1) by (rule wf_publisher_cong [THEN iffD2, rotated -1]) (simp_all add: v_def)
      from out ok obtain b where b: "m = Inr b" "delivered (snd ?P) = b # delivered w" by (auto simp: m_def)
      have st: "delivered v = b # delivered w" "emitted (ww_counters v) = emitted (ww_counters w) + 1"
        "ww_docs v = ww_docs w" "\<not> pb_closed (am_pub w)"
        using out ok b by (auto simp: v_def)
      have hv: "healthy env w \<Longrightarrow> healthy env v"
        using tick_Publish [of w env "live_publisher cfg" t "ContributionPayload e"] wf(2)
        by (auto simp: healthy_def v_def)
      from Cons.IH [OF wfv, of "Suc n"] obtain new where new:
        "delivered (snd (run (flush_loop (live_window env cfg) ds (Suc n)) v)) = new @ delivered v"
        "emitted (ww_counters (snd (run (flush_loop (live_window env cfg) ds (Suc n)) v))) =
           emitted (ww_counters v) + int (length new)"
        "subseq (map Inr (rev new)) (wire ds)"
        "healthy env v \<longrightarrow> map Inr (rev new) = wire ds"
        "ww_docs (snd (run (flush_loop (live_window env cfg) ds (Suc n)) v)) = ww_docs v"
        by blast
      with st b hv show ?thesis
        unfolding run wire by (intro exI [of _ "new @ [b]"]) auto
    qed
  qed
qed

text \<open>A flush empties the window and sends what was in it.\<close>

lemma flush_broker:
  fixes w :: "'z window_world_scheme"
  assumes "wf_publisher (live_publisher cfg) w" and "w' = snd (run (flush order (live_window env cfg)) w)"
  shows "\<exists>new. delivered w' = new @ delivered w
    \<and> emitted (ww_counters w') = emitted (ww_counters w) + int (length new)
    \<and> subseq (map Inr (rev new)) (wire (order (ww_docs w)))
    \<and> (healthy env w \<longrightarrow> map Inr (rev new) = wire (order (ww_docs w)))
    \<and> (pb_closed (am_pub w) \<longrightarrow> am_calls w' = am_calls w) \<and> ww_docs w' = []"
proof -
  define v where "v = w\<lparr>ww_docs := []\<rparr>"
  have w': "w' = snd (run (flush_loop (live_window env cfg) (order (ww_docs w)) 0) v)"
    by (simp add: assms(2) flush_def prog_simps v_def)
  have vw: "am_calls v = am_calls w" "am_pub v = am_pub w" "am_open v = am_open w" "ww_counters v = ww_counters w"
    "healthy env v = healthy env w" "ww_docs v = []"
    by (simp_all add: v_def healthy_def)
  have "wf_publisher (live_publisher cfg) v" using wf_publisher_cong [OF vw(1-3)] assms(1) by blast
  from flush_loop_broker [OF this, of env "order (ww_docs w)" 0, folded w'] show ?thesis unfolding vw by blast
qed

lemma expected_document: "expected_event acts f = Some (t, e) \<Longrightarrow> DocumentID e = f"
  by (auto simp: expected_event_def split: if_splits)

lemma expected_documents:
  assumes "mset ds = mset (window_after acts)"
  shows "set (List.map_filter event_of ds) = {x. \<exists>f. expected_event acts f = Some x}"
    and "length (List.map_filter event_of ds) = card {f. expected_event acts f \<noteq> None}"
proof -
  have set: "set ds = set (window_after acts)" using assms by (metis set_mset_mset)
  then have "set (List.map_filter event_of ds) = set (List.map_filter event_of (window_after acts))"
    by (auto simp: map_filter_def)
  then show ev: "set (List.map_filter event_of ds) = {x. \<exists>f. expected_event acts f = Some x}"
    using window_events [of _ acts] by auto
  have "distinct (map fst ds)"
    using assms wf_window_after [of acts] unfolding wf_docs_def by (metis mset_eq_imp_distinct_iff mset_map)
  then have "distinct (map (DocumentID \<circ> snd) (List.map_filter event_of ds))"
    using messages_documents by blast
  from distinct_card [OF this]
  have "length (List.map_filter event_of ds) = card ((DocumentID \<circ> snd) ` {x. \<exists>f. expected_event acts f = Some x})"
    by (simp add: ev)
  also have "(DocumentID \<circ> snd) ` {x. \<exists>f. expected_event acts f = Some x} = {f. expected_event acts f \<noteq> None}"
  proof (intro equalityI subsetI)
    fix f assume "f \<in> {f. expected_event acts f \<noteq> None}"
    then obtain t e where x: "expected_event acts f = Some (t, e)" by auto
    show "f \<in> (DocumentID \<circ> snd) ` {x. \<exists>f. expected_event acts f = Some x}"
      by (rule image_eqI [of _ _ "(t, e)"]) (use expected_document [OF x] x in auto)
  qed (use expected_document in fastforce)
  finally show "length (List.map_filter event_of ds) = card {f. expected_event acts f \<noteq> None}" .
qed

lemma in_wire:
  assumes "set (List.map_filter event_of ds) = {x. \<exists>f. expected_event acts f = Some x}"
  shows "x \<in> set (wire ds) \<longleftrightarrow> (\<exists>f t e. expected_event acts f = Some (t, e)
      \<and> x = marshal_envelope \<lparr>env_Pattern = t, env_Data = ContributionPayload e\<rparr>)"
proof -
  have "x \<in> set (wire ds) \<longleftrightarrow> (\<exists>te\<in>{y. \<exists>f. expected_event acts f = Some y}.
      x = marshal_envelope \<lparr>env_Pattern = fst te, env_Data = ContributionPayload (snd te)\<rparr>)"
    unfolding set_map assms image_iff split_beta ..
  then show ?thesis by simp blast
qed


definition ex_window_world :: window_world where
  "ex_window_world = \<lparr>am_tick = 1, am_open = [], am_calls = [],
     am_pub = \<lparr>pb_conn = None, pb_channel = None, pb_closed = False\<rparr>,
     ww_docs = window_after [Active ''doc'' ''ada'' True, Modified ''doc''],
     ww_counters = \<lparr>emitted = 0, publishFail = 0\<rparr>, ww_log = []\<rparr>"


end
