(* ===== verification/LiveBroker.thy ===== *)
theory LiveBroker
  imports BrokerWindow Requests
begin

text \<open>
  The handlers over the RabbitMQ publisher.  The world of the process has the publisher
  and the broker in it; the services are made by \<^verbatim>\<open>createServices\<close> from adapters in which
  \<^verbatim>\<open>newPublisher\<close> gives the real one.
\<close>

record live_server = server +
  lv_broker :: broker_world

definition LivePublisher :: "'a amqp_env_scheme \<Rightarrow> config \<Rightarrow> 'z live_server_scheme queue_publisher" where
  "LivePublisher amqp cfg =
     \<lparr>qp_Publish = (\<lambda>topic payload w.
        let out = Publisher_Publish amqp (live_publisher cfg) topic payload (lv_broker w)
        in (fst out, w\<lparr>lv_broker := snd out\<rparr>))\<rparr>"

definition live_newPublisher :: "'a amqp_env_scheme \<Rightarrow> config \<Rightarrow> 'z live_server_scheme queue_publisher" where
  "live_newPublisher amqp cfg =
     (if \<not> RabbitMQ_IsConfigured (cfg_RabbitMQ cfg) then NoopPublisher else LivePublisher amqp cfg)"

definition live_services ::
  "'e server_env_scheme \<Rightarrow> 'a amqp_env_scheme \<Rightarrow> config \<Rightarrow> 'z live_server_scheme services" where
  "live_services env amqp cfg =
     createServices_from env
       ((createAdapters env (AuthServiceOutside env) cfg)\<lparr>ad_publisher := live_newPublisher amqp cfg\<rparr>) cfg"

definition live_wopi ::
  "'e server_env_scheme \<Rightarrow> 'a amqp_env_scheme \<Rightarrow> config \<Rightarrow> 'z live_server_scheme outer \<Rightarrow> 'z live_server_scheme wopi_handler" where
  "live_wopi env amqp cfg out = hs_wopi (createHandlers out (live_services env amqp cfg))"

lemma live_wopi_sel [simp]:
  "wh_wopiSvc (live_wopi env amqp cfg out) = sv_wopi (createServices env cfg)"
  "wh_publisher (live_wopi env amqp cfg out) = Some (live_newPublisher amqp cfg)"
  "wh_logger (live_wopi env amqp cfg out) = Logger"
  by (simp_all add: live_wopi_def live_services_def createServices_defs createHandlers_def NewWOPIHandler_def Let_def)

lemma live_Publish [simp]:
  "qp_Publish (LivePublisher amqp cfg) t p w =
     (fst (Publisher_Publish amqp (live_publisher cfg) t p (lv_broker w)),
      w\<lparr>lv_broker := snd (Publisher_Publish amqp (live_publisher cfg) t p (lv_broker w))\<rparr>)"
  by (simp add: LivePublisher_def Let_def)

lemma live_frames [simp]:
  "lv_broker (snd (outside reply ev w)) = lv_broker w" "lv_broker (Logger e w) = lv_broker w"
  by (simp_all add: outside_def advance_def Logger_def)

text \<open>A name that a file can be shown under: no path, and no space around it.\<close>

definition clean_name :: "string \<Rightarrow> bool" where
  "clean_name name =
     (list_all (\<lambda>c. \<not> is_slash c) name \<and> \<not> starts_with_space name \<and> \<not> ends_with_space name)"

lemma requested_name_clean: "clean_name (requested_name header)"
proof (cases "list_ex is_slash (TrimSpace header)")
  case True
  define tail where "tail = rev (takeWhile (\<lambda>c. \<not> is_slash c) (rev (TrimSpace header)))"
  have "\<not> is_slash c" if "c \<in> set tail" for c using that by (auto simp: tail_def dest: set_takeWhileD)
  with TrimSpace_clean [of tail] have "clean_name (TrimSpace tail)" by (auto simp: clean_name_def list_all_iff)
  with True show ?thesis by (simp add: requested_name_def after_last_slash_def tail_def Let_def)
next
  case False
  with TrimSpace_clean [of header] show ?thesis
    by (auto simp: requested_name_def after_last_slash_def clean_name_def Let_def list_all_iff list_ex_iff)
qed


text \<open>A request that asks for a name with a path in front of it.\<close>

definition ex_live :: live_server where
  "ex_live = server.extend ex_lock_world (live_server.fields \<lparr>am_tick = 1, am_open = [], am_calls = [],
     am_pub = \<lparr>pb_conn = None, pb_channel = None, pb_closed = False\<rparr>\<rparr>)"

definition ex_rename :: request where
  "ex_rename = (ex_request [(''X-WOPI-Override'', ''RENAME_FILE''), (''X-WOPI-RequestedName'', ''../Final'')])
     \<lparr>rq_token := Some (token_of_row ex_token_row)\<rparr>"

lemma ex_rename_name: "requested_name ''../Final'' = ''Final''"
proof -
  have "TrimSpace ''../Final'' = ''../Final''" "TrimSpace ''Final'' = ''Final''"
    using ends_with_space_ascii [of "CHR ''l''" "''../Fina''"] ends_with_space_ascii [of "CHR ''l''" "''Fina''"]
    by (auto intro!: TrimSpace_none simp: starts_with_space_ascii)
  then show ?thesis by (simp add: requested_name_def after_last_slash_def is_slash_def)
qed

definition ex_live_out :: "live_server outer" where
  "ex_live_out = \<lparr>out_Ping = (\<lambda>w. (None, w)), out_nats = None, out_crypto = out_crypto ex_out, out_reqID = ''1'',
     out_remoteAddr = ''10.0.0.1''\<rparr>"


end
