(* ===== verification/Lifecycle.thy ===== *)
theory Lifecycle
  imports App
begin

text \<open>
  The life of the process (\<^verbatim>\<open>cmd/server/main.go\<close>): what must succeed before it serves, the
  deadlines of the HTTP server, and how it ends.  What the migration library, the database
  pool and NATS answer is an environment.
\<close>

text \<open>\<^verbatim>\<open>runMigrations\<close>: the answers of \<^verbatim>\<open>golang-migrate\<close>, and the error with the log records.\<close>

record migrate_env =
  mg_Source :: "error option"
  mg_Instance :: "string \<Rightarrow> error option"
  mg_Up :: "error option"
  mg_CloseSource :: "error option"
  mg_CloseDatabase :: "error option"

definition close_warnings :: "migrate_env \<Rightarrow> log_entry list" where
  "close_warnings m =
     (case mg_CloseSource m of
        Some e \<Rightarrow> [log_record Warn ''migrate source close error'' [(''error'', FError e)]] | None \<Rightarrow> [])
     @ (case mg_CloseDatabase m of
        Some e \<Rightarrow> [log_record Warn ''migrate db close error'' [(''error'', FError e)]] | None \<Rightarrow> [])"

definition runMigrations :: "migrate_env \<Rightarrow> string \<Rightarrow> error option \<times> log_entry list" where
  "runMigrations m dsn =
     (case mg_Source m of
        Some err \<Rightarrow> (Some (Errorf ''create migration source: %w'' [err]), [])
      | None \<Rightarrow>
          (case mg_Instance m dsn of
             Some err \<Rightarrow> (Some (Errorf ''create migrate instance: %w'' [err]), [])
           | None \<Rightarrow>
               (case mg_Up m of
                  Some err \<Rightarrow>
                    if \<not> errors_Is err MigrateErrNoChange
                    then (Some (Errorf ''run migrations: %w'' [err]), close_warnings m)
                    else (None, log_record Info ''migrations applied successfully'' [] # close_warnings m)
                | None \<Rightarrow> (None, log_record Info ''migrations applied successfully'' [] # close_warnings m))))"

text \<open>The deadlines of the server.\<close>

record http_server =
  srv_Addr :: string
  ReadTimeout :: duration
  WriteTimeout :: duration
  IdleTimeout :: duration

definition responseTransferHeadroom :: duration where
  "responseTransferHeadroom = 30 * second"

definition newHTTPServer :: "string \<Rightarrow> http_server" where
  "newHTTPServer port =
     \<lparr>srv_Addr = '':'' @ port, ReadTimeout = 30 * second,
      WriteTimeout = RenderTimeout + responseTransferHeadroom, IdleTimeout = 120 * second\<rparr>"

text \<open>
  \<^verbatim>\<open>main\<close> up to \<^verbatim>\<open>ListenAndServe\<close>.  \<^verbatim>\<open>logger.Fatal\<close> logs and exits, so a fatal message ends
  the function.  Priming the discovery cache runs against the services and may fail.
  The two loops \<^verbatim>\<open>main\<close> starts beside it are programs of their own, \<open>cleanup_Start\<close> and
  \<open>window_Start\<close>; its informational log records are left out.
\<close>

record start_env =
  st_environ :: environ
  st_float :: go_float
  st_migrate :: migrate_env
  st_pool :: "string \<Rightarrow> error option"
  st_nats :: "string \<Rightarrow> error option"

datatype transport = H2C string | NATSConn string

record running =
  run_cfg :: config
  run_transport :: transport
  run_server :: http_server

definition fatal :: "string \<Rightarrow> error option \<Rightarrow> log_entry" where
  "fatal msg err = log_record Error msg (case err of Some e \<Rightarrow> [(''error'', FError e)] | None \<Rightarrow> [])"

definition select_transport :: "start_env \<Rightarrow> config \<Rightarrow> log_entry + transport" where
  "select_transport st cfg =
     (if as_URL (cfg_AuthSvc cfg) \<noteq> '''' then Inr (H2C (as_URL (cfg_AuthSvc cfg)))
      else if nats_URL (cfg_NATS cfg) \<noteq> ''''
      then (case st_nats st (nats_URL (cfg_NATS cfg)) of
              Some err \<Rightarrow> Inl (fatal ''failed to connect to NATS'' (Some err))
            | None \<Rightarrow> Inr (NATSConn (nats_URL (cfg_NATS cfg))))
      else Inl (fatal ''either AUTH_SERVICE_URL or NATS_URL must be set'' None))"

definition main_connect :: "start_env \<Rightarrow> log_entry + config \<times> transport" where
  "main_connect st =
     (case Load (st_float st) (st_environ st) of
        Inl err \<Rightarrow> Inl (fatal ''failed to load config'' (Some err))
      | Inr cfg \<Rightarrow>
          (case fst (runMigrations (st_migrate st) (DSN (st_float st) (cfg_Database cfg))) of
             Some err \<Rightarrow> Inl (fatal ''failed to run migrations'' (Some err))
           | None \<Rightarrow>
               (case st_pool st (DSN (st_float st) (cfg_Database cfg)) of
                  Some err \<Rightarrow> Inl (fatal ''failed to connect to WOPI database'' (Some err))
                | None \<Rightarrow> bind_result (select_transport st cfg) (\<lambda>t. Inr (cfg, t)))))"

definition prime_discovery ::
  "'e server_env_scheme \<Rightarrow> config \<Rightarrow> ('z server_scheme, unit) prog" where
  "prime_discovery env cfg =
     bind_prog (GetDiscovery (GoRuntime env) (sv_discovery (createServices env cfg))) (\<lambda>r.
       case r of
         Inl err \<Rightarrow> effect (Logger (log_record Warn ''failed to prime discovery cache at startup''
                       [(''error'', FError err)])) (Done ())
       | Inr _ \<Rightarrow> Done ())"

definition main_start ::
  "start_env \<Rightarrow> (config \<Rightarrow> 'e server_env_scheme) \<Rightarrow> ('z server_scheme, log_entry + running) prog" where
  "main_start st env =
     (case main_connect st of
        Inl msg \<Rightarrow> Done (Inl msg)
      | Inr (cfg, t) \<Rightarrow>
          bind_prog (prime_discovery (env cfg) cfg) (\<lambda>_.
          Done (Inr \<lparr>run_cfg = cfg, run_transport = t, run_server = newHTTPServer (cfg_ServerPort cfg)\<rparr>)))"

lemma main_connect_Inr:
  "main_connect st = Inr (cfg, t) \<longleftrightarrow>
     Load (st_float st) (st_environ st) = Inr cfg
     \<and> fst (runMigrations (st_migrate st) (DSN (st_float st) (cfg_Database cfg))) = None
     \<and> st_pool st (DSN (st_float st) (cfg_Database cfg)) = None
     \<and> select_transport st cfg = Inr t"
  by (auto simp: main_connect_def bind_result_Inr split: sum.splits option.splits)

lemma runMigrations_None:
  "fst (runMigrations m dsn) = None \<longleftrightarrow>
     mg_Source m = None \<and> mg_Instance m dsn = None \<and> (\<forall>e. mg_Up m = Some e \<longrightarrow> errors_Is e MigrateErrNoChange)"
  by (auto simp: runMigrations_def split: option.splits)

lemma select_transport_Inr:
  "select_transport st cfg = Inr t \<longleftrightarrow>
     (if as_URL (cfg_AuthSvc cfg) \<noteq> '''' then t = H2C (as_URL (cfg_AuthSvc cfg))
      else nats_URL (cfg_NATS cfg) \<noteq> '''' \<and> st_nats st (nats_URL (cfg_NATS cfg)) = None
        \<and> t = NATSConn (nats_URL (cfg_NATS cfg)))"
  by (auto simp: select_transport_def split: option.splits)


text \<open>
  How the process ends.  \<^verbatim>\<open>main\<close> stands in \<^verbatim>\<open>ListenAndServe\<close> or unwinds its deferred calls;
  \<^verbatim>\<open>gracefulShutdown\<close> is a goroutine of its own; requests in flight are counted.  When \<^verbatim>\<open>main\<close>
  returns, or on a fatal error, the process is gone and with it every other goroutine.
\<close>

datatype deferred = ClosePublisher | CloseNATS | ClosePool | CancelApp | SyncLogger

datatype main_state = Listening | Unwinding "deferred list" | Exited nat

datatype shutdown_state = AwaitSignal | SignalReceived | AppCancelled | ShuttingDown | ShutdownReturned "error option"

record process =
  pr_transport :: transport
  pr_main :: main_state
  pr_shutdown :: shutdown_state
  pr_cancelled :: bool
  pr_accepting :: bool
  pr_inflight :: nat
  pr_open :: "deferred set"

text \<open>The deferred calls of \<^verbatim>\<open>main\<close>, in the order they run.\<close>

definition main_defers :: "transport \<Rightarrow> deferred list" where
  "main_defers t =
     [ClosePublisher] @ (case t of NATSConn _ \<Rightarrow> [CloseNATS] | H2C _ \<Rightarrow> []) @ [ClosePool, CancelApp, SyncLogger]"

definition process_start :: "transport \<Rightarrow> process" where
  "process_start t =
     \<lparr>pr_transport = t, pr_main = Listening, pr_shutdown = AwaitSignal, pr_cancelled = False,
      pr_accepting = True, pr_inflight = 0, pr_open = set (main_defers t)\<rparr>"

text \<open>
  \<^verbatim>\<open>gracefulShutdown\<close>: wait for a signal, cancel the application context, call
  \<^verbatim>\<open>srv.Shutdown\<close>, which first closes the listeners and then waits until no request is in
  flight or its ten seconds are over.
\<close>

datatype process_event =
    Accept | Finish
  | Signal | Cancel | Shutdown | Drained | TimedOut
  | ServeReturns | ServeFails | RunDeferred | Return

fun gracefulShutdown :: "process_event \<Rightarrow> process \<Rightarrow> process option" where
  "gracefulShutdown Signal p =
     (if pr_shutdown p = AwaitSignal then Some (p\<lparr>pr_shutdown := SignalReceived\<rparr>) else None)"
| "gracefulShutdown Cancel p =
     (if pr_shutdown p = SignalReceived then Some (p\<lparr>pr_shutdown := AppCancelled, pr_cancelled := True\<rparr>) else None)"
| "gracefulShutdown Shutdown p =
     (if pr_shutdown p = AppCancelled then Some (p\<lparr>pr_shutdown := ShuttingDown, pr_accepting := False\<rparr>) else None)"
| "gracefulShutdown Drained p =
     (if pr_shutdown p = ShuttingDown \<and> pr_inflight p = 0
      then Some (p\<lparr>pr_shutdown := ShutdownReturned None\<rparr>) else None)"
| "gracefulShutdown TimedOut p =
     (if pr_shutdown p = ShuttingDown
      then Some (p\<lparr>pr_shutdown := ShutdownReturned (Some (Sentinel ContextDeadlineExceeded))\<rparr>) else None)"
| "gracefulShutdown _ p = None"

text \<open>
  The listener and \<^verbatim>\<open>main\<close>: \<^verbatim>\<open>ListenAndServe\<close> returns \<^verbatim>\<open>ErrServerClosed\<close> as soon as
  \<^verbatim>\<open>Shutdown\<close> is called; any other error is fatal and skips the deferred calls.
\<close>

fun serve :: "process_event \<Rightarrow> process \<Rightarrow> process option" where
  "serve Accept p = (if pr_accepting p \<and> pr_main p = Listening then Some (p\<lparr>pr_inflight := pr_inflight p + 1\<rparr>) else None)"
| "serve Finish p = (if pr_inflight p > 0 then Some (p\<lparr>pr_inflight := pr_inflight p - 1\<rparr>) else None)"
| "serve ServeReturns p =
     (if pr_main p = Listening \<and> \<not> pr_accepting p
      then Some (p\<lparr>pr_main := Unwinding (main_defers (pr_transport p))\<rparr>) else None)"
| "serve ServeFails p =
     (if pr_main p = Listening \<and> pr_accepting p then Some (p\<lparr>pr_main := Exited 1\<rparr>) else None)"
| "serve RunDeferred p =
     (case pr_main p of
        Unwinding (d # ds) \<Rightarrow>
          Some (p\<lparr>pr_main := Unwinding ds, pr_open := pr_open p - {d},
                  pr_cancelled := (pr_cancelled p \<or> d = CancelApp)\<rparr>)
      | _ \<Rightarrow> None)"
| "serve Return p = (if pr_main p = Unwinding [] then Some (p\<lparr>pr_main := Exited 0\<rparr>) else None)"
| "serve _ p = None"

definition process_step :: "process_event \<Rightarrow> process \<Rightarrow> process option" where
  "process_step ev p =
     (case pr_main p of
        Exited _ \<Rightarrow> None
      | _ \<Rightarrow> (case gracefulShutdown ev p of Some q \<Rightarrow> Some q | None \<Rightarrow> serve ev p))"

primrec process_run :: "process_event list \<Rightarrow> process \<Rightarrow> process option" where
  "process_run [] p = Some p"
| "process_run (ev # evs) p = (case process_step ev p of None \<Rightarrow> None | Some q \<Rightarrow> process_run evs q)"

text \<open>What every reachable state satisfies.\<close>

fun main_inv :: "transport \<Rightarrow> main_state \<Rightarrow> bool \<Rightarrow> deferred set \<Rightarrow> bool" where
  "main_inv t Listening accepting still = (still = set (main_defers t))"
| "main_inv t (Unwinding ds) accepting still = (\<not> accepting \<and> (\<exists>ran. main_defers t = ran @ ds \<and> still = set ds))"
| "main_inv t (Exited c) accepting still =
     (c = 1 \<and> still = set (main_defers t) \<or> c = 0 \<and> \<not> accepting \<and> still = {})"

definition process_inv :: "transport \<Rightarrow> process \<Rightarrow> bool" where
  "process_inv t p =
     (pr_transport p = t
      \<and> (pr_accepting p \<longleftrightarrow> pr_shutdown p \<in> {AwaitSignal, SignalReceived, AppCancelled})
      \<and> (pr_shutdown p \<notin> {AwaitSignal, SignalReceived} \<longrightarrow> pr_cancelled p)
      \<and> main_inv t (pr_main p) (pr_accepting p) (pr_open p))"

lemma distinct_main_defers: "distinct (main_defers t)"
  by (cases t) (simp_all add: main_defers_def)

lemma main_inv_stop: "main_inv t m accepting still \<Longrightarrow> main_inv t m False still"
  by (cases m) auto

lemma gracefulShutdown_inv:
  assumes "process_inv t p" and "gracefulShutdown ev p = Some q"
  shows "process_inv t q"
  using assms main_inv_stop [of t "pr_main p" "pr_accepting p" "pr_open p"]
  by (cases ev) (auto simp: process_inv_def split: if_splits)

lemma deferred_inv:
  assumes "process_inv t p" and "serve RunDeferred p = Some q"
  shows "process_inv t q"
proof -
  from assms(2) obtain d ds where m: "pr_main p = Unwinding (d # ds)"
    and q: "q = p\<lparr>pr_main := Unwinding ds, pr_open := pr_open p - {d},
                  pr_cancelled := (pr_cancelled p \<or> d = CancelApp)\<rparr>"
    by (auto split: main_state.splits list.splits)
  from assms(1) m obtain ran where ran: "main_defers t = ran @ d # ds" "pr_open p = set (d # ds)"
    by (auto simp: process_inv_def)
  then have "pr_open p - {d} = set ds" using distinct_main_defers [of t] by auto
  moreover have "main_defers t = (ran @ [d]) @ ds" using ran by simp
  ultimately have "main_inv t (Unwinding ds) (pr_accepting p) (pr_open p - {d})"
    using assms(1) m unfolding process_inv_def by (metis main_inv.simps(2))
  with assms(1) show ?thesis by (simp add: process_inv_def q)
qed

lemma serve_inv:
  assumes "process_inv t p" and "serve ev p = Some q"
  shows "process_inv t q"
proof (cases "ev = RunDeferred")
  case True
  with assms show ?thesis by (simp only: deferred_inv)
next
  case False
  with assms show ?thesis by (cases ev) (auto simp: process_inv_def split: if_splits)
qed

lemma process_step_cases:
  "process_step ev p = Some q \<Longrightarrow> (\<forall>c. pr_main p \<noteq> Exited c) \<and> (gracefulShutdown ev p = Some q \<or> serve ev p = Some q)"
  by (cases "pr_main p") (simp_all add: process_step_def split: option.splits)

lemma process_step_inv: "process_inv t p \<Longrightarrow> process_step ev p = Some q \<Longrightarrow> process_inv t q"
  using process_step_cases serve_inv gracefulShutdown_inv by blast

lemma process_run_inv: "process_inv t p \<Longrightarrow> process_run evs p = Some q \<Longrightarrow> process_inv t q"
  by (induction evs arbitrary: p) (auto split: option.splits intro: process_step_inv)

lemma process_inv_start: "process_inv t (process_start t)"
  by (simp add: process_inv_def process_start_def)

lemma process_run_append:
  "process_run (xs @ ys) p = (case process_run xs p of None \<Rightarrow> None | Some q \<Rightarrow> process_run ys q)"
  by (induction xs arbitrary: p) (auto split: option.splits)

lemma main_defers_order:
  assumes "main_defers t = pre @ ds"
  shows "ClosePool \<notin> set ds \<Longrightarrow> ClosePublisher \<notin> set ds \<and> CloseNATS \<notin> set ds"
  using assms by (cases t; auto simp: main_defers_def append_eq_Cons_conv Cons_eq_append_conv)+

text \<open>
  C39: resources are released in order.  In every state the process can reach: while it
  accepts requests the broker connection, NATS and the pool are open; the listeners close
  only after a signal was received and the application context was cancelled; the pool is
  closed only after the publisher and NATS; and when the process has returned normally all
  of them are released, while a fatal server error releases none.
\<close>

theorem shutdown_releases_in_order:
  assumes "process_run evs (process_start t) = Some p"
  shows "(pr_accepting p \<and> pr_main p = Listening \<longrightarrow> pr_open p = set (main_defers t))
    \<and> (\<not> pr_accepting p \<longrightarrow> pr_cancelled p \<and> pr_shutdown p \<notin> {AwaitSignal, SignalReceived, AppCancelled})
    \<and> (ClosePool \<notin> pr_open p \<longrightarrow> ClosePublisher \<notin> pr_open p \<and> CloseNATS \<notin> pr_open p)
    \<and> (pr_main p = Exited 0 \<longrightarrow> pr_open p = {} \<and> \<not> pr_accepting p)
    \<and> (pr_main p = Exited 1 \<longrightarrow> pr_open p = set (main_defers t))"
proof -
  have inv: "process_inv t p" using process_run_inv [OF process_inv_start assms] .
  have "ClosePool \<notin> pr_open p \<longrightarrow> ClosePublisher \<notin> pr_open p \<and> CloseNATS \<notin> pr_open p"
  proof (cases "pr_main p")
    case (Unwinding ds)
    with inv main_defers_order [of t _ ds] show ?thesis by (auto simp: process_inv_def)
  qed (use inv main_defers_order [of t "[]" "main_defers t"] in \<open>auto simp: process_inv_def\<close>)
  with inv show ?thesis by (auto simp: process_inv_def)
qed

theorem shutdown_releases_in_order_witness:
  "pr_open (the (process_run [Accept, Signal, Cancel, Shutdown, Finish, Drained, ServeReturns, RunDeferred,
      RunDeferred, RunDeferred, RunDeferred, Return] (process_start (H2C ''http://auth'')))) = {}"
proof -
  let ?evs = "[Accept, Signal, Cancel, Shutdown, Finish, Drained, ServeReturns, RunDeferred, RunDeferred,
      RunDeferred, RunDeferred, Return]"
  obtain p where p: "process_run ?evs (process_start (H2C ''http://auth'')) = Some p" and "pr_main p = Exited 0"
    by (simp add: process_step_def process_start_def main_defers_def)
  with shutdown_releases_in_order [OF p] show ?thesis by simp
qed

text \<open>
  C40: shutting down does not wait.  \<^verbatim>\<open>ListenAndServe\<close> returns the moment \<^verbatim>\<open>Shutdown\<close> is
  called, and nothing makes \<^verbatim>\<open>main\<close> wait for the goroutine that called it: with any number
  of requests in flight the process can run its deferred calls, close the database pool
  under those requests and exit while \<^verbatim>\<open>Shutdown\<close> is still waiting for them.
\<close>

theorem exit_abandons_requests:
  "\<exists>evs p. process_run evs (process_start t) = Some p \<and> pr_main p = Exited 0 \<and> pr_inflight p = n
     \<and> pr_shutdown p = ShuttingDown \<and> ClosePool \<notin> pr_open p"
proof -
  have accept: "process_run (replicate n Accept) (process_start t) = Some ((process_start t)\<lparr>pr_inflight := n\<rparr>)"
  proof (induction n)
    case (Suc n)
    have "replicate (Suc n) Accept = replicate n Accept @ [Accept]" by (simp add: replicate_append_same)
    with Suc show ?case by (simp add: process_run_append process_step_def process_start_def)
  qed (simp add: process_start_def)
  let ?evs = "replicate n Accept @ [Signal, Cancel, Shutdown, ServeReturns] @
      replicate (length (main_defers t)) RunDeferred @ [Return]"
  have "\<exists>p. process_run ?evs (process_start t) = Some p \<and> pr_main p = Exited 0 \<and> pr_inflight p = n
      \<and> pr_shutdown p = ShuttingDown \<and> ClosePool \<notin> pr_open p"
    unfolding process_run_append [of "replicate n Accept"] accept option.case
    by (cases t) (simp_all add: process_step_def process_start_def main_defers_def)
  then show ?thesis by blast
qed

end
