(* ===== verification/Responses.thy ===== *)
theory Responses
  imports AppInvariant
begin

text \<open>
  The responses as a client sees them: the JSON text of every body, and which status and
  which kind of body each endpoint can answer.
\<close>

definition FileInfo_json :: "file_info \<Rightarrow> json" where
  "FileInfo_json i =
     JObj ([(''BaseFileName'', json_string (BaseFileName i)), (''OwnerId'', json_string (OwnerID i)),
            (''Size'', json_int (fi_Size i)), (''UserId'', json_string (UserID i)),
            (''Version'', json_string (fi_Version i))]
       @ omitempty ''UserFriendlyName'' (UserFriendlyName i = '''') (json_string (UserFriendlyName i))
       @ [(''UserCanWrite'', JBool (UserCanWrite i)), (''SupportsLocks'', JBool (SupportsLocks i)),
          (''SupportsUpdate'', JBool (SupportsUpdate i)), (''SupportsRename'', JBool (SupportsRename i)),
          (''UserCanRename'', JBool (UserCanRename i)),
          (''UserCanNotWriteRelative'', JBool (UserCanNotWriteRelative i))]
       @ omitempty ''LastModifiedTime'' (fi_LastModifiedTime i = '''') (json_string (fi_LastModifiedTime i))
       @ omitempty ''PostMessageOrigin'' (PostMessageOrigin i = '''') (json_string (PostMessageOrigin i))
       @ omitempty ''ReadOnly'' (\<not> ReadOnly i) (JBool (ReadOnly i)))"

text \<open>\<^verbatim>\<open>dto.go\<close> and \<^verbatim>\<open>healthResponse\<close>.\<close>

definition PutFileResponse_json :: "put_file_response \<Rightarrow> json" where
  "PutFileResponse_json p =
     JObj ((''LastModifiedTime'', json_string (pfr_LastModifiedTime p))
       # omitempty ''Version'' (pfr_Version p = '''') (json_string (pfr_Version p)))"

definition TokenIssuanceResponse_json :: "token_issuance_result \<Rightarrow> json" where
  "TokenIssuanceResponse_json t =
     JObj [(''accessToken'', json_string (ti_AccessToken t)), (''accessTokenTTL'', json_int (ti_TTL t)),
           (''wopiSrc'', json_string (ti_WOPISrc t)), (''editorUrl'', json_string (ti_EditorURL t))]"

definition LockStatusResponse_json :: "lock_status_response \<Rightarrow> json" where
  "LockStatusResponse_json l =
     JObj ((''locked'', JBool (lsr_Locked l))
       # omitempty ''expiresAt'' (lsr_ExpiresAt l = '''') (json_string (lsr_ExpiresAt l)))"

definition healthResponse_json :: "health_response \<Rightarrow> json" where
  "healthResponse_json h =
     JObj ((''status'', json_string (hr_Status h))
       # omitempty ''collabora'' (hr_Collabora h = '''') (json_string (hr_Collabora h))
       @ omitempty ''collabora_last_success'' (hr_CollaboraLastSuccess h = '''')
           (json_string (hr_CollaboraLastSuccess h)))"

text \<open>The discovery data; a nil slice, which is what no action at all is, is printed as \<^verbatim>\<open>null\<close>.\<close>

definition DiscoveryAction_json :: "discovery_action \<Rightarrow> json" where
  "DiscoveryAction_json a =
     JObj [(''App'', json_string (act_App a)), (''Name'', json_string (act_Name a)),
           (''Ext'', json_string (act_Ext a)), (''URLSrc'', json_string (act_URLSrc a))]"

definition DiscoveryData_json :: "discovery_data \<Rightarrow> json" where
  "DiscoveryData_json d =
     JObj [(''Actions'', if Actions d = [] then JNull else JArr (map DiscoveryAction_json (Actions d))),
           (''ProofKey'', JObj [(''Modulus'', json_string (Modulus (ProofKey d))),
              (''Exponent'', json_string (Exponent (ProofKey d))),
              (''OldModulus'', json_string (OldModulus (ProofKey d))),
              (''OldExponent'', json_string (OldExponent (ProofKey d)))])]"

fun body_json :: "body \<Rightarrow> json option" where
  "body_json (FileInfoBody i) = Some (FileInfo_json i)"
| "body_json (RenameBody name) = Some (JObj [(''Name'', json_string name)])"
| "body_json (PutFileBody p) = Some (PutFileResponse_json p)"
| "body_json (TokenBody t) = Some (TokenIssuanceResponse_json t)"
| "body_json (LockStatusBody l) = Some (LockStatusResponse_json l)"
| "body_json (HealthBody h) = Some (healthResponse_json h)"
| "body_json (DiscoveryBody d) = Some (DiscoveryData_json d)"
| "body_json _ = None"

definition body_bytes :: "body \<Rightarrow> bytes" where
  "body_bytes b =
     (case body_json b of
        Some v \<Rightarrow> bytes_of_string (json_Encode v)
      | None \<Rightarrow> (case b of ErrorText t \<Rightarrow> bytes_of_string t | ContentBody c \<Rightarrow> c | _ \<Rightarrow> []))"

text \<open>The error object of \<^verbatim>\<open>dto.go\<close>, as a client decodes it.\<close>

definition decode_error :: "stream \<Rightarrow> error + string" where
  "decode_error = json_Decode (store_struct [(''error'', store_string)]) ''''"

lemma error_body_decodes:
  assumes "plain_text msg"
  shows "decode_error (bytes_of_string (error_json msg @ [CHR 0x0A]), None) = Inr msg"
proof -
  have e: "error_json msg @ [CHR 0x0A] = json_Encode (JObj [(''error'', JStr msg)])"
    by (simp add: error_json_def json_Encode_def quoted_def)
  have ok: "json_ok 1 (JObj [(''error'', JStr msg)])" using assms by (simp add: raw_ok_plain plain_text_def [of "''error''"])
  show ?thesis
    unfolding e decode_error_def
    by (subst decode_printed(3) [OF ok])
       (use assms in \<open>simp_all add: maxNestingDepth_def store_members_plain plain_text_def [of "''error''"] unquote_plain
         del: store_members.simps(2)\<close>)
qed

subsection \<open>Which answers an endpoint can give\<close>

text \<open>\<open>answers R p\<close>: whatever happens, the answer of \<open>p\<close> satisfies \<open>R\<close>.\<close>

abbreviation answers :: "('a \<Rightarrow> bool) \<Rightarrow> ('w, 'a) prog \<Rightarrow> bool" where
  "answers R p \<equiv> prog_spec (\<lambda>_. True) R p"

lemma answers_any [simp]: "answers (\<lambda>_. True) p"
  by (induction p rule: prog_induct) (simp_all add: prog_spec_Act)

lemma answers_call: "(\<And>x. answers R (k x)) \<Longrightarrow> answers R (call op k)"
  by (rule prog_spec_call) simp_all

lemma answers_effect: "answers R p \<Longrightarrow> answers R (effect f p)"
  by (rule prog_spec_effect) simp_all

lemma answers_copied: "answers R p \<Longrightarrow> answers R (copied report st p)"
  by (simp add: copied_def answers_effect split: option.split)

lemma answers_bind: "(\<And>a. answers R (g a)) \<Longrightarrow> answers R (bind_prog m g)"
  by (rule prog_spec_bind [of _ "\<lambda>_. True"]) simp_all

lemma answers_bind_post: "answers Q m \<Longrightarrow> (\<And>a. Q a \<Longrightarrow> answers R (g a)) \<Longrightarrow> answers R (bind_prog m g)"
  by (rule prog_spec_bind)

lemma answers_run: "answers R p \<Longrightarrow> R (fst (run p w))"
  using prog_spec_run [of "\<lambda>_. True" R p w] by simp

lemmas answers_intros = answers_call answers_effect answers_copied answers_bind

definition content_type :: "response \<Rightarrow> string \<Rightarrow> bool" where
  "content_type resp t = ((''Content-Type'', t) \<in> set (rs_Headers resp))"

text \<open>The body fits the status and the content type.\<close>

definition body_typed :: "response \<Rightarrow> bool" where
  "body_typed resp =
     (case rs_Body resp of
        NoBody \<Rightarrow> rs_Status resp \<in> {200, 304}
      | ErrorText t \<Rightarrow> 400 \<le> rs_Status resp \<and> content_type resp ''text/plain; charset=utf-8''
          \<and> (\<exists>msg. msg \<noteq> '''' \<and> decode_error (bytes_of_string t, None) = Inr msg)
      | ContentBody c \<Rightarrow> rs_Status resp = 200
          \<and> (content_type resp ''application/octet-stream'' \<or> content_type resp ''image/png'')
      | HealthBody h \<Rightarrow> rs_Status resp \<in> {200, 503} \<and> content_type resp ''application/json''
      | _ \<Rightarrow> rs_Status resp = 200 \<and> content_type resp ''application/json'')"

fun route_statuses :: "route \<Rightarrow> nat set" where
  "route_statuses Health = {200, 503}"
| "route_statuses Live = {200}"
| "route_statuses DiscoveryRoute = {200, 503}"
| "route_statuses TokenRoute = {200, 400, 401, 403, 404, 405, 422, 500, 503}"
| "route_statuses LockStatusRoute = {200, 400, 401, 500}"
| "route_statuses PreviewRoute = {200, 304, 400, 401, 403, 404, 422, 500, 502, 503}"
| "route_statuses CheckFileInfoRoute = {200, 401, 404, 500}"
| "route_statuses GetFileRoute = {200, 401, 404, 500}"
| "route_statuses PutFileRoute = {200, 401, 403, 404, 409, 500}"
| "route_statuses FileOperationRoute = {200, 400, 401, 403, 404, 409, 500}"

definition contract :: "route \<Rightarrow> response \<Rightarrow> bool" where
  "contract rte resp = (rs_Status resp \<in> route_statuses rte \<and> body_typed resp)"

lemma error_typed:
  assumes "400 \<le> status" and "plain_text msg" and "msg \<noteq> ''''"
  shows "body_typed (http_Error status msg)" "body_typed (http_ErrorWith hs status msg)"
  using assms error_body_decodes [OF assms(2)]
  by (auto simp: body_typed_def http_Error_def http_ErrorWith_def content_type_def)

lemma json_typed:
  "body_json b \<noteq> None \<Longrightarrow> status = 200 \<Longrightarrow> body_typed (json_response hs status b)"
  "status \<in> {200, 503} \<Longrightarrow> body_typed (health_body status a c l)"
  by (cases b; simp add: body_typed_def json_response_def content_type_def)
     (simp add: body_typed_def health_body_def json_response_def content_type_def)

lemma contract_error:
  "status \<in> route_statuses rte \<Longrightarrow> 400 \<le> status \<Longrightarrow> plain_text msg \<Longrightarrow> msg \<noteq> '''' \<Longrightarrow>
     contract rte (http_Error status msg)"
  "status \<in> route_statuses rte \<Longrightarrow> 400 \<le> status \<Longrightarrow> plain_text msg \<Longrightarrow> msg \<noteq> '''' \<Longrightarrow>
     contract rte (http_ErrorWith hs status msg)"
  by (simp_all add: contract_def error_typed)

lemma contract_json:
  "200 \<in> route_statuses rte \<Longrightarrow> body_json b \<noteq> None \<Longrightarrow> contract rte (json_response hs 200 b)"
  "status \<in> route_statuses rte \<Longrightarrow> status \<in> {200, 503} \<Longrightarrow> contract rte (health_body status a c l)"
  "200 \<in> route_statuses rte \<Longrightarrow> contract rte (WriteHeader 200)"
proof -
  show "200 \<in> route_statuses rte \<Longrightarrow> body_json b \<noteq> None \<Longrightarrow> contract rte (json_response hs 200 b)"
    by (simp add: contract_def json_typed)
  show "status \<in> route_statuses rte \<Longrightarrow> status \<in> {200, 503} \<Longrightarrow> contract rte (health_body status a c l)"
    using json_typed(2) [of status a c l] by (simp add: contract_def health_body_def)
  show "200 \<in> route_statuses rte \<Longrightarrow> contract rte (WriteHeader 200)"
    by (simp add: contract_def body_typed_def WriteHeader_def)
qed

lemma contract_content:
  "contract rte \<lparr>rs_Status = 200, rs_Headers = hs, rs_Body = ContentBody c\<rparr> \<longleftrightarrow> 200 \<in> route_statuses rte
     \<and> ((''Content-Type'', ''application/octet-stream'') \<in> set hs \<or> (''Content-Type'', ''image/png'') \<in> set hs)"
  "contract rte \<lparr>rs_Status = 304, rs_Headers = hs, rs_Body = NoBody\<rparr> \<longleftrightarrow> 304 \<in> route_statuses rte"
  by (auto simp: contract_def body_typed_def content_type_def)

lemma plain_messages:
  "list_all plain_text [''unauthorized'', ''document not found'', ''internal error'', ''not authorized'', ''lock conflict'',
     ''unknown X-WOPI-Override'', ''missing actor identity'', ''missing fileID'', ''method not allowed'',
     ''invalid request body'', ''documentId is required'', ''document type not supported for editing'',
     ''editor discovery unavailable'', ''document type not supported for preview'', ''preview render capacity exceeded'',
     ''preview not current; retry later'', ''preview render failed'', ''discovery unavailable'',
     ''missing access_token'', ''token validation failed'', ''invalid or expired token'',
     ''proof validation unavailable'', ''invalid proof'']"
  by (simp add: plain_text_def)

lemmas contract_simps = contract_content contract_error contract_json plain_messages [simplified]

text \<open>Handler by handler, for whatever services they stand on.\<close>

lemma contract_files:
  "answers (contract CheckFileInfoRoute) (handle_CheckFileInfo h r)"
  "answers (contract GetFileRoute) (handle_GetFile h r)"
  by (auto simp: handle_CheckFileInfo_def handle_GetFile_def unauthorized_def contract_simps
      intro!: answers_intros split: option.splits sum.splits)

lemma contract_put:
  assumes "rte \<in> {PutFileRoute, FileOperationRoute}"
  shows "answers (contract rte) (handle_putFile rt h r)"
  using assms
  by (auto simp: handle_putFile_def unauthorized_def Let_def contract_simps intro!: answers_intros
      split: option.splits sum.splits)

lemma contract_operation: "answers (contract FileOperationRoute) (FileOperation rt h r)"
proof -
  have lock: "answers (contract FileOperationRoute) (lock_reply h p)" for p
    by (auto simp: lock_reply_def handleLockError_def contract_simps intro!: answers_intros split: option.splits)
  have rename: "answers (contract FileOperationRoute) (handle_renameFile h r)"
    by (auto simp: handle_renameFile_def unauthorized_def Let_def contract_simps intro!: answers_intros
        split: option.splits sum.splits)
  show ?thesis
    using lock rename contract_put [of FileOperationRoute]
    by (auto simp: FileOperation_def handle_lock_def handle_unlock_def handle_refreshLock_def handle_unlockAndRelock_def
        unauthorized_def Let_def contract_simps split: option.splits)
qed

lemma contract_lock_status: "answers (contract LockStatusRoute) (LockStatus h r)"
  by (auto simp: LockStatus_def contract_simps intro!: answers_intros split: sum.splits)

lemma contract_token: "answers (contract TokenRoute) (TokenHandler_ServeHTTP rt h r)"
  by (auto simp: TokenHandler_ServeHTTP_def token_error_def Let_def contract_simps intro!: answers_intros
      split: sum.splits)

lemma contract_discovery: "answers (contract DiscoveryRoute) (DiscoveryHandler_ServeHTTP rt h r)"
  by (auto simp: DiscoveryHandler_ServeHTTP_def contract_simps intro!: answers_intros split: sum.splits)

lemma contract_health:
  "answers (contract Health) (HealthHandler_ServeHTTP rt h r)" "answers (contract Live) (LiveHandler r)"
  by (auto simp: HealthHandler_ServeHTTP_def health_probe_def LiveHandler_def Let_def split_beta contract_simps
      intro!: answers_intros split: option.splits)

text \<open>A preview result has a picture unless nothing changed.\<close>

lemma Resolve_result:
  "answers (\<lambda>v. \<forall>res. v = Inr res \<longrightarrow> pr_NotModified res \<or> pr_Body res \<noteq> None) (Resolve s actorID sourceID tag)"
  by (auto simp: Resolve_def resolve_render_def currentMapping_def Let_def intro!: answers_intros
      split: sum.splits option.splits)

lemma contract_preview: "answers (contract PreviewRoute) (PreviewHandler_ServeHTTP h r)"
  by (auto simp: PreviewHandler_ServeHTTP_def preview_writeError_def Let_def contract_simps
      intro!: answers_effect answers_copied answers_bind_post [OF Resolve_result]
      split: sum.splits option.splits)

lemma contract_actor:
  assumes "\<And>r'. answers (contract rte) (nxt r')" and "401 \<in> route_statuses rte"
  shows "answers (contract rte) (ActorHeaderMiddleware nxt r)"
  using assms by (simp add: ActorHeaderMiddleware_def Let_def contract_simps)

lemma contract_chain:
  assumes "\<And>r'. answers (contract rte) (nxt r')" and "401 \<in> route_statuses rte" and "500 \<in> route_statuses rte"
  shows "answers (contract rte) (wopi_chain cr rt deps nxt r)"
proof -
  have window: "answers (contract rte) (ContributionMiddleware win nxt r')" for win r'
    using assms(1) by (auto simp: ContributionMiddleware_def intro!: answers_intros split: option.splits)
  have proof_: "answers (contract rte) (ProofMiddleware cr rt on svc lg (ContributionMiddleware win nxt) r')"
    for on svc lg win r'
    using assms(2,3) window
    by (auto simp: ProofMiddleware_def contract_simps intro!: answers_intros split: option.splits)
  show ?thesis
    using assms(2,3) proof_
    by (auto simp: wopi_chain_def TokenAuthMiddleware_def Let_def contract_simps intro!: answers_intros
        split: sum.splits option.splits)
qed


end
