(* ===== verification/GoCalendar.thy ===== *)
theory GoCalendar
  imports GoTime GoTimeParse
begin

text \<open>
  The calendar both ways.  A formatted instant of the years 0 to 9999 parses back to
  itself, so a text in \<^verbatim>\<open>RFC3339Nano\<close> identifies an instant.
\<close>

subsection \<open>Days and dates\<close>

text \<open>The year of an era a day falls into, and the first day of each year; years begin in March.\<close>

definition era_year :: "int \<Rightarrow> int" where
  "era_year doe = (doe - doe div 1460 + doe div 36524 - doe div 146096) div 365"

definition year_start :: "int \<Rightarrow> int" where
  "year_start y = 365 * y + y div 4 - y div 100 + y div 400"

lemma div_succ:
  fixes a k :: int
  assumes "0 < k"
  shows "(a + 1) div k = a div k + (if k dvd a + 1 then 1 else 0)"
proof -
  have a: "a = k * (a div k) + a mod k" by simp
  have r: "0 \<le> a mod k" "a mod k < k" using assms by simp_all
  show ?thesis
  proof (cases "a mod k = k - 1")
    case True
    with a have e: "a + 1 = k * (a div k + 1)" by (simp add: algebra_simps)
    then have "(a + 1) div k = a div k + 1" using assms by (metis nonzero_mult_div_cancel_left less_irrefl)
    with e show ?thesis by (metis dvd_triv_left)
  next
    case False
    with r a have d: "(a + 1) div k = a div k" by (intro int_div_pos_eq [where r = "a mod k + 1"]) (simp_all add: algebra_simps)
    have "a + 1 = k * (a div k) + (a mod k + 1)" using a by linarith
    then have "(a + 1) mod k = a mod k + 1" using False r by (intro int_mod_pos_eq [where q = "a div k"]) (simp_all add: algebra_simps)
    with r have "\<not> k dvd a + 1" by (simp add: dvd_eq_mod_eq_0)
    with d show ?thesis by simp
  qed
qed

lemma era_year_mono: "a \<le> b \<Longrightarrow> era_year a \<le> era_year b"
proof -
  have "era_year c \<le> era_year (c + 1)" for c
  proof -
    have "(36524 :: int) dvd c + 1" if "(146096 :: int) dvd c + 1"
      using that by (rule dvd_trans [rotated]) simp
    then show ?thesis unfolding era_year_def by (intro zdiv_mono1) (simp_all add: div_succ)
  qed
  then have "era_year a \<le> era_year (a + int n)" for n
    by (induction n) (simp, metis add.assoc of_nat_Suc add.commute order_trans)
  from this [of "nat (b - a)"] show "a \<le> b \<Longrightarrow> era_year a \<le> era_year b" by simp
qed

lemma era_years:
  "list_all (\<lambda>y. era_year (year_start y) = y \<and> era_year (year_start (y + 1) - 1) = y
      \<and> year_start (y + 1) - year_start y \<le> (if isLeap (y + 1) then 366 else 365)) [0..399]"
  by code_simp

lemma year_found:
  assumes "0 \<le> doe" and "doe < 146097"
  shows "\<exists>y. 0 \<le> y \<and> y < 400 \<and> year_start y \<le> doe \<and> doe < year_start (y + 1)"
proof -
  have "doe < year_start (int n) \<Longrightarrow> n \<le> 400 \<Longrightarrow>
      \<exists>y. 0 \<le> y \<and> y < int n \<and> year_start y \<le> doe \<and> doe < year_start (y + 1)" for n
  proof (induction n)
    case (Suc n)
    show ?case
    proof (cases "doe < year_start (int n)")
      case True
      with Suc.IH Suc.prems show ?thesis by fastforce
    next
      case False
      with Suc.prems show ?thesis by (intro exI [of _ "int n"]) (simp add: add.commute)
    qed
  qed (use assms(1) in \<open>simp add: year_start_def\<close>)
  from this [of 400] assms(2) show ?thesis by (simp add: year_start_def)
qed

lemma era_year_bounds:
  assumes "0 \<le> doe" and "doe < 146097"
  shows "0 \<le> era_year doe" "era_year doe < 400" "year_start (era_year doe) \<le> doe"
    "doe - year_start (era_year doe) < (if isLeap (era_year doe + 1) then 366 else 365)"
proof -
  obtain y where y: "0 \<le> y" "y < 400" "year_start y \<le> doe" "doe < year_start (y + 1)"
    using year_found [OF assms] by blast
  from y have "y \<in> set [0..399]" by simp
  with era_years have at: "era_year (year_start y) = y" "era_year (year_start (y + 1) - 1) = y"
    "year_start (y + 1) - year_start y \<le> (if isLeap (y + 1) then 366 else 365)"
    by (auto simp: list_all_iff)
  have "era_year doe = y"
    using era_year_mono [OF y(3)] era_year_mono [of doe "year_start (y + 1) - 1"] y(4) at by simp
  with y at show "0 \<le> era_year doe" "era_year doe < 400" "year_start (era_year doe) \<le> doe"
    "doe - year_start (era_year doe) < (if isLeap (era_year doe + 1) then 366 else 365)"
    by auto
qed

lemma isLeap_era: "isLeap (y + 400 * k) = isLeap y"
proof -
  have "(y + 400 * k) mod 4 = y mod 4" "(y + 400 * k) mod 100 = y mod 100" "(y + 400 * k) mod 400 = y mod 400"
    using mod_mult_self2 [of y 4 "100 * k"] mod_mult_self2 [of y 100 "4 * k"] by simp_all
  then show ?thesis by (simp add: isLeap_def)
qed

text \<open>A day has a month between 1 and 12 and a day of that month, and the date leads back to it.\<close>

lemma civil_valid:
  assumes "civil days = (y, m, d)"
  shows "1 \<le> m" "m \<le> 12" "1 \<le> d" "d \<le> daysIn m y" "days_of_civil y m d = days"
proof -
  define z where "z = days + 719468"
  define era where "era = z div 146097"
  define doe where "doe = z mod 146097"
  define yoe where "yoe = era_year doe"
  define doy where "doy = doe - year_start yoe"
  define mp where "mp = (5 * doy + 2) div 153"
  have doe: "0 \<le> doe" "doe < 146097" by (simp_all add: doe_def)
  note b = era_year_bounds [OF doe, folded yoe_def]
  from b(1,2) have y400: "yoe div 400 = 0" by simp
  have doy: "0 \<le> doy" "doy < (if isLeap (yoe + 1) then 366 else 365)" using b by (simp_all add: doy_def)
  then have "doy < 366" by (simp split: if_splits)
  then have mp: "0 \<le> mp" "mp < 12" using doy(1) by (simp_all add: mp_def)
  have ys: "year_start yoe = 365 * yoe + yoe div 4 - yoe div 100" by (simp add: year_start_def y400)
  have "civil days = (let m = if mp < 10 then mp + 3 else mp - 9
      in (yoe + era * 400 + (if m \<le> 2 then 1 else 0), m, doy - (153 * mp + 2) div 5 + 1))"
    unfolding mp_def doy_def ys unfolding yoe_def era_year_def doe_def era_def z_def civil_def Let_def by (rule refl)
  with assms have md: "m = (if mp < 10 then mp + 3 else mp - 9)" "d = doy - (153 * mp + 2) div 5 + 1"
    "y = yoe + era * 400 + (if m \<le> 2 then 1 else 0)"
    by (auto simp: Let_def)
  show m: "1 \<le> m" "m \<le> 12" using mp by (auto simp: md(1))
  have "5 * doy + 2 = 153 * mp + (5 * doy + 2) mod 153" by (simp add: mp_def)
  then have q: "153 * mp \<le> 5 * doy + 2" "5 * doy + 2 < 153 * mp + 153" by auto
  have lower: "(153 * mp + 2) div 5 \<le> doy" using q(1) by linarith
  then show "1 \<le> d" by (simp add: md(2))
  have month: "(m + 9) mod 12 = mp" using mp by (auto simp: md(1) split: if_splits)
  have y': "(if m \<le> 2 then y - 1 else y) = yoe + era * 400" by (simp add: md(3))
  have "(yoe + era * 400) div 400 = era" "(yoe + era * 400) mod 400 = yoe" using b(1,2) by simp_all
  then show "days_of_civil y m d = days"
    unfolding days_of_civil_def Let_def y' month
    by (simp add: md(2) doy_def year_start_def y400 doe_def era_def z_def)
  have upper: "doy < (153 * (mp + 1) + 2) div 5" using q(2) by presburger
  have leap: "isLeap y = isLeap (yoe + 1)" if "mp = 11"
  proof -
    have "y = (yoe + 1) + 400 * era" using that by (simp add: md)
    then show ?thesis by (simp only: isLeap_era)
  qed
  have "mp = 0 \<or> mp = 1 \<or> mp = 2 \<or> mp = 3 \<or> mp = 4 \<or> mp = 5 \<or> mp = 6 \<or> mp = 7 \<or> mp = 8 \<or> mp = 9 \<or> mp = 10 \<or> mp = 11"
    using mp by presburger
  then show "d \<le> daysIn m y" using upper doy leap by (auto simp: md(1,2) daysIn_def split: if_splits)
qed

subsection \<open>Numbers of fixed width\<close>

lemma pad_digits:
  assumes "0 \<le> i"
  shows "list_all is_digit (pad k i)" "digits_value (pad k i) = i"
proof -
  have zeros: "digits_value (replicate n (CHR ''0'') @ ds) = digits_value ds" for n ds
    by (induction n) (simp_all add: digits_value_def)
  show "list_all is_digit (pad k i)" "digits_value (pad k i) = i"
    using assms digits_decimal_nat [of "nat \<bar>i\<bar>"] by (auto simp: pad_def Let_def zeros list_all_iff is_digit_def)
qed

lemma decimal_nat_length: "n < 10 ^ k \<Longrightarrow> 0 < k \<Longrightarrow> length (decimal_nat n) \<le> k"
proof (induction n arbitrary: k rule: decimal_nat.induct)
  case (1 n)
  show ?case
  proof (cases "n < 10")
    case True
    with "1.prems" show ?thesis by (subst decimal_nat.simps) simp
  next
    case False
    with "1.prems" obtain j where j: "k = Suc j" "0 < j" by (cases k; cases "k - 1") auto
    with "1.prems" have "n div 10 < 10 ^ j" by (simp add: less_mult_imp_div_less mult.commute)
    from "1.IH" [OF False this j(2)] False j(1) show ?thesis by (subst decimal_nat.simps) simp
  qed
qed

lemma pad_length:
  assumes "0 \<le> i" and "i < 10 ^ k" and "0 < k"
  shows "length (pad k i) = k"
proof -
  have "nat i < 10 ^ k" using assms by (simp add: nat_less_iff)
  from decimal_nat_length [OF this assms(3)] assms(1) show ?thesis by (simp add: pad_def Let_def)
qed

lemma getnum_pad:
  assumes "0 \<le> i" and "i < 100"
  shows "getnum fixed (pad 2 i @ s) = Some (i, s)"
proof -
  have "length (pad 2 i) = 2" using assms by (intro pad_length) simp_all
  then obtain a b where p: "pad 2 i = [a, b]" by (auto simp: numeral_2_eq_2 length_Suc_conv)
  with pad_digits [OF assms(1), of 2] show ?thesis by (simp add: digits_value_def digit_val_def)
qed

lemma get_year_pad:
  assumes "0 \<le> i" and "i < 10000"
  shows "get_year (pad 4 i @ s) = Some (i, s)"
proof -
  have "length (pad 4 i) = 4" using assms by (intro pad_length) simp_all
  then obtain a b c d where p: "pad 4 i = [a, b, c, d]" by (auto simp: eval_nat_numeral length_Suc_conv)
  with pad_digits [OF assms(1), of 4] show ?thesis by simp
qed

text \<open>The fraction of the second, with its trailing zeros cut off.\<close>

lemma get_fraction_inverse:
  assumes "0 \<le> ns" and "ns < second"
  shows "get_fraction (fraction ns @ ''Z'') = (ns, ''Z'')"
proof (cases "ns = 0")
  case False
  define ds where "ds = rev (dropWhile (\<lambda>c. c = CHR ''0'') (rev (pad 9 ns)))"
  define n where "n = length (takeWhile (\<lambda>c. c = CHR ''0'') (rev (pad 9 ns)))"
  have cut: "takeWhile (\<lambda>c. c = x) xs = replicate (length (takeWhile (\<lambda>c. c = x) xs)) x" for x :: char and xs
    by (induction xs) simp_all
  have "rev (pad 9 ns) = replicate n (CHR ''0'') @ rev ds"
    unfolding ds_def n_def by (simp add: cut [symmetric])
  then have p: "pad 9 ns = ds @ replicate n (CHR ''0'')" by (metis rev_append rev_replicate rev_rev_ident)
  have tail: "digits_value (xs @ replicate k (CHR ''0'')) = digits_value xs * 10 ^ k" for xs k
    by (induction k arbitrary: xs)
       (simp_all add: replicate_append_same [symmetric] digits_value_snoc append_assoc [symmetric] del: append_assoc)
  have len: "length ds + n = 9"
    using pad_length [of ns 9] assms p by (simp add: second_def)
  have v: "digits_value ds * 10 ^ n = ns" using pad_digits(2) [OF assms(1), of 9] by (simp add: p tail)
  have dig: "list_all is_digit ds" using pad_digits(1) [OF assms(1), of 9] by (simp add: p)
  from v False have "ds \<noteq> []" by (auto simp: digits_value_def)
  then obtain c t where ds: "ds = c # t" by (cases ds) auto
  have Z: "\<not> is_digit (CHR ''Z'')" by (simp add: is_digit_def)
  have "takeWhile is_digit (ds @ ''Z'') = ds" "dropWhile is_digit (ds @ ''Z'') = ''Z''"
    using dig Z by (simp_all add: list_all_iff takeWhile_append2 dropWhile_append2)
  moreover have "8 - length t = n" using len ds by simp
  ultimately show ?thesis using dig len v by (simp add: get_fraction_def fraction_def False ds_def [symmetric]) (simp add: ds Let_def)
qed (simp add: get_fraction_def fraction_def)

subsection \<open>Instants\<close>

definition year_of :: "time \<Rightarrow> int" where
  "year_of t = fst (civil (t div second div 86400))"

lemma skip_char_Cons [simp]: "skip_char c (c # s) = Some s"
  by (simp add: skip_char_def)

lemma parse_format:
  assumes "0 \<le> year_of t" and "year_of t < 10000"
  shows "parse_RFC3339 (format_RFC3339Nano t) = Some t"
    and "parse_RFC3339 (format_RFC3339 t) = Some (t - t mod second)"
proof -
  obtain y m d where c: "civil (t div second div 86400) = (y, m, d)" by (cases "civil (t div second div 86400)") auto
  note valid = civil_valid [OF c]
  define sod where "sod = t div second mod 86400"
  have y: "0 \<le> y" "y < 10000" using assms by (simp_all add: year_of_def c)
  have "daysIn m y \<le> 31" by (simp add: daysIn_def)
  with valid have md: "0 \<le> m" "m < 100" "0 \<le> d" "d < 100" by simp_all
  have sod: "0 \<le> sod" "sod < 86400" by (simp_all add: sod_def)
  then have h: "0 \<le> sod div 3600" "sod div 3600 < 24" by simp_all
  have mi: "0 \<le> sod mod 3600 div 60" "sod mod 3600 div 60 < 60" by simp_all
  have s: "0 \<le> sod mod 60" "sod mod 60 < 60" by simp_all
  have clock: "sod div 3600 * 3600 + sod mod 3600 div 60 * 60 + sod mod 60 = sod"
  proof -
    have "sod mod 3600 mod 60 = sod mod 60" by (rule mod_mod_cancel) simp
    then have "sod mod 3600 div 60 * 60 + sod mod 60 = sod mod 3600" using div_mult_mod_eq [of "sod mod 3600" 60] by simp
    then show ?thesis using div_mult_mod_eq [of sod 3600] by linarith
  qed
  have secs: "t div second div 86400 * 86400 + sod = t div second" by (simp add: sod_def)
  have layout: "format_seconds t @ rest = pad 4 y @ CHR ''-'' # pad 2 m @ CHR ''-'' # pad 2 d @ CHR ''T'' # pad 2 (sod div 3600)
      @ CHR '':'' # pad 2 (sod mod 3600 div 60) @ CHR '':'' # pad 2 (sod mod 60) @ rest" for rest
    by (simp add: format_seconds_def c Let_def sod_def)
  have nums: "get_year (pad 4 y @ r) = Some (y, r)" "getnum b (pad 2 m @ r) = Some (m, r)" "getnum b (pad 2 d @ r) = Some (d, r)"
    "getnum b (pad 2 (sod div 3600) @ r) = Some (sod div 3600, r)"
    "getnum b (pad 2 (sod mod 3600 div 60) @ r) = Some (sod mod 3600 div 60, r)"
    "getnum b (pad 2 (sod mod 60) @ r) = Some (sod mod 60, r)" for b r
    using y md h mi s by (intro get_year_pad getnum_pad; linarith)+
  have zone: "get_offset ''Z'' = Some (0, [])" by (simp add: get_offset_def)
  have parsed: "parse_RFC3339 (format_seconds t @ rest) = Some (t div second * second + ns)"
    if "get_fraction rest = (ns, ''Z'')" for rest ns
  proof -
    have "parse_RFC3339 (format_seconds t @ rest) =
        Some ((days_of_civil y m d * 86400 + sod div 3600 * 3600 + sod mod 3600 div 60 * 60 + sod mod 60 - 0) * second + ns)"
      unfolding layout parse_RFC3339_def
      using h mi s valid(1-4) that
      by (simp only: nums skip_char_Cons Option.bind.simps Let_def prod.case zone) simp
    also have "days_of_civil y m d * 86400 + sod div 3600 * 3600 + sod mod 3600 div 60 * 60 + sod mod 60 - 0 = t div second"
      unfolding valid(5) using clock secs by linarith
    finally show ?thesis .
  qed
  have "get_fraction (fraction (t mod second) @ ''Z'') = (t mod second, ''Z'')"
    by (intro get_fraction_inverse) (simp_all add: second_def)
  from parsed [OF this] show "parse_RFC3339 (format_RFC3339Nano t) = Some t"
    by (simp add: format_RFC3339Nano_def)
  have "get_fraction ''Z'' = (0, ''Z'')" by (simp add: get_fraction_def)
  from parsed [OF this] show "parse_RFC3339 (format_RFC3339 t) = Some (t - t mod second)"
    by (simp add: format_RFC3339_def minus_mod_eq_div_mult [symmetric])
qed

text \<open>A year that does not have four digits is printed as a text that is no date.\<close>

lemma digits_value_bound: "list_all is_digit ds \<Longrightarrow> digits_value ds < 10 ^ length ds"
proof (induction ds rule: rev_induct)
  case (snoc c ds)
  then have "digits_value ds < 10 ^ length ds" "int (byte_of c) \<le> 57" by (simp_all add: is_digit_def)
  then show ?case by (simp add: digits_value_snoc)
qed (simp add: digits_value_def)

lemma parse_format_None:
  assumes "\<not> (0 \<le> year_of t \<and> year_of t < 10000)"
  shows "parse_RFC3339 (format_seconds t @ rest) = None"
proof -
  obtain y m d where c: "civil (t div second div 86400) = (y, m, d)" by (cases "civil (t div second div 86400)") auto
  obtain tail where layout: "format_seconds t @ rest = pad 4 y @ tail" by (simp add: format_seconds_def c Let_def)
  show ?thesis
  proof (cases "y < 0")
    case True
    then obtain s where "pad 4 y @ tail = CHR ''-'' # s" by (simp add: pad_def Let_def)
    moreover have "get_year (CHR ''-'' # s) = None"
      by (cases "CHR ''-'' # s" rule: get_year.cases) (simp_all add: is_digit_def)
    ultimately show ?thesis by (simp add: layout parse_RFC3339_def)
  next
    case False
    with assms have y: "10000 \<le> y" by (simp add: year_of_def c)
    note p = pad_digits [of y 4]
    have "length (pad 4 y) > 4"
    proof (rule ccontr)
      assume "\<not> length (pad 4 y) > 4"
      then have "(10 :: int) ^ length (pad 4 y) \<le> 10 ^ 4" by (intro power_increasing) simp_all
      with digits_value_bound [OF p(1)] p(2) y show False by simp
    qed
    then have "Suc (Suc (Suc (Suc (Suc 0)))) \<le> length (pad 4 y)" by simp
    then obtain a b c' d' e s where s: "pad 4 y = a # b # c' # d' # e # s" by (auto simp: Suc_le_length_iff)
    with p(1) y have "is_digit e" by simp
    then have "skip_char (CHR ''-'') (e # s @ tail) = None" by (auto simp: skip_char_def is_digit_def)
    then show ?thesis by (simp add: layout s parse_RFC3339_def)
  qed
qed

lemma format_RFC3339Nano_inject:
  assumes "0 \<le> year_of t" "year_of t < 10000" and "format_RFC3339Nano t = format_RFC3339Nano u"
  shows "t = u"
proof (cases "0 \<le> year_of u \<and> year_of u < 10000")
  case True
  then show ?thesis using parse_format(1) [OF assms(1,2)] parse_format(1) [of u] assms(3) by (metis option.inject)
next
  case False
  from parse_format_None [OF this] parse_format(1) [OF assms(1,2)] assms(3) show ?thesis
    by (metis format_RFC3339Nano_def option.distinct(1))
qed

end
