(* ===== verification/ClientView.thy ===== *)
theory ClientView
  imports Responses Requests GoCalendar
begin

text \<open>
  What reaches the editor.  The bodies of the responses, read back from their bytes: the
  description of a file, and the answer to a save, which the editor takes its time stamps
  from.  A client may read them into the same structs.
\<close>

definition FileInfo_zero :: file_info where
  "FileInfo_zero =
     \<lparr>BaseFileName = '''', OwnerID = '''', fi_Size = 0, UserID = '''', fi_Version = '''', UserFriendlyName = '''',
      UserCanWrite = False, SupportsLocks = False, SupportsUpdate = False, SupportsRename = False,
      UserCanRename = False, UserCanNotWriteRelative = False, fi_LastModifiedTime = '''', PostMessageOrigin = '''',
      ReadOnly = False\<rparr>"

definition FileInfo_fields :: "(string \<times> file_info json_store) list" where
  "FileInfo_fields =
     [json_field ''BaseFileName'' store_string BaseFileName BaseFileName_update,
      json_field ''OwnerId'' store_string OwnerID OwnerID_update,
      json_field ''Size'' store_int64 fi_Size fi_Size_update,
      json_field ''UserId'' store_string UserID UserID_update,
      json_field ''Version'' store_string fi_Version fi_Version_update,
      json_field ''UserFriendlyName'' store_string UserFriendlyName UserFriendlyName_update,
      json_field ''UserCanWrite'' store_bool UserCanWrite UserCanWrite_update,
      json_field ''SupportsLocks'' store_bool SupportsLocks SupportsLocks_update,
      json_field ''SupportsUpdate'' store_bool SupportsUpdate SupportsUpdate_update,
      json_field ''SupportsRename'' store_bool SupportsRename SupportsRename_update,
      json_field ''UserCanRename'' store_bool UserCanRename UserCanRename_update,
      json_field ''UserCanNotWriteRelative'' store_bool UserCanNotWriteRelative UserCanNotWriteRelative_update,
      json_field ''LastModifiedTime'' store_string fi_LastModifiedTime fi_LastModifiedTime_update,
      json_field ''PostMessageOrigin'' store_string PostMessageOrigin PostMessageOrigin_update,
      json_field ''ReadOnly'' store_bool ReadOnly ReadOnly_update]"

definition read_info :: "bytes \<Rightarrow> error + file_info" where
  "read_info body = json_Decode (store_struct FileInfo_fields) FileInfo_zero (body, None)"

definition PutFileResponse_fields :: "(string \<times> put_file_response json_store) list" where
  "PutFileResponse_fields =
     [json_field ''LastModifiedTime'' store_string pfr_LastModifiedTime pfr_LastModifiedTime_update,
      json_field ''Version'' store_string pfr_Version pfr_Version_update]"

definition read_saved :: "bytes \<Rightarrow> error + put_file_response" where
  "read_saved body =
     json_Decode (store_struct PutFileResponse_fields) \<lparr>pfr_LastModifiedTime = '''', pfr_Version = ''''\<rparr> (body, None)"

lemma store_members_omitempty:
  assumes "plain_text key" and "map_of fds key = Some st" and "isEmpty \<Longrightarrow> st v r = Inr r"
  shows "store_members fds (omitempty key isEmpty v @ ms) r = bind_result (st v r) (store_members fds ms)"
  using assms store_members_plain [OF assms(1,2)] by (simp add: omitempty_def)

lemma json_ok_members:
  "json_ok d (JObj ms) \<longleftrightarrow> (\<exists>k. d = Suc k \<and> list_all (\<lambda>(key, v). raw_ok key \<and> json_ok k v) ms)"
  by (cases d) auto

lemma read_info_inverse:
  assumes "- (2 ^ 63) \<le> fi_Size i" and "fi_Size i < 2 ^ 63"
  shows "read_info (body_bytes (FileInfoBody i)) = Inr
     (i\<lparr>BaseFileName := to_valid (BaseFileName i), OwnerID := to_valid (OwnerID i), UserID := to_valid (UserID i),
        fi_Version := to_valid (fi_Version i), UserFriendlyName := to_valid (UserFriendlyName i),
        fi_LastModifiedTime := to_valid (fi_LastModifiedTime i), PostMessageOrigin := to_valid (PostMessageOrigin i)\<rparr>)"
proof -
  have ok: "json_ok 1 (FileInfo_json i)"
    by (simp add: FileInfo_json_def json_ok_members omitempty_def raw_ok_plain plain_text_def)
  show ?thesis
    unfolding read_info_def body_bytes_def body_json.simps option.case decode_printed(3) [OF ok, unfolded maxNestingDepth_def, simplified]
    using assms
    by (simp add: FileInfo_json_def FileInfo_fields_def FileInfo_zero_def json_field_def store_members_plain
        store_members_omitempty store_members_omitempty [where ms = "[]", simplified] plain_text_def del: store_members.simps(2))
qed

lemma read_saved_inverse:
  "read_saved (body_bytes (PutFileBody p)) = Inr
     \<lparr>pfr_LastModifiedTime = to_valid (pfr_LastModifiedTime p), pfr_Version = to_valid (pfr_Version p)\<rparr>"
proof -
  have ok: "json_ok 1 (PutFileResponse_json p)"
    by (simp add: PutFileResponse_json_def json_ok_members omitempty_def raw_ok_plain plain_text_def)
  show ?thesis
    unfolding read_saved_def body_bytes_def body_json.simps option.case decode_printed(3) [OF ok, unfolded maxNestingDepth_def, simplified]
    by (simp add: PutFileResponse_json_def PutFileResponse_fields_def json_field_def store_members_plain
        store_members_omitempty [where ms = "[]", simplified] plain_text_def del: store_members.simps(2))
qed

text \<open>A time stamp is ASCII and goes through JSON as it is.\<close>

lemma decimal_nat_ascii: "c \<in> set (decimal_nat n) \<Longrightarrow> byte_of c < 0x80"
  using digits_decimal_nat [of n] by (auto simp: list_all_iff is_digit_def)

lemma pad_ascii: "c \<in> set (pad k i) \<Longrightarrow> byte_of c < 0x80"
  by (auto simp: pad_def Let_def decimal_nat_ascii split: if_splits)

lemma stamp_valid [simp]: "to_valid (format_RFC3339Nano t) = format_RFC3339Nano t"
proof -
  have "byte_of c < 0x80" if "c \<in> set (fraction n)" for c n
    using that by (auto simp: fraction_def dest!: set_dropWhileD intro: pad_ascii split: if_splits)
  then have "\<forall>c \<in> set (format_RFC3339Nano t). byte_of c < 0x80"
    by (auto simp: format_RFC3339Nano_def format_seconds_def Let_def pad_ascii split: prod.splits)
  then show ?thesis by (intro to_valid_ValidString ValidString_ascii) (auto simp: list_all_iff)
qed

text \<open>
  C13: the description of a file as the editor reads it.  For a token and its document, the
  answer is 200, and its bytes decode to the description of that document: its size and
  version, the token's actor, the right to write exactly as the token has it, never both
  writable and read-only, locks supported, and the document's own change date when it has
  one.  Text arrives as it is, up to bytes that are not UTF-8.
\<close>

theorem file_info_reaches_client:
  assumes "rq_token r = Some t" and "ext_FindByID env (tick w) (tok_FileID t) = Inr (Some doc)"
    and "- (2 ^ 63) \<le> doc_Size doc" and "doc_Size doc < 2 ^ 63"
    and "IsZero (doc_UpdatedAt doc) \<or> (0 \<le> year_of (doc_UpdatedAt doc) \<and> year_of (doc_UpdatedAt doc) < 10000)"
    and "resp = fst (run (handle_CheckFileInfo (wopi_h env cfg out) r) w)"
  shows "rs_Status resp = 200
    \<and> (\<exists>info. read_info (body_bytes (rs_Body resp)) = Inr info
        \<and> BaseFileName info = to_valid (doc_DisplayName doc) \<and> fi_Size info = doc_Size doc
        \<and> fi_Version info = to_valid (doc_ExternalID doc)
        \<and> UserID info = to_valid (tok_ActorID t) \<and> UserFriendlyName info = to_valid (tok_ActorName t)
        \<and> OwnerID info = to_valid (if doc_CreatedBy doc = '''' then doc_ID doc else doc_CreatedBy doc)
        \<and> UserCanWrite info = HasPermission t ''write'' \<and> ReadOnly info = (\<not> HasPermission t ''write'')
        \<and> SupportsUpdate info = HasPermission t ''write'' \<and> SupportsLocks info \<and> UserCanNotWriteRelative info
        \<and> UserCanRename info = (HasPermission t ''write'' \<and> SupportsRename info)
        \<and> parse_RFC3339 (fi_LastModifiedTime info) =
            (if IsZero (doc_UpdatedAt doc) then None else Some (doc_UpdatedAt doc)))"
proof -
  have none: "parse_RFC3339 '''' = None" by (simp add: parse_RFC3339_def)
  define s where "s = wh_wopiSvc (wopi_h env cfg out)"
  define info where "info = \<lparr>BaseFileName = doc_DisplayName doc,
      OwnerID = (if doc_CreatedBy doc = '''' then doc_ID doc else doc_CreatedBy doc), fi_Size = doc_Size doc,
      UserID = tok_ActorID t, fi_Version = doc_ExternalID doc, UserFriendlyName = tok_ActorName t,
      UserCanWrite = HasPermission t ''write'', SupportsLocks = True, SupportsUpdate = HasPermission t ''write'',
      SupportsRename = ws_renameEnabled s, UserCanRename = (HasPermission t ''write'' \<and> ws_renameEnabled s),
      UserCanNotWriteRelative = True,
      fi_LastModifiedTime = (if IsZero (doc_UpdatedAt doc) then '''' else format_RFC3339Nano (doc_UpdatedAt doc)),
      PostMessageOrigin = ws_postMessageOrigin s, ReadOnly = (\<not> HasPermission t ''write'')\<rparr>"
  have resp: "rs_Status resp = 200" "rs_Body resp = FileInfoBody info"
    using assms(1,2,6)
    by (simp_all add: handle_CheckFileInfo_def TokenFromContext_def info_def s_def CheckFileInfo_def prog_simps Let_def
        json_response_def)
  have size: "- (2 ^ 63) \<le> fi_Size info" "fi_Size info < 2 ^ 63" using assms(3,4) by (simp_all add: info_def)
  show ?thesis
    unfolding resp(2) read_info_inverse [OF size]
    using assms(5) resp(1) parse_format(1) [of "doc_UpdatedAt doc"] none by (auto simp: info_def)
qed

theorem file_info_reaches_client_witness:
  "\<exists>info. read_info (body_bytes (rs_Body (fst (run (handle_CheckFileInfo (wopi_h ex_senv ex_cfg ex_out)
       (ex_lock_request ''A'')) ex_lock_world)))) = Inr info
     \<and> fi_Size info = 3 \<and> UserCanWrite info \<and> parse_RFC3339 (fi_LastModifiedTime info) = Some ex_start"
proof -
  have y: "0 \<le> year_of ex_start" "year_of ex_start < 10000" "\<not> IsZero ex_start" by code_simp+
  have can: "HasPermission (token_of_row ex_token_row) ''write''"
    by (simp add: issued_permissions token_of_row_def ex_token_row_def)
  have doc: "doc_Size ex_document = 3" "doc_UpdatedAt ex_document = ex_start" by (simp_all add: ex_document_def)
  have "ext_FindByID ex_senv (tick ex_lock_world) (tok_FileID (token_of_row ex_token_row)) = Inr (Some ex_document)" by simp
  from file_info_reaches_client [OF ex_lock_request_sel(2) this, OF _ _ _ refl, of ex_cfg ex_out "''A''"] y can doc
  show ?thesis by (simp, metis)
qed

text \<open>The answer to a save: the reply carries the version and the time of this very write.\<close>

lemma saved_reply:
  assumes "rq_token r = Some t"
  shows "answers (\<lambda>resp. rs_Status resp = 200 \<longrightarrow> (\<exists>m n res stamp. ext_WriteFile env m (tok_FileID t) (rq_Body r) = Inr res
      \<and> stamp = format_RFC3339Nano (go_now env n)
      \<and> rs_Body resp = PutFileBody \<lparr>pfr_LastModifiedTime = stamp, pfr_Version = fw_ExternalID res\<rparr>
      \<and> {(''X-WOPI-ItemVersion'', fw_ExternalID res), (''X-COOL-WOPI-Timestamp'', stamp)} \<subseteq> set (rs_Headers resp)))
     (handle_putFile (GoRuntime env) (wopi_h env cfg out) r)"
proof -
  have put: "answers (\<lambda>v. \<forall>x. v = Inr x \<longrightarrow> (\<exists>m n res. ext_WriteFile env m (tok_FileID t) (rq_Body r) = Inr res
        \<and> pf_Version x = fw_ExternalID res \<and> pf_LastModifiedTime x = go_now env n))
      (PutFile (GoRuntime env) (sv_wopi (createServices env cfg)) t lid (rq_Body r))" for lid
    by (auto simp: PutFile_def Let_def intro!: prog_spec_call split: sum.splits option.splits; blast)
  show ?thesis
    using assms
    by (auto simp: handle_putFile_def TokenFromContext_def Let_def json_response_def intro!: answers_bind_post [OF put]
        answers_call answers_effect split: sum.splits option.splits; blast)
qed

text \<open>
  C14: the answer to a save, which the editor closes the document without.  Every success
  carries a body that decodes, with a time stamp that parses to a reading of the clock and
  with the version that the write of this body to the token's file returned; the headers
  say the same.
\<close>

theorem save_answer_reaches_client:
  assumes "rq_token r = Some t" and "resp = fst (run (handle_putFile (GoRuntime env) (wopi_h env cfg out) r) w)"
    and "rs_Status resp = 200" and "\<And>n. 0 \<le> year_of (go_now env n) \<and> year_of (go_now env n) < 10000"
  shows "\<exists>saved m n res. read_saved (body_bytes (rs_Body resp)) = Inr saved
    \<and> parse_RFC3339 (pfr_LastModifiedTime saved) = Some (go_now env n)
    \<and> ext_WriteFile env m (tok_FileID t) (rq_Body r) = Inr res \<and> pfr_Version saved = to_valid (fw_ExternalID res)
    \<and> (''X-COOL-WOPI-Timestamp'', pfr_LastModifiedTime saved) \<in> set (rs_Headers resp)
    \<and> (''X-WOPI-ItemVersion'', fw_ExternalID res) \<in> set (rs_Headers resp)"
proof -
  obtain m n res where "ext_WriteFile env m (tok_FileID t) (rq_Body r) = Inr res"
    and body: "rs_Body resp = PutFileBody \<lparr>pfr_LastModifiedTime = format_RFC3339Nano (go_now env n), pfr_Version = fw_ExternalID res\<rparr>"
    and "{(''X-WOPI-ItemVersion'', fw_ExternalID res), (''X-COOL-WOPI-Timestamp'', format_RFC3339Nano (go_now env n))}
      \<subseteq> set (rs_Headers resp)"
    using answers_run [OF saved_reply [OF assms(1)]] assms(2,3) by blast
  moreover have "parse_RFC3339 (format_RFC3339Nano (go_now env n)) = Some (go_now env n)"
    using parse_format(1) assms(4) by blast
  ultimately show ?thesis unfolding body read_saved_inverse by auto
qed

definition ex_frozen :: server_env where
  "ex_frozen = ex_senv\<lparr>go_now := (\<lambda>_. ex_start)\<rparr>"

theorem save_answer_reaches_client_witness:
  "\<exists>saved. read_saved (body_bytes (rs_Body (fst (run (handle_putFile (GoRuntime ex_frozen) (wopi_h ex_frozen ex_cfg ex_out)
        (ex_lock_request ''A'')) ex_lock_world)))) = Inr saved
     \<and> parse_RFC3339 (pfr_LastModifiedTime saved) = Some ex_start"
proof -
  let ?r = "ex_lock_request ''A''" and ?t = "token_of_row ex_token_row"
  have y: "0 \<le> year_of ex_start \<and> year_of ex_start < 10000" by code_simp
  have can: "HasPermission ?t ''write''" by (simp add: issued_permissions token_of_row_def ex_token_row_def)
  have rel: "reliable ex_frozen" by (simp add: reliable_def ex_frozen_def)
  have wf: "wf_locks (locks ex_lock_world)" by (simp add: wf_locks_def)
  have wrote: "\<exists>res. ext_WriteFile ex_frozen n f c = Inr res" for n f c
    by (simp add: ex_frozen_def ex_senv_def ex_env_def sys_env.extend_def server_env.fields_def)
  then have errs: "ext_WriteFile ex_frozen n f c = Inl e \<Longrightarrow> foreign_error e" for n f c e by (metis Inl_Inr_False)
  obtain resp asked marked where spec: "put_file_spec ex_frozen (tick ex_lock_world)
      (active (pg_now ex_frozen (tick ex_lock_world)) (lock_view ex_lock_world (tok_FileID ?t))) ?t ?r = (resp, asked, marked)"
    and ok: "rs_Status resp = 200"
    using can wrote [of 1 "''doc''" "rq_Body ?r"]
    by (auto simp: put_file_spec_def put_conflict_def lock_of_row_def ex_frozen_def ex_times Let_def json_response_def)
  have "rs_Status (fst (run (handle_putFile (GoRuntime ex_frozen) (wopi_h ex_frozen ex_cfg ex_out) ?r) ex_lock_world)) = 200"
    using put_file_refines [OF rel wf ex_lock_request_sel(2) errs spec refl, where cfg = ex_cfg and out = ex_out] ok by simp
  from save_answer_reaches_client [OF ex_lock_request_sel(2) refl this] y show ?thesis
    by (auto simp: ex_frozen_def)
qed

end
