(* ===== verification/Revalidation.thy ===== *)
theory Revalidation
  imports PreviewCache GoCalendar
begin

text \<open>
  Conditional requests.  The tag of a picture is a date in text; that it stands for one
  date only is what makes the comparison of tags a comparison of versions.
\<close>

definition four_digit_year :: "time \<Rightarrow> bool" where
  "four_digit_year t = (0 \<le> year_of t \<and> year_of t < 10000)"

lemma etag_inject:
  "four_digit_year t \<Longrightarrow> etagFor t = etagFor u \<longleftrightarrow> t = u"
  using format_RFC3339Nano_inject [of t u] by (auto simp: etagFor_def four_digit_year_def)

lemma Resolve_admitted:
  assumes "fst (run (Resolve (sv_preview (createServices env cfg)) actor sourceID tag) (w :: server)) = Inr res"
  shows "\<exists>src a ext. ext_FindByID env (tick w) sourceID = Inr (Some src)
    \<and> ext_CheckPrivilege env (tick w + 1) actor ''read'' (doc_AuthorizationPolicyID src) = Inr a \<and> Allowed a
    \<and> doc_Size src \<noteq> 0 \<and> PreviewExtension (doc_MimeType src) = Inr ext"
  using assms by (auto simp: Resolve_def prog_simps split: sum.splits option.splits if_splits)

lemma Resolve_matching:
  assumes "fst (run (Resolve (sv_preview (createServices env cfg)) actor sourceID tag) (w :: server)) = Inr res"
    and "ext_FindByID env (tick w) sourceID = Inr (Some src)"
  shows "pr_NotModified res \<longleftrightarrow> tag \<noteq> '''' \<and> tag = etagFor (doc_UpdatedAt src)"
proof -
  obtain a ext where adm: "ext_CheckPrivilege env (tick w + 1) actor ''read'' (doc_AuthorizationPolicyID src) = Inr a"
    "Allowed a" "doc_Size src \<noteq> 0" "PreviewExtension (doc_MimeType src) = Inr ext"
    using Resolve_admitted [OF assms(1)] assms(2) by auto
  show ?thesis
  proof (cases "tag \<noteq> '''' \<and> tag = etagFor (doc_UpdatedAt src)")
    case True
    with assms adm show ?thesis by (auto simp: Resolve_def prog_simps Let_def)
  next
    case False
    from Resolve_picture [OF assms adm False] False show ?thesis by blast
  qed
qed

text \<open>
  C8: a conditional request tells versions apart.  A client that got a picture and asks
  again with its tag, of the same source and with whatever happened in between, is told
  that nothing changed exactly when the source has the date the picture was made of; so it
  neither keeps an outdated picture nor fetches again the one it has.  The source's date has
  a year of four digits, which is what the tag's format is made for.
\<close>

theorem revalidation_decides:
  fixes w w' :: server
  assumes "fst (run (Resolve (sv_preview (createServices env cfg)) actor sourceID tag) w) = Inr held"
    and "\<not> pr_NotModified held"
    and "fst (run (Resolve (sv_preview (createServices env cfg)) actor' sourceID (pr_ETag held)) w') = Inr res"
    and "ext_FindByID env (tick w') sourceID = Inr (Some current)" and "four_digit_year (doc_UpdatedAt current)"
  shows "\<exists>src e. ext_FindByID env (tick w) sourceID = Inr (Some src)
    \<and> picture_of env cfg src (map entry_of_row (document_preview_cache w)) held e
    \<and> (pr_NotModified res \<longleftrightarrow> SourceUpdatedDate e = doc_UpdatedAt current)"
proof -
  obtain src a ext where src: "ext_FindByID env (tick w) sourceID = Inr (Some src)"
    "ext_CheckPrivilege env (tick w + 1) actor ''read'' (doc_AuthorizationPolicyID src) = Inr a" "Allowed a"
    "doc_Size src \<noteq> 0" "PreviewExtension (doc_MimeType src) = Inr ext"
    using Resolve_admitted [OF assms(1)] by blast
  have "\<not> (tag \<noteq> '''' \<and> tag = etagFor (doc_UpdatedAt src))" using Resolve_matching [OF assms(1) src(1)] assms(2) by blast
  from Resolve_picture [OF assms(1) src this] obtain e where
    e: "picture_of env cfg src (map entry_of_row (document_preview_cache w)) held e" by blast
  then have tag: "pr_ETag held = etagFor (SourceUpdatedDate e)" by (simp add: picture_of_def)
  have "etagFor (SourceUpdatedDate e) \<noteq> ''''" by (simp add: etagFor_def)
  with Resolve_matching [OF assms(3,4)] tag etag_inject [OF assms(5)] src(1) e show ?thesis by metis
qed

text \<open>A source with a cached preview, asked for twice.\<close>

definition ex_preview_row :: preview_row where
  "ex_preview_row = \<lparr>prow_source_file_id = ''doc'', prow_preview_file_id = ''pv'', prow_source_updated_date = ex_start\<rparr>"

definition ex_cached :: server where
  "ex_cached = ex_server\<lparr>document_preview_cache := [ex_preview_row]\<rparr>"

lemma ex_start_year: "four_digit_year ex_start"
  by code_simp

lemma ex_cached_row:
  "document_preview_cache w = [ex_preview_row] \<Longrightarrow>
     fst (PreviewCacheRepository_FindBySourceID ex_senv ''doc'' w) = Inr (Some (entry_of_row ex_preview_row))"
  by (simp add: PreviewCacheRepository_FindBySourceID_def optional_row_def db_stmt_def preview_table_def
      sql_findPreviewCacheBySourceID_def sql_select_one_def ex_preview_row_def Let_def)

theorem revalidation_decides_witness:
  "\<exists>e. SourceUpdatedDate e = ex_start
     \<and> picture_of ex_senv ex_cfg ex_document [entry_of_row ex_preview_row]
         \<lparr>pr_ETag = etagFor ex_start, pr_Body = Some ([1, 2, 3], None), pr_NotModified = False\<rparr> e"
proof -
  let ?s = "sv_preview (createServices ex_senv ex_cfg)"
  note unf = Resolve_def prog_simps ex_document_def PreviewExtension_def previewExtensionByMIME_def
  have first: "fst (run (Resolve ?s ''actor'' ''doc'' '''') ex_cached) =
      Inr \<lparr>pr_ETag = etagFor ex_start, pr_Body = Some ([1, 2, 3], None), pr_NotModified = False\<rparr>"
    by (simp add: unf currentMapping_def ex_cached_def ex_cached_row Let_def) (simp add: entry_of_row_def ex_preview_row_def prog_simps)
  have second: "fst (run (Resolve ?s ''actor'' ''doc'' (etagFor ex_start)) ex_cached) =
      Inr \<lparr>pr_ETag = etagFor ex_start, pr_Body = None, pr_NotModified = True\<rparr>"
    by (simp add: unf etagFor_def)
  have "ext_FindByID ex_senv (tick ex_cached) ''doc'' = Inr (Some ex_document)" "doc_UpdatedAt ex_document = ex_start"
    by (simp_all add: ex_document_def)
  with revalidation_decides [OF first, of "''actor''" ex_cached _ ex_document] second ex_start_year show ?thesis
    by (auto simp: picture_of_def ex_cached_def etag_inject)
qed

end
