(* ===== verification/Streams.thy ===== *)
theory Streams
  imports Responses Deployed
begin

text \<open>
  Contents that break off.  Files travel as streams from file-service to the client, from
  the client to file-service, and through Collabora; each leg can fail in the middle.
\<close>

text \<open>
  What is relied on of \<^verbatim>\<open>http.Client\<close> and of the peers: a request whose body broke off is not
  answered with success.
\<close>

definition whole_uploads :: "network \<Rightarrow> bool" where
  "whole_uploads net =
     (\<forall>n k q resp. net_exchange net n k q = Inr resp \<and> hp_StatusCode resp \<in> {200, 201} \<longrightarrow> snd (hq_Body q) = None)"

lemma NewRequest_sel:
  "NewRequest m url body = Inr q \<Longrightarrow> hq_Body q = body \<and> hq_Method q = m \<and> hq_URL q = url"
  by (auto simp: NewRequest_def split: sum.splits)

lemma multipart_body_end: "snd (multipart_body boundary f) = snd (fm_content f)"
  by (simp add: multipart_body_def Let_def)

lemma uploads_whole:
  assumes "whole_uploads net"
  shows "FileClient_WriteFile (net_exchange net n k) c i content = Inr r \<Longrightarrow>
      snd content = None \<and> (\<exists>q resp. net_exchange net n k q = Inr resp \<and> hp_StatusCode resp = 200 \<and> hq_Method q = ''PUT''
        \<and> hq_URL q = fc_baseURL c @ ''/internal/file/'' @ i @ ''/content'' \<and> hq_Body q = content)"
    and "FileClient_CreatePreviewFile b (net_exchange net n k) c bucket content = Inr p \<Longrightarrow> snd content = None"
    and "client_Render b (net_exchange net n k) cc ext content = Inr png \<Longrightarrow> snd content = None"
proof -
  have law: "snd (hq_Body q) = None" if "net_exchange net n k q = Inr resp" "hp_StatusCode resp \<in> {200, 201}" for q resp
    using assms that unfolding whole_uploads_def by blast
  show "snd content = None \<and> (\<exists>q resp. net_exchange net n k q = Inr resp \<and> hp_StatusCode resp = 200 \<and> hq_Method q = ''PUT''
      \<and> hq_URL q = fc_baseURL c @ ''/internal/file/'' @ i @ ''/content'' \<and> hq_Body q = content)"
    if "FileClient_WriteFile (net_exchange net n k) c i content = Inr r"
  proof -
    from that obtain q resp where
      q: "NewRequest ''PUT'' (fc_baseURL c @ ''/internal/file/'' @ i @ ''/content'') content = Inr q"
      and r: "net_exchange net n k (q\<lparr>hq_ContentType := ''application/octet-stream''\<rparr>) = Inr resp" "hp_StatusCode resp = 200"
      by (auto simp: FileClient_WriteFile_def split: sum.splits if_splits)
    from NewRequest_sel [OF q] law [OF r(1)] r show ?thesis
      by (intro conjI exI [of _ "q\<lparr>hq_ContentType := ''application/octet-stream''\<rparr>"] exI [of _ resp]) simp_all
  qed
  show "snd content = None" if "FileClient_CreatePreviewFile b (net_exchange net n k) c bucket content = Inr p"
  proof -
    from that obtain q resp where
      q: "NewRequest ''POST'' (fc_baseURL c @ ''/internal/file'') (multipart_body b (preview_form bucket content)) = Inr q"
      and r: "net_exchange net n k (q\<lparr>hq_ContentType := FormDataContentType b\<rparr>) = Inr resp" "hp_StatusCode resp = 201"
      by (auto simp: FileClient_CreatePreviewFile_def split: sum.splits if_splits)
    from NewRequest_sel [OF q] law [OF r(1)] r(2) show ?thesis by (simp add: multipart_body_end preview_form_def)
  qed
  show "snd content = None" if "client_Render b (net_exchange net n k) cc ext content = Inr png"
  proof -
    from that obtain q resp where
      q: "NewRequest ''POST'' (cc_collaboraURL cc @ ''/cool/get-thumbnail'') (multipart_body b (thumbnail_form ext content)) = Inr q"
      and r: "net_exchange net n k (q\<lparr>hq_ContentType := FormDataContentType b\<rparr>) = Inr resp" "hp_StatusCode resp = 200"
      by (auto simp: client_Render_def split: sum.splits if_splits)
    from NewRequest_sel [OF q] law [OF r(1)] r(2) show ?thesis by (simp add: multipart_body_end thumbnail_form_def)
  qed
qed

text \<open>What a success of the save handler says.\<close>

lemma put_success:
  assumes "rq_token r = Some t"
  shows "answers (\<lambda>resp. rs_Status resp = 200 \<longrightarrow> (\<exists>n res. ext_WriteFile env n (tok_FileID t) (rq_Body r) = Inr res))
     (handle_putFile (GoRuntime env) (wopi_h env cfg out) r)"
proof -
  have put: "answers (\<lambda>v. (\<exists>x. v = Inr x) \<longrightarrow> (\<exists>n res. ext_WriteFile env n (tok_FileID t) (rq_Body r) = Inr res))
      (PutFile (GoRuntime env) (sv_wopi (createServices env cfg)) t lid (rq_Body r))" for lid
    by (auto simp: PutFile_def Let_def intro!: prog_spec_call split: sum.splits option.splits; blast)
  show ?thesis
    using assms
    by (auto simp: handle_putFile_def TokenFromContext_def Let_def intro!: answers_bind_post [OF put] answers_call
        answers_effect split: sum.splits option.splits; blast)
qed


text \<open>
  C37: a read that breaks off looks complete.  When the content breaks off on its way from
  file-service, the client gets 200 with the part that arrived, the same response as for a
  file that ends there; only the log tells the difference.
\<close>

theorem broken_read_looks_complete:
  assumes "rq_token r = Some t" and "ext_ReadFile env (tick w) (tok_FileID t) = Inr (part, Some err)"
    and "result = run (handle_GetFile (wopi_h env cfg out) r) w"
  shows "fst result = \<lparr>rs_Status = 200, rs_Headers = [(''Content-Type'', ''application/octet-stream'')],
      rs_Body = ContentBody part\<rparr>
    \<and> fst result = fst (run (handle_GetFile (wopi_h (env\<lparr>ext_ReadFile := (\<lambda>_ _. Inr (part, None))\<rparr>) cfg out) r) w)
    \<and> hd (trace (snd result)) = EvLog (log_record Error ''GetFile stream error'' [(''error'', FError err)])"
  using assms
  by (simp add: handle_GetFile_def TokenFromContext_def GetFile_def prog_simps)

text \<open>Where the picture behind an entry comes from.\<close>

definition whole_picture :: "'e server_env_scheme \<Rightarrow> string \<Rightarrow> string \<Rightarrow> string \<Rightarrow> bool" where
  "whole_picture env sourceID ext previewID =
     (\<exists>k l m source picture. ext_ReadFile env k sourceID = Inr (source, None)
        \<and> ext_Render env l ext (source, None) = Inr (picture, None)
        \<and> ((\<exists>res. ext_WriteFile env m previewID (picture, None) = Inr res)
           \<or> (\<exists>bucket. ext_CreatePreviewFile env m bucket (picture, None) = Inr previewID)))"

definition opened :: "'e server_env_scheme \<Rightarrow> string \<Rightarrow> bool" where
  "opened env previewID = (\<exists>k body. ext_ReadFile env k previewID = Inr body)"

lemma writeTarget_opened:
  "answers (\<lambda>t. \<forall>m i. t = Inr (Some m, i) \<longrightarrow> opened env (PreviewFileID m))
     (writeTarget (sv_preview (createServices env cfg)) sourceID date)"
  by (auto simp: writeTarget_def opened_def Let_def intro!: prog_spec_call simp del: split_paired_Ex
      split: sum.splits option.splits; blast)

lemma networked_uploads:
  assumes "whole_uploads net" and "env = networked net cfg env0"
  shows "ext_WriteFile env n i c = Inr r \<Longrightarrow> snd c = None" "ext_CreatePreviewFile env n b c = Inr p \<Longrightarrow> snd c = None"
    "ext_Render env n x c = Inr png \<Longrightarrow> snd c = None"
  using uploads_whole [OF assms(1)] by (auto simp: assms(2) networked_def Let_def)

lemma render_admitted_whole:
  assumes "whole_uploads net" and "env = networked net cfg env0"
  shows "answers (\<lambda>v. \<forall>e. v = Inr e \<longrightarrow> opened env (PreviewFileID e) \<or> whole_picture env sourceID ext (PreviewFileID e))
     (render_admitted (sv_preview (createServices env cfg)) sourceID ext)"
proof -
  have whole: "whole_picture env sourceID ext previewID"
    if "ext_ReadFile env k sourceID = Inr c" "ext_Render env l ext c = Inr p"
      "(\<exists>res. ext_WriteFile env m previewID p = Inr res) \<or> (\<exists>bucket. ext_CreatePreviewFile env m bucket p = Inr previewID)"
    for k l m c p previewID
  proof -
    have "snd c = None" "snd p = None" using that networked_uploads [OF assms] by blast+
    then show ?thesis using that unfolding whole_picture_def by (metis prod.collapse)
  qed
  show ?thesis
    by (auto simp: render_admitted_def commitRefresh_def commitMapping_def Let_def
        intro!: prog_spec_call answers_bind_post [OF writeTarget_opened] answers_effect
        split: sum.splits option.splits if_splits) (use whole in blast)+
qed

text \<open>
  No preview of half a document.  On the deployed clients, an entry that a render
  delivers names a preview file that was there and could be opened, or one that got a
  picture which arrived to its end, made by Collabora of a source that was read to its
  end.
\<close>

theorem stored_preview_is_whole:
  fixes w :: "'z server_scheme"
  assumes "whole_uploads net" and "env = networked net cfg env0"
    and "fst (run (renderAndStore (sv_preview (createServices env cfg)) sourceID ext) w) = Inr e"
  shows "(\<exists>k body. ext_ReadFile env k (PreviewFileID e) = Inr body)
    \<or> (\<exists>k l m source picture. ext_ReadFile env k sourceID = Inr (source, None)
        \<and> ext_Render env l ext (source, None) = Inr (picture, None)
        \<and> ((\<exists>res. ext_WriteFile env m (PreviewFileID e) (picture, None) = Inr res)
           \<or> (\<exists>bucket. ext_CreatePreviewFile env m bucket (picture, None) = Inr (PreviewFileID e))))"
proof -
  have "answers (\<lambda>v. \<forall>e. v = Inr e \<longrightarrow> opened env (PreviewFileID e) \<or> whole_picture env sourceID ext (PreviewFileID e))
      (renderAndStore (sv_preview (createServices env cfg)) sourceID ext)"
    by (auto simp: renderAndStore_def intro!: answers_call answers_effect
        answers_bind_post [OF render_admitted_whole [OF assms(1,2)]] split: option.splits)
  from answers_run [OF this] assms(3) show ?thesis unfolding opened_def whole_picture_def by blast
qed

text \<open>
  A network in which file-service takes whole uploads and answers with JSON, and Collabora
  answers a picture; and a source whose stream breaks off.
\<close>

definition ex_stored :: stream where
  "ex_stored = (bytes_of_string (print_json (JObj [(''externalID'', json_string ''v2'')])), None)"

definition ex_created :: stream where
  "ex_created = (bytes_of_string (print_json (JObj [(''id'', json_string ''pv'')])), None)"

definition ex_peer :: exchange where
  "ex_peer q =
     (if snd (hq_Body q) \<noteq> None then Inl (OpaqueError ''body read error'')
      else if hq_Method q = ''PUT'' then Inr \<lparr>hp_StatusCode = 200, hp_ContentType = ''application/json'', hp_Body = ex_stored\<rparr>
      else if HasSuffix (hq_URL q) ''/internal/file''
      then Inr \<lparr>hp_StatusCode = 201, hp_ContentType = ''application/json'', hp_Body = ex_created\<rparr>
      else if HasSuffix (hq_URL q) ''/meta''
      then Inr \<lparr>hp_StatusCode = 200, hp_ContentType = ''application/json'', hp_Body = ex_created\<rparr>
      else Inr \<lparr>hp_StatusCode = 200, hp_ContentType = ''image/png'', hp_Body = ([7, 7], None)\<rparr>)"

definition ex_peers :: network where
  "ex_peers = ex_network\<lparr>net_exchange := (\<lambda>_ _. ex_peer)\<rparr>"

lemma ex_peers_whole: "whole_uploads ex_peers"
  by (auto simp: whole_uploads_def ex_peers_def ex_peer_def split: if_splits)

lemma ex_stored_decoded: "decode_write ex_stored = Inr \<lparr>fw_ExternalID = ''v2'', fw_MimeType = '''', fw_Size = 0\<rparr>"
proof -
  have ok: "json_ok 1 (JObj [(''externalID'', json_string ''v2'')])" by (simp add: raw_ok_plain plain_text_def)
  have v: "to_valid ''v2'' = ''v2''" by (rule to_valid_ValidString) (simp add: ValidString_ascii)
  show ?thesis
    unfolding decode_write_def ex_stored_def
    by (subst decode_printed(1) [OF ok])
       (simp_all add: maxNestingDepth_def store_members_plain plain_text_def FileWriteResult_fields_def json_field_def v
         del: store_members.simps(2))
qed

lemma ex_created_decoded: "decode_created ex_created = Inr ''pv''" "\<exists>m. decode_meta ex_created = Inr m"
proof -
  have ok: "json_ok 1 (JObj [(''id'', json_string ''pv'')])" by (simp add: raw_ok_plain plain_text_def)
  have v: "to_valid ''pv'' = ''pv''" by (rule to_valid_ValidString) (simp add: ValidString_ascii)
  note unf = maxNestingDepth_def store_members_plain plain_text_def metaResponse_fields_def json_field_def v
  show "decode_created ex_created = Inr ''pv''" "\<exists>m. decode_meta ex_created = Inr m"
    unfolding decode_created_def decode_meta_def ex_created_def
    by (subst decode_printed(1) [OF ok]; simp add: unf del: store_members.simps(2))+
qed

lemma ex_requests:
  "\<exists>u. url_Parse ''http://files/internal/file/doc/meta'' = Inr u"
  "\<exists>u. url_Parse ''http://files/internal/file/doc/content'' = Inr u"
  "\<exists>u. url_Parse ''http://files/internal/file'' = Inr u"
  "\<exists>u. url_Parse ''http://collabora/cool/get-thumbnail'' = Inr u"
  by (simp_all add: url_Parse_def parse_no_fragment_def parse_rest_def Cut_def HasPrefix_def
      HasSuffix_def TrimSuffix_def is_alpha_def is_digit_def containsCTL_def parseAuthority_def Cut_last_def
      parseHost_def shouldEscape_def is_alnum_def validOptionalPort_def to_lower_def)

lemma ex_bases:
  "NewFileClient (fsc_URL (cfg_FileService ex_cfg)) = \<lparr>fc_baseURL = ''http://files''\<rparr>"
  "NewThumbnailClient (cfg_CollaboraURL ex_cfg) = \<lparr>cc_collaboraURL = ''http://collabora''\<rparr>"
  by (simp_all add: NewFileClient_def NewThumbnailClient_def ex_cfg_def TrimSuffix_def HasSuffix_def)

lemma ex_peer_answers:
  defines "env \<equiv> networked ex_peers ex_cfg ex_senv"
  shows "ext_WriteFile env n ''doc'' (c, None) = Inr \<lparr>fw_ExternalID = ''v2'', fw_MimeType = '''', fw_Size = 0\<rparr>"
    "\<exists>doc. \<forall>k. ext_FindByID env k ''doc'' = Inr (Some doc)"
    "ext_ReadFile env n ''doc'' = Inr ([7, 7], None)"
    "ext_Render env n x (c, None) = Inr ([7, 7], None)"
    "ext_CreatePreviewFile env n b (c, None) = Inr ''pv''"
proof -
  obtain u1 u2 u3 u4 where u: "url_Parse ''http://files/internal/file/doc/meta'' = Inr u1"
    "url_Parse ''http://files/internal/file/doc/content'' = Inr u2" "url_Parse ''http://files/internal/file'' = Inr u3"
    "url_Parse ''http://collabora/cool/get-thumbnail'' = Inr u4"
    using ex_requests by blast
  obtain m where m: "decode_meta ex_created = Inr m" using ex_created_decoded(2) by blast
  have no: "\<not> HasSuffix ''http://files/internal/file/doc/meta'' ''/internal/file''"
    "HasSuffix ''http://files/internal/file/doc/meta'' ''/meta''"
    "\<not> HasSuffix ''http://files/internal/file/doc/content'' ''/internal/file''"
    "\<not> HasSuffix ''http://files/internal/file/doc/content'' ''/meta''"
    "HasSuffix ''http://files/internal/file'' ''/internal/file''"
    "\<not> HasSuffix ''http://collabora/cool/get-thumbnail'' ''/internal/file''"
    "\<not> HasSuffix ''http://collabora/cool/get-thumbnail'' ''/meta''"
    by (simp_all add: HasSuffix_def)
  note unf = env_def networked_def ex_bases ex_peers_def ex_peer_def NewRequest_def u no Let_def multipart_body_end
    ex_stored_decoded ex_created_decoded(1) m preview_form_def thumbnail_form_def
  show "ext_WriteFile env n ''doc'' (c, None) = Inr \<lparr>fw_ExternalID = ''v2'', fw_MimeType = '''', fw_Size = 0\<rparr>"
    by (simp add: unf FileClient_WriteFile_def)
  show "\<exists>doc. \<forall>k. ext_FindByID env k ''doc'' = Inr (Some doc)" by (simp add: unf FileClient_FindByID_def)
  show "ext_ReadFile env n ''doc'' = Inr ([7, 7], None)" by (simp add: unf FileClient_ReadFile_def)
  show "ext_Render env n x (c, None) = Inr ([7, 7], None)" by (simp add: unf client_Render_def HasPrefix_def)
  show "ext_CreatePreviewFile env n b (c, None) = Inr ''pv''" by (simp add: unf FileClient_CreatePreviewFile_def)
qed


definition ex_broken :: server_env where
  "ex_broken = ex_senv\<lparr>ext_ReadFile := (\<lambda>_ _. Inr ([1], Some (OpaqueError ''unexpected EOF'')))\<rparr>"

theorem broken_read_looks_complete_witness:
  "rs_Body (fst (run (handle_GetFile (wopi_h ex_broken ex_cfg ex_out) (ex_lock_request ''A'')) ex_lock_world)) = ContentBody [1]
   \<and> hd (trace (snd (run (handle_GetFile (wopi_h ex_broken ex_cfg ex_out) (ex_lock_request ''A'')) ex_lock_world))) =
       EvLog (log_record Error ''GetFile stream error'' [(''error'', FError (OpaqueError ''unexpected EOF''))])"
  using broken_read_looks_complete [of "ex_lock_request ''A''" "token_of_row ex_token_row" ex_broken ex_lock_world "[1]"
      "OpaqueError ''unexpected EOF''" _ ex_cfg ex_out, OF _ _ refl]
  by (simp add: ex_broken_def)

lemma ex_acquire: "ext_Acquire (networked net cfg ex_senv) = (\<lambda>_. None)"
  by (simp add: networked_def ex_senv_def server_env.defs sys_env.defs Let_def)

lemma ex_capacity: "cfg_PreviewQueueCapacity ex_cfg = 8"
  by (simp add: ex_cfg_def)

lemma first_render:
  fixes env :: server_env and w :: server
  assumes "pg_fault env = (\<lambda>_. NoFault)" "document_preview_cache w = []" "sv_slots w = 0" "sv_active w = 0"
    and "ext_Acquire env = (\<lambda>_. None)" "0 \<le> cfg_PreviewQueueCapacity cfg"
    and "\<And>k. ext_FindByID env k i = Inr (Some doc)" "\<And>k. ext_ReadFile env k i = Inr (c, None)"
    "\<And>k. ext_Render env k x (c, None) = Inr (p, None)" "\<And>k b. ext_CreatePreviewFile env k b (p, None) = Inr pv"
  shows "\<exists>e. fst (run (renderAndStore (sv_preview (createServices env cfg)) i x) w) = Inr e \<and> PreviewFileID e = pv"
proof -
  have none: "fst (PreviewCacheRepository_FindBySourceID env i v) = Inr None"
    if "document_preview_cache v = []" for v :: server
    using that assms(1) by (simp add: PreviewCacheRepository_FindBySourceID_def optional_row_def db_stmt_def preview_table_def
      sql_findPreviewCacheBySourceID_def sql_select_one_def Let_def)
  have put: "fst (PreviewCacheRepository_Upsert env e v) = None" for e and v :: server
    using assms(1)
    by (simp add: repo_defs db_stmt_def preview_table_def Let_def split_beta exec_err_def sql_upsertPreviewCache_def
        sql_update_def)
  have adm: "\<exists>e. fst (run (render_admitted (sv_preview (createServices env cfg)) i x) v) = Inr e \<and> PreviewFileID e = pv"
    if "document_preview_cache v = []" for v :: server
    using that assms
    by (simp add: render_admitted_def writeTarget_def commitMapping_def prog_simps none put Let_def)
  show ?thesis
    using adm assms
    by (simp add: renderAndStore_def prog_simps CounterSemaphore_def slots_cell_def active_cell_def maxActiveRenders_def)
qed

theorem stored_preview_is_whole_witness:
  "\<exists>e. fst (run (renderAndStore (sv_preview (createServices (networked ex_peers ex_cfg ex_senv) ex_cfg)) ''doc'' ''odt'')
         ex_server) = Inr e
     \<and> PreviewFileID e = ''pv'' \<and> (opened (networked ex_peers ex_cfg ex_senv) ''pv''
        \<or> whole_picture (networked ex_peers ex_cfg ex_senv) ''doc'' ''odt'' ''pv'')"
proof -
  let ?env = "networked ex_peers ex_cfg ex_senv"
  obtain doc where doc: "\<And>n. ext_FindByID ?env n ''doc'' = Inr (Some doc)"
    using ex_peer_answers(2) by blast
  obtain e where e: "fst (run (renderAndStore (sv_preview (createServices ?env ex_cfg)) ''doc'' ''odt'') ex_server) = Inr e"
    "PreviewFileID e = ''pv''"
    using first_render [OF _ _ _ _ _ _ doc ex_peer_answers(3,4,5), where cfg = ex_cfg and w = ex_server and x = "''odt''"]
    by (simp add: ex_capacity ex_acquire) blast
  from stored_preview_is_whole [OF ex_peers_whole refl e(1)] e show ?thesis
    unfolding opened_def whole_picture_def by metis
qed

end
