(* ===== verification/Spec2Isabelle.thy ===== *)
theory Spec2Isabelle
  imports LockConcurrency AppInvariant DiscoveryCache PreviewCache Access ConfigLoad TokenEndpoint LiveBroker Lifecycle
    ClientView Revalidation Streams
begin

text \<open>
  A verification of the Alkemio WOPI service (\<^verbatim>\<open>alkem-io/wopi-service\<close>, Go).  The service
  stands between Collabora Online, which edits office documents, and the platform that
  owns them: it issues access tokens, serves the WOPI endpoints (file information, content,
  saving, locks, rename), renders previews, collects who contributed to which document and
  publishes that to a broker.

  \<^bold>\<open>How code is modelled.\<close>  A Go struct is a record, an interface a record of operations, an
  error a tree of \<open>error\<close> with sentinels and wrapping (\<open>GoErrors\<close>), a method a program
  (\<open>Prog\<close>): a resumption whose steps are the atomic actions of the code, one SQL statement,
  one outside call, one critical section, one reading of the clock.  \<open>run\<close> executes a program
  alone, \<open>pool_reach\<close> interleaves a pool of them.  Everything outside the repository is an
  environment that says, per action, what is answered: the database's clock and faults (a
  statement can fail before or after it took effect), Go's clock and random source, the
  other services, the AMQP library.  The theorems hold for every environment, or name what
  they need of it.

  \<^bold>\<open>Theories and sources\<close> (paths below \<^verbatim>\<open>src/\<close>).
  \<^item> \<open>Prelude\<close>, \<open>Prog\<close>: shared lemmas, and programs.  \<open>GoErrors\<close>, \<open>GoTime\<close>, \<open>GoTimeParse\<close>,
    \<open>GoCalendar\<close>, \<open>GoURL\<close>, \<open>GoStrconv\<close>, \<open>GoUTF8\<close>, \<open>GoStrings\<close>: what the code uses of the
    standard library (\<^verbatim>\<open>errors\<close>, times and their texts, \<^verbatim>\<open>net/url\<close>, \<^verbatim>\<open>strconv\<close>, UTF-8, white
    space).  \<open>GoJSON\<close>, \<open>GoJSONValue\<close>, \<open>GoJSONStruct\<close>: the scanner and the printer of
    \<^verbatim>\<open>encoding/json\<close>, that the one reads what the other writes, and decoding into structs.
  \<^item> \<open>Model\<close>, \<open>Ports\<close>: \<^verbatim>\<open>internal/domain/model\<close> and \<^verbatim>\<open>internal/domain/port\<close>.
  \<^item> \<open>Postgres\<close>, \<open>LockTable\<close>: the statements and repositories of
    \<^verbatim>\<open>internal/adapter/outbound/postgres\<close> on tables as row lists; the locale of a lock table
    with its interpretation on the PostgreSQL one.  \<open>System\<close>: the world with its trace.
  \<^item> \<open>WopiService\<close>, \<open>Discovery\<close>, \<open>TokenService\<close>, \<open>Contribution\<close>, \<open>PreviewService\<close>, \<open>Cleanup\<close>:
    \<^verbatim>\<open>internal/domain/service\<close>, one theory per service.
  \<^item> \<open>Http\<close>, \<open>WopiHandler\<close>, \<open>Proof\<close>, \<open>Handlers\<close>: \<^verbatim>\<open>internal/adapter/inbound/http\<close>, middleware,
    handlers and router.
  \<^item> \<open>Config\<close>: \<^verbatim>\<open>internal/config\<close>.  \<open>Server\<close>, \<open>App\<close>, \<open>Lifecycle\<close>: \<^verbatim>\<open>cmd/server/main.go\<close>, the
    wiring, the composed application, start-up and shutdown.
  \<^item> \<open>HttpClients\<close>, \<open>AuthClients\<close>, \<open>Publisher\<close>: \<^verbatim>\<open>internal/adapter/outbound\<close>, the clients of
    file-service, Collabora, the authorization service with its circuit breaker, RabbitMQ,
    down to the bytes they send and read.  \<open>Network\<close> makes an environment of the clients, the
    deployed application; \<open>LiveBroker\<close> puts the RabbitMQ publisher under the handlers.
  \<^item> \<open>Responses\<close>: the JSON text of every response body, the structs of \<^verbatim>\<open>dto.go\<close>.
  \<^item> \<open>Examples\<close>: a concrete environment and configuration for the witnesses.

  \<^bold>\<open>What is shown.\<close>
  \<^item> Locks: \<open>Locking\<close> proves that every lock operation on the PostgreSQL repository refines a
    specification on a map of locks; \<open>LockConcurrency\<close> that no interleaving of others touches
    a held lock, and that two concurrent acquisitions can both succeed; \<open>Requests\<close> carries the
    specifications to the endpoints and to saving.
  \<^item> Access: \<open>Tokens\<close> (what a token grants, that it validates, that a failed issuance stores
    nothing), \<open>Access\<close> and \<open>App\<close> (no request does more than its token allows),
    \<open>AppInvariant\<close> (the tables stay well-formed under any interleaving of the whole application),
    \<open>Proof\<close> (the proof check and its time window), \<open>AuthClients\<close> (authorization fails closed,
    retries are bounded).
  \<^item> Answers: \<open>Responses\<close> (every route keeps to its statuses and body types whatever happens),
    \<open>ClientView\<close> (the bytes of a file description and of the answer to a save, read back),
    \<open>Streams\<close> (an acknowledged save is whole, a stored preview is whole, and a read that
    breaks off is answered as if it were complete).
  \<^item> Previews: \<open>PreviewCache\<close> (authorized and current pictures, balanced admission, one stable
    file per source), \<open>Revalidation\<close> (a tag stands for one version of the source, because the
    calendar of \<open>GoCalendar\<close> reads every printed date back).  Discovery: \<open>DiscoveryCache\<close>.
  \<^item> Contributions: \<open>ContributionFlush\<close> (a window publishes what its history calls for),
    \<open>Broker\<close> (the publisher's connection invariant and recovery), \<open>BrokerWindow\<close> (what of a
    window arrives at the broker, as a consumer reads it), \<open>LiveBroker\<close> (the same for a rename).
  \<^item> Configuration and life cycle: \<open>ConfigLoad\<close>, \<open>Lifecycle\<close>.
  \<^item> The deployed application: \<open>Deployed\<close> and \<open>TokenEndpoint\<close> say what clients see when a
    document is missing or another service cannot be asked.

  \<^bold>\<open>Bounds.\<close>  Every method is a total function: the loops of the code run over lists, over a
  fixed number of attempts, or shorten a string.  The two ticker loops run for a given
  number of ticks.  Durations and the proof's timestamps wrap in 64 bits where the code
  computes with them; other integers of the code are identifiers, sizes and statuses that
  it does not compute with.

  \<^bold>\<open>Not modelled.\<close>  SHA-256, RSA verification and the tokenizer of \<^verbatim>\<open>encoding/xml\<close>, whose
  names are given by tables of Unicode ranges, are parameters: nothing is assumed of them.
  What a discovery document means once it is a tree of elements is modelled.  The database
  driver, the AMQP library, NATS, \<^verbatim>\<open>gobreaker\<close>, \<^verbatim>\<open>singleflight\<close>, the semaphore, the migration
  library and the router's matching of a URL to a route are third-party code; they enter as
  environments or parameters, with what the code relies on as named hypotheses.  Client
  time-outs are failures of an exchange.  Contents are streams that may break off at any
  point; writing a response to the client does not fail.  The handle on the driver
  (\<^verbatim>\<open>db.go\<close>), the embedded files (\<^verbatim>\<open>embed.go\<close>) and the two structs of \<^verbatim>\<open>dto.go\<close> that nothing uses
  (\<^verbatim>\<open>ErrorResponse\<close>, \<^verbatim>\<open>HealthResponse\<close>) hold no logic.  Informational log records of \<^verbatim>\<open>main\<close>
  are left out.
\<close>

end
